(* ===== verification/Prelude.thy ===== *)
theory Prelude
  imports Main "HOL-Library.Word" "HOL-Library.Multiset"
begin

text \<open>
  Shared vocabulary of the development: the Go scalar types of the repository
  as word types, the \<^verbatim>\<open>math/big\<close> operations the code uses, the outcome of a
  call that may panic, the insertion sort behind \<^verbatim>\<open>sort.SliceStable\<close>, and the
  generic lemmas on lists, multisets and sums over accounts that the component
  theories rely on.  The collections \<open>go_arith\<close> and \<open>accounting\<close> gather the
  rewrite rules for machine integers and for sums.
\<close>

named_theorems go_arith \<open>machine integers and big integers of the Go runtime\<close>
named_theorems accounting \<open>sums over lists of records and over accounts\<close>

unbundle bit_operations_syntax

section \<open>Go scalar types\<close>

type_synonym uint8 = "8 word"
type_synonym uint16 = "16 word"
type_synonym uint32 = "32 word"
type_synonym uint64 = "64 word"

text \<open>
  \<^verbatim>\<open>meter.Address\<close> is a 20-byte array and \<^verbatim>\<open>meter.Bytes32\<close> a 32-byte array.  They
  are read here as big-endian numbers, so that \<^verbatim>\<open>bytes.Compare\<close> on two arrays of
  the same length is the order of the words and \<^verbatim>\<open>IsZero\<close> is equality with 0.
\<close>

type_synonym address = "160 word"
type_synonym bytes32 = "256 word"
type_synonym bytes = "8 word list"

text \<open>
  \<^verbatim>\<open>SetBytes\<close> of both array types crops from the left and pads on the left: the
  big-endian value of the slice, reduced to the width of the array.
\<close>

definition BytesToAddress :: "bytes \<Rightarrow> address" where
  "BytesToAddress bs = foldl (\<lambda>acc b. push_bit 8 acc OR ucast b) 0 bs"

definition BytesToBytes32 :: "bytes \<Rightarrow> bytes32" where
  "BytesToBytes32 bs = foldl (\<lambda>acc b. push_bit 8 acc OR ucast b) 0 bs"

definition ascii :: "string \<Rightarrow> bytes" where
  "ascii cs = map (\<lambda>c. of_char c) cs"

definition Bytes32_IsZero :: "bytes32 \<Rightarrow> bool" where
  "Bytes32_IsZero b = (b = 0)"

definition Address_IsZero :: "address \<Rightarrow> bool" where
  "Address_IsZero a = (a = 0)"

section \<open>Arbitrary precision integers\<close>

text \<open>
  \<^verbatim>\<open>big.Int.Div\<close> is Euclidean division: the remainder is never negative.  The
  callers that can divide by zero are modelled with an explicit panic.
\<close>

definition big_Div :: "int \<Rightarrow> int \<Rightarrow> int" where
  "big_Div x y = (if y < 0 then - (x div (- y)) else x div y)"

definition big_Uint64 :: "int \<Rightarrow> uint64" where
  "big_Uint64 x = word_of_int \<bar>x\<bar>"

definition big_FromUint64 :: "uint64 \<Rightarrow> int" where
  "big_FromUint64 w = uint w"

text \<open>\<^verbatim>\<open>big.NewInt(int64(w))\<close> for an unsigned 64-bit \<open>w\<close>.\<close>

definition big_NewInt64 :: "uint64 \<Rightarrow> int" where
  "big_NewInt64 w = sint w"

lemma big_Div_pos [go_arith]: "0 < y \<Longrightarrow> big_Div x y = x div y"
  by (simp add: big_Div_def)

lemma big_Div_nonneg: "0 \<le> x \<Longrightarrow> 0 < y \<Longrightarrow> 0 \<le> big_Div x y"
  by (simp add: big_Div_def pos_imp_zdiv_nonneg_iff)

lemma big_Div_bounds:
  assumes "0 < y"
  shows "big_Div x y * y \<le> x" "x < (big_Div x y + 1) * y"
proof -
  have "big_Div x y * y = x - x mod y"
    using assms by (simp add: big_Div_def minus_mod_eq_div_mult)
  moreover have "0 \<le> x mod y" "x mod y < y" using assms by simp_all
  ultimately show "big_Div x y * y \<le> x" "x < (big_Div x y + 1) * y"
    by (simp_all add: distrib_right)
qed

lemma big_Div_le_iff:
  assumes "0 < r"
  shows "big_Div t r \<le> s \<longleftrightarrow> t < r * (s + 1)"
proof
  assume "big_Div t r \<le> s"
  then have "(big_Div t r + 1) * r \<le> (s + 1) * r" using assms by (intro mult_right_mono) auto
  then show "t < r * (s + 1)" using big_Div_bounds(2) [OF assms, of t] by (simp add: mult.commute)
next
  assume "t < r * (s + 1)"
  then have "big_Div t r * r < (s + 1) * r"
    using big_Div_bounds(1) [OF assms, of t] by (simp add: mult.commute)
  then show "big_Div t r \<le> s" using assms by simp
qed

lemma div_add_bounds:
  fixes a b c :: int
  assumes "0 < c"
  shows "a div c + b div c \<le> (a + b) div c" "(a + b) div c \<le> a div c + b div c + 1"
proof -
  have "0 \<le> (a mod c + b mod c) div c"
    using assms by (intro div_int_pos_iff [THEN iffD2]) auto
  moreover have "a mod c + b mod c < c * (1 + 1)"
    using pos_mod_bound [OF assms, of a] pos_mod_bound [OF assms, of b] by simp
  then have "(a mod c + b mod c) div c \<le> 1"
    using big_Div_le_iff [OF assms, of "a mod c + b mod c" 1] big_Div_pos [OF assms] by simp
  ultimately show "a div c + b div c \<le> (a + b) div c" "(a + b) div c \<le> a div c + b div c + 1"
    using div_add1_eq [of a b c] by simp_all
qed

lemma big_FromUint64_nonneg [simp]: "0 \<le> big_FromUint64 w"
  by (simp add: big_FromUint64_def)

lemma sint_small: "uint (w :: uint64) < 2 ^ 63 \<Longrightarrow> sint w = uint w"
  by (simp add: sint_uint signed_take_bit_eq_if_positive take_bit_int_eq_self bit_iff_odd)

section \<open>Panics\<close>

text \<open>
  A Go call that may panic returns a \<open>panic\<close> on the left.  Only the panics that
  the modelled code can raise are listed: \<open>Explicit\<close> is a call of \<^verbatim>\<open>panic\<close>, and \<open>NoReturn\<close> stands for a
  loop that never ends.
\<close>

datatype panic = NilDeref | DivByZero | IndexOutOfRange | TypeAssertion | Explicit | NoReturn

type_synonym 'a go = "panic + 'a"

definition go_bind :: "'a go \<Rightarrow> ('a \<Rightarrow> 'b go) \<Rightarrow> 'b go" where
  "go_bind m f = (case m of Inl p \<Rightarrow> Inl p | Inr x \<Rightarrow> f x)"

lemma go_bind_simps [simp]: "go_bind (Inl p) f = Inl p" "go_bind (Inr x) f = f x"
  by (simp_all add: go_bind_def)

lemma go_bind_eq_Inr [simp]:
  "go_bind m f = Inr y \<longleftrightarrow> (\<exists>x. m = Inr x \<and> f x = Inr y)"
  by (cases m) simp_all

text \<open>The writes of a \<^verbatim>\<open>for _, x := range xs\<close> loop whose body may panic.\<close>

fun go_fold :: "('a \<Rightarrow> 's \<Rightarrow> 's go) \<Rightarrow> 'a list \<Rightarrow> 's \<Rightarrow> 's go" where
  "go_fold f [] s = Inr s"
| "go_fold f (x # xs) s = go_bind (f x s) (go_fold f xs)"

section \<open>Stable sorting\<close>

text \<open>
  \<^verbatim>\<open>sort.SliceStable(xs, lt)\<close> sorts blocks of at most 20 elements by insertion
  sort: each element moves left while it is \<open>lt\<close> than its left neighbour.  The
  sorted prefix is kept reversed, so that the left neighbour is its head.
\<close>

fun ins_rev :: "('a \<Rightarrow> 'a \<Rightarrow> bool) \<Rightarrow> 'a \<Rightarrow> 'a list \<Rightarrow> 'a list" where
  "ins_rev lt x [] = [x]"
| "ins_rev lt x (y # ys) = (if lt x y then y # ins_rev lt x ys else x # y # ys)"

definition sort_SliceStable :: "('a \<Rightarrow> 'a \<Rightarrow> bool) \<Rightarrow> 'a list \<Rightarrow> 'a list" where
  "sort_SliceStable lt xs = rev (fold (ins_rev lt) xs [])"

lemma mset_ins_rev [simp]: "mset (ins_rev lt x ys) = add_mset x (mset ys)"
  by (induction ys) auto

lemma mset_fold_ins_rev: "mset (fold (ins_rev lt) xs ys) = mset xs + mset ys"
  by (induction xs arbitrary: ys) auto

lemma mset_sort_SliceStable [simp]: "mset (sort_SliceStable lt xs) = mset xs"
  by (simp add: sort_SliceStable_def mset_fold_ins_rev)

lemma set_sort_SliceStable [simp]: "set (sort_SliceStable lt xs) = set xs"
  by (metis mset_sort_SliceStable set_mset_mset)

lemma length_sort_SliceStable [simp]: "length (sort_SliceStable lt xs) = length xs"
  by (metis mset_sort_SliceStable size_mset)

lemma fold_ins_rev_sorted:
  assumes "sorted_wrt (\<lambda>x y. \<not> lt y x) (rev ys @ xs)"
  shows "fold (ins_rev lt) xs ys = rev xs @ ys"
  using assms
proof (induction xs arbitrary: ys)
  case (Cons x xs)
  have "ins_rev lt x ys = x # ys"
    using Cons.prems by (cases ys) (auto simp: sorted_wrt_append)
  then show ?case using Cons.IH [of "x # ys"] Cons.prems by simp
qed simp

text \<open>A list that is already in order is left alone.\<close>

lemma sort_SliceStable_id:
  "sorted_wrt (\<lambda>x y. \<not> lt y x) xs \<Longrightarrow> sort_SliceStable lt xs = xs"
  by (simp add: sort_SliceStable_def fold_ins_rev_sorted)

text \<open>Under a comparison of keys the result is sorted by key.\<close>

lemma ins_rev_sorted_wrt:
  fixes key :: "'a \<Rightarrow> 'k :: linorder"
  assumes "\<And>x y. lt x y \<Longrightarrow> key x \<le> key y" "\<And>x y. key x < key y \<Longrightarrow> lt x y"
    and "sorted_wrt (\<lambda>x y. key y \<le> key x) ys"
  shows "sorted_wrt (\<lambda>x y. key y \<le> key x) (ins_rev lt x ys)"
  using assms(3)
proof (induction ys)
  case (Cons y ys)
  have set: "set (ins_rev lt x ys) = insert x (set ys)"
    by (metis mset_ins_rev set_mset_add_mset_insert set_mset_mset)
  show ?case
    using Cons assms(1,2)[of x y] by (auto simp: set intro: order_trans not_less[THEN iffD1])
qed simp

lemma sort_SliceStable_sorted_wrt:
  fixes key :: "'a \<Rightarrow> 'k :: linorder"
  assumes "\<And>x y. lt x y \<Longrightarrow> key x \<le> key y" "\<And>x y. key x < key y \<Longrightarrow> lt x y"
  shows "sorted_wrt (\<lambda>x y. key x \<le> key y) (sort_SliceStable lt xs)"
proof -
  have "sorted_wrt (\<lambda>x y. key y \<le> key x) (fold (ins_rev lt) xs ys)"
    if "sorted_wrt (\<lambda>x y. key y \<le> key x) ys" for ys
    using that by (induction xs arbitrary: ys) (simp_all add: ins_rev_sorted_wrt [OF assms])
  then show ?thesis by (simp add: sort_SliceStable_def sorted_wrt_rev)
qed

section \<open>Sums\<close>

lemma sum_list_map_mset_cong [accounting]:
  fixes f :: "'a \<Rightarrow> int"
  shows "mset xs = mset ys \<Longrightarrow> (\<Sum>x\<leftarrow>xs. f x) = (\<Sum>x\<leftarrow>ys. f x)"
  by (metis mset_map sum_mset_sum_list)

lemma sum_list_if_filter [accounting]:
  fixes f :: "'a \<Rightarrow> int"
  shows "(\<Sum>x\<leftarrow>xs. if P x then f x else 0) = (\<Sum>x\<leftarrow>filter P xs. f x)"
  by (induction xs) auto

text \<open>Changing a function at one of finitely many points changes its sum by the difference.\<close>

lemma sum_UNIV_fun_upd [accounting]:
  fixes g :: "'b \<Rightarrow> int" and h :: "'a :: finite \<Rightarrow> 'b"
  shows "(\<Sum>a\<in>UNIV. g ((h(x := v)) a)) = (\<Sum>a\<in>UNIV. g (h a)) + (g v - g (h x))"
proof -
  have "(\<Sum>a\<in>UNIV. g ((h(x := v)) a)) = g v + (\<Sum>a\<in>UNIV - {x}. g (h a))"
    by (subst sum.remove [of _ x]) auto
  moreover have "(\<Sum>a\<in>UNIV. g (h a)) = g (h x) + (\<Sum>a\<in>UNIV - {x}. g (h a))"
    by (subst sum.remove [of _ x]) auto
  ultimately show ?thesis by simp
qed

end
