(* ===== verification/Stacked_Map.thy ===== *)
theory Stacked_Map
  imports Prelude
begin

text \<open>
  The revertible map of \<^verbatim>\<open>stackedmap/stackedmap.go\<close> that keeps the revisions of the
  account state.  The Go maps are partial functions; \<^verbatim>\<open>keyRevisionMap\<close> keeps for
  every key the indices of the levels that hold it.  Stacks grow at their end, as
  the Go slices do.  An access to the top of an empty stack panics.

  The specification is a stack of plain maps (\<open>snapshot\<close>).  The locale
  \<open>revertible_map\<close> states what the users of the structure rely on.
\<close>

section \<open>The data structure\<close>

record ('k, 'v) level =
  kvs :: "'k \<Rightarrow> 'v option"
  journal :: "('k \<times> 'v) list"

record ('k, 'v) StackedMap =
  src :: "'k \<Rightarrow> 'v option"
  mapStack :: "('k, 'v) level list"
  keyRevisionMap :: "'k \<Rightarrow> nat list option"

definition newLevel :: "('k, 'v) level" where
  "newLevel = \<lparr>kvs = (\<lambda>_. None), journal = []\<rparr>"

definition sm_New :: "('k \<Rightarrow> 'v option) \<Rightarrow> ('k, 'v) StackedMap" where
  "sm_New s = \<lparr>src = s, mapStack = [newLevel], keyRevisionMap = (\<lambda>_. None)\<rparr>"

definition Depth :: "('k, 'v) StackedMap \<Rightarrow> nat" where
  "Depth sm = length (mapStack sm)"

definition Push :: "('k, 'v) StackedMap \<Rightarrow> ('k, 'v) StackedMap \<times> nat" where
  "Push sm =
     (let sm = sm\<lparr>mapStack := mapStack sm @ [newLevel]\<rparr> in (sm, length (mapStack sm) - 1))"

text \<open>
  A key of the top level always has an entry in \<^verbatim>\<open>keyRevisionMap\<close> (\<open>sm_inv\<close> below), so the
  nil pointer that a missing entry would give is not an outcome here.
\<close>

definition Pop :: "('k, 'v) StackedMap \<Rightarrow> ('k, 'v) StackedMap go" where
  "Pop sm =
     (if mapStack sm = [] then Inl IndexOutOfRange
      else
        let top = last (mapStack sm) in
        Inr (sm\<lparr>keyRevisionMap := (\<lambda>k.
              case kvs top k of
                None \<Rightarrow> keyRevisionMap sm k
              | Some _ \<Rightarrow>
                  (case keyRevisionMap sm k of
                     None \<Rightarrow> None
                   | Some revs \<Rightarrow> if length (butlast revs) = 0 then None else Some (butlast revs))),
           mapStack := butlast (mapStack sm)\<rparr>))"

function PopTo :: "nat \<Rightarrow> ('k, 'v) StackedMap \<Rightarrow> ('k, 'v) StackedMap go" where
  "PopTo depth sm =
     (if length (mapStack sm) > depth then
        (case Pop sm of Inl p \<Rightarrow> Inl p | Inr sm' \<Rightarrow> PopTo depth sm')
      else Inr sm)"
  by pat_completeness auto
termination
  by (relation "measure (\<lambda>(_, sm). length (mapStack sm))")
    (auto simp: Pop_def Let_def split: if_splits)

declare PopTo.simps [simp del]

definition sm_Get :: "'k \<Rightarrow> ('k, 'v) StackedMap \<Rightarrow> 'v option" where
  "sm_Get key sm =
     (case keyRevisionMap sm key of
        Some revs \<Rightarrow>
          (case kvs (mapStack sm ! last revs) key of
             Some v \<Rightarrow> Some v
           | None \<Rightarrow> src sm key)
      | None \<Rightarrow> src sm key)"

definition sm_Put :: "'k \<Rightarrow> 'v \<Rightarrow> ('k, 'v) StackedMap \<Rightarrow> ('k, 'v) StackedMap go" where
  "sm_Put key v sm =
     (if mapStack sm = [] then Inl IndexOutOfRange
      else
        let top = last (mapStack sm);
            top = top\<lparr>kvs := (kvs top)(key \<mapsto> v), journal := journal top @ [(key, v)]\<rparr>;
            rev = length (mapStack sm) - 1;
            revs = (case keyRevisionMap sm key of
                      Some revs \<Rightarrow> if last revs \<noteq> rev then revs @ [rev] else revs
                    | None \<Rightarrow> [rev])
        in Inr (sm\<lparr>mapStack := butlast (mapStack sm) @ [top],
                   keyRevisionMap := (keyRevisionMap sm)(key \<mapsto> revs)\<rparr>))"

text \<open>The entries \<^verbatim>\<open>Journal\<close> passes to its callback, in order.\<close>

definition Journal :: "('k, 'v) StackedMap \<Rightarrow> ('k \<times> 'v) list" where
  "Journal sm = concat (map journal (mapStack sm))"

section \<open>Specification: a stack of maps\<close>

text \<open>What is visible with the levels \<open>ls\<close> on top of the source.\<close>

fun overlay :: "('k \<Rightarrow> 'v option) \<Rightarrow> ('k, 'v) level list \<Rightarrow> 'k \<Rightarrow> 'v option" where
  "overlay s [] = s"
| "overlay s (l # ls) = overlay (s ++ kvs l) ls"

definition snapshots :: "('k, 'v) StackedMap \<Rightarrow> ('k \<Rightarrow> 'v option) list" where
  "snapshots sm = map (\<lambda>i. overlay (src sm) (take (Suc i) (mapStack sm))) [0 ..< length (mapStack sm)]"

lemma overlay_append: "overlay s (ls @ ms) = overlay (overlay s ls) ms"
  by (induction ls arbitrary: s) auto

lemma overlay_snoc [simp]: "overlay s (ls @ [l]) = overlay s ls ++ kvs l"
  by (simp add: overlay_append)

lemma length_snapshots [simp]: "length (snapshots sm) = length (mapStack sm)"
  by (simp add: snapshots_def)

lemma snapshots_butlast:
  assumes "mapStack sm = ls @ [l]"
  shows "snapshots sm = map (\<lambda>i. overlay (src sm) (take (Suc i) ls)) [0 ..< length ls] @ [overlay (src sm) ls ++ kvs l]"
  using assms by (auto simp: snapshots_def intro!: map_cong)

text \<open>
  The representation invariant: the revisions of a key are the indices of the
  levels that hold it, and the journal of a level replays to its map.
\<close>

definition holders :: "'k \<Rightarrow> ('k, 'v) level list \<Rightarrow> nat list" where
  "holders k ls = filter (\<lambda>i. kvs (ls ! i) k \<noteq> None) [0 ..< length ls]"

definition sm_inv :: "('k, 'v) StackedMap \<Rightarrow> bool" where
  "sm_inv sm \<longleftrightarrow>
     (\<forall>k. keyRevisionMap sm k = (if holders k (mapStack sm) = [] then None else Some (holders k (mapStack sm)))) \<and>
     (\<forall>l \<in> set (mapStack sm). map_of (rev (journal l)) = kvs l)"

lemma holders_Nil [simp]: "holders k [] = []"
  by (simp add: holders_def)

lemma holders_snoc [simp]:
  "holders k (ls @ [l]) = holders k ls @ (if kvs l k \<noteq> None then [length ls] else [])"
proof -
  have "filter (\<lambda>i. kvs ((ls @ [l]) ! i) k \<noteq> None) [0 ..< length ls] =
        filter (\<lambda>i. kvs (ls ! i) k \<noteq> None) [0 ..< length ls]"
    by (rule filter_cong) (auto simp: nth_append)
  then show ?thesis by (simp add: holders_def)
qed

lemma holders_less: "i \<in> set (holders k ls) \<Longrightarrow> i < length ls"
  by (simp add: holders_def)

lemma overlay_holders:
  "overlay s ls k = (if holders k ls = [] then s k else kvs (ls ! last (holders k ls)) k)"
proof (induction ls rule: rev_induct)
  case (snoc l ls)
  have "last (holders k ls) < length ls" if "holders k ls \<noteq> []"
    using that by (intro holders_less [of _ k]) simp
  then show ?case using snoc by (auto simp: map_add_def nth_append split: option.splits)
qed simp

section \<open>Every operation implements the specification\<close>

lemma level_cases:
  assumes "mapStack sm \<noteq> []"
  obtains ls l where "mapStack sm = ls @ [l]"
  using assms by (metis append_butlast_last_id)

lemma sm_New_inv: "sm_inv (sm_New s)" and sm_New_snapshots: "snapshots (sm_New s) = [s]"
  by (simp_all add: sm_inv_def sm_New_def snapshots_def newLevel_def holders_def)

lemma holders_holds: "holders k ls \<noteq> [] \<Longrightarrow> kvs (ls ! last (holders k ls)) k \<noteq> None"
  using last_in_set [of "holders k ls"] by (simp add: holders_def)

lemma sm_Get_overlay: "sm_inv sm \<Longrightarrow> sm_Get k sm = overlay (src sm) (mapStack sm) k"
  using holders_holds [of k "mapStack sm"]
  by (auto simp: sm_inv_def sm_Get_def overlay_holders split: option.splits)

lemma sm_Get_snapshot: "sm_inv sm \<Longrightarrow> mapStack sm \<noteq> [] \<Longrightarrow> sm_Get k sm = last (snapshots sm) k"
  by (erule level_cases) (simp add: sm_Get_overlay snapshots_butlast)

lemma Push_spec:
  assumes "sm_inv sm" "mapStack sm \<noteq> []"
  shows "sm_inv (fst (Push sm))" "snapshots (fst (Push sm)) = snapshots sm @ [last (snapshots sm)]"
    "snd (Push sm) = length (snapshots sm)"
  using assms
  by (auto simp: Push_def Let_def sm_inv_def newLevel_def snapshots_butlast elim!: level_cases
      intro!: map_cong)

lemma Pop_spec:
  assumes "sm_inv sm" "mapStack sm \<noteq> []"
  obtains sm' where "Pop sm = Inr sm'" "sm_inv sm'" "snapshots sm' = butlast (snapshots sm)"
    "src sm' = src sm" "length (mapStack sm') = length (mapStack sm) - 1"
proof -
  obtain ls l where ls: "mapStack sm = ls @ [l]" using assms(2) by (rule level_cases)
  let ?sm = "case Pop sm of Inr sm' \<Rightarrow> sm'"
  have pop: "Pop sm = Inr ?sm" "mapStack ?sm = ls" "src ?sm = src sm"
    using ls by (simp_all add: Pop_def Let_def)
  moreover have "sm_inv ?sm"
    using assms(1) ls by (auto simp: sm_inv_def Pop_def Let_def split: option.splits if_splits)
  moreover have "snapshots ?sm = butlast (snapshots sm)"
    using ls pop by (simp add: snapshots_butlast snapshots_def)
  ultimately show ?thesis using that [of ?sm] ls by simp
qed

lemma sm_Put_spec:
  assumes "sm_inv sm" "mapStack sm \<noteq> []"
  obtains sm' where "sm_Put k v sm = Inr sm'" "sm_inv sm'"
    "snapshots sm' = butlast (snapshots sm) @ [(last (snapshots sm))(k \<mapsto> v)]"
    "length (mapStack sm') = length (mapStack sm)"
proof -
  obtain ls l where ls: "mapStack sm = ls @ [l]" using assms(2) by (rule level_cases)
  let ?sm = "case sm_Put k v sm of Inr sm' \<Rightarrow> sm'"
  let ?l = "l\<lparr>kvs := (kvs l)(k \<mapsto> v), journal := journal l @ [(k, v)]\<rparr>"
  have put: "sm_Put k v sm = Inr ?sm" "mapStack ?sm = ls @ [?l]" "src ?sm = src sm"
    using ls by (simp_all add: sm_Put_def Let_def)
  have last: "last (holders k ls) \<noteq> length ls" if "holders k ls \<noteq> []"
    using holders_less [of "last (holders k ls)" k ls] that by simp
  have "sm_inv ?sm"
    using assms(1) ls last by (auto simp: sm_inv_def sm_Put_def Let_def split: option.splits if_splits)
  moreover have "snapshots ?sm = butlast (snapshots sm) @ [(last (snapshots sm))(k \<mapsto> v)]"
    using ls put by (simp add: snapshots_butlast)
  ultimately show ?thesis using that [of ?sm] put ls by simp
qed

lemma PopTo_spec:
  assumes "sm_inv sm"
  obtains sm' where "PopTo d sm = Inr sm'" "sm_inv sm'" "snapshots sm' = take d (snapshots sm)"
  using assms
proof (induction "length (mapStack sm)" arbitrary: sm thesis)
  case 0
  then show ?case by (simp add: PopTo.simps [of d sm])
next
  case (Suc n)
  show ?case
  proof (cases "length (mapStack sm) > d")
    case False
    then show ?thesis using Suc.prems by (simp add: PopTo.simps [of d sm])
  next
    case True
    then have "mapStack sm \<noteq> []" by auto
    then obtain sm1 where sm1: "Pop sm = Inr sm1" "sm_inv sm1" "snapshots sm1 = butlast (snapshots sm)"
      "length (mapStack sm1) = length (mapStack sm) - 1"
      using Pop_spec [OF Suc.prems(2)] by blast
    obtain sm2 where "PopTo d sm1 = Inr sm2" "sm_inv sm2" "snapshots sm2 = take d (snapshots sm1)"
      using Suc.hyps(1) [of sm1] Suc.hyps(2) sm1 by (metis diff_Suc_1)
    then show ?thesis
      using Suc.prems(1) True sm1 by (simp add: PopTo.simps [of d sm] take_butlast)
  qed
qed

section \<open>The contract\<close>

text \<open>
  A map with checkpoints: \<open>view\<close> gives the stack of maps it stands for, one per open
  checkpoint and the current one on top.
\<close>

locale revertible_map =
  fixes view :: "'s \<Rightarrow> ('k \<Rightarrow> 'v option) list"
    and wf :: "'s \<Rightarrow> bool"
    and get :: "'k \<Rightarrow> 's \<Rightarrow> 'v option"
    and put :: "'k \<Rightarrow> 'v \<Rightarrow> 's \<Rightarrow> 's go"
    and push :: "'s \<Rightarrow> 's \<times> nat"
    and pop_to :: "nat \<Rightarrow> 's \<Rightarrow> 's go"
  assumes get_view: "wf s \<Longrightarrow> view s \<noteq> [] \<Longrightarrow> get k s = last (view s) k"
    and put_view: "wf s \<Longrightarrow> view s \<noteq> [] \<Longrightarrow>
          \<exists>s'. put k v s = Inr s' \<and> wf s' \<and> view s' = butlast (view s) @ [(last (view s))(k \<mapsto> v)]"
    and push_view: "wf s \<Longrightarrow> view s \<noteq> [] \<Longrightarrow>
          wf (fst (push s)) \<and> view (fst (push s)) = view s @ [last (view s)] \<and> snd (push s) = length (view s)"
    and pop_to_view: "wf s \<Longrightarrow> \<exists>s'. pop_to d s = Inr s' \<and> wf s' \<and> view s' = take d (view s)"

datatype ('k, 'v) sm_op = OpPut 'k 'v | OpPush | OpPopTo nat

text \<open>A run of operations, given the three operations that change the map.\<close>

fun run_ops ::
  "('k \<Rightarrow> 'v \<Rightarrow> 's \<Rightarrow> 's go) \<Rightarrow> ('s \<Rightarrow> 's \<times> nat) \<Rightarrow> (nat \<Rightarrow> 's \<Rightarrow> 's go) \<Rightarrow> ('k, 'v) sm_op list \<Rightarrow> 's \<Rightarrow> 's go" where
  "run_ops put push pop_to [] s = Inr s"
| "run_ops put push pop_to (OpPut k v # ops) s = go_bind (put k v s) (run_ops put push pop_to ops)"
| "run_ops put push pop_to (OpPush # ops) s = run_ops put push pop_to ops (fst (push s))"
| "run_ops put push pop_to (OpPopTo d # ops) s = go_bind (pop_to d s) (run_ops put push pop_to ops)"

fun op_above :: "nat \<Rightarrow> ('k, 'v) sm_op \<Rightarrow> bool" where
  "op_above d (OpPopTo n) = (d < n)"
| "op_above d _ = True"

context revertible_map
begin

lemma run_keeps_prefix:
  assumes "wf s" "d < length (view s)" "\<forall>p \<in> set ops. op_above d p"
  shows "\<exists>s'. run_ops put push pop_to ops s = Inr s' \<and> wf s' \<and> d < length (view s') \<and>
    take d (view s') = take d (view s)"
  using assms
proof (induction ops arbitrary: s)
  case (Cons p ops)
  have ne: "view s \<noteq> []" using Cons.prems by auto
  show ?case
  proof (cases p)
    case (OpPut k v)
    obtain s1 where s1: "put k v s = Inr s1" "wf s1"
      "view s1 = butlast (view s) @ [(last (view s))(k \<mapsto> v)]"
      using put_view [OF Cons.prems(1) ne] by blast
    with Cons.IH [of s1] Cons.prems OpPut show ?thesis by (auto simp: take_butlast)
  next
    case OpPush
    with Cons.IH [of "fst (push s)"] Cons.prems push_view [OF Cons.prems(1) ne] show ?thesis by auto
  next
    case (OpPopTo n)
    obtain s1 where "pop_to n s = Inr s1" "wf s1" "view s1 = take n (view s)"
      using pop_to_view [OF Cons.prems(1)] by blast
    with Cons.IH [of s1] Cons.prems OpPopTo show ?thesis by (auto simp: min_def)
  qed
qed simp

lemma revert_restores:
  assumes "wf s" "view s \<noteq> []" "push s = (s1, d)" "\<forall>p \<in> set ops. op_above d p"
  shows "\<exists>s2 s3. run_ops put push pop_to ops s1 = Inr s2 \<and> pop_to d s2 = Inr s3 \<and>
    wf s3 \<and> view s3 = view s \<and> (\<forall>k. get k s3 = get k s)"
proof -
  have s1: "wf s1" "view s1 = view s @ [last (view s)]" "d = length (view s)"
    using push_view [OF assms(1,2)] assms(3) by auto
  then obtain s2 where s2: "run_ops put push pop_to ops s1 = Inr s2" "wf s2"
    "take d (view s2) = take d (view s1)"
    using run_keeps_prefix [of s1 d ops] assms(4) by auto
  then obtain s3 where "pop_to d s2 = Inr s3" "wf s3" "view s3 = view s"
    using pop_to_view [of s2 d] s1 by auto
  with s2 assms(1,2) show ?thesis by (auto simp: get_view)
qed

end

interpretation sm: revertible_map snapshots sm_inv sm_Get sm_Put Push PopTo
proof
  fix s :: "('a, 'b) StackedMap" and k :: 'a and v :: 'b and d
  have ne: "snapshots s \<noteq> [] \<longleftrightarrow> mapStack s \<noteq> []"
    using length_snapshots [of s] by (metis length_0_conv)
  show "\<exists>s'. PopTo d s = Inr s' \<and> sm_inv s' \<and> snapshots s' = take d (snapshots s)" if "sm_inv s"
    using PopTo_spec [OF that] by blast
  assume s: "sm_inv s" "snapshots s \<noteq> []"
  show "sm_Get k s = last (snapshots s) k" using s ne by (simp add: sm_Get_snapshot)
  show "\<exists>s'. sm_Put k v s = Inr s' \<and> sm_inv s' \<and>
      snapshots s' = butlast (snapshots s) @ [(last (snapshots s))(k \<mapsto> v)]"
    using sm_Put_spec s ne by metis
  show "sm_inv (fst (Push s)) \<and> snapshots (fst (Push s)) = snapshots s @ [last (snapshots s)] \<and>
      snd (Push s) = length (snapshots s)"
    using Push_spec s ne by blast
qed

section \<open>Reverting and replaying\<close>

text \<open>Replaying a journal on top of a map.\<close>

definition replay :: "('k \<times> 'v) list \<Rightarrow> ('k \<Rightarrow> 'v option) \<Rightarrow> 'k \<Rightarrow> 'v option" where
  "replay es s = foldl (\<lambda>m (k, v). m(k \<mapsto> v)) s es"

lemma replay_map_add: "replay es s = s ++ map_of (rev es)"
proof (induction es rule: rev_induct)
  case (snoc e es)
  obtain k v where e: "e = (k, v)" by (cases e)
  have "map_of (rev (es @ [e])) = (map_of (rev es))(k \<mapsto> v)" by (simp add: e fun_eq_iff)
  moreover have "replay (es @ [e]) s = (replay es s)(k \<mapsto> v)" by (simp add: e replay_def)
  ultimately show ?case by (simp only: snoc.IH map_add_upd)
qed (simp add: replay_def)

lemma replay_append: "replay (es @ fs) s = replay fs (replay es s)"
  by (simp add: replay_def)

lemma replay_journals:
  assumes "\<forall>l \<in> set ls. map_of (rev (journal l)) = kvs l"
  shows "replay (concat (map journal ls)) s = overlay s ls"
  using assms
proof (induction ls arbitrary: s)
  case (Cons l ls)
  have "replay (journal l) s = s ++ kvs l" using Cons.prems by (simp add: replay_map_add)
  then show ?case using Cons by (simp add: replay_append)
qed (simp add: replay_def)

text \<open>The structures that the constructor and the operations produce.\<close>

inductive sm_reachable :: "('k, 'v) StackedMap \<Rightarrow> bool" where
  New: "sm_reachable (sm_New s)"
| Put: "sm_reachable sm \<Longrightarrow> sm_Put k v sm = Inr sm' \<Longrightarrow> sm_reachable sm'"
| Push: "sm_reachable sm \<Longrightarrow> mapStack sm \<noteq> [] \<Longrightarrow> Push sm = (sm', d) \<Longrightarrow> sm_reachable sm'"
| PopTo: "sm_reachable sm \<Longrightarrow> PopTo d sm = Inr sm' \<Longrightarrow> sm_reachable sm'"

lemma sm_reachable_inv: "sm_reachable sm \<Longrightarrow> sm_inv sm"
proof (induction rule: sm_reachable.induct)
  case (New s)
  show ?case by (rule sm_New_inv)
next
  case (Put sm k v sm')
  then have "mapStack sm \<noteq> []" by (auto simp: sm_Put_def)
  with Put show ?case using sm_Put_spec [of sm k v] by auto
next
  case (Push sm sm' d)
  then show ?case using Push_spec(1) [of sm] by simp
next
  case (PopTo sm d sm')
  then show ?case using PopTo_spec [of sm d] by auto
qed

text \<open>
  C18.  Reverting to a checkpoint undoes everything: after a checkpoint \<open>d\<close>, any sequence
  of writes, nested checkpoints and reverts to checkpoints above \<open>d\<close> runs without a
  panic, reverting to \<open>d\<close> succeeds, and then every key reads as it did when the
  checkpoint was taken.
\<close>

theorem StackedMap_revert:
  assumes "sm_reachable sm" "mapStack sm \<noteq> []" "Push sm = (sm1, d)" "\<forall>p \<in> set ops. op_above d p"
  shows "\<exists>sm2 sm3. run_ops sm_Put Push PopTo ops sm1 = Inr sm2 \<and> PopTo d sm2 = Inr sm3 \<and>
    (\<forall>k. sm_Get k sm3 = sm_Get k sm)"
proof -
  have "snapshots sm \<noteq> []" using assms(2) length_snapshots [of sm] by (metis length_0_conv)
  then show ?thesis
    using sm.revert_restores [OF sm_reachable_inv [OF assms(1)] _ assms(3,4)] by blast
qed

theorem StackedMap_revert_witness:
  "\<exists>sm2 sm3. run_ops sm_Put Push PopTo [OpPut 1 5, OpPush, OpPut (1 :: nat) 7, OpPopTo 2]
       (fst (Push (sm_New (\<lambda>_. Some (3 :: nat))))) = Inr sm2 \<and>
     PopTo 1 sm2 = Inr sm3 \<and> sm_Get 1 sm3 = Some 3"
proof -
  let ?sm = "sm_New (\<lambda>_ :: nat. Some (3 :: nat))"
  have "\<exists>sm2 sm3. run_ops sm_Put Push PopTo [OpPut 1 5, OpPush, OpPut (1 :: nat) 7, OpPopTo 2]
       (fst (Push ?sm)) = Inr sm2 \<and> PopTo 1 sm2 = Inr sm3 \<and> (\<forall>k. sm_Get k sm3 = sm_Get k ?sm)"
    by (rule StackedMap_revert [of ?sm])
      (simp_all add: sm_reachable.New, simp_all add: sm_New_def Push_def)
  then show ?thesis by (auto simp: sm_Get_def sm_New_def)
qed



end
