(* ===== verification/Sorted_Lists.thy ===== *)
theory Sorted_Lists
  imports Prelude
begin

text \<open>
  The sorted slices of \<^verbatim>\<open>meter/*.go\<close>.  Seven list types of the package (buckets,
  candidates, stakeholders, delegate statistics, jailed delegates, account-lock
  profiles and auction bids) repeat the same code over a different key: a binary
  search \<^verbatim>\<open>indexOf\<close>, and \<^verbatim>\<open>Get\<close>, \<^verbatim>\<open>Exist\<close>, \<^verbatim>\<open>Add\<close> and \<^verbatim>\<open>Remove\<close> on top of it.  This theory
  holds that code once, with the key as an argument; the theories of the single
  types instantiate it.  The locale \<open>keyed_store\<close> is the contract their clients
  use: what a lookup returns after an update, and what every update does to the
  multiset of the stored records, from which all accounting arguments follow.
\<close>

section \<open>Binary search\<close>

text \<open>
  The loop of \<^verbatim>\<open>indexOf\<close>, from the bounds \<open>l\<close> and \<open>r\<close> on.  The result is the pair of
  the code: the index of the record and -1, or -1 and the index to insert at.
\<close>

function indexOf_loop :: "('a \<Rightarrow> 'k :: linorder) \<Rightarrow> 'k \<Rightarrow> 'a list \<Rightarrow> nat \<Rightarrow> nat \<Rightarrow> int \<times> int" where
  "indexOf_loop key k xs l r =
     (if l < r then
        let m = (l + r) div 2 in
        if k < key (xs ! m) then indexOf_loop key k xs l m
        else if key (xs ! m) < k then indexOf_loop key k xs (m + 1) r
        else (int m, - 1)
      else (- 1, int r))"
  by pat_completeness auto
termination
  by (relation "measure (\<lambda>(_, _, _, l, r). r - l)") auto

declare indexOf_loop.simps [simp del]

definition indexOf :: "('a \<Rightarrow> 'k :: linorder) \<Rightarrow> 'k \<Rightarrow> 'a list \<Rightarrow> int \<times> int" where
  "indexOf key k xs =
     (if length xs \<le> 0 then (- 1, 0) else indexOf_loop key k xs 0 (length xs))"

section \<open>Operations\<close>

definition list_Get :: "('a \<Rightarrow> 'k :: linorder) \<Rightarrow> 'k \<Rightarrow> 'a list \<Rightarrow> 'a option" where
  "list_Get key k xs =
     (let (index, _) = indexOf key k xs in
      if index \<ge> 0 then Some (xs ! nat index) else None)"

definition list_Exist :: "('a \<Rightarrow> 'k :: linorder) \<Rightarrow> 'k \<Rightarrow> 'a list \<Rightarrow> bool" where
  "list_Exist key k xs = (let (index, _) = indexOf key k xs in index \<ge> 0)"

definition list_Add :: "('a \<Rightarrow> 'k :: linorder) \<Rightarrow> 'a \<Rightarrow> 'a list \<Rightarrow> 'a list" where
  "list_Add key x xs =
     (let (index, insertIndex) = indexOf key (key x) xs in
      if index < 0 then
        (if length xs = 0 then xs @ [x]
         else take (nat insertIndex) xs @ [x] @ drop (nat insertIndex) xs)
      else xs[nat index := x])"

definition list_Remove :: "('a \<Rightarrow> 'k :: linorder) \<Rightarrow> 'k \<Rightarrow> 'a list \<Rightarrow> 'a list" where
  "list_Remove key k xs =
     (let (index, _) = indexOf key k xs in
      if index \<ge> 0 then take (nat index) xs @ drop (nat index + 1) xs else xs)"

text \<open>
  \<^verbatim>\<open>Get\<close> returns a pointer into the list; assignments through that pointer change
  the stored record.  A sequence of such assignments is a function on the record.
\<close>

definition list_Modify :: "('a \<Rightarrow> 'k :: linorder) \<Rightarrow> 'k \<Rightarrow> ('a \<Rightarrow> 'a) \<Rightarrow> 'a list \<Rightarrow> 'a list" where
  "list_Modify key k f xs =
     (let (index, _) = indexOf key k xs in
      if index \<ge> 0 then xs[nat index := f (xs ! nat index)] else xs)"

text \<open>The constructors \<^verbatim>\<open>NewXList\<close> sort the slice by key, with a non-strict comparison.\<close>

definition list_New :: "('a \<Rightarrow> 'k :: linorder) \<Rightarrow> 'a list \<Rightarrow> 'a list" where
  "list_New key xs = sort_SliceStable (\<lambda>x y. key x \<le> key y) xs"

text \<open>The representation invariant: keys strictly increase.\<close>

definition key_sorted :: "('a \<Rightarrow> 'k :: linorder) \<Rightarrow> 'a list \<Rightarrow> bool" where
  "key_sorted key xs = sorted_wrt (\<lambda>x y. key x < key y) xs"

section \<open>The search is correct\<close>

lemma key_sorted_nth_less:
  "key_sorted key xs \<Longrightarrow> i < j \<Longrightarrow> j < length xs \<Longrightarrow> key (xs ! i) < key (xs ! j)"
  by (simp add: key_sorted_def sorted_wrt_iff_nth_less)

lemma indexOf_loop_cases:
  assumes "key_sorted key xs" "l \<le> r" "r \<le> length xs"
    and "\<And>i. i < l \<Longrightarrow> key (xs ! i) < k"
    and "\<And>i. r \<le> i \<Longrightarrow> i < length xs \<Longrightarrow> k < key (xs ! i)"
  shows "(\<exists>m < length xs. key (xs ! m) = k \<and> indexOf_loop key k xs l r = (int m, - 1)) \<or>
         (\<exists>p \<le> length xs. (\<forall>i < p. key (xs ! i) < k) \<and>
            (\<forall>i. p \<le> i \<longrightarrow> i < length xs \<longrightarrow> k < key (xs ! i)) \<and>
            indexOf_loop key k xs l r = (- 1, int p))"
  using assms
proof (induction key k xs l r rule: indexOf_loop.induct)
  case (1 key k xs l r)
  show ?case
  proof (cases "l < r")
    case False
    then have "l = r" using "1.prems" by simp
    then show ?thesis using "1.prems" False
      by (intro disjI2 exI [of _ r]) (auto simp: indexOf_loop.simps [of key k xs r r])
  next
    case True
    define m where "m = (l + r) div 2"
    have m: "l \<le> m" "m < r" "m < length xs" using True "1.prems" by (auto simp: m_def)
    consider "k < key (xs ! m)" | "key (xs ! m) < k" | "key (xs ! m) = k" by force
    then show ?thesis
    proof cases
      case 1
      have "k < key (xs ! i)" if "m \<le> i" "i < length xs" for i
        using that 1 key_sorted_nth_less [OF "1.prems"(1), of m i] by (cases "m = i") auto
      moreover have "indexOf_loop key k xs l r = indexOf_loop key k xs l m"
        using True 1 by (subst indexOf_loop.simps) (simp add: m_def [symmetric] Let_def)
      ultimately show ?thesis
        using "1.IH"(1) [OF True m_def 1] "1.prems" m by simp
    next
      case 2
      have "key (xs ! i) < k" if "i < m + 1" for i
        using that 2 m key_sorted_nth_less [OF "1.prems"(1), of i m] by (cases "m = i") auto
      moreover have "indexOf_loop key k xs l r = indexOf_loop key k xs (m + 1) r"
        using True 2 by (subst indexOf_loop.simps) (auto simp: m_def [symmetric] Let_def)
      ultimately show ?thesis
        using "1.IH"(2) [OF True m_def less_not_sym [OF 2] 2] "1.prems" m by simp
    next
      case 3
      then have "indexOf_loop key k xs l r = (int m, - 1)"
        using True by (subst indexOf_loop.simps) (simp add: m_def [symmetric] Let_def)
      then show ?thesis using m 3 by blast
    qed
  qed
qed

text \<open>
  On a list with strictly increasing keys \<open>indexOf\<close> finds the record with the key,
  or the point at which a record with that key belongs.
\<close>

lemma indexOf_cases:
  assumes "key_sorted key xs"
  obtains (found) ys x zs where "xs = ys @ x # zs" "key x = k" "indexOf key k xs = (int (length ys), - 1)"
  | (absent) ys zs where "xs = ys @ zs" "\<forall>y \<in> set ys. key y < k" "\<forall>z \<in> set zs. k < key z"
      "indexOf key k xs = (- 1, int (length ys))"
proof (cases "xs = []")
  case True
  then show ?thesis using absent [of "[]" "[]"] by (simp add: indexOf_def)
next
  case False
  then have eq: "indexOf key k xs = indexOf_loop key k xs 0 (length xs)" by (simp add: indexOf_def)
  consider (hit) m where "m < length xs" "key (xs ! m) = k" "indexOf key k xs = (int m, - 1)"
    | (miss) p where "p \<le> length xs" "\<forall>i < p. key (xs ! i) < k"
        "\<forall>i. p \<le> i \<longrightarrow> i < length xs \<longrightarrow> k < key (xs ! i)" "indexOf key k xs = (- 1, int p)"
    using indexOf_loop_cases [OF assms, of 0 "length xs" k] eq by auto
  then show ?thesis
  proof cases
    case (hit m)
    then show ?thesis using found [of "take m xs" "xs ! m" "drop (Suc m) xs"]
      by (simp add: id_take_nth_drop [symmetric])
  next
    case (miss p)
    then have "\<forall>y \<in> set (take p xs). key y < k" "\<forall>z \<in> set (drop p xs). k < key z"
      by (simp_all add: all_set_conv_all_nth)
    then show ?thesis using absent [of "take p xs" "drop p xs"] miss by simp
  qed
qed

section \<open>Laws of the operations\<close>

lemma key_sorted_Nil [simp]: "key_sorted key []"
  by (simp add: key_sorted_def)

lemma key_sorted_append [simp]:
  "key_sorted key (xs @ ys) \<longleftrightarrow>
     key_sorted key xs \<and> key_sorted key ys \<and> (\<forall>x \<in> set xs. \<forall>y \<in> set ys. key x < key y)"
  by (simp add: key_sorted_def sorted_wrt_append)

lemma key_sorted_Cons [simp]:
  "key_sorted key (x # xs) \<longleftrightarrow> (\<forall>y \<in> set xs. key x < key y) \<and> key_sorted key xs"
  by (simp add: key_sorted_def)

lemma list_Get_iff:
  assumes "key_sorted key xs"
  shows "list_Get key k xs = Some x \<longleftrightarrow> x \<in> set xs \<and> key x = k"
  by (rule indexOf_cases [OF assms, of k]) (use assms in \<open>force simp: list_Get_def\<close>)+

lemma list_Get_None_iff:
  assumes "key_sorted key xs"
  shows "list_Get key k xs = None \<longleftrightarrow> (\<forall>x \<in> set xs. key x \<noteq> k)"
  by (rule indexOf_cases [OF assms, of k]) (use assms in \<open>force simp: list_Get_def\<close>)+

lemma list_Exist_iff:
  "list_Exist key k xs \<longleftrightarrow> list_Get key k xs \<noteq> None"
  by (simp add: list_Exist_def list_Get_def split: prod.splits)

lemma list_Add_fresh:
  assumes "key_sorted key xs" "list_Get key (key x) xs = None"
  shows "mset (list_Add key x xs) = add_mset x (mset xs)" "key_sorted key (list_Add key x xs)"
  by (rule indexOf_cases [OF assms(1), of "key x"];
      use assms in \<open>fastforce simp: list_Add_def list_Get_def\<close>)+

lemma list_Add_replace:
  assumes "key_sorted key xs" "list_Get key (key x) xs = Some y"
  shows "mset (list_Add key x xs) = add_mset x (mset xs - {#y#})" "key_sorted key (list_Add key x xs)"
  by (rule indexOf_cases [OF assms(1), of "key x"];
      use assms in \<open>fastforce simp: list_Add_def list_Get_def\<close>)+

lemma list_Add_sorted: "key_sorted key xs \<Longrightarrow> key_sorted key (list_Add key x xs)"
  by (cases "list_Get key (key x) xs") (auto intro: list_Add_fresh list_Add_replace)

lemma list_Remove_hit:
  assumes "key_sorted key xs" "list_Get key k xs = Some y"
  shows "mset xs = add_mset y (mset (list_Remove key k xs))" "key_sorted key (list_Remove key k xs)"
  by (rule indexOf_cases [OF assms(1), of k];
      use assms in \<open>fastforce simp: list_Remove_def list_Get_def\<close>)+

lemma list_Remove_miss: "list_Get key k xs = None \<Longrightarrow> list_Remove key k xs = xs"
  by (auto simp: list_Remove_def list_Get_def split: prod.splits if_splits)

lemma list_Modify_hit:
  assumes "key_sorted key xs" "list_Get key k xs = Some y" "key (f y) = k"
  shows "mset (list_Modify key k f xs) = add_mset (f y) (mset xs - {#y#})"
    "key_sorted key (list_Modify key k f xs)"
  by (rule indexOf_cases [OF assms(1), of k];
      use assms in \<open>fastforce simp: list_Modify_def list_Get_def\<close>)+

lemma list_Modify_miss: "list_Get key k xs = None \<Longrightarrow> list_Modify key k f xs = xs"
  by (auto simp: list_Modify_def list_Get_def split: prod.splits if_splits)

lemma list_Remove_nth:
  assumes "key_sorted key xs" "i < length xs"
  shows "list_Remove key (key (xs ! i)) xs = take i xs @ drop (Suc i) xs"
proof -
  have "indexOf key (key (xs ! i)) xs = (int i, - 1)"
    using assms(1)
  proof (cases rule: indexOf_cases [where k = "key (xs ! i)"])
    case (found ys x zs)
    then have "length ys < length xs" "key (xs ! length ys) = key (xs ! i)" by simp_all
    then have "length ys = i"
      using assms(2) key_sorted_nth_less [OF assms(1)] by (metis less_irrefl linorder_neqE_nat)
    then show ?thesis using found(3) by simp
  next
    case (absent ys zs)
    then show ?thesis using nth_mem [OF assms(2)] by force
  qed
  then show ?thesis by (simp add: list_Remove_def)
qed

text \<open>Only the record that is found matters.\<close>

lemma list_Modify_at: "list_Get key k xs = Some y \<Longrightarrow> list_Modify key k f xs = list_Modify key k (\<lambda>_. f y) xs"
  by (auto simp: list_Modify_def list_Get_def split: prod.splits if_splits)

text \<open>The constructors keep a well-formed list as it is.\<close>

lemma list_New_id: "key_sorted key xs \<Longrightarrow> list_New key xs = xs"
  unfolding list_New_def key_sorted_def
  by (rule sort_SliceStable_id) (auto simp: not_le intro: sorted_wrt_mono_rel)

lemma list_New_sorted:
  assumes "distinct (map key xs)"
  shows "key_sorted key (list_New key xs)"
proof -
  have "sorted_wrt (\<lambda>x y. key x \<le> key y) (list_New key xs)"
    unfolding list_New_def by (rule sort_SliceStable_sorted_wrt) auto
  moreover have "distinct (map key (list_New key xs))"
    using assms unfolding list_New_def
    by (metis mset_map mset_sort_SliceStable mset_eq_imp_distinct_iff)
  ultimately show ?thesis
    unfolding key_sorted_def
    by (auto simp: sorted_wrt_iff_nth_less distinct_conv_nth less_le)
qed

section \<open>The contract of a keyed list\<close>

text \<open>
  What the clients of the seven list types rely on.  The first group of laws is
  the behaviour of a finite map; the second says what an update does to the
  multiset of records, which is what sums of stakes and votes are taken over.
\<close>

locale keyed_store =
  fixes key :: "'a \<Rightarrow> 'k :: linorder"
    and wf :: "'a list \<Rightarrow> bool"
    and get :: "'k \<Rightarrow> 'a list \<Rightarrow> 'a option"
    and add :: "'a \<Rightarrow> 'a list \<Rightarrow> 'a list"
    and remove :: "'k \<Rightarrow> 'a list \<Rightarrow> 'a list"
    and modify :: "'k \<Rightarrow> ('a \<Rightarrow> 'a) \<Rightarrow> 'a list \<Rightarrow> 'a list"
  assumes get_Some: "wf xs \<Longrightarrow> get k xs = Some x \<longleftrightarrow> x \<in> set xs \<and> key x = k"
    and wf_distinct: "wf xs \<Longrightarrow> distinct (map key xs)"
    and wf_Nil: "wf []"
    and wf_add: "wf xs \<Longrightarrow> wf (add x xs)"
    and wf_remove: "wf xs \<Longrightarrow> wf (remove k xs)"
    and wf_modify: "wf xs \<Longrightarrow> (\<And>y. get k xs = Some y \<Longrightarrow> key (f y) = k) \<Longrightarrow> wf (modify k f xs)"
    and mset_add_fresh: "wf xs \<Longrightarrow> get (key x) xs = None \<Longrightarrow> mset (add x xs) = add_mset x (mset xs)"
    and mset_add_replace: "wf xs \<Longrightarrow> get (key x) xs = Some y \<Longrightarrow>
          mset (add x xs) = add_mset x (mset xs - {#y#})"
    and mset_remove: "wf xs \<Longrightarrow> get k xs = Some y \<Longrightarrow> mset xs = add_mset y (mset (remove k xs))"
    and remove_absent: "get k xs = None \<Longrightarrow> remove k xs = xs"
    and mset_modify: "wf xs \<Longrightarrow> get k xs = Some y \<Longrightarrow> key (f y) = k \<Longrightarrow>
          mset (modify k f xs) = add_mset (f y) (mset xs - {#y#})"
    and modify_absent: "get k xs = None \<Longrightarrow> modify k f xs = xs"
begin

lemma get_None: "wf xs \<Longrightarrow> get k xs = None \<longleftrightarrow> (\<forall>x \<in> set xs. key x \<noteq> k)"
  using get_Some [of xs k] by (cases "get k xs") auto

lemma get_in_set: "wf xs \<Longrightarrow> get k xs = Some x \<Longrightarrow> x \<in> set xs"
  by (simp add: get_Some)

lemma get_key: "wf xs \<Longrightarrow> get k xs = Some x \<Longrightarrow> key x = k"
  by (simp add: get_Some)

lemma get_self: "wf xs \<Longrightarrow> x \<in> set xs \<Longrightarrow> get (key x) xs = Some x"
  by (simp add: get_Some)

lemma key_inj: "wf xs \<Longrightarrow> x \<in> set xs \<Longrightarrow> y \<in> set xs \<Longrightarrow> key x = key y \<Longrightarrow> x = y"
  by (metis get_Some option.inject)

lemma get_Nil: "get k [] = None"
  using get_None [OF wf_Nil] by simp

text \<open>
  An update rewrites one record and leaves a multiset \<open>M\<close> of other records alone.
\<close>

lemma other_keys:
  assumes "wf xs" "mset xs = add_mset y M" "z \<in># M"
  shows "key z \<noteq> key y"
proof -
  obtain ms where ms: "mset ms = M" using ex_mset by blast
  have "mset (map key (y # ms)) = mset (map key xs)" using assms(2) ms by simp
  then have "distinct (map key (y # ms))"
    using wf_distinct [OF assms(1)] mset_eq_imp_distinct_iff by blast
  moreover have "z \<in> set ms" using assms(3) ms by auto
  ultimately show ?thesis by (auto simp: image_iff)
qed

lemma get_split:
  assumes "wf xs" "get k xs = Some y"
  obtains M where "mset xs = add_mset y M" "\<And>z. z \<in># M \<Longrightarrow> key z \<noteq> k"
proof
  show split: "mset xs = add_mset y (mset xs - {#y#})" using get_in_set [OF assms] by simp
  show "key z \<noteq> k" if "z \<in># mset xs - {#y#}" for z
    using other_keys [OF assms(1) split that] get_key [OF assms] by simp
qed

lemma remove_split: "wf xs \<Longrightarrow> get k xs = Some y \<Longrightarrow> mset xs = add_mset y M \<Longrightarrow> mset (remove k xs) = M"
  using mset_remove [of xs k y] by simp

lemma modify_split:
  "wf xs \<Longrightarrow> get k xs = Some y \<Longrightarrow> key (f y) = k \<Longrightarrow> mset xs = add_mset y M \<Longrightarrow>
     mset (modify k f xs) = add_mset (f y) M"
  using mset_modify [of xs k y f] by simp

lemma replace_split:
  "wf xs \<Longrightarrow> get (key x) xs = Some y \<Longrightarrow> mset xs = add_mset y M \<Longrightarrow> mset (add x xs) = add_mset x M"
  using mset_add_replace [of xs x y] by simp

text \<open>Membership and lookup after an update.\<close>

lemma set_add: "wf xs \<Longrightarrow> set (add x xs) = insert x {y \<in> set xs. key y \<noteq> key x}"
proof (cases "get (key x) xs")
  case None
  assume wf: "wf xs"
  show ?thesis using arg_cong [OF mset_add_fresh [OF wf None], of set_mset] None wf
    by (auto simp: get_None)
next
  case (Some y)
  assume wf: "wf xs"
  obtain M where M: "mset xs = add_mset y M" "\<And>z. z \<in># M \<Longrightarrow> key z \<noteq> key x"
    using get_split [OF wf Some] by blast
  show ?thesis
    using arg_cong [OF replace_split [OF wf Some M(1)], of set_mset] arg_cong [OF M(1), of set_mset]
      M(2) get_key [OF wf Some] by auto
qed

lemma set_remove: "wf xs \<Longrightarrow> set (remove k xs) = {y \<in> set xs. key y \<noteq> k}"
proof (cases "get k xs")
  case None
  then show "wf xs \<Longrightarrow> ?thesis" by (auto simp: remove_absent get_None)
next
  case (Some y)
  assume wf: "wf xs"
  obtain M where M: "mset xs = add_mset y M" "\<And>z. z \<in># M \<Longrightarrow> key z \<noteq> k"
    using get_split [OF wf Some] by blast
  show ?thesis
    using arg_cong [OF remove_split [OF wf Some M(1)], of set_mset] arg_cong [OF M(1), of set_mset]
      M(2) get_key [OF wf Some] by auto
qed

lemma set_modify:
  assumes wf: "wf xs" and get: "get k xs = Some y" and key: "key (f y) = k"
  shows "set (modify k f xs) = insert (f y) {z \<in> set xs. key z \<noteq> k}"
proof -
  obtain M where M: "mset xs = add_mset y M" "\<And>z. z \<in># M \<Longrightarrow> key z \<noteq> k"
    using get_split [OF wf get] by blast
  show ?thesis
    using arg_cong [OF modify_split [of xs k y f, OF wf get key M(1)], of set_mset] arg_cong [OF M(1), of set_mset]
      M(2) get_key [OF wf get] by auto
qed

lemma get_eqI:
  assumes "wf xs" "\<And>x. r = Some x \<Longrightarrow> x \<in> set xs \<and> key x = k"
    and "\<And>x. x \<in> set xs \<Longrightarrow> key x = k \<Longrightarrow> r \<noteq> None"
  shows "get k xs = r"
  using assms by (cases r; cases "get k xs") (auto simp: get_Some get_None dest: key_inj)

lemma get_add: "wf xs \<Longrightarrow> get k (add x xs) = (if k = key x then Some x else get k xs)"
  by (rule get_eqI) (auto simp: wf_add set_add get_None get_Some split: if_splits)

lemma get_remove: "wf xs \<Longrightarrow> get k (remove j xs) = (if k = j then None else get k xs)"
  by (rule get_eqI) (auto simp: wf_remove set_remove get_None get_Some split: if_splits)

lemma get_modify:
  assumes "wf xs" "\<And>y. get j xs = Some y \<Longrightarrow> key (f y) = j"
  shows "get k (modify j f xs) = (if k = j then map_option f (get k xs) else get k xs)"
proof (cases "get j xs")
  case None
  then show ?thesis by (simp add: modify_absent)
next
  case (Some y)
  then have j: "key (f y) = j" using assms by simp
  note set = set_modify [of xs j y f, OF assms(1) Some j]
  have wf: "wf (modify j f xs)" using assms by (rule wf_modify)
  have "get j (modify j f xs) = Some (f y)"
    using j wf by (simp add: get_Some set)
  moreover have "get k (modify j f xs) = get k xs" if "k \<noteq> j"
    by (rule get_eqI) (use that j wf assms in \<open>auto simp: set get_None get_Some\<close>)
  ultimately show ?thesis using Some by simp
qed

lemma remove_modify:
  assumes "wf xs" "get j xs = Some y" "get k xs = Some z" "key (f z) = k" "j \<noteq> k"
  shows "mset (remove j (modify k f xs)) = mset (modify k f (remove j xs))"
proof -
  have wf': "wf (modify k f xs)" using assms by (intro wf_modify) auto
  have "get j (modify k f xs) = Some y" using assms by (subst get_modify) auto
  then have "mset (modify k f xs) = add_mset y (mset (remove j (modify k f xs)))"
    using mset_remove [OF wf'] by blast
  then have left: "mset (remove j (modify k f xs)) = add_mset (f z) (mset xs - {#z#}) - {#y#}"
    using mset_modify [of xs k z f] assms by (metis add_mset_remove_trivial)
  have "get k (remove j xs) = Some z" using assms by (simp add: get_remove)
  moreover have xs: "mset xs = add_mset y (mset (remove j xs))" using mset_remove assms by blast
  ultimately have right: "mset (modify k f (remove j xs)) = add_mset (f z) (mset xs - {#y#} - {#z#})"
    using mset_modify [of "remove j xs" k z f] assms by (simp add: wf_remove)
  have "y \<noteq> z" using assms get_key by metis
  moreover have "y \<in># mset xs" "z \<in># mset xs" using assms by (auto dest: get_in_set)
  ultimately obtain N where "mset xs = add_mset y (add_mset z N)"
    by (metis insert_noteq_member mset_add)
  then show ?thesis unfolding left right by simp
qed

text \<open>Sums over the records after an update.\<close>

lemma sum_split:
  fixes g :: "'a \<Rightarrow> int"
  shows "mset xs = add_mset y M \<Longrightarrow> (\<Sum>x\<leftarrow>xs. g x) = g y + (\<Sum>x\<in>#M. g x)"
  by (metis image_mset_add_mset mset_map sum_mset.insert sum_mset_sum_list)

lemma sum_add_fresh:
  fixes g :: "'a \<Rightarrow> int"
  shows "wf xs \<Longrightarrow> get (key x) xs = None \<Longrightarrow> (\<Sum>z\<leftarrow>add x xs. g z) = g x + (\<Sum>z\<leftarrow>xs. g z)"
  using mset_add_fresh [of xs x] by (metis mset.simps(2) sum_list.Cons list.map(2) sum_list_map_mset_cong)

lemma sum_modify:
  fixes g :: "'a \<Rightarrow> int"
  assumes "wf xs" "get k xs = Some y" "key (f y) = k"
  shows "(\<Sum>z\<leftarrow>modify k f xs. g z) = (\<Sum>z\<leftarrow>xs. g z) - g y + g (f y)"
proof -
  obtain M where M: "mset xs = add_mset y M" using get_split [OF assms(1,2)] by blast
  show ?thesis
    using sum_split [OF M, of g] sum_split [OF modify_split [of xs k y f, OF assms M], of g] by simp
qed

lemma sum_remove:
  fixes g :: "'a \<Rightarrow> int"
  assumes "wf xs" "get k xs = Some y"
  shows "(\<Sum>z\<leftarrow>remove k xs. g z) = (\<Sum>z\<leftarrow>xs. g z) - g y"
  using sum_split [OF mset_remove [OF assms], of g]
  by (metis add_diff_cancel_left' mset_map sum_mset_sum_list)

end

text \<open>A keyed list whose constructor sorts by the same key.\<close>

locale keyed_store_new = keyed_store +
  fixes new_list :: "'a list \<Rightarrow> 'a list"
  assumes new_mset: "mset (new_list xs) = mset xs"
    and new_wf: "distinct (map key xs) \<Longrightarrow> wf (new_list xs)"
    and new_id: "wf xs \<Longrightarrow> new_list xs = xs"
begin

lemma new_idem: "distinct (map key xs) \<Longrightarrow> new_list (new_list xs) = new_list xs"
  by (simp add: new_id new_wf)

lemma get_new:
  assumes "distinct (map key xs)" "x \<in> set xs"
  shows "get (key x) (new_list xs) = Some x"
  using new_wf [OF assms(1)] assms(2) new_mset [of xs] by (metis get_Some set_mset_mset)

end

text \<open>The code shared by the list types satisfies the contract for every key.\<close>

lemma key_sorted_distinct: "key_sorted key xs \<Longrightarrow> distinct (map key xs)"
  by (auto simp: distinct_conv_nth key_sorted_def sorted_wrt_iff_nth_less)
    (metis linorder_neqE_nat less_irrefl)

lemma list_Modify_sorted:
  "key_sorted key xs \<Longrightarrow> (\<And>y. list_Get key k xs = Some y \<Longrightarrow> key (f y) = k) \<Longrightarrow>
     key_sorted key (list_Modify key k f xs)"
  by (cases "list_Get key k xs") (auto simp: list_Modify_miss intro: list_Modify_hit)

lemma list_Remove_sorted: "key_sorted key xs \<Longrightarrow> key_sorted key (list_Remove key k xs)"
  by (cases "list_Get key k xs") (auto simp: list_Remove_miss intro: list_Remove_hit)

lemma keyed_store_lists:
  "keyed_store key (key_sorted key) (list_Get key) (list_Add key) (list_Remove key) (list_Modify key)"
  by unfold_locales
    ((rule list_Modify_sorted; assumption) |
     simp add: list_Get_iff key_sorted_distinct list_Add_sorted list_Remove_sorted list_Remove_miss
      list_Modify_miss list_Add_fresh list_Add_replace list_Remove_hit list_Modify_hit)+

lemma keyed_store_new_lists:
  "keyed_store_new key (key_sorted key) (list_Get key) (list_Add key) (list_Remove key) (list_Modify key)
     (list_New key)"
  by (intro keyed_store_new.intro keyed_store_lists keyed_store_new_axioms.intro)
    (simp_all add: list_New_id list_New_sorted, simp add: list_New_def)

end
