(* ===== verification/Staking_Data.thy ===== *)
theory Staking_Data
  imports Sorted_Lists
begin

text \<open>
  Buckets, candidates and stakeholders: \<^verbatim>\<open>meter/bucket.go\<close>, \<^verbatim>\<open>meter/candidate.go\<close>,
  \<^verbatim>\<open>meter/stakeholder.go\<close> and the constants of \<^verbatim>\<open>meter/staking_params.go\<close>.  Field
  names that two Go structs share carry a prefix (\<open>c\<close> for candidates, \<open>s\<close> for
  stakeholders).  The Blake2b hash of the RLP encoding behind \<^verbatim>\<open>Bucket.ID\<close> is third-party
  code: a parameter \<open>hash\<close> of the owner, the nonce and the creation time.

  \<^verbatim>\<open>NewBucket\<close> stores the same \<^verbatim>\<open>*big.Int\<close> as \<^verbatim>\<open>Value\<close> and \<^verbatim>\<open>TotalVotes\<close>.  No operation
  changes either of them before the bucket list has been written to the state and
  read back (which copies the numbers), so both are plain values here.
\<close>

section \<open>Staking parameters\<close>

definition MTR :: uint8 where "MTR = 0"
definition MTRG :: uint8 where "MTRG = 1"

definition TESLA1_0_SELF_VOTE_RATIO :: int where "TESLA1_0_SELF_VOTE_RATIO = 10"
definition TESLA1_1_SELF_VOTE_RATIO :: int where "TESLA1_1_SELF_VOTE_RATIO = 100"
definition MIN_CANDIDATE_UPDATE_INTV :: uint64 where "MIN_CANDIDATE_UPDATE_INTV = 3600 * 24"

definition MIN_BOUND_BALANCE :: int where "MIN_BOUND_BALANCE = 100 * 10 ^ 18"
definition MIN_REQUIRED_BY_DELEGATE :: int where "MIN_REQUIRED_BY_DELEGATE = 2000 * 10 ^ 18"
definition BAIL_FOR_EXIT_JAIL :: int where "BAIL_FOR_EXIT_JAIL = 10 * 10 ^ 18"

definition BUCKET_ADD_OPT :: uint32 where "BUCKET_ADD_OPT = 0"
definition BUCKET_SUB_OPT :: uint32 where "BUCKET_SUB_OPT = 1"

definition ONE_DAY_LOCK :: uint32 where "ONE_DAY_LOCK = 0"
definition ONE_DAY_LOCK_RATE :: uint8 where "ONE_DAY_LOCK_RATE = 0"
definition ONE_DAY_LOCK_TIME :: uint64 where "ONE_DAY_LOCK_TIME = 60 * 60 * 24"
definition ONE_WEEK_LOCK :: uint32 where "ONE_WEEK_LOCK = 1"
definition ONE_WEEK_LOCK_RATE :: uint8 where "ONE_WEEK_LOCK_RATE = 5"
definition ONE_WEEK_LOCK_TIME :: uint64 where "ONE_WEEK_LOCK_TIME = 60 * 60 * 24 * 7"
definition TWO_WEEK_LOCK :: uint32 where "TWO_WEEK_LOCK = 2"
definition TWO_WEEK_LOCK_RATE :: uint8 where "TWO_WEEK_LOCK_RATE = 6"
definition TWO_WEEK_LOCK_TIME :: uint64 where "TWO_WEEK_LOCK_TIME = 60 * 60 * 24 * 14"
definition THREE_WEEK_LOCK :: uint32 where "THREE_WEEK_LOCK = 3"
definition THREE_WEEK_LOCK_RATE :: uint8 where "THREE_WEEK_LOCK_RATE = 7"
definition THREE_WEEK_LOCK_TIME :: uint64 where "THREE_WEEK_LOCK_TIME = 60 * 60 * 24 * 21"
definition FOUR_WEEK_LOCK :: uint32 where "FOUR_WEEK_LOCK = 4"
definition FOUR_WEEK_LOCK_RATE :: uint8 where "FOUR_WEEK_LOCK_RATE = 8"
definition FOUR_WEEK_LOCK_TIME :: uint64 where "FOUR_WEEK_LOCK_TIME = 60 * 60 * 24 * 28"
definition FOREVER_LOCK :: uint32 where "FOREVER_LOCK = 1000"
definition FOREVER_LOCK_RATE :: uint8 where "FOREVER_LOCK_RATE = ONE_WEEK_LOCK_RATE"
definition FOREVER_LOCK_TIME :: uint64 where "FOREVER_LOCK_TIME = 0"

lemmas lock_defs =
  ONE_DAY_LOCK_def ONE_DAY_LOCK_RATE_def ONE_DAY_LOCK_TIME_def
  ONE_WEEK_LOCK_def ONE_WEEK_LOCK_RATE_def ONE_WEEK_LOCK_TIME_def
  TWO_WEEK_LOCK_def TWO_WEEK_LOCK_RATE_def TWO_WEEK_LOCK_TIME_def
  THREE_WEEK_LOCK_def THREE_WEEK_LOCK_RATE_def THREE_WEEK_LOCK_TIME_def
  FOUR_WEEK_LOCK_def FOUR_WEEK_LOCK_RATE_def FOUR_WEEK_LOCK_TIME_def
  FOREVER_LOCK_def FOREVER_LOCK_RATE_def FOREVER_LOCK_TIME_def

definition GetBoundLockOption :: "uint32 \<Rightarrow> uint32 \<times> uint8 \<times> uint64" where
  "GetBoundLockOption chose =
     (if chose = ONE_DAY_LOCK then (ONE_DAY_LOCK, ONE_DAY_LOCK_RATE, ONE_DAY_LOCK_TIME)
      else if chose = ONE_WEEK_LOCK then (ONE_WEEK_LOCK, ONE_WEEK_LOCK_RATE, ONE_WEEK_LOCK_TIME)
      else if chose = TWO_WEEK_LOCK then (TWO_WEEK_LOCK, TWO_WEEK_LOCK_RATE, TWO_WEEK_LOCK_TIME)
      else if chose = THREE_WEEK_LOCK then (THREE_WEEK_LOCK, THREE_WEEK_LOCK_RATE, THREE_WEEK_LOCK_TIME)
      else if chose = FOUR_WEEK_LOCK then (FOUR_WEEK_LOCK, FOUR_WEEK_LOCK_RATE, FOUR_WEEK_LOCK_TIME)
      else if chose = FOREVER_LOCK then (FOREVER_LOCK, FOREVER_LOCK_RATE, FOREVER_LOCK_TIME)
      else (ONE_DAY_LOCK, ONE_DAY_LOCK_RATE, ONE_DAY_LOCK_TIME))"

definition GetBoundLocktime :: "uint32 \<Rightarrow> uint64" where
  "GetBoundLocktime opt =
     (if opt = ONE_DAY_LOCK then ONE_DAY_LOCK_TIME
      else if opt = ONE_WEEK_LOCK then ONE_WEEK_LOCK_TIME
      else if opt = TWO_WEEK_LOCK then TWO_WEEK_LOCK_TIME
      else if opt = THREE_WEEK_LOCK then THREE_WEEK_LOCK_TIME
      else if opt = FOUR_WEEK_LOCK then FOUR_WEEK_LOCK_TIME
      else if opt = FOREVER_LOCK then FOREVER_LOCK_TIME
      else ONE_DAY_LOCK_TIME)"

definition COMMISSION_RATE_MAX :: uint64 where "COMMISSION_RATE_MAX = 100 * 10000000"
definition COMMISSION_RATE_MIN :: uint64 where "COMMISSION_RATE_MIN = 1 * 10000000"
definition COMMISSION_RATE_DEFAULT :: uint64 where "COMMISSION_RATE_DEFAULT = 10 * 10000000"

definition GetCommissionRate :: "uint32 \<Rightarrow> uint64" where
  "GetCommissionRate opt =
     (let commission = ucast opt in
      if commission > COMMISSION_RATE_MAX \<or> commission < COMMISSION_RATE_MIN
      then COMMISSION_RATE_DEFAULT
      else commission)"

section \<open>Buckets\<close>

record Bucket =
  BucketID :: bytes32
  Owner :: address
  Nonce :: uint64
  CreateTime :: uint64
  Value :: int
  Token :: uint8
  Unbounded :: bool
  Candidate :: address
  Rate :: uint8
  Autobid :: uint8
  Option :: uint32
  BonusVotes :: uint64
  TotalVotes :: int
  MatureTime :: uint64
  CalcLastTime :: uint64

type_synonym bucket_hash = "address \<Rightarrow> uint64 \<Rightarrow> uint64 \<Rightarrow> bytes32"

definition Bucket_ID :: "bucket_hash \<Rightarrow> Bucket \<Rightarrow> bytes32" where
  "Bucket_ID hash b = hash (Owner b) (Nonce b) (CreateTime b)"

definition NewBucket ::
  "bucket_hash \<Rightarrow> address \<Rightarrow> address \<Rightarrow> int \<Rightarrow> uint8 \<Rightarrow> uint32 \<Rightarrow> uint8 \<Rightarrow> uint8 \<Rightarrow> uint64 \<Rightarrow> uint64 \<Rightarrow> Bucket" where
  "NewBucket hash owner cand value token opt rate autobid create nonce =
     (let b = \<lparr>BucketID = 0, Owner = owner, Nonce = nonce, CreateTime = create, Value = value,
               Token = token, Unbounded = False, Candidate = cand, Rate = rate, Autobid = autobid,
               Option = opt, BonusVotes = 0, TotalVotes = 0 + value, MatureTime = 0,
               CalcLastTime = create\<rparr>
      in b\<lparr>BucketID := Bucket_ID hash b\<rparr>)"

definition IsForeverLock :: "Bucket \<Rightarrow> bool" where
  "IsForeverLock b = (if Option b = FOREVER_LOCK then True else False)"

definition UpdateLockOption :: "uint32 \<Rightarrow> uint8 \<Rightarrow> Bucket \<Rightarrow> Bucket" where
  "UpdateLockOption opt rate b = b\<lparr>Option := opt, Rate := rate\<rparr>"

lemma NewBucket_simps [simp]:
  "BucketID (NewBucket hash ow cand v tok opt rate ab cr nonce) = hash ow nonce cr"
  "Owner (NewBucket hash ow cand v tok opt rate ab cr nonce) = ow"
  "Nonce (NewBucket hash ow cand v tok opt rate ab cr nonce) = nonce"
  "CreateTime (NewBucket hash ow cand v tok opt rate ab cr nonce) = cr"
  "Value (NewBucket hash ow cand v tok opt rate ab cr nonce) = v"
  "Token (NewBucket hash ow cand v tok opt rate ab cr nonce) = tok"
  "Unbounded (NewBucket hash ow cand v tok opt rate ab cr nonce) = False"
  "Candidate (NewBucket hash ow cand v tok opt rate ab cr nonce) = cand"
  "Option (NewBucket hash ow cand v tok opt rate ab cr nonce) = opt"
  "Rate (NewBucket hash ow cand v tok opt rate ab cr nonce) = rate"
  "Autobid (NewBucket hash ow cand v tok opt rate ab cr nonce) = ab"
  "TotalVotes (NewBucket hash ow cand v tok opt rate ab cr nonce) = v"
  "MatureTime (NewBucket hash ow cand v tok opt rate ab cr nonce) = 0"
  "CalcLastTime (NewBucket hash ow cand v tok opt rate ab cr nonce) = cr"
  by (simp_all add: NewBucket_def Bucket_ID_def Let_def)

type_synonym BucketList = "Bucket list"

text \<open>\<^verbatim>\<open>NewBucketList\<close> compares the recomputed hashes and not the stored identifiers.\<close>

definition NewBucketList :: "bucket_hash \<Rightarrow> Bucket list \<Rightarrow> BucketList" where
  "NewBucketList hash bs = list_New (Bucket_ID hash) bs"

definition BucketList_indexOf :: "bytes32 \<Rightarrow> BucketList \<Rightarrow> int \<times> int" where
  "BucketList_indexOf = indexOf BucketID"

definition BucketList_Get :: "bytes32 \<Rightarrow> BucketList \<Rightarrow> Bucket option" where
  "BucketList_Get = list_Get BucketID"

definition BucketList_GetByOwner :: "address \<Rightarrow> BucketList \<Rightarrow> Bucket list" where
  "BucketList_GetByOwner owner bl = filter (\<lambda>b. Owner b = owner) bl"

definition BucketList_Exist :: "bytes32 \<Rightarrow> BucketList \<Rightarrow> bool" where
  "BucketList_Exist = list_Exist BucketID"

definition BucketList_Add :: "Bucket \<Rightarrow> BucketList \<Rightarrow> BucketList" where
  "BucketList_Add = list_Add BucketID"

definition BucketList_Remove :: "bytes32 \<Rightarrow> BucketList \<Rightarrow> BucketList" where
  "BucketList_Remove = list_Remove BucketID"

definition BucketList_Modify :: "bytes32 \<Rightarrow> (Bucket \<Rightarrow> Bucket) \<Rightarrow> BucketList \<Rightarrow> BucketList" where
  "BucketList_Modify = list_Modify BucketID"

definition BucketList_wf :: "BucketList \<Rightarrow> bool" where
  "BucketList_wf = key_sorted BucketID"

interpretation bl: keyed_store BucketID BucketList_wf BucketList_Get BucketList_Add BucketList_Remove
  BucketList_Modify
  unfolding BucketList_wf_def BucketList_Get_def BucketList_Add_def BucketList_Remove_def
    BucketList_Modify_def
  by (rule keyed_store_lists)

text \<open>The identifiers stored in the buckets are the hashes of their fields.\<close>

definition ids_valid :: "bucket_hash \<Rightarrow> BucketList \<Rightarrow> bool" where
  "ids_valid hash bl = (\<forall>b \<in> set bl. BucketID b = Bucket_ID hash b)"

lemma NewBucketList_id:
  assumes "BucketList_wf bl" "ids_valid hash bl"
  shows "NewBucketList hash bl = bl"
proof -
  have "key_sorted (Bucket_ID hash) bl"
    using assms unfolding BucketList_wf_def key_sorted_def ids_valid_def
    by (auto intro: sorted_wrt_mono_rel [rotated])
  then show ?thesis unfolding NewBucketList_def by (rule list_New_id)
qed

section \<open>Candidates\<close>

record Candidate =
  cAddr :: address
  cName :: bytes
  cDescription :: bytes
  cPubKey :: bytes
  cIPAddr :: bytes
  cPort :: uint16
  cCommission :: uint64
  cTimestamp :: uint64
  cTotalVotes :: int
  cBuckets :: "bytes32 list"

definition NewCandidate ::
  "address \<Rightarrow> bytes \<Rightarrow> bytes \<Rightarrow> bytes \<Rightarrow> bytes \<Rightarrow> uint16 \<Rightarrow> uint64 \<Rightarrow> uint64 \<Rightarrow> Candidate" where
  "NewCandidate addr name desc pubKey ip port commission timeStamp =
     \<lparr>cAddr = addr, cName = name, cDescription = desc, cPubKey = pubKey, cIPAddr = ip, cPort = port,
      cCommission = commission, cTimestamp = timeStamp, cTotalVotes = 0, cBuckets = []\<rparr>"

definition Candidate_AddBucket :: "Bucket \<Rightarrow> Candidate \<Rightarrow> Candidate" where
  "Candidate_AddBucket bucket c =
     c\<lparr>cBuckets := cBuckets c @ [BucketID bucket], cTotalVotes := cTotalVotes c + TotalVotes bucket\<rparr>"

text \<open>The loop removes the first matching identifier and stops.\<close>

definition Candidate_RemoveBucket :: "Bucket \<Rightarrow> Candidate \<Rightarrow> Candidate" where
  "Candidate_RemoveBucket bucket c =
     (if BucketID bucket \<in> set (cBuckets c) then
        let votes = cTotalVotes c - TotalVotes bucket in
        c\<lparr>cBuckets := remove1 (BucketID bucket) (cBuckets c),
          cTotalVotes := (if votes < 0 then 0 else votes)\<rparr>
      else c)"

type_synonym CandidateList = "Candidate list"

definition NewCandidateList :: "Candidate list \<Rightarrow> CandidateList" where
  "NewCandidateList = list_New cAddr"

definition CandidateList_indexOf :: "address \<Rightarrow> CandidateList \<Rightarrow> int \<times> int" where
  "CandidateList_indexOf = indexOf cAddr"

definition CandidateList_Get :: "address \<Rightarrow> CandidateList \<Rightarrow> Candidate option" where
  "CandidateList_Get = list_Get cAddr"

definition CandidateList_Exist :: "address \<Rightarrow> CandidateList \<Rightarrow> bool" where
  "CandidateList_Exist = list_Exist cAddr"

definition CandidateList_Add :: "Candidate \<Rightarrow> CandidateList \<Rightarrow> CandidateList" where
  "CandidateList_Add = list_Add cAddr"

definition CandidateList_Remove :: "address \<Rightarrow> CandidateList \<Rightarrow> CandidateList" where
  "CandidateList_Remove = list_Remove cAddr"

definition CandidateList_Modify :: "address \<Rightarrow> (Candidate \<Rightarrow> Candidate) \<Rightarrow> CandidateList \<Rightarrow> CandidateList" where
  "CandidateList_Modify = list_Modify cAddr"

definition CandidateList_wf :: "CandidateList \<Rightarrow> bool" where
  "CandidateList_wf = key_sorted cAddr"

interpretation cl: keyed_store_new cAddr CandidateList_wf CandidateList_Get CandidateList_Add
  CandidateList_Remove CandidateList_Modify NewCandidateList
  unfolding CandidateList_wf_def CandidateList_Get_def CandidateList_Add_def CandidateList_Remove_def
    CandidateList_Modify_def NewCandidateList_def
  by (rule keyed_store_new_lists)

lemma Candidate_AddBucket_cAddr [simp]: "cAddr (Candidate_AddBucket b c) = cAddr c"
  by (simp add: Candidate_AddBucket_def)

lemma Candidate_RemoveBucket_cAddr [simp]: "cAddr (Candidate_RemoveBucket b c) = cAddr c"
  by (simp add: Candidate_RemoveBucket_def Let_def)

section \<open>Stakeholders\<close>

record Stakeholder =
  sHolder :: address
  sTotalStake :: int
  sBuckets :: "bytes32 list"

definition NewStakeholder :: "address \<Rightarrow> Stakeholder" where
  "NewStakeholder holder = \<lparr>sHolder = holder, sTotalStake = 0, sBuckets = []\<rparr>"

definition Stakeholder_AddBucket :: "Bucket \<Rightarrow> Stakeholder \<Rightarrow> Stakeholder" where
  "Stakeholder_AddBucket bucket s =
     s\<lparr>sBuckets := sBuckets s @ [BucketID bucket], sTotalStake := sTotalStake s + Value bucket\<rparr>"

definition Stakeholder_RemoveBucket :: "Bucket \<Rightarrow> Stakeholder \<Rightarrow> Stakeholder" where
  "Stakeholder_RemoveBucket bucket s =
     (if BucketID bucket \<in> set (sBuckets s) then
        let stake = sTotalStake s - Value bucket in
        s\<lparr>sBuckets := remove1 (BucketID bucket) (sBuckets s),
          sTotalStake := (if stake < 0 then 0 else stake)\<rparr>
      else s)"

type_synonym StakeholderList = "Stakeholder list"

definition NewStakeholderList :: "Stakeholder list \<Rightarrow> StakeholderList" where
  "NewStakeholderList = list_New sHolder"

definition StakeholderList_indexOf :: "address \<Rightarrow> StakeholderList \<Rightarrow> int \<times> int" where
  "StakeholderList_indexOf = indexOf sHolder"

definition StakeholderList_Get :: "address \<Rightarrow> StakeholderList \<Rightarrow> Stakeholder option" where
  "StakeholderList_Get = list_Get sHolder"

definition StakeholderList_Exist :: "address \<Rightarrow> StakeholderList \<Rightarrow> bool" where
  "StakeholderList_Exist = list_Exist sHolder"

definition StakeholderList_Add :: "Stakeholder \<Rightarrow> StakeholderList \<Rightarrow> StakeholderList" where
  "StakeholderList_Add = list_Add sHolder"

definition StakeholderList_Remove :: "address \<Rightarrow> StakeholderList \<Rightarrow> StakeholderList" where
  "StakeholderList_Remove = list_Remove sHolder"

definition StakeholderList_Modify :: "address \<Rightarrow> (Stakeholder \<Rightarrow> Stakeholder) \<Rightarrow> StakeholderList \<Rightarrow> StakeholderList" where
  "StakeholderList_Modify = list_Modify sHolder"

definition StakeholderList_wf :: "StakeholderList \<Rightarrow> bool" where
  "StakeholderList_wf = key_sorted sHolder"

interpretation sl: keyed_store_new sHolder StakeholderList_wf StakeholderList_Get StakeholderList_Add
  StakeholderList_Remove StakeholderList_Modify NewStakeholderList
  unfolding StakeholderList_wf_def StakeholderList_Get_def StakeholderList_Add_def
    StakeholderList_Remove_def StakeholderList_Modify_def NewStakeholderList_def
  by (rule keyed_store_new_lists)

lemma Stakeholder_AddBucket_sHolder [simp]: "sHolder (Stakeholder_AddBucket b s) = sHolder s"
  by (simp add: Stakeholder_AddBucket_def)

lemma Stakeholder_RemoveBucket_sHolder [simp]: "sHolder (Stakeholder_RemoveBucket b s) = sHolder s"
  by (simp add: Stakeholder_RemoveBucket_def Let_def)

end
