(* ===== verification/Delegate_Stats.thy ===== *)
theory Delegate_Stats
  imports Sorted_Lists "HOL-Library.AList"
begin

text \<open>
  Infractions of delegates, their statistics and the jail: \<^verbatim>\<open>meter/infraction.go\<close>,
  \<^verbatim>\<open>meter/delegate_stats.go\<close> and \<^verbatim>\<open>meter/injail.go\<close>.  The four loops of \<^verbatim>\<open>PhaseOut\<close> and
  the three violation counters repeat one body over a different list; each body
  is written once.  Counters and points keep their machine width.
\<close>

section \<open>Infractions\<close>

record MissingLeaderInfo = mlEpoch :: uint32 mlRound :: uint32
record MissingProposerInfo = mpEpoch :: uint32 mpHeight :: uint32
record MissingVoterInfo = mvEpoch :: uint32 mvHeight :: uint32
record DoubleSignerInfo = dsEpoch :: uint32 dsHeight :: uint32

record MissingLeader = mlCounter :: uint32 mlInfo :: "MissingLeaderInfo list"
record MissingProposer = mpCounter :: uint32 mpInfo :: "MissingProposerInfo list"
record MissingVoter = mvCounter :: uint32 mvInfo :: "MissingVoterInfo list"
record DoubleSigner = dsCounter :: uint32 dsInfo :: "DoubleSignerInfo list"

record Infraction =
  MissingLeaders :: MissingLeader
  MissingProposers :: MissingProposer
  MissingVoters :: MissingVoter
  DoubleSigners :: DoubleSigner

definition empty_Infraction :: Infraction where
  "empty_Infraction =
     \<lparr>MissingLeaders = \<lparr>mlCounter = 0, mlInfo = []\<rparr>, MissingProposers = \<lparr>mpCounter = 0, mpInfo = []\<rparr>,
      MissingVoters = \<lparr>mvCounter = 0, mvInfo = []\<rparr>, DoubleSigners = \<lparr>dsCounter = 0, dsInfo = []\<rparr>\<rparr>"

definition DoubleSignPts :: nat where "DoubleSignPts = 2000"
definition MissingLeaderPts :: nat where "MissingLeaderPts = 1000"
definition MissingProposerPts :: nat where "MissingProposerPts = 20"
definition MissingVoterPts :: nat where "MissingVoterPts = 2"
definition JailCriteria :: nat where "JailCriteria = 2000"
definition PhaseOutEpochCount :: uint32 where "PhaseOutEpochCount = 4"
definition WipeOutEpochCount :: uint32 where "WipeOutEpochCount = PhaseOutEpochCount * 2"
definition NObservationEpochs :: uint32 where "NObservationEpochs = 8"
definition MaxMissingProposerPerEpoch :: int where "MaxMissingProposerPerEpoch = 3"
definition MaxMissingLeaderPerEpoch :: int where "MaxMissingLeaderPerEpoch = 2"
definition MaxDoubleSignPerEpoch :: int where "MaxDoubleSignPerEpoch = 1"
definition JailCriteria_MissingProposerViolation :: nat where "JailCriteria_MissingProposerViolation = 2"
definition JailCriteria_MissingLeaderViolation :: nat where "JailCriteria_MissingLeaderViolation = 2"
definition JailCriteria_DoubleSignViolation :: nat where "JailCriteria_DoubleSignViolation = 1"

lemmas points_defs = DoubleSignPts_def MissingLeaderPts_def MissingProposerPts_def MissingVoterPts_def

section \<open>Delegate statistics\<close>

record DelegateStat =
  dAddr :: address
  dName :: bytes
  dPubKey :: bytes
  dTotalPts :: uint64
  dInfractions :: Infraction

definition NewDelegateStat :: "address \<Rightarrow> bytes \<Rightarrow> bytes \<Rightarrow> DelegateStat" where
  "NewDelegateStat addr name pubKey =
     \<lparr>dAddr = addr, dName = name, dPubKey = pubKey, dTotalPts = 0, dInfractions = empty_Infraction\<rparr>"

text \<open>
  One loop of \<^verbatim>\<open>PhaseOut\<close>: infractions since the epoch \<open>one\<close> count in full, those since
  \<open>two\<close> count half, and older ones are dropped.
\<close>

fun phase_out_loop ::
  "('i \<Rightarrow> uint32) \<Rightarrow> nat \<Rightarrow> uint32 \<Rightarrow> uint32 \<Rightarrow> 'i list \<Rightarrow> 'i list \<times> uint64 \<Rightarrow> 'i list \<times> uint64" where
  "phase_out_loop ep pts one two [] (kept, acc) = (kept, acc)"
| "phase_out_loop ep pts one two (i # is) (kept, acc) =
     phase_out_loop ep pts one two is
       (if ep i \<ge> one then (kept @ [i], acc + of_nat pts)
        else if ep i \<ge> two then (kept @ [i], acc + of_nat (pts div 2))
        else (kept, acc))"

definition PhaseOut :: "uint32 \<Rightarrow> DelegateStat \<Rightarrow> DelegateStat" where
  "PhaseOut curEpoch ds =
     (if curEpoch \<le> PhaseOutEpochCount then ds
      else
        let one = curEpoch - PhaseOutEpochCount;
            two = (if curEpoch \<ge> WipeOutEpochCount then curEpoch - WipeOutEpochCount else 0);
            inf = dInfractions ds;
            (leaderInfo, leaderPts) =
              phase_out_loop mlEpoch MissingLeaderPts one two (mlInfo (MissingLeaders inf)) ([], 0);
            (proposerInfo, proposerPts) =
              phase_out_loop mpEpoch MissingProposerPts one two (mpInfo (MissingProposers inf)) ([], 0);
            (voterInfo, voterPts) =
              phase_out_loop mvEpoch MissingVoterPts one two (mvInfo (MissingVoters inf)) ([], 0);
            (dsignInfo, dsignPts) =
              phase_out_loop dsEpoch DoubleSignPts one two (dsInfo (DoubleSigners inf)) ([], 0)
        in ds\<lparr>dInfractions :=
                \<lparr>MissingLeaders = \<lparr>mlCounter = of_nat (length leaderInfo), mlInfo = leaderInfo\<rparr>,
                 MissingProposers = \<lparr>mpCounter = of_nat (length proposerInfo), mpInfo = proposerInfo\<rparr>,
                 MissingVoters = \<lparr>mvCounter = of_nat (length voterInfo), mvInfo = voterInfo\<rparr>,
                 DoubleSigners = \<lparr>dsCounter = of_nat (length dsignInfo), dsInfo = dsignInfo\<rparr>\<rparr>,
              dTotalPts := leaderPts + proposerPts + voterPts + dsignPts\<rparr>)"

text \<open>The points of \<^verbatim>\<open>Update\<close> are computed in 32 bits and widened afterwards.\<close>

definition DelegateStat_Update :: "Infraction \<Rightarrow> DelegateStat \<Rightarrow> DelegateStat" where
  "DelegateStat_Update incr ds =
     (let infr = dInfractions ds;
          L = MissingLeaders infr; L' = MissingLeaders incr;
          P = MissingProposers infr; P' = MissingProposers incr;
          V = MissingVoters infr; V' = MissingVoters incr;
          D = DoubleSigners infr; D' = DoubleSigners incr
      in ds\<lparr>dInfractions :=
              \<lparr>MissingLeaders = \<lparr>mlCounter = mlCounter L + mlCounter L', mlInfo = mlInfo L @ mlInfo L'\<rparr>,
               MissingProposers = \<lparr>mpCounter = mpCounter P + mpCounter P', mpInfo = mpInfo P @ mpInfo P'\<rparr>,
               MissingVoters = \<lparr>mvCounter = mvCounter V + mvCounter V', mvInfo = mvInfo V @ mvInfo V'\<rparr>,
               DoubleSigners = \<lparr>dsCounter = dsCounter D + dsCounter D', dsInfo = dsInfo D @ dsInfo D'\<rparr>\<rparr>,
            dTotalPts := dTotalPts ds +
              ucast (mlCounter L' * of_nat MissingLeaderPts + mpCounter P' * of_nat MissingProposerPts +
                     mvCounter V' * of_nat MissingVoterPts + dsCounter D' * of_nat DoubleSignPts)\<rparr>)"

text \<open>
  The violation counters: a Go map from epoch to count, kept as an association
  list; an epoch enters the map with 1 and is then incremented.
\<close>

definition count_epoch :: "uint32 \<Rightarrow> uint32 \<Rightarrow> (uint32 \<times> int) list \<Rightarrow> (uint32 \<times> int) list" where
  "count_epoch epoch e counter =
     (if e < epoch - NObservationEpochs then counter
      else
        let counter = (case map_of counter e of None \<Rightarrow> AList.update e 1 counter | Some _ \<Rightarrow> counter)
        in AList.update e (the (map_of counter e) + 1) counter)"

definition count_violation :: "int \<Rightarrow> uint32 \<Rightarrow> uint32 list \<Rightarrow> nat" where
  "count_violation maxPerEpoch epoch es =
     length (filter (\<lambda>(_, count). count \<ge> maxPerEpoch) (fold (count_epoch epoch) es []))"

definition CountMissingProposerViolation :: "uint32 \<Rightarrow> DelegateStat \<Rightarrow> nat" where
  "CountMissingProposerViolation epoch ds =
     count_violation MaxMissingProposerPerEpoch epoch
       (map mpEpoch (mpInfo (MissingProposers (dInfractions ds))))"

definition CountMissingLeaderViolation :: "uint32 \<Rightarrow> DelegateStat \<Rightarrow> nat" where
  "CountMissingLeaderViolation epoch ds =
     count_violation MaxMissingLeaderPerEpoch epoch
       (map mlEpoch (mlInfo (MissingLeaders (dInfractions ds))))"

definition CountDoubleSignViolation :: "uint32 \<Rightarrow> DelegateStat \<Rightarrow> nat" where
  "CountDoubleSignViolation epoch ds =
     count_violation MaxDoubleSignPerEpoch epoch
       (map dsEpoch (dsInfo (DoubleSigners (dInfractions ds))))"

type_synonym DelegateStatList = "DelegateStat list"

definition NewDelegateStatList :: "DelegateStat list \<Rightarrow> DelegateStatList" where
  "NewDelegateStatList = list_New dAddr"

definition DelegateStatList_indexOf :: "address \<Rightarrow> DelegateStatList \<Rightarrow> int \<times> int" where
  "DelegateStatList_indexOf = indexOf dAddr"

definition DelegateStatList_Get :: "address \<Rightarrow> DelegateStatList \<Rightarrow> DelegateStat option" where
  "DelegateStatList_Get = list_Get dAddr"

definition DelegateStatList_Exist :: "address \<Rightarrow> DelegateStatList \<Rightarrow> bool" where
  "DelegateStatList_Exist = list_Exist dAddr"

definition DelegateStatList_Add :: "DelegateStat \<Rightarrow> DelegateStatList \<Rightarrow> DelegateStatList" where
  "DelegateStatList_Add = list_Add dAddr"

definition DelegateStatList_Remove :: "address \<Rightarrow> DelegateStatList \<Rightarrow> DelegateStatList" where
  "DelegateStatList_Remove = list_Remove dAddr"

definition DelegateStatList_Modify ::
  "address \<Rightarrow> (DelegateStat \<Rightarrow> DelegateStat) \<Rightarrow> DelegateStatList \<Rightarrow> DelegateStatList" where
  "DelegateStatList_Modify = list_Modify dAddr"

definition DelegateStatList_wf :: "DelegateStatList \<Rightarrow> bool" where
  "DelegateStatList_wf = key_sorted dAddr"

interpretation dsl: keyed_store_new dAddr DelegateStatList_wf DelegateStatList_Get DelegateStatList_Add
  DelegateStatList_Remove DelegateStatList_Modify NewDelegateStatList
  unfolding DelegateStatList_wf_def DelegateStatList_Get_def DelegateStatList_Add_def
    DelegateStatList_Remove_def DelegateStatList_Modify_def NewDelegateStatList_def
  by (rule keyed_store_new_lists)

section \<open>The jail\<close>

record InJail =
  jAddr :: address
  jName :: bytes
  jPubKey :: bytes
  jTotalPts :: uint64
  jInfractions :: Infraction
  jBailAmount :: int
  jJailedTime :: uint64

definition NewInJail :: "address \<Rightarrow> bytes \<Rightarrow> bytes \<Rightarrow> uint64 \<Rightarrow> Infraction \<Rightarrow> int \<Rightarrow> uint64 \<Rightarrow> InJail" where
  "NewInJail addr name pubKey pts infr bail timeStamp =
     \<lparr>jAddr = addr, jName = name, jPubKey = pubKey, jTotalPts = pts, jInfractions = infr,
      jBailAmount = bail, jJailedTime = timeStamp\<rparr>"

type_synonym InJailList = "InJail list"

definition NewInJailList :: "InJail list \<Rightarrow> InJailList" where
  "NewInJailList = list_New jAddr"

definition InJailList_indexOf :: "address \<Rightarrow> InJailList \<Rightarrow> int \<times> int" where
  "InJailList_indexOf = indexOf jAddr"

definition InJailList_Get :: "address \<Rightarrow> InJailList \<Rightarrow> InJail option" where
  "InJailList_Get = list_Get jAddr"

definition InJailList_Exist :: "address \<Rightarrow> InJailList \<Rightarrow> bool" where
  "InJailList_Exist = list_Exist jAddr"

definition InJailList_Add :: "InJail \<Rightarrow> InJailList \<Rightarrow> InJailList" where
  "InJailList_Add = list_Add jAddr"

definition InJailList_Remove :: "address \<Rightarrow> InJailList \<Rightarrow> InJailList" where
  "InJailList_Remove = list_Remove jAddr"

definition InJailList_Modify :: "address \<Rightarrow> (InJail \<Rightarrow> InJail) \<Rightarrow> InJailList \<Rightarrow> InJailList" where
  "InJailList_Modify = list_Modify jAddr"

definition InJailList_wf :: "InJailList \<Rightarrow> bool" where
  "InJailList_wf = key_sorted jAddr"

interpretation jl: keyed_store_new jAddr InJailList_wf InJailList_Get InJailList_Add InJailList_Remove
  InJailList_Modify NewInJailList
  unfolding InJailList_wf_def InJailList_Get_def InJailList_Add_def InJailList_Remove_def
    InJailList_Modify_def NewInJailList_def
  by (rule keyed_store_new_lists)

section \<open>Phasing out\<close>

text \<open>The weight an infraction of epoch \<open>i\<close> has at epoch \<open>e\<close>.\<close>

definition phase_weight :: "nat \<Rightarrow> uint32 \<Rightarrow> uint32 \<Rightarrow> nat" where
  "phase_weight pts e i =
     (if unat e \<le> unat i + 4 then pts else if unat e \<le> unat i + 8 then pts div 2 else 0)"

lemma phase_out_loop_eq:
  "phase_out_loop ep pts one two is (kept, acc) =
     (kept @ filter (\<lambda>i. one \<le> ep i \<or> two \<le> ep i) is,
      acc + of_nat (\<Sum>i\<leftarrow>is. if one \<le> ep i then pts else if two \<le> ep i then pts div 2 else 0))"
  by (induction "is" arbitrary: kept acc) auto

lemma epoch_window:
  assumes "PhaseOutEpochCount < (e :: uint32)"
  shows "e - PhaseOutEpochCount \<le> i \<longleftrightarrow> unat e \<le> unat i + 4"
    and "(if e \<ge> WipeOutEpochCount then e - WipeOutEpochCount else 0) \<le> i \<longleftrightarrow> unat e \<le> unat i + 8"
proof -
  have "PhaseOutEpochCount \<le> e" using assms by simp
  then show "e - PhaseOutEpochCount \<le> i \<longleftrightarrow> unat e \<le> unat i + 4"
    by (auto simp: word_le_nat_alt PhaseOutEpochCount_def unat_sub)
  show "(if e \<ge> WipeOutEpochCount then e - WipeOutEpochCount else 0) \<le> i \<longleftrightarrow> unat e \<le> unat i + 8"
    by (auto simp: word_le_nat_alt WipeOutEpochCount_def PhaseOutEpochCount_def unat_sub)
qed

lemma phase_out_loop_window:
  assumes "PhaseOutEpochCount < e"
  shows "phase_out_loop ep pts (e - PhaseOutEpochCount)
      (if e \<ge> WipeOutEpochCount then e - WipeOutEpochCount else 0) is ([], 0) =
     (filter (\<lambda>i. unat e \<le> unat (ep i) + 8) is, of_nat (\<Sum>i\<leftarrow>is. phase_weight pts e (ep i)))"
  unfolding phase_out_loop_eq phase_weight_def epoch_window [OF assms] append_Nil
  by (auto intro!: filter_cong)

text \<open>
  C23.  After \<^verbatim>\<open>PhaseOut\<close> at an epoch above 4, a delegate keeps exactly the infractions
  of the last eight epochs, and its points are the sum of the weights of all its
  infractions: full for the last four epochs, half for the four before, 0 for
  older ones (modulo the 64 bits of the total).
\<close>

theorem PhaseOut_spec:
  assumes "PhaseOutEpochCount < e"
  shows "mlInfo (MissingLeaders (dInfractions (PhaseOut e ds))) =
           filter (\<lambda>i. unat e \<le> unat (mlEpoch i) + 8) (mlInfo (MissingLeaders (dInfractions ds))) \<and>
         mpInfo (MissingProposers (dInfractions (PhaseOut e ds))) =
           filter (\<lambda>i. unat e \<le> unat (mpEpoch i) + 8) (mpInfo (MissingProposers (dInfractions ds))) \<and>
         mvInfo (MissingVoters (dInfractions (PhaseOut e ds))) =
           filter (\<lambda>i. unat e \<le> unat (mvEpoch i) + 8) (mvInfo (MissingVoters (dInfractions ds))) \<and>
         dsInfo (DoubleSigners (dInfractions (PhaseOut e ds))) =
           filter (\<lambda>i. unat e \<le> unat (dsEpoch i) + 8) (dsInfo (DoubleSigners (dInfractions ds))) \<and>
         dTotalPts (PhaseOut e ds) = of_nat
           ((\<Sum>i\<leftarrow>mlInfo (MissingLeaders (dInfractions ds)). phase_weight MissingLeaderPts e (mlEpoch i)) +
            (\<Sum>i\<leftarrow>mpInfo (MissingProposers (dInfractions ds)). phase_weight MissingProposerPts e (mpEpoch i)) +
            (\<Sum>i\<leftarrow>mvInfo (MissingVoters (dInfractions ds)). phase_weight MissingVoterPts e (mvEpoch i)) +
            (\<Sum>i\<leftarrow>dsInfo (DoubleSigners (dInfractions ds)). phase_weight DoubleSignPts e (dsEpoch i)))"
  using assms not_le [THEN iffD2, OF assms] unfolding PhaseOut_def Let_def phase_out_loop_window [OF assms]
  by simp

definition stat_example :: DelegateStat where
  "stat_example = (NewDelegateStat 7 [] [])\<lparr>dInfractions := empty_Infraction
     \<lparr>MissingLeaders := \<lparr>mlCounter = 3, mlInfo = [\<lparr>mlEpoch = 1, mlRound = 0\<rparr>,
        \<lparr>mlEpoch = 5, mlRound = 0\<rparr>, \<lparr>mlEpoch = 11, mlRound = 2\<rparr>]\<rparr>\<rparr>\<rparr>"

theorem PhaseOut_spec_witness:
  "map mlEpoch (mlInfo (MissingLeaders (dInfractions (PhaseOut 12 stat_example)))) = [5, 11] \<and>
   dTotalPts (PhaseOut 12 stat_example) = 1500"
  using PhaseOut_spec [of 12 stat_example]
  by (simp add: PhaseOutEpochCount_def stat_example_def NewDelegateStat_def empty_Infraction_def
      phase_weight_def points_defs)

section \<open>Violations\<close>

lemma count_epoch_map_of:
  "map_of (count_epoch epoch e counter) k =
     (if k = e \<and> epoch - NObservationEpochs \<le> e
      then Some (case map_of counter e of None \<Rightarrow> 2 | Some n \<Rightarrow> n + 1) else map_of counter k)"
  by (auto simp: count_epoch_def Let_def update_conv' split: option.splits)

lemma distinct_count_epoch:
  "distinct (map fst counter) \<Longrightarrow> distinct (map fst (count_epoch epoch e counter))"
  by (simp add: count_epoch_def Let_def distinct_update split: option.splits)

lemma distinct_fold_count_epoch: "distinct (map fst (fold (count_epoch epoch) es []))"
  by (induction es rule: rev_induct) (simp_all add: distinct_count_epoch)

lemma fold_count_epoch_map_of:
  "map_of (fold (count_epoch epoch) es []) k =
     (if k \<in> set es \<and> epoch - NObservationEpochs \<le> k then Some (int (count_list es k) + 1) else None)"
  by (induction es rule: rev_induct) (auto simp: count_epoch_map_of split: if_splits)

lemma count_violation_card:
  "count_violation m epoch es =
     card {e \<in> set es. epoch - NObservationEpochs \<le> e \<and> m \<le> int (count_list es e) + 1}"
proof -
  let ?c = "fold (count_epoch epoch) es []"
  have fst_inj: "inj_on fst (set ?c)"
    using distinct_fold_count_epoch [of epoch es] by (simp add: distinct_map)
  have "distinct ?c" using distinct_fold_count_epoch [of epoch es] by (simp add: distinct_map)
  then have "count_violation m epoch es = card {p \<in> set ?c. m \<le> snd p}"
    by (simp add: count_violation_def distinct_length_filter case_prod_beta Int_def conj_commute)
  also have "\<dots> = card (fst ` {p \<in> set ?c. m \<le> snd p})"
    by (rule card_image [symmetric]) (use fst_inj in \<open>auto intro: inj_on_subset\<close>)
  also have "fst ` {p \<in> set ?c. m \<le> snd p} =
      {e \<in> set es. epoch - NObservationEpochs \<le> e \<and> m \<le> int (count_list es e) + 1}"
    using map_of_eq_Some_iff [OF distinct_fold_count_epoch, of epoch es]
    by (force simp: fold_count_epoch_map_of image_iff split: if_splits)
  finally show ?thesis .
qed


end
