(* ===== verification/Ledger_Data.thy ===== *)
theory Ledger_Data
  imports Sorted_Lists
begin

text \<open>
  The remaining records of package \<^verbatim>\<open>meter\<close> that the script engine stores: delegates
  with their distributors (\<^verbatim>\<open>delegate.go\<close>), validator rewards (\<^verbatim>\<open>validator_reward.go\<close>),
  account-lock profiles (\<^verbatim>\<open>profile.go\<close>), and auction bids, control block and summaries
  (\<^verbatim>\<open>auction_tx.go\<close>, \<^verbatim>\<open>auction_cb.go\<close>, \<^verbatim>\<open>auction_summary.go\<close>).  The hashes of bids and of
  the control block are parameters.
\<close>

section \<open>Delegates\<close>

record Distributor =
  distAddress :: address
  distAutobid :: uint8
  distShares :: uint64

definition NewDistributor :: "address \<Rightarrow> uint8 \<Rightarrow> uint64 \<Rightarrow> Distributor" where
  "NewDistributor addr autobid shares = \<lparr>distAddress = addr, distAutobid = autobid, distShares = shares\<rparr>"

record Delegate =
  dlgAddress :: address
  dlgPubKey :: bytes
  dlgName :: bytes
  dlgVotingPower :: int
  dlgIPAddr :: bytes
  dlgPort :: uint16
  dlgCommission :: uint64
  dlgDistList :: "Distributor list"

type_synonym DelegateList = "Delegate list"

section \<open>Validator rewards\<close>

definition STAKING_MAX_VALIDATOR_REWARDS :: nat where "STAKING_MAX_VALIDATOR_REWARDS = 32"

record RewardInfo =
  riAddress :: address
  riAmount :: int

record RewardInfoV2 =
  riv2Address :: address
  riv2DistAmount :: int
  riv2AutobidAmount :: int

record ValidatorReward =
  vrEpoch :: uint32
  vrBaseReward :: int
  vrTotalReward :: int
  vrRewards :: "RewardInfo list"

type_synonym ValidatorRewardList = "ValidatorReward list"

definition ValidatorRewardList_Get :: "uint32 \<Rightarrow> ValidatorRewardList \<Rightarrow> ValidatorReward option" where
  "ValidatorRewardList_Get epoch v = find (\<lambda>r. vrEpoch r = epoch) v"

definition ValidatorRewardList_Last :: "ValidatorRewardList \<Rightarrow> ValidatorReward option" where
  "ValidatorRewardList_Last v = (if length v > 0 then Some (v ! (length v - 1)) else None)"

section \<open>Account lock profiles\<close>

record Profile =
  pAddr :: address
  pMemo :: bytes
  pLockEpoch :: uint32
  pReleaseEpoch :: uint32
  pMeterAmount :: int
  pMeterGovAmount :: int

definition NewProfile :: "address \<Rightarrow> bytes \<Rightarrow> uint32 \<Rightarrow> uint32 \<Rightarrow> int \<Rightarrow> int \<Rightarrow> Profile" where
  "NewProfile addr memo lock release mtr mtrg =
     \<lparr>pAddr = addr, pMemo = memo, pLockEpoch = lock, pReleaseEpoch = release, pMeterAmount = mtr,
      pMeterGovAmount = mtrg\<rparr>"

type_synonym ProfileList = "Profile list"

definition NewProfileList :: "Profile list \<Rightarrow> ProfileList" where
  "NewProfileList = list_New pAddr"

definition ProfileList_indexOf :: "address \<Rightarrow> ProfileList \<Rightarrow> int \<times> int" where
  "ProfileList_indexOf = indexOf pAddr"

definition ProfileList_Get :: "address \<Rightarrow> ProfileList \<Rightarrow> Profile option" where
  "ProfileList_Get = list_Get pAddr"

definition ProfileList_Exist :: "address \<Rightarrow> ProfileList \<Rightarrow> bool" where
  "ProfileList_Exist = list_Exist pAddr"

definition ProfileList_Add :: "Profile \<Rightarrow> ProfileList \<Rightarrow> ProfileList" where
  "ProfileList_Add = list_Add pAddr"

definition ProfileList_Remove :: "address \<Rightarrow> ProfileList \<Rightarrow> ProfileList" where
  "ProfileList_Remove = list_Remove pAddr"

definition ProfileList_Modify :: "address \<Rightarrow> (Profile \<Rightarrow> Profile) \<Rightarrow> ProfileList \<Rightarrow> ProfileList" where
  "ProfileList_Modify = list_Modify pAddr"

definition ProfileList_wf :: "ProfileList \<Rightarrow> bool" where
  "ProfileList_wf = key_sorted pAddr"

interpretation pl: keyed_store_new pAddr ProfileList_wf ProfileList_Get ProfileList_Add
  ProfileList_Remove ProfileList_Modify NewProfileList
  unfolding ProfileList_wf_def ProfileList_Get_def ProfileList_Add_def ProfileList_Remove_def
    ProfileList_Modify_def NewProfileList_def
  by (rule keyed_store_new_lists)

section \<open>Auctions\<close>

definition USER_BID :: uint32 where "USER_BID = 0"
definition AUTO_BID :: uint32 where "AUTO_BID = 1"
definition AUCTION_MAX_SUMMARIES :: nat where "AUCTION_MAX_SUMMARIES = 32"

record AuctionTx =
  txTxID :: bytes32
  txAddress :: address
  txAmount :: int
  txType :: uint32
  txTimestamp :: uint64
  txNonce :: uint64

type_synonym auction_tx_hash = "address \<Rightarrow> int \<Rightarrow> uint32 \<Rightarrow> uint64 \<Rightarrow> uint64 \<Rightarrow> bytes32"

definition AuctionTx_ID :: "auction_tx_hash \<Rightarrow> AuctionTx \<Rightarrow> bytes32" where
  "AuctionTx_ID hash t = hash (txAddress t) (txAmount t) (txType t) (txTimestamp t) (txNonce t)"

definition NewAuctionTx ::
  "auction_tx_hash \<Rightarrow> address \<Rightarrow> int \<Rightarrow> uint32 \<Rightarrow> uint64 \<Rightarrow> uint64 \<Rightarrow> AuctionTx" where
  "NewAuctionTx hash addr amount txtype time nonce =
     (let t = \<lparr>txTxID = 0, txAddress = addr, txAmount = amount, txType = txtype, txTimestamp = time,
               txNonce = nonce\<rparr>
      in t\<lparr>txTxID := AuctionTx_ID hash t\<rparr>)"

record AuctionCB =
  cbAuctionID :: bytes32
  cbStartHeight :: uint64
  cbStartEpoch :: uint64
  cbEndHeight :: uint64
  cbEndEpoch :: uint64
  cbSequence :: uint64
  cbRlsdMTRG :: int
  cbRsvdMTRG :: int
  cbRsvdPrice :: int
  cbCreateTime :: uint64
  cbRcvdMTR :: int
  cbAuctionTxs :: "AuctionTx list"

type_synonym auction_cb_hash =
  "uint64 \<Rightarrow> uint64 \<Rightarrow> uint64 \<Rightarrow> uint64 \<Rightarrow> int \<Rightarrow> int \<Rightarrow> int \<Rightarrow> uint64 \<Rightarrow> bytes32"

definition AuctionCB_ID :: "auction_cb_hash \<Rightarrow> AuctionCB \<Rightarrow> bytes32" where
  "AuctionCB_ID hash cb =
     hash (cbStartHeight cb) (cbStartEpoch cb) (cbEndHeight cb) (cbEndEpoch cb) (cbRlsdMTRG cb)
       (cbRsvdMTRG cb) (cbRsvdPrice cb) (cbCreateTime cb)"

definition AuctionCB_indexOf :: "bytes32 \<Rightarrow> AuctionTx list \<Rightarrow> int \<times> int" where
  "AuctionCB_indexOf = indexOf txTxID"

definition AuctionCB_Get :: "bytes32 \<Rightarrow> AuctionTx list \<Rightarrow> AuctionTx option" where
  "AuctionCB_Get = list_Get txTxID"

definition AuctionCB_Exist :: "bytes32 \<Rightarrow> AuctionTx list \<Rightarrow> bool" where
  "AuctionCB_Exist = list_Exist txTxID"

definition AuctionCB_Add :: "AuctionTx \<Rightarrow> AuctionTx list \<Rightarrow> AuctionTx list" where
  "AuctionCB_Add = list_Add txTxID"

definition AuctionCB_Remove :: "bytes32 \<Rightarrow> AuctionTx list \<Rightarrow> AuctionTx list" where
  "AuctionCB_Remove = list_Remove txTxID"

definition AuctionCB_Modify :: "bytes32 \<Rightarrow> (AuctionTx \<Rightarrow> AuctionTx) \<Rightarrow> AuctionTx list \<Rightarrow> AuctionTx list" where
  "AuctionCB_Modify = list_Modify txTxID"

definition AuctionTxs_wf :: "AuctionTx list \<Rightarrow> bool" where
  "AuctionTxs_wf = key_sorted txTxID"

interpretation at: keyed_store txTxID AuctionTxs_wf AuctionCB_Get AuctionCB_Add AuctionCB_Remove
  AuctionCB_Modify
  unfolding AuctionTxs_wf_def AuctionCB_Get_def AuctionCB_Add_def AuctionCB_Remove_def
    AuctionCB_Modify_def
  by (rule keyed_store_lists)

definition IsActive :: "AuctionCB \<Rightarrow> bool" where
  "IsActive cb = (\<not> Bytes32_IsZero (cbAuctionID cb))"

text \<open>The error of both functions is a flag: True when the call fails.\<close>

definition AddAuctionTx :: "AuctionTx \<Rightarrow> AuctionCB \<Rightarrow> bool \<times> AuctionCB" where
  "AddAuctionTx t cb =
     (if AuctionCB_Get (txTxID t) (cbAuctionTxs cb) \<noteq> None then (True, cb)
      else (False, cb\<lparr>cbRcvdMTR := cbRcvdMTR cb + txAmount t,
                      cbAuctionTxs := AuctionCB_Add t (cbAuctionTxs cb)\<rparr>))"

definition RemoveAuctionTx :: "AuctionTx \<Rightarrow> AuctionCB \<Rightarrow> bool \<times> AuctionCB" where
  "RemoveAuctionTx t cb =
     (if AuctionCB_Get (txTxID t) (cbAuctionTxs cb) = None then (True, cb)
      else (False, cb\<lparr>cbRcvdMTR := cbRcvdMTR cb - txAmount t,
                      cbAuctionTxs := AuctionCB_Remove (txTxID t) (cbAuctionTxs cb)\<rparr>))"

record DistMtrg =
  dmAddr :: address
  dmAmount :: int

record AuctionSummary =
  asAuctionID :: bytes32
  asStartHeight :: uint64
  asStartEpoch :: uint64
  asEndHeight :: uint64
  asEndEpoch :: uint64
  asSequence :: uint64
  asRlsdMTRG :: int
  asRsvdMTRG :: int
  asRsvdPrice :: int
  asCreateTime :: uint64
  asRcvdMTR :: int
  asActualPrice :: int
  asLeftoverMTRG :: int
  asAuctionTxs :: "AuctionTx list"
  asDistMTRG :: "DistMtrg list"

type_synonym AuctionSummaryList = "AuctionSummary list"

definition AuctionSummaryList_Get :: "bytes32 \<Rightarrow> AuctionSummaryList \<Rightarrow> AuctionSummary option" where
  "AuctionSummaryList_Get ident sl = find (\<lambda>s. asAuctionID s = ident) sl"

definition AuctionSummaryList_Add :: "AuctionSummary \<Rightarrow> AuctionSummaryList \<Rightarrow> AuctionSummaryList" where
  "AuctionSummaryList_Add s sl = sl @ [s]"

definition AuctionSummaryList_Last :: "AuctionSummaryList \<Rightarrow> AuctionSummary option" where
  "AuctionSummaryList_Last sl = (if length sl > 0 then Some (sl ! (length sl - 1)) else None)"

end
