(* ===== verification/World_State.thy ===== *)
theory World_State
  imports Staking_Data Delegate_Stats Ledger_Data
begin

text \<open>
  The account state of \<^verbatim>\<open>state/account.go\<close>, \<^verbatim>\<open>state/state.go\<close>, \<^verbatim>\<open>state/script_state.go\<close> and
  \<^verbatim>\<open>state/se_cache.go\<close>, and the parameter store of \<^verbatim>\<open>builtin/params/params.go\<close>.

  The journaled part (\<open>World\<close>) holds the accounts and the storage slots of the module
  addresses.  A slot holds the decoded list: the RLP codec of the code is a round
  trip except that it refuses negative integers, in which case \<^verbatim>\<open>EncodeStorage\<close>
  records the error in the state and leaves the slot alone.  Empty storage decodes
  to the empty list, the empty control block or 0.

  A \<open>State\<close> adds what reverts do not touch: the open checkpoints, the script-engine
  cache and the first error.  A checkpoint is a copy of the \<open>World\<close>; theory
  \<open>Stacked_Map\<close> shows that the map behind the Go state represents such a stack of
  copies.  Revision numbers start at 1, because the map starts with one level.
\<close>

section \<open>Accounts and slots\<close>

record Account =
  Balance :: int
  Energy :: int
  BoundBalance :: int
  BoundEnergy :: int
  Master :: bytes
  CodeHash :: bytes
  StorageRoot :: bytes

definition emptyAccount :: Account where
  "emptyAccount = \<lparr>Balance = 0, Energy = 0, BoundBalance = 0, BoundEnergy = 0, Master = [],
                   CodeHash = [], StorageRoot = []\<rparr>"

definition IsEmpty :: "Account \<Rightarrow> bool" where
  "IsEmpty a \<longleftrightarrow> Balance a = 0 \<and> Energy a = 0 \<and> BoundBalance a = 0 \<and> BoundEnergy a = 0 \<and>
     length (Master a) = 0 \<and> length (CodeHash a) = 0 \<and> length (StorageRoot a) = 0"

definition CalcEnergy :: "Account \<Rightarrow> int" where
  "CalcEnergy a = Energy a"

text \<open>The supply counters of one meter tracker address (\<^verbatim>\<open>builtin/metertracker/types.go\<close>).\<close>

record TotalAddSub =
  TotalAdd :: int
  TotalSub :: int

record initialSupply =
  isMeterGov :: int
  isMeter :: int

record World =
  accounts :: "address \<Rightarrow> Account"
  codeOf :: "address \<Rightarrow> bytes"
  candidateSlot :: "Candidate list"
  bucketSlot :: "Bucket list"
  stakeholderSlot :: "Stakeholder list"
  delegateSlot :: "Delegate list"
  delegateStatSlot :: "DelegateStat list"
  statisticsEpochSlot :: uint32
  inJailSlot :: "InJail list"
  validatorRewardSlot :: "ValidatorReward list"
  profileSlot :: "Profile list"
  auctionCBSlot :: AuctionCB
  summarySlot :: "AuctionSummary list"
  paramSlot :: "bytes32 \<Rightarrow> int"
  initialSupplySlot :: "address \<Rightarrow> initialSupply"
  meterAddSubSlot :: "address \<Rightarrow> TotalAddSub"
  meterGovAddSubSlot :: "address \<Rightarrow> TotalAddSub"

record State = World +
  checkpoints :: "World list"
  seAuctionCB :: "AuctionCB option"
  seAuctionSummaryList :: "AuctionSummary list option"
  stateErr :: bool

definition emptyAuctionCB :: AuctionCB where
  "emptyAuctionCB =
     \<lparr>cbAuctionID = 0, cbStartHeight = 0, cbStartEpoch = 0, cbEndHeight = 0, cbEndEpoch = 0,
      cbSequence = 0, cbRlsdMTRG = 0, cbRsvdMTRG = 0, cbRsvdPrice = 0, cbCreateTime = 0,
      cbRcvdMTR = 0, cbAuctionTxs = []\<rparr>"

definition emptyState :: State where
  "emptyState =
     \<lparr>accounts = (\<lambda>_. emptyAccount), codeOf = (\<lambda>_. []), candidateSlot = [], bucketSlot = [], stakeholderSlot = [],
      delegateSlot = [], delegateStatSlot = [], statisticsEpochSlot = 0, inJailSlot = [],
      validatorRewardSlot = [], profileSlot = [], auctionCBSlot = emptyAuctionCB, summarySlot = [],
      paramSlot = (\<lambda>_. 0), initialSupplySlot = (\<lambda>_. \<lparr>isMeterGov = 0, isMeter = 0\<rparr>),
      meterAddSubSlot = (\<lambda>_. \<lparr>TotalAdd = 0, TotalSub = 0\<rparr>),
      meterGovAddSubSlot = (\<lambda>_. \<lparr>TotalAdd = 0, TotalSub = 0\<rparr>),
      checkpoints = [], seAuctionCB = None, seAuctionSummaryList = None, stateErr = False\<rparr>"

section \<open>Checkpoints\<close>

definition NewCheckpoint :: "State \<Rightarrow> State \<times> nat" where
  "NewCheckpoint s =
     (s\<lparr>checkpoints := checkpoints s @ [World.truncate s]\<rparr>, length (checkpoints s) + 1)"

definition RevertTo :: "nat \<Rightarrow> State \<Rightarrow> State" where
  "RevertTo revision s =
     (if length (checkpoints s) + 1 > revision then
        World.extend (checkpoints s ! (revision - 1))
          (State.fields (take (revision - 1) (checkpoints s)) (seAuctionCB s) (seAuctionSummaryList s)
             (stateErr s))
      else s)"

section \<open>Balances\<close>

definition updateAccount :: "address \<Rightarrow> Account \<Rightarrow> State \<Rightarrow> State" where
  "updateAccount addr acc s = s\<lparr>accounts := (accounts s)(addr := acc)\<rparr>"

definition GetBalance :: "address \<Rightarrow> State \<Rightarrow> int" where
  "GetBalance addr s = Balance (accounts s addr)"

definition SetBalance :: "address \<Rightarrow> int \<Rightarrow> State \<Rightarrow> State" where
  "SetBalance addr balance s = updateAccount addr ((accounts s addr)\<lparr>Balance := balance\<rparr>) s"

definition SubBalance :: "address \<Rightarrow> int \<Rightarrow> State \<Rightarrow> bool \<times> State" where
  "SubBalance addr amount s =
     (if amount = 0 then (True, s)
      else if GetBalance addr s < amount then (False, s)
      else (True, SetBalance addr (GetBalance addr s - amount) s))"

definition AddBalance :: "address \<Rightarrow> int \<Rightarrow> State \<Rightarrow> State" where
  "AddBalance addr amount s =
     (if amount = 0 then s else SetBalance addr (GetBalance addr s + amount) s)"

definition GetEnergy :: "address \<Rightarrow> State \<Rightarrow> int" where
  "GetEnergy addr s = CalcEnergy (accounts s addr)"

definition SetEnergy :: "address \<Rightarrow> int \<Rightarrow> State \<Rightarrow> State" where
  "SetEnergy addr energy s = updateAccount addr ((accounts s addr)\<lparr>Energy := energy\<rparr>) s"

definition AddEnergy :: "address \<Rightarrow> int \<Rightarrow> State \<Rightarrow> State" where
  "AddEnergy addr amount s =
     (if amount = 0 then s else SetEnergy addr (GetEnergy addr s + amount) s)"

definition SubEnergy :: "address \<Rightarrow> int \<Rightarrow> State \<Rightarrow> bool \<times> State" where
  "SubEnergy addr amount s =
     (if amount = 0 then (True, s)
      else if GetEnergy addr s < amount then (False, s)
      else (True, SetEnergy addr (GetEnergy addr s - amount) s))"

definition GetBoundedBalance :: "address \<Rightarrow> State \<Rightarrow> int" where
  "GetBoundedBalance addr s = BoundBalance (accounts s addr)"

definition SetBoundedBalance :: "address \<Rightarrow> int \<Rightarrow> State \<Rightarrow> State" where
  "SetBoundedBalance addr balance s = updateAccount addr ((accounts s addr)\<lparr>BoundBalance := balance\<rparr>) s"

definition SubBoundedBalance :: "address \<Rightarrow> int \<Rightarrow> State \<Rightarrow> bool \<times> State" where
  "SubBoundedBalance addr amount s =
     (if amount = 0 then (True, s)
      else if GetBoundedBalance addr s < amount then (False, s)
      else (True, SetBoundedBalance addr (GetBoundedBalance addr s - amount) s))"

definition AddBoundedBalance :: "address \<Rightarrow> int \<Rightarrow> State \<Rightarrow> State" where
  "AddBoundedBalance addr amount s =
     (if amount = 0 then s else SetBoundedBalance addr (GetBoundedBalance addr s + amount) s)"

definition GetBoundedEnergy :: "address \<Rightarrow> State \<Rightarrow> int" where
  "GetBoundedEnergy addr s = BoundEnergy (accounts s addr)"

definition SetBoundedEnergy :: "address \<Rightarrow> int \<Rightarrow> State \<Rightarrow> State" where
  "SetBoundedEnergy addr energy s = updateAccount addr ((accounts s addr)\<lparr>BoundEnergy := energy\<rparr>) s"

definition AddBoundedEnergy :: "address \<Rightarrow> int \<Rightarrow> State \<Rightarrow> State" where
  "AddBoundedEnergy addr amount s =
     (if amount = 0 then s else SetBoundedEnergy addr (GetBoundedEnergy addr s + amount) s)"

definition SubBoundedEnergy :: "address \<Rightarrow> int \<Rightarrow> State \<Rightarrow> bool \<times> State" where
  "SubBoundedEnergy addr amount s =
     (if amount = 0 then (True, s)
      else if GetBoundedEnergy addr s < amount then (False, s)
      else (True, SetBoundedEnergy addr (GetBoundedEnergy addr s - amount) s))"

definition Exists :: "address \<Rightarrow> State \<Rightarrow> bool" where
  "Exists addr s = (\<not> IsEmpty (accounts s addr))"

definition Delete :: "address \<Rightarrow> State \<Rightarrow> State" where
  "Delete addr s = updateAccount addr emptyAccount (s\<lparr>codeOf := (codeOf s)(addr := [])\<rparr>)"

text \<open>The Keccak-256 hash of the code is a parameter.\<close>

definition SetCode :: "(bytes \<Rightarrow> bytes) \<Rightarrow> address \<Rightarrow> bytes \<Rightarrow> State \<Rightarrow> State" where
  "SetCode keccak addr code s =
     (let codeHash = (if length code > 0 then keccak code else []);
          s = s\<lparr>codeOf := (codeOf s)(addr := code)\<rparr>
      in updateAccount addr ((accounts s addr)\<lparr>CodeHash := codeHash\<rparr>) s)"

definition GetMaster :: "address \<Rightarrow> State \<Rightarrow> address" where
  "GetMaster addr s = BytesToAddress (Master (accounts s addr))"

section \<open>Script-engine slots\<close>

text \<open>RLP encodes non-negative integers only.\<close>

definition EncodeStorage :: "bool \<Rightarrow> (State \<Rightarrow> State) \<Rightarrow> State \<Rightarrow> State" where
  "EncodeStorage encodable put s = (if encodable then put s else s\<lparr>stateErr := True\<rparr>)"

definition rlp_Candidate :: "Candidate \<Rightarrow> bool" where
  "rlp_Candidate c = (0 \<le> cTotalVotes c)"

definition rlp_Bucket :: "Bucket \<Rightarrow> bool" where
  "rlp_Bucket b = (0 \<le> Value b \<and> 0 \<le> TotalVotes b)"

definition rlp_Stakeholder :: "Stakeholder \<Rightarrow> bool" where
  "rlp_Stakeholder h = (0 \<le> sTotalStake h)"

definition rlp_Delegate :: "Delegate \<Rightarrow> bool" where
  "rlp_Delegate d = (0 \<le> dlgVotingPower d)"

definition rlp_InJail :: "InJail \<Rightarrow> bool" where
  "rlp_InJail j = (0 \<le> jBailAmount j)"

definition rlp_ValidatorReward :: "ValidatorReward \<Rightarrow> bool" where
  "rlp_ValidatorReward r =
     (0 \<le> vrBaseReward r \<and> 0 \<le> vrTotalReward r \<and> (\<forall>i \<in> set (vrRewards r). 0 \<le> riAmount i))"

definition rlp_Profile :: "Profile \<Rightarrow> bool" where
  "rlp_Profile p = (0 \<le> pMeterAmount p \<and> 0 \<le> pMeterGovAmount p)"

definition rlp_AuctionCB :: "AuctionCB \<Rightarrow> bool" where
  "rlp_AuctionCB cb =
     (0 \<le> cbRlsdMTRG cb \<and> 0 \<le> cbRsvdMTRG cb \<and> 0 \<le> cbRsvdPrice cb \<and> 0 \<le> cbRcvdMTR cb \<and>
      (\<forall>t \<in> set (cbAuctionTxs cb). 0 \<le> txAmount t))"

definition rlp_AuctionSummary :: "AuctionSummary \<Rightarrow> bool" where
  "rlp_AuctionSummary a =
     (0 \<le> asRlsdMTRG a \<and> 0 \<le> asRsvdMTRG a \<and> 0 \<le> asRsvdPrice a \<and> 0 \<le> asRcvdMTR a \<and>
      0 \<le> asActualPrice a \<and> 0 \<le> asLeftoverMTRG a \<and>
      (\<forall>t \<in> set (asAuctionTxs a). 0 \<le> txAmount t) \<and> (\<forall>d \<in> set (asDistMTRG a). 0 \<le> dmAmount d))"

definition GetProfileList :: "State \<Rightarrow> ProfileList" where
  "GetProfileList s = NewProfileList (profileSlot s)"

definition SetProfileList :: "ProfileList \<Rightarrow> State \<Rightarrow> State" where
  "SetProfileList l s = EncodeStorage (\<forall>p \<in> set l. rlp_Profile p) (\<lambda>s. s\<lparr>profileSlot := l\<rparr>) s"

text \<open>The first read of the control block fills the cache; later reads and writes stay in it.\<close>

definition GetAuctionCB :: "State \<Rightarrow> AuctionCB \<times> State" where
  "GetAuctionCB s =
     (case seAuctionCB s of
        Some cb \<Rightarrow> (cb, s)
      | None \<Rightarrow> (auctionCBSlot s, s\<lparr>seAuctionCB := Some (auctionCBSlot s)\<rparr>))"

definition SetAuctionCB :: "AuctionCB \<Rightarrow> State \<Rightarrow> State" where
  "SetAuctionCB cb s = s\<lparr>seAuctionCB := Some cb\<rparr>"

definition GetSummaryList :: "State \<Rightarrow> AuctionSummaryList \<times> State" where
  "GetSummaryList s =
     (case seAuctionSummaryList s of
        Some l \<Rightarrow> (l, s)
      | None \<Rightarrow> (summarySlot s, s\<lparr>seAuctionSummaryList := Some (summarySlot s)\<rparr>))"

definition SetSummaryList :: "AuctionSummaryList \<Rightarrow> State \<Rightarrow> State" where
  "SetSummaryList l s = s\<lparr>seAuctionSummaryList := Some l\<rparr>"

definition CommitScriptEngineChanges :: "State \<Rightarrow> State" where
  "CommitScriptEngineChanges s =
     (let s = (case seAuctionCB s of
                 None \<Rightarrow> s
               | Some cb \<Rightarrow> EncodeStorage (rlp_AuctionCB cb) (\<lambda>s. s\<lparr>auctionCBSlot := cb\<rparr>) s)
      in case seAuctionSummaryList s of
           None \<Rightarrow> s
         | Some l \<Rightarrow> EncodeStorage (\<forall>a \<in> set l. rlp_AuctionSummary a) (\<lambda>s. s\<lparr>summarySlot := l\<rparr>) s)"

definition GetCandidateList :: "State \<Rightarrow> CandidateList" where
  "GetCandidateList s = NewCandidateList (candidateSlot s)"

definition SetCandidateList :: "CandidateList \<Rightarrow> State \<Rightarrow> State" where
  "SetCandidateList l s = EncodeStorage (\<forall>c \<in> set l. rlp_Candidate c) (\<lambda>s. s\<lparr>candidateSlot := l\<rparr>) s"

definition GetStakeHolderList :: "State \<Rightarrow> StakeholderList" where
  "GetStakeHolderList s = NewStakeholderList (stakeholderSlot s)"

definition SetStakeHolderList :: "StakeholderList \<Rightarrow> State \<Rightarrow> State" where
  "SetStakeHolderList l s = EncodeStorage (\<forall>h \<in> set l. rlp_Stakeholder h) (\<lambda>s. s\<lparr>stakeholderSlot := l\<rparr>) s"

definition GetBucketList :: "bucket_hash \<Rightarrow> State \<Rightarrow> BucketList" where
  "GetBucketList hash s = NewBucketList hash (bucketSlot s)"

definition SetBucketList :: "BucketList \<Rightarrow> State \<Rightarrow> State" where
  "SetBucketList l s = EncodeStorage (\<forall>b \<in> set l. rlp_Bucket b) (\<lambda>s. s\<lparr>bucketSlot := l\<rparr>) s"

definition GetDelegateList :: "State \<Rightarrow> DelegateList" where
  "GetDelegateList s = delegateSlot s"

definition SetDelegateList :: "DelegateList \<Rightarrow> State \<Rightarrow> State" where
  "SetDelegateList l s = EncodeStorage (\<forall>d \<in> set l. rlp_Delegate d) (\<lambda>s. s\<lparr>delegateSlot := l\<rparr>) s"

definition GetDelegateStatList :: "State \<Rightarrow> DelegateStatList" where
  "GetDelegateStatList s = NewDelegateStatList (delegateStatSlot s)"

definition SetDelegateStatList :: "DelegateStatList \<Rightarrow> State \<Rightarrow> State" where
  "SetDelegateStatList l s = s\<lparr>delegateStatSlot := l\<rparr>"

definition GetStatisticsEpoch :: "State \<Rightarrow> uint32" where
  "GetStatisticsEpoch s = statisticsEpochSlot s"

definition SetStatisticsEpoch :: "uint32 \<Rightarrow> State \<Rightarrow> State" where
  "SetStatisticsEpoch phaseOutEpoch s = s\<lparr>statisticsEpochSlot := phaseOutEpoch\<rparr>"

definition GetInJailList :: "State \<Rightarrow> InJailList" where
  "GetInJailList s = NewInJailList (inJailSlot s)"

definition SetInJailList :: "InJailList \<Rightarrow> State \<Rightarrow> State" where
  "SetInJailList l s = EncodeStorage (\<forall>j \<in> set l. rlp_InJail j) (\<lambda>s. s\<lparr>inJailSlot := l\<rparr>) s"

definition GetValidatorRewardList :: "State \<Rightarrow> ValidatorRewardList" where
  "GetValidatorRewardList s = validatorRewardSlot s"

definition SetValidatorRewardList :: "ValidatorRewardList \<Rightarrow> State \<Rightarrow> State" where
  "SetValidatorRewardList l s =
     EncodeStorage (\<forall>r \<in> set l. rlp_ValidatorReward r) (\<lambda>s. s\<lparr>validatorRewardSlot := l\<rparr>) s"

section \<open>Parameters\<close>

definition Params_Get :: "bytes32 \<Rightarrow> State \<Rightarrow> int" where
  "Params_Get key s = paramSlot s key"

definition Params_Set :: "bytes32 \<Rightarrow> int \<Rightarrow> State \<Rightarrow> State" where
  "Params_Set key v s = EncodeStorage (0 \<le> v) (\<lambda>s. s\<lparr>paramSlot := (paramSlot s)(key := v)\<rparr>) s"

text \<open>\<^verbatim>\<open>big.Int.Bytes\<close> drops the sign; the address keeps the last 20 bytes.\<close>

definition Params_GetAddress :: "bytes32 \<Rightarrow> State \<Rightarrow> address" where
  "Params_GetAddress key s = word_of_int \<bar>Params_Get key s\<bar>"

definition Params_SetAddress :: "bytes32 \<Rightarrow> address \<Rightarrow> State \<Rightarrow> State" where
  "Params_SetAddress key addr s = Params_Set key (uint addr) s"

end
