(* ===== verification/Chain_Config.thy ===== *)
theory Chain_Config
  imports Prelude
begin

text \<open>
  The chain configuration and the fork predicates of \<^verbatim>\<open>meter/chain_param.go\<close>.  The
  global \<^verbatim>\<open>BlockChainConfig\<close> is an argument of the predicates.  The fourteen
  functions \<^verbatim>\<open>IsTeslaFork1\<close> to \<^verbatim>\<open>IsTeslaFork14\<close> have one body up to the two start
  numbers, which are tables here.  The forks are ordered by number.
\<close>

record ChainConfig =
  ChainFlag :: string
  Initialized :: bool

definition IsInitialized :: "ChainConfig \<Rightarrow> bool" where
  "IsInitialized c = Initialized c"

definition IsMainnet :: "ChainConfig \<Rightarrow> bool" where
  "IsMainnet c =
     (if \<not> IsInitialized c then False
      else if ChainFlag c = ''main'' then True
      else if ChainFlag c = ''staging'' then True
      else False)"

definition IsStaging :: "ChainConfig \<Rightarrow> bool" where
  "IsStaging c =
     (if \<not> IsInitialized c then False
      else if ChainFlag c = ''staging'' then True
      else False)"

definition IsTestnet :: "ChainConfig \<Rightarrow> bool" where
  "IsTestnet c =
     (if \<not> IsInitialized c then False
      else if ChainFlag c = ''test'' then True
      else if ChainFlag c = ''warringstakes'' then True
      else False)"

definition InitBlockChainConfig :: "string \<Rightarrow> ChainConfig \<Rightarrow> ChainConfig" where
  "InitBlockChainConfig flag c = c\<lparr>ChainFlag := flag, Initialized := True\<rparr>"

datatype fork =
    TeslaFork1 | TeslaFork2 | TeslaFork3 | TeslaFork4 | TeslaFork5 | TeslaFork6 | TeslaFork7
  | TeslaFork8 | TeslaFork9 | TeslaFork10 | TeslaFork11 | TeslaFork12 | TeslaFork13 | TeslaFork14

primrec MainnetStartNum :: "fork \<Rightarrow> uint32" where
  "MainnetStartNum TeslaFork1 = 9680000"
| "MainnetStartNum TeslaFork2 = 10382000"
| "MainnetStartNum TeslaFork3 = 14875500"
| "MainnetStartNum TeslaFork4 = 15138000"
| "MainnetStartNum TeslaFork5 = 25650000"
| "MainnetStartNum TeslaFork6 = 33023000"
| "MainnetStartNum TeslaFork7 = 33274000"
| "MainnetStartNum TeslaFork8 = 34975000"
| "MainnetStartNum TeslaFork9 = 36427000"
| "MainnetStartNum TeslaFork10 = 40093000"
| "MainnetStartNum TeslaFork11 = 51786600"
| "MainnetStartNum TeslaFork12 = 74769000"
| "MainnetStartNum TeslaFork13 = 74838000"
| "MainnetStartNum TeslaFork14 = 95627400"

primrec TestnetStartNum :: "fork \<Rightarrow> uint32" where
  "TestnetStartNum TeslaFork1 = 0"
| "TestnetStartNum TeslaFork2 = 682000"
| "TestnetStartNum TeslaFork3 = 4220000"
| "TestnetStartNum TeslaFork4 = 4932000"
| "TestnetStartNum TeslaFork5 = 4932000"
| "TestnetStartNum TeslaFork6 = 25836347"
| "TestnetStartNum TeslaFork7 = 25836347"
| "TestnetStartNum TeslaFork8 = 27902500"
| "TestnetStartNum TeslaFork9 = 31556000"
| "TestnetStartNum TeslaFork10 = 36782600"
| "TestnetStartNum TeslaFork11 = 55245500"
| "TestnetStartNum TeslaFork12 = 75867200"
| "TestnetStartNum TeslaFork13 = 99999999"
| "TestnetStartNum TeslaFork14 = 99056000"

definition TeslaMainnetStartNum :: uint32 where "TeslaMainnetStartNum = 9470000"
definition TeslaTestnetStartNum :: uint32 where "TeslaTestnetStartNum = 0"
definition EdisonMainnetStartNum :: uint32 where "EdisonMainnetStartNum = 0"
definition EdisonTestnetStartNum :: uint32 where "EdisonTestnetStartNum = 0"
definition EdisonSysContract_MainnetStartNum :: uint32 where
  "EdisonSysContract_MainnetStartNum = 4900000"
definition EdisonSysContract_TestnetStartNum :: uint32 where
  "EdisonSysContract_TestnetStartNum = 100000"

definition IsEdison :: "ChainConfig \<Rightarrow> uint32 \<Rightarrow> bool" where
  "IsEdison c blockNum =
     (IsMainnet c \<and> blockNum \<ge> EdisonMainnetStartNum \<and> blockNum < TeslaMainnetStartNum \<or>
      IsTestnet c \<and> blockNum \<ge> EdisonTestnetStartNum \<and> blockNum < TeslaTestnetStartNum)"

definition IsSysContractEnabled :: "ChainConfig \<Rightarrow> uint32 \<Rightarrow> bool" where
  "IsSysContractEnabled c blockNum =
     (IsMainnet c \<and> blockNum \<ge> EdisonSysContract_MainnetStartNum \<or>
      IsTestnet c \<and> blockNum \<ge> EdisonSysContract_TestnetStartNum)"

definition IsTesla :: "ChainConfig \<Rightarrow> uint32 \<Rightarrow> bool" where
  "IsTesla c blockNum =
     (IsMainnet c \<and> blockNum > TeslaMainnetStartNum \<or>
      IsTestnet c \<and> blockNum \<ge> TeslaTestnetStartNum)"

definition IsTeslaFork :: "fork \<Rightarrow> ChainConfig \<Rightarrow> uint32 \<Rightarrow> bool" where
  "IsTeslaFork f c blockNum =
     (IsMainnet c \<and> blockNum > MainnetStartNum f \<or> IsTestnet c \<and> blockNum > TestnetStartNum f)"

text \<open>Forks are ordered by their number.\<close>

primrec fork_number :: "fork \<Rightarrow> nat" where
  "fork_number TeslaFork1 = 1"
| "fork_number TeslaFork2 = 2"
| "fork_number TeslaFork3 = 3"
| "fork_number TeslaFork4 = 4"
| "fork_number TeslaFork5 = 5"
| "fork_number TeslaFork6 = 6"
| "fork_number TeslaFork7 = 7"
| "fork_number TeslaFork8 = 8"
| "fork_number TeslaFork9 = 9"
| "fork_number TeslaFork10 = 10"
| "fork_number TeslaFork11 = 11"
| "fork_number TeslaFork12 = 12"
| "fork_number TeslaFork13 = 13"
| "fork_number TeslaFork14 = 14"

lemma fork_number_inject: "fork_number f = fork_number g \<Longrightarrow> f = g"
  by (cases f; cases g; simp)

instantiation fork :: linorder
begin

definition less_eq_fork :: "fork \<Rightarrow> fork \<Rightarrow> bool" where
  "less_eq_fork f g = (fork_number f \<le> fork_number g)"

definition less_fork :: "fork \<Rightarrow> fork \<Rightarrow> bool" where
  "less_fork f g = (fork_number f < fork_number g)"

instance
  by standard (auto simp: less_eq_fork_def less_fork_def intro: fork_number_inject)

end

lemma mainnet_not_testnet: "IsMainnet c \<Longrightarrow> \<not> IsTestnet c"
  by (auto simp: IsMainnet_def IsTestnet_def split: if_splits)

lemma MainnetStartNum_mono: "f \<le> g \<Longrightarrow> MainnetStartNum f \<le> MainnetStartNum g"
  by (cases f; cases g; simp add: less_eq_fork_def)

lemma TestnetStartNum_mono:
  "f \<le> g \<Longrightarrow> g < TeslaFork14 \<Longrightarrow> TestnetStartNum f \<le> TestnetStartNum g"
  by (cases f; cases g; simp add: less_eq_fork_def less_fork_def)

lemma IsTeslaFork_earlier:
  "IsTeslaFork g c n \<Longrightarrow> f \<le> g \<Longrightarrow> g < TeslaFork14 \<Longrightarrow> IsTeslaFork f c n"
  using MainnetStartNum_mono [of f g] TestnetStartNum_mono [of f g]
  unfolding IsTeslaFork_def by (auto intro: le_less_trans)

text \<open>
  C31.  On mainnet the forks form a chain: at a block where a fork is active, every
  fork with a smaller number is active.  On testnet this holds up to fork 13, whose
  start block lies above that of fork 14.
\<close>

theorem IsTeslaFork_antimono:
  assumes "f \<le> g" "IsTeslaFork g c n" "IsMainnet c \<or> g < TeslaFork14"
  shows "IsTeslaFork f c n"
  using assms MainnetStartNum_mono [of f g] TestnetStartNum_mono [of f g] mainnet_not_testnet [of c]
  unfolding IsTeslaFork_def by (auto intro: le_less_trans)

theorem IsTeslaFork_antimono_witness:
  "IsTeslaFork TeslaFork5 \<lparr>ChainFlag = ''main'', Initialized = True\<rparr> 36427001"
  by (rule IsTeslaFork_antimono [of TeslaFork5 TeslaFork9])
    (simp_all add: IsTeslaFork_def IsMainnet_def IsInitialized_def less_eq_fork_def)

text \<open>
  C32.  On testnet fork 14 starts before fork 13, so there are blocks (such as
  99056001) at which fork 14 is active and fork 13 is not.
\<close>

theorem testnet_fork14_without_fork13:
  "IsTestnet c \<Longrightarrow> IsTeslaFork TeslaFork14 c n \<and> \<not> IsTeslaFork TeslaFork13 c n \<longleftrightarrow>
     99056000 < n \<and> n \<le> 99999999"
  using mainnet_not_testnet [of c] by (auto simp: IsTeslaFork_def)

theorem testnet_fork14_without_fork13_witness:
  "IsTeslaFork TeslaFork14 \<lparr>ChainFlag = ''test'', Initialized = True\<rparr> 99056001 \<and>
   \<not> IsTeslaFork TeslaFork13 \<lparr>ChainFlag = ''test'', Initialized = True\<rparr> 99056001"
  using testnet_fork14_without_fork13 [of "\<lparr>ChainFlag = ''test'', Initialized = True\<rparr>" 99056001]
  by (simp add: IsTestnet_def IsInitialized_def)

end
