(* ===== verification/Script_Env.thy ===== *)
theory Script_Env
  imports World_State Chain_Config
begin

text \<open>
  The environment of a script-engine call: \<^verbatim>\<open>script/types/script_env*.go\<close>, the contexts of
  \<^verbatim>\<open>xenv/env.go\<close> (the fields the modelled code reads), and the meter tracker of
  \<^verbatim>\<open>builtin/metertracker/meter_tracker.go\<close> (supply counters, mint and burn).

  An event is a constructor with the arguments that the code passes to the ABI
  encoder.  An error value is a constructor named after the variable or the text of
  the Go error; the return data of a handler is the text of its error.  The global
  chain configuration is a field of the environment.  \<open>externals\<close> collects the
  third-party functions the modelled code calls: hashes, base64 and public key
  decoding, the RLP decoders of call payloads and the floating point emission curve.
\<close>

section \<open>Errors and events\<close>

datatype go_error =
    ErrInvalidPubkey | ErrInvalidIpAddress | ErrInvalidPort | ErrInvalidToken | ErrInvalidParams
  | ErrBucketNotFound | ErrBucketOwnerMismatch | ErrBucketAmountMismatch | ErrBucketTokenMismatch
  | ErrBucketInUse | ErrUpdateForeverBucket | ErrBucketAlreadyUnbounded
  | ErrLessThanMinimalBalance | ErrLessThanMinBoundBalance | ErrNotEnoughMTR | ErrNotEnoughMTRG
  | ErrCandidateNotListed | ErrCandidateInJail | ErrPubKeyListed | ErrIPListed | ErrNameListed
  | ErrCandidateListed | ErrUpdateTooFrequent | ErrCandidateListedWithDiffInfo
  | ErrCandidateNotChanged | ErrCandidateNotEnoughSelfVotes
  | ErrNotStart | ErrNotStop | ErrLessThanBidThreshold | ErrInvalidNonce
  | ErrZeroAmount | ErrEmptyCandidate | ErrNotEnoughBalance | ErrNotEnoughBoundedBalance
  | ErrSelfVoteNotAllowed | ErrCandidateJailed | ErrInvalidAutobid | ErrBucketNotListed
  | ErrBucketNotOwned | ErrNoUpdateAllowedOnForeverBucket | ErrBucketNotEnoughValue
  | ErrBucketNotMergableToItself | ErrLessThanMinCandidateRequirement | ErrInvalidCommission
  | ErrNotEnoughVotes | ErrInvalidIP | ErrPubkeyListed
  | ErrText string

datatype script_event =
    Bound address int uint8
  | Unbound address int uint8
  | NativeBucketOpen address bytes32 int uint8
  | NativeBucketClose address bytes32
  | NativeBucketDeposit address bytes32 int uint8
  | NativeBucketWithdraw address bytes32 int uint8 address bytes32
  | NativeBucketUpdateCandidate address bytes32 address address
  | NativeBucketTransferFund address bytes32 int uint8 bytes32
  | NativeBucketMerge address bytes32 bytes32
  | NativeAuctionStart bytes32 uint64 uint64 int int
  | NativeAuctionEnd bytes32 int int int

record Transfer =
  trSender :: address
  trRecipient :: address
  trAmount :: int
  trToken :: uint8

section \<open>The environment\<close>

record TransactionContext =
  txcOrigin :: address
  txcNonce :: uint64
  txcCounter :: uint64

record ScriptEnv =
  envState :: State
  envConfig :: ChainConfig
  envNumber :: uint32
  envTime :: uint64
  envTxCtx :: TransactionContext
  envClauseIndex :: uint32
  envReturnData :: "go_error option"
  envTransfers :: "Transfer list"
  envEvents :: "script_event list"

record externals =
  xBucketHash :: bucket_hash
  xAuctionTxHash :: auction_tx_hash
  xAuctionCBHash :: auction_cb_hash
  xBase64Decode :: "bytes \<Rightarrow> bytes option"
  xUnmarshalPubkey :: "bytes \<Rightarrow> bool"
  xDecodeRewardInfos :: "bytes \<Rightarrow> RewardInfo list option"
  xDecodeRewardInfoV2s :: "bytes \<Rightarrow> RewardInfoV2 list option"
  xDecodeInfraction :: "bytes \<Rightarrow> Infraction option"
  xDailyReward :: "int \<Rightarrow> int"

definition StakingModuleAddr :: address where
  "StakingModuleAddr = BytesToAddress (ascii ''staking-module-address'')"

definition AuctionModuleAddr :: address where
  "AuctionModuleAddr = BytesToAddress (ascii ''auction-account-address'')"

definition AccountLockModuleAddr :: address where
  "AccountLockModuleAddr = BytesToAddress (ascii ''account-lock-address'')"

definition ValidatorBenefitAddr :: address where
  "ValidatorBenefitAddr = BytesToAddress (ascii ''validator-benefit-address'')"

definition AuctionLeftOverAccount :: address where
  "AuctionLeftOverAccount = 0xe852f654dfaee0e2b60842657379a56e1cafa292"

definition KeyExecutorAddress :: bytes32 where
  "KeyExecutorAddress = BytesToBytes32 (ascii ''executor'')"

definition KeyValidatorBaseReward :: bytes32 where
  "KeyValidatorBaseReward = BytesToBytes32 (ascii ''validator-base-reward'')"

definition KeyMinRequiredByDelegate :: bytes32 where
  "KeyMinRequiredByDelegate = BytesToBytes32 (ascii ''minimium-require-by-delegate'')"

definition KeyValidatorBenefitRatio :: bytes32 where
  "KeyValidatorBenefitRatio = BytesToBytes32 (ascii ''validator-benefit-ratio'')"

definition KeyTesla_Fork12_Timestamp :: bytes32 where
  "KeyTesla_Fork12_Timestamp = BytesToBytes32 (ascii ''Tesla_Fork12_Timestamp'')"

definition ClauseGas :: uint64 where "ClauseGas = 21000 - 5000"

definition leftOver :: "uint64 \<Rightarrow> uint64" where
  "leftOver gas = (if gas < ClauseGas then 0 else gas - ClauseGas)"

definition txcInc :: "TransactionContext \<Rightarrow> TransactionContext" where
  "txcInc ctx = ctx\<lparr>txcCounter := txcCounter ctx + 1\<rparr>"

definition envInc :: "ScriptEnv \<Rightarrow> ScriptEnv" where
  "envInc e = e\<lparr>envTxCtx := txcInc (envTxCtx e)\<rparr>"

definition onState :: "(State \<Rightarrow> State) \<Rightarrow> ScriptEnv \<Rightarrow> ScriptEnv" where
  "onState f e = e\<lparr>envState := f (envState e)\<rparr>"

definition isFork :: "fork \<Rightarrow> ScriptEnv \<Rightarrow> bool" where
  "isFork f e = IsTeslaFork f (envConfig e) (envNumber e)"

definition SetReturnData :: "go_error option \<Rightarrow> ScriptEnv \<Rightarrow> ScriptEnv" where
  "SetReturnData d e = e\<lparr>envReturnData := d\<rparr>"

definition AddTransfer :: "address \<Rightarrow> address \<Rightarrow> int \<Rightarrow> uint8 \<Rightarrow> ScriptEnv \<Rightarrow> ScriptEnv" where
  "AddTransfer sender recipient amount token e =
     e\<lparr>envTransfers := envTransfers e @
        [\<lparr>trSender = sender, trRecipient = recipient, trAmount = amount, trToken = token\<rparr>]\<rparr>"

definition AddEvent :: "script_event \<Rightarrow> ScriptEnv \<Rightarrow> ScriptEnv" where
  "AddEvent ev e = e\<lparr>envEvents := envEvents e @ [ev]\<rparr>"

section \<open>Bound and unbound balances\<close>

definition BoundAccountMeter :: "address \<Rightarrow> int \<Rightarrow> ScriptEnv \<Rightarrow> go_error option \<times> ScriptEnv" where
  "BoundAccountMeter addr amount e =
     (if amount = 0 then (None, e)
      else
        let meterBalance = GetEnergy addr (envState e);
            meterBoundedBalance = GetBoundedEnergy addr (envState e)
        in if meterBalance < amount then (Some (ErrText ''not enough meter balance''), e)
           else (None, AddEvent (Bound addr amount MTR)
                  (onState (SetBoundedEnergy addr (meterBoundedBalance + amount))
                    (onState (SetEnergy addr (meterBalance - amount)) e))))"

definition UnboundAccountMeter :: "address \<Rightarrow> int \<Rightarrow> ScriptEnv \<Rightarrow> go_error option \<times> ScriptEnv" where
  "UnboundAccountMeter addr amount e =
     (if amount = 0 then (None, e)
      else
        let meterBalance = GetEnergy addr (envState e);
            meterBoundedBalance = GetBoundedEnergy addr (envState e)
        in if meterBoundedBalance < amount
           then (Some (ErrText ''not enough bounded meter balance''), e)
           else (None, AddEvent (Unbound addr amount MTR)
                  (onState (SetBoundedEnergy addr (meterBoundedBalance - amount))
                    (onState (SetEnergy addr (meterBalance + amount)) e))))"

definition BoundAccountMeterGov :: "address \<Rightarrow> int \<Rightarrow> ScriptEnv \<Rightarrow> go_error option \<times> ScriptEnv" where
  "BoundAccountMeterGov addr amount e =
     (if amount = 0 then (None, e)
      else
        let meterGov = GetBalance addr (envState e);
            meterGovBounded = GetBoundedBalance addr (envState e)
        in if meterGov < amount then (Some (ErrText ''not enough meter-gov balance''), e)
           else (None, AddEvent (Bound addr amount MTRG)
                  (onState (SetBoundedBalance addr (meterGovBounded + amount))
                    (onState (SetBalance addr (meterGov - amount)) e))))"

definition UnboundAccountMeterGov :: "address \<Rightarrow> int \<Rightarrow> ScriptEnv \<Rightarrow> go_error option \<times> ScriptEnv" where
  "UnboundAccountMeterGov addr amount e =
     (if amount = 0 then (None, e)
      else
        let meterGov = GetBalance addr (envState e);
            meterGovBounded = GetBoundedBalance addr (envState e)
        in if meterGovBounded < amount
           then (Some (ErrText ''not enough bounded meter-gov balance''), e)
           else (None, AddEvent (Unbound addr amount MTRG)
                  (onState (SetBoundedBalance addr (meterGovBounded - amount))
                    (onState (SetBalance addr (meterGov + amount)) e))))"

section \<open>Transfers between accounts\<close>

definition CollectBailMeterGov :: "address \<Rightarrow> int \<Rightarrow> ScriptEnv \<Rightarrow> go_error option \<times> ScriptEnv" where
  "CollectBailMeterGov addr amount e =
     (if amount = 0 then (None, e)
      else if GetBalance addr (envState e) < amount
      then (Some (ErrText ''not enough meter-gov balance''), e)
      else (None, AddTransfer addr StakingModuleAddr amount MTRG
             (onState (AddBalance StakingModuleAddr amount)
               (onState (\<lambda>s. snd (SubBalance addr amount s)) e))))"

text \<open>The four functions that move MTR have one shape: check, subtract, add, record.\<close>

definition transferMTR :: "go_error \<Rightarrow> address \<Rightarrow> address \<Rightarrow> int \<Rightarrow> ScriptEnv \<Rightarrow> go_error option \<times> ScriptEnv" where
  "transferMTR err from to amount e =
     (if amount = 0 then (None, e)
      else if GetEnergy from (envState e) < amount then (Some err, e)
      else (None, AddTransfer from to amount MTR
             (onState (AddEnergy to amount) (onState (\<lambda>s. snd (SubEnergy from amount s)) e))))"

definition TransferValidatorReward :: "int \<Rightarrow> address \<Rightarrow> ScriptEnv \<Rightarrow> go_error option \<times> ScriptEnv" where
  "TransferValidatorReward amount addr =
     transferMTR (ErrText ''not enough meter in validator benefit addr'') ValidatorBenefitAddr addr amount"

text \<open>The loop ignores the error of every single transfer and counts the amount all the same.\<close>

definition DistValidatorRewards :: "RewardInfo list \<Rightarrow> ScriptEnv \<Rightarrow> int \<times> ScriptEnv" where
  "DistValidatorRewards rinfo e =
     fold (\<lambda>r (acc, e). (acc + riAmount r, snd (TransferValidatorReward (riAmount r) (riAddress r) e)))
       rinfo (0, e)"

definition TransferAutobidMTRToAuction :: "address \<Rightarrow> int \<Rightarrow> ScriptEnv \<Rightarrow> go_error option \<times> ScriptEnv" where
  "TransferAutobidMTRToAuction addr amount =
     transferMTR (ErrText ''not enough meter balance in validator benefit address'')
       ValidatorBenefitAddr AuctionModuleAddr amount"

definition TransferMTRToAuction :: "address \<Rightarrow> int \<Rightarrow> ScriptEnv \<Rightarrow> go_error option \<times> ScriptEnv" where
  "TransferMTRToAuction addr amount =
     transferMTR (ErrText ''not enough meter'') addr AuctionModuleAddr amount"

definition TransferMTRToValidatorBenefit :: "int \<Rightarrow> ScriptEnv \<Rightarrow> go_error option \<times> ScriptEnv" where
  "TransferMTRToValidatorBenefit amount =
     transferMTR (ErrText ''not enough meter'') AuctionModuleAddr ValidatorBenefitAddr amount"

end
