(* ===== verification/Meter_Supply.thy ===== *)
theory Meter_Supply
  imports Script_Env
begin

text \<open>
  The meter tracker of \<^verbatim>\<open>builtin/metertracker/meter_tracker.go\<close> (balances and supply
  counters of MTR and MTRG), the mint and burn entry points of
  \<^verbatim>\<open>runtime/statedb/statedb.go\<close>, and \<^verbatim>\<open>RestrictByAccountLock\<close> of
  \<^verbatim>\<open>script/accountlock/handler_govern.go\<close>.

  A tracker is bound to the address whose storage holds its counters (\<open>self\<close>).  The
  current epoch comes from the best block of the chain; it is an argument, and
  \<open>None\<close> stands for a node whose account-lock module is not started.
\<close>

section \<open>Supply counters\<close>

definition MeterTrackerAddress :: address where
  "MeterTrackerAddress = BytesToAddress (ascii ''MeterNative'')"

definition GetInitialSupply :: "address \<Rightarrow> State \<Rightarrow> initialSupply" where
  "GetInitialSupply self s = initialSupplySlot s self"

definition SetInitialSupply :: "address \<Rightarrow> int \<Rightarrow> int \<Rightarrow> State \<Rightarrow> State" where
  "SetInitialSupply self meterGov mtr s =
     EncodeStorage (0 \<le> meterGov \<and> 0 \<le> mtr)
       (\<lambda>s. s\<lparr>initialSupplySlot := (initialSupplySlot s)(self := \<lparr>isMeterGov = meterGov, isMeter = mtr\<rparr>)\<rparr>) s"

definition rlp_TotalAddSub :: "TotalAddSub \<Rightarrow> bool" where
  "rlp_TotalAddSub t = (0 \<le> TotalAdd t \<and> 0 \<le> TotalSub t)"

definition GetMeterGovTotalAddSub :: "address \<Rightarrow> State \<Rightarrow> TotalAddSub" where
  "GetMeterGovTotalAddSub self s = meterGovAddSubSlot s self"

definition SetMeterGovTotalAddSub :: "address \<Rightarrow> TotalAddSub \<Rightarrow> State \<Rightarrow> State" where
  "SetMeterGovTotalAddSub self tot s =
     EncodeStorage (rlp_TotalAddSub tot)
       (\<lambda>s. s\<lparr>meterGovAddSubSlot := (meterGovAddSubSlot s)(self := tot)\<rparr>) s"

definition GetMeterTotalAddSub :: "address \<Rightarrow> State \<Rightarrow> TotalAddSub" where
  "GetMeterTotalAddSub self s = meterAddSubSlot s self"

definition SetMeterTotalAddSub :: "address \<Rightarrow> TotalAddSub \<Rightarrow> State \<Rightarrow> State" where
  "SetMeterTotalAddSub self tot s =
     EncodeStorage (rlp_TotalAddSub tot)
       (\<lambda>s. s\<lparr>meterAddSubSlot := (meterAddSubSlot s)(self := tot)\<rparr>) s"

definition GetMeterGovTotalSupply :: "address \<Rightarrow> State \<Rightarrow> int" where
  "GetMeterGovTotalSupply self s =
     (let tot = GetMeterGovTotalAddSub self s in
      isMeterGov (GetInitialSupply self s) + (TotalAdd tot - TotalSub tot))"

definition GetMeterTotalSupply :: "address \<Rightarrow> State \<Rightarrow> int" where
  "GetMeterTotalSupply self s =
     (let tot = GetMeterTotalAddSub self s in
      isMeter (GetInitialSupply self s) + (TotalAdd tot - TotalSub tot))"

definition GetMeterGovTotalBurned :: "address \<Rightarrow> State \<Rightarrow> int" where
  "GetMeterGovTotalBurned self s = TotalSub (GetMeterGovTotalAddSub self s)"

definition GetMeterTotalBurned :: "address \<Rightarrow> State \<Rightarrow> int" where
  "GetMeterTotalBurned self s = TotalSub (GetMeterTotalAddSub self s)"

section \<open>Mint and burn\<close>

definition MintMeter :: "address \<Rightarrow> address \<Rightarrow> int \<Rightarrow> State \<Rightarrow> State" where
  "MintMeter self addr amount s =
     (if amount = 0 then s
      else
        let mtr = GetEnergy addr s;
            tot = GetMeterTotalAddSub self s;
            s = SetMeterTotalAddSub self (tot\<lparr>TotalAdd := TotalAdd tot + amount\<rparr>) s
        in SetEnergy addr (mtr + amount) s)"

definition BurnMeter :: "address \<Rightarrow> address \<Rightarrow> int \<Rightarrow> State \<Rightarrow> bool \<times> State" where
  "BurnMeter self addr amount s =
     (if amount = 0 then (False, s)
      else if GetEnergy addr s < amount then (False, s)
      else
        let mtr = GetEnergy addr s;
            tot = GetMeterTotalAddSub self s;
            s = SetMeterTotalAddSub self (tot\<lparr>TotalSub := TotalSub tot + amount\<rparr>) s
        in (True, SetEnergy addr (mtr - amount) s))"

definition MintMeterGov :: "address \<Rightarrow> address \<Rightarrow> int \<Rightarrow> State \<Rightarrow> State" where
  "MintMeterGov self addr amount s =
     (if amount = 0 then s
      else
        let gov = GetBalance addr s;
            tot = GetMeterGovTotalAddSub self s;
            s = SetMeterGovTotalAddSub self (tot\<lparr>TotalAdd := TotalAdd tot + amount\<rparr>) s
        in SetBalance addr (gov + amount) s)"

definition BurnMeterGov :: "address \<Rightarrow> address \<Rightarrow> int \<Rightarrow> State \<Rightarrow> State" where
  "BurnMeterGov self addr amount s =
     (if amount = 0 then s
      else if GetBalance addr s < amount then s
      else
        let gov = GetBalance addr s;
            tot = GetMeterGovTotalAddSub self s;
            s = SetMeterGovTotalAddSub self (tot\<lparr>TotalSub := TotalSub tot + amount\<rparr>) s
        in SetBalance addr (gov - amount) s)"

text \<open>Before fork 8 the counters of a mint were kept at the receiving account.\<close>

definition MintBalance :: "address \<Rightarrow> int \<Rightarrow> State \<Rightarrow> State" where
  "MintBalance addr amount s = MintMeterGov addr addr amount s"

definition MintBalanceAfterFork8 :: "address \<Rightarrow> int \<Rightarrow> State \<Rightarrow> State" where
  "MintBalanceAfterFork8 addr amount s = MintMeterGov MeterTrackerAddress addr amount s"

definition BurnBalance :: "address \<Rightarrow> int \<Rightarrow> State \<Rightarrow> State" where
  "BurnBalance addr amount s = BurnMeterGov MeterTrackerAddress addr amount s"

definition MintEnergy :: "address \<Rightarrow> int \<Rightarrow> State \<Rightarrow> State" where
  "MintEnergy addr amount s = MintMeter addr addr amount s"

definition MintEnergyAfterFork8 :: "address \<Rightarrow> int \<Rightarrow> State \<Rightarrow> State" where
  "MintEnergyAfterFork8 addr amount s = MintMeter MeterTrackerAddress addr amount s"

definition BurnEnergy :: "address \<Rightarrow> int \<Rightarrow> State \<Rightarrow> State" where
  "BurnEnergy addr amount s = snd (BurnMeter MeterTrackerAddress addr amount s)"

section \<open>Balances under an account lock\<close>

definition RestrictByAccountLock :: "uint32 option \<Rightarrow> address \<Rightarrow> State \<Rightarrow> (int \<times> int) option" where
  "RestrictByAccountLock curEpoch addr s =
     (case curEpoch of
        None \<Rightarrow> None
      | Some epoch \<Rightarrow>
          (case ProfileList_Get addr (GetProfileList s) of
             None \<Rightarrow> None
           | Some p \<Rightarrow>
               if epoch \<ge> pReleaseEpoch p then None else Some (pMeterAmount p, pMeterGovAmount p)))"

definition AddMeter :: "address \<Rightarrow> int \<Rightarrow> State \<Rightarrow> State" where
  "AddMeter addr amount s = (if amount = 0 then s else AddEnergy addr amount s)"

definition SubMeter :: "address \<Rightarrow> int \<Rightarrow> State \<Rightarrow> bool \<times> State" where
  "SubMeter addr amount s = (if amount = 0 then (True, s) else SubEnergy addr amount s)"

definition AddMeterGov :: "address \<Rightarrow> int \<Rightarrow> State \<Rightarrow> State" where
  "AddMeterGov addr amount s = (if amount = 0 then s else AddBalance addr amount s)"

definition Tesla1_0_SubMeterGov :: "address \<Rightarrow> int \<Rightarrow> State \<Rightarrow> bool \<times> State" where
  "Tesla1_0_SubMeterGov addr amount s = (if amount = 0 then (True, s) else SubBalance addr amount s)"

definition SubMeterGov :: "uint32 option \<Rightarrow> address \<Rightarrow> int \<Rightarrow> State \<Rightarrow> bool \<times> State" where
  "SubMeterGov curEpoch addr amount s =
     (if amount = 0 then (True, s)
      else
        (case RestrictByAccountLock curEpoch addr s of
           None \<Rightarrow> SubBalance addr amount s
         | Some (_, lockMtrg) \<Rightarrow>
             if GetBalance addr s < amount then (False, s)
             else if GetBalance addr s + GetBoundedBalance addr s < lockMtrg + amount then (False, s)
             else SubBalance addr amount s))"

section \<open>Properties\<close>

text \<open>All MTRG and all MTR in the accounts, free and bounded.\<close>

definition accMTRG :: "(address \<Rightarrow> Account) \<Rightarrow> int" where
  "accMTRG f = (\<Sum>a\<in>UNIV. Balance (f a) + BoundBalance (f a))"

definition accMTR :: "(address \<Rightarrow> Account) \<Rightarrow> int" where
  "accMTR f = (\<Sum>a\<in>UNIV. Energy (f a) + BoundEnergy (f a))"

abbreviation sumMTRG :: "State \<Rightarrow> int" where
  "sumMTRG s \<equiv> accMTRG (accounts s)"

abbreviation sumMTR :: "State \<Rightarrow> int" where
  "sumMTR s \<equiv> accMTR (accounts s)"

lemmas account_defs =
  GetBalance_def SetBalance_def GetEnergy_def SetEnergy_def CalcEnergy_def GetBoundedBalance_def
  SetBoundedBalance_def GetBoundedEnergy_def SetBoundedEnergy_def updateAccount_def
  AddBalance_def SubBalance_def AddEnergy_def SubEnergy_def AddBoundedBalance_def
  SubBoundedBalance_def AddBoundedEnergy_def SubBoundedEnergy_def

lemma accMTRG_upd [accounting]:
  "accMTRG (f(a := v)) = accMTRG f + (Balance v + BoundBalance v - (Balance (f a) + BoundBalance (f a)))"
  using sum_UNIV_fun_upd [of "\<lambda>v. Balance v + BoundBalance v" f a v] by (simp add: accMTRG_def)

lemma accMTR_upd [accounting]:
  "accMTR (f(a := v)) = accMTR f + (Energy v + BoundEnergy v - (Energy (f a) + BoundEnergy (f a)))"
  using sum_UNIV_fun_upd [of "\<lambda>v. Energy v + BoundEnergy v" f a v] by (simp add: accMTR_def)

lemma EncodeStorage_accounts [simp]:
  "(\<And>s. accounts (f s) = accounts s) \<Longrightarrow> accounts (EncodeStorage ok f s) = accounts s"
  by (simp add: EncodeStorage_def)

definition supply_tracked :: "address \<Rightarrow> State \<Rightarrow> bool" where
  "supply_tracked self s \<longleftrightarrow>
     GetMeterGovTotalSupply self s = sumMTRG s \<and> GetMeterTotalSupply self s = sumMTR s \<and>
     rlp_TotalAddSub (GetMeterGovTotalAddSub self s) \<and> rlp_TotalAddSub (GetMeterTotalAddSub self s)"

lemmas supply_defs =
  supply_tracked_def GetMeterGovTotalSupply_def GetMeterTotalSupply_def GetMeterGovTotalAddSub_def
  GetMeterTotalAddSub_def GetInitialSupply_def SetMeterGovTotalAddSub_def SetMeterTotalAddSub_def
  EncodeStorage_def rlp_TotalAddSub_def

text \<open>
  C19.  Supply tracking: if the supply counter of a tracker agrees with what the
  accounts hold, it still agrees after minting and burning through that tracker,
  for both tokens; burning more than the balance changes nothing.
\<close>

theorem supply_tracked_mint_burn:
  assumes "supply_tracked self s" "0 \<le> amount"
  shows "supply_tracked self (MintMeterGov self addr amount s) \<and>
    supply_tracked self (MintMeter self addr amount s) \<and>
    supply_tracked self (BurnMeterGov self addr amount s) \<and>
    supply_tracked self (snd (BurnMeter self addr amount s))"
proof (intro conjI)
  show "supply_tracked self (MintMeterGov self addr amount s)"
    using assms by (auto simp: MintMeterGov_def supply_defs account_defs Let_def accounting)
  show "supply_tracked self (MintMeter self addr amount s)"
    using assms by (auto simp: MintMeter_def supply_defs account_defs Let_def accounting)
  show "supply_tracked self (BurnMeterGov self addr amount s)"
    using assms by (auto simp: BurnMeterGov_def supply_defs account_defs Let_def accounting)
  show "supply_tracked self (snd (BurnMeter self addr amount s))"
    using assms by (auto simp: BurnMeter_def supply_defs account_defs Let_def accounting)
qed

lemma accMTRG_empty [simp]: "accMTRG (\<lambda>_. emptyAccount) = 0"
  and accMTR_empty [simp]: "accMTR (\<lambda>_. emptyAccount) = 0"
  by (simp_all add: accMTRG_def accMTR_def emptyAccount_def)

lemma supply_tracked_emptyState: "supply_tracked self emptyState"
  by (simp add: supply_defs emptyState_def)

theorem supply_tracked_mint_burn_witness:
  "supply_tracked 9 (MintMeterGov 9 4 1000 emptyState)"
  using supply_tracked_mint_burn [OF supply_tracked_emptyState, of 1000 9 4] by simp

text \<open>
  C20.  An account under a lock keeps its locked MTRG: a successful deduction leaves
  free plus bounded balance at least as large as the locked amount, and every
  deduction takes exactly the amount or nothing.
\<close>

theorem SubMeterGov_respects_lock:
  assumes "SubMeterGov epoch addr amount s = (ok, s')" "0 < amount"
  shows "(ok \<longrightarrow> GetBalance addr s' = GetBalance addr s - amount \<and> 0 \<le> GetBalance addr s' \<and>
      (\<forall>mtr mtrg. RestrictByAccountLock epoch addr s = Some (mtr, mtrg) \<longrightarrow>
        mtrg \<le> GetBalance addr s' + GetBoundedBalance addr s')) \<and> (\<not> ok \<longrightarrow> s' = s)"
  using assms by (auto simp: SubMeterGov_def account_defs split: option.splits if_splits)

definition locked_state :: State where
  "locked_state = emptyState\<lparr>accounts := (\<lambda>_. emptyAccount)(5 := emptyAccount\<lparr>Balance := 100, BoundBalance := 50\<rparr>),
     profileSlot := [NewProfile 5 [] 0 10 0 80]\<rparr>"

theorem SubMeterGov_respects_lock_witness:
  "fst (SubMeterGov (Some 3) 5 70 locked_state) \<and>
   80 \<le> GetBalance 5 (snd (SubMeterGov (Some 3) 5 70 locked_state)) +
        GetBoundedBalance 5 (snd (SubMeterGov (Some 3) 5 70 locked_state))"
proof -
  have get: "RestrictByAccountLock (Some 3) 5 locked_state = Some (0, 80)" by code_simp
  have ok: "fst (SubMeterGov (Some 3) 5 70 locked_state)"
    by (simp add: SubMeterGov_def get account_defs) (simp add: locked_state_def)
  show ?thesis
    using SubMeterGov_respects_lock [OF prod.collapse [symmetric], of 70 "Some 3" 5 locked_state] ok get
    by simp
qed

end
