(* ===== verification/Staking_Utils.thy ===== *)
theory Staking_Utils
  imports Meter_Supply
begin

text \<open>
  The helpers of \<^verbatim>\<open>script/staking/utils.go\<close> (self-vote checks, bonus votes and the data
  corrections of forks 1, 5 and 6), \<^verbatim>\<open>validatePubKey\<close> of \<^verbatim>\<open>script/staking/handler.go\<close>, the
  IP address pattern of the candidate handlers, and the call payload
  \<^verbatim>\<open>StakingBody\<close> of \<^verbatim>\<open>script/staking/staking_body.go\<close>.
\<close>

section \<open>Call payload\<close>

record StakingBody =
  sbOpcode :: uint32
  sbVersion :: uint32
  sbOption :: uint32
  sbHolderAddr :: address
  sbCandAddr :: address
  sbCandName :: bytes
  sbCandDescription :: bytes
  sbCandPubKey :: bytes
  sbCandIP :: bytes
  sbCandPort :: uint16
  sbStakingID :: bytes32
  sbAmount :: int
  sbToken :: uint8
  sbAutobid :: uint8
  sbTimestamp :: uint64
  sbNonce :: uint64
  sbExtraData :: bytes

type_synonym handler_result = "(uint64 \<times> go_error option \<times> ScriptEnv) go"

text \<open>The deferred function of every handler: the error text becomes the return data.\<close>

definition handler_return :: "uint64 \<Rightarrow> go_error option \<Rightarrow> ScriptEnv \<Rightarrow> handler_result" where
  "handler_return gas err e = Inr (leftOver gas, err, SetReturnData err e)"

section \<open>Input validation\<close>

definition is_digit :: "8 word \<Rightarrow> bool" where
  "is_digit c = (48 \<le> c \<and> c \<le> 57)"

definition skip_digits :: "bytes \<Rightarrow> bytes option" where
  "skip_digits bs =
     (case bs of [] \<Rightarrow> None | c # _ \<Rightarrow> if is_digit c then Some (dropWhile is_digit bs) else None)"

definition skip_dot :: "bytes \<Rightarrow> bytes option" where
  "skip_dot bs = (case bs of [] \<Rightarrow> None | c # cs \<Rightarrow> if c = 46 then Some cs else None)"

text \<open>The pattern of the code: four runs of digits separated by dots, and nothing else.\<close>

definition ip_match :: "bytes \<Rightarrow> bool" where
  "ip_match bs =
     (Option.bind (skip_digits bs) (\<lambda>bs. Option.bind (skip_dot bs) (\<lambda>bs.
      Option.bind (skip_digits bs) (\<lambda>bs. Option.bind (skip_dot bs) (\<lambda>bs.
      Option.bind (skip_digits bs) (\<lambda>bs. Option.bind (skip_dot bs) skip_digits)))))
      = Some [])"

definition trim_suffix :: "8 word \<Rightarrow> bytes \<Rightarrow> bytes" where
  "trim_suffix c bs = (if bs \<noteq> [] \<and> last bs = c then butlast bs else bs)"

text \<open>\<^verbatim>\<open>strings.Split(s, ":::")\<close>; byte 58 is the colon.\<close>

fun split_colons :: "bytes \<Rightarrow> bytes \<Rightarrow> bytes list" where
  "split_colons acc [] = [acc]"
| "split_colons acc (a # b # c # bs) =
     (if a = 58 \<and> b = 58 \<and> c = 58 then acc # split_colons [] bs
      else split_colons (acc @ [a]) (b # c # bs))"
| "split_colons acc (a # bs) = split_colons (acc @ [a]) bs"

definition validatePubKey :: "externals \<Rightarrow> bytes \<Rightarrow> bytes option" where
  "validatePubKey X comboPubKey =
     (let pubKey = trim_suffix 32 (trim_suffix 10 comboPubKey);
          split = split_colons [] pubKey
      in if length split \<noteq> 2 then None
         else
           (case xBase64Decode X (split ! 0) of
              None \<Rightarrow> None
            | Some decoded \<Rightarrow>
                if \<not> xUnmarshalPubkey X decoded then None
                else
                  (case xBase64Decode X (split ! 1) of
                     None \<Rightarrow> None
                   | Some _ \<Rightarrow> Some pubKey)))"

section \<open>Self votes\<close>

text \<open>Both functions dereference the bucket of every listed identifier without a check.\<close>

fun candidate_bucket_loop :: "Candidate \<Rightarrow> bytes32 list \<Rightarrow> BucketList \<Rightarrow> Bucket option go" where
  "candidate_bucket_loop c [] bl = Inr None"
| "candidate_bucket_loop c (i # is) bl =
     (case BucketList_Get i bl of
        None \<Rightarrow> Inl NilDeref
      | Some b \<Rightarrow>
          if Owner b = cAddr c \<and> Candidate b = cAddr c \<and> Option b = FOREVER_LOCK then Inr (Some b)
          else candidate_bucket_loop c is bl)"

definition GetCandidateBucket :: "Candidate \<Rightarrow> BucketList \<Rightarrow> Bucket option go" where
  "GetCandidateBucket c bl = candidate_bucket_loop c (cBuckets c) bl"

fun self_buckets_loop :: "Candidate \<Rightarrow> bytes32 list \<Rightarrow> BucketList \<Rightarrow> Bucket list \<Rightarrow> Bucket list go" where
  "self_buckets_loop c [] bl self = Inr self"
| "self_buckets_loop c (i # is) bl self =
     (case BucketList_Get i bl of
        None \<Rightarrow> Inl NilDeref
      | Some b \<Rightarrow>
          self_buckets_loop c is bl
            (if Owner b = cAddr c \<and> Candidate b = cAddr c then self @ [b] else self))"

text \<open>The empty result comes with the error \<^verbatim>\<open>not found\<close>.\<close>

definition GetCandidateSelfBuckets :: "Candidate \<Rightarrow> BucketList \<Rightarrow> Bucket list option go" where
  "GetCandidateSelfBuckets c bl =
     go_bind (self_buckets_loop c (cBuckets c) bl [])
       (\<lambda>self. Inr (if length self = 0 then None else Some self))"

text \<open>Subtraction that stops at 0.\<close>

definition sub_snap :: "int \<Rightarrow> int \<Rightarrow> int" where
  "sub_snap x y = (if x > y then x - y else 0)"

definition opt_apply :: "(int \<Rightarrow> int \<Rightarrow> int) \<Rightarrow> int option \<Rightarrow> int \<Rightarrow> int" where
  "opt_apply f d x = (case d of None \<Rightarrow> x | Some y \<Rightarrow> f x y)"

text \<open>
  The candidate may be nil; it is dereferenced in the loop over the buckets.
\<close>

definition CorrectCheckEnoughSelfVotes ::
  "Candidate option \<Rightarrow> BucketList \<Rightarrow> int \<Rightarrow> int option \<Rightarrow> int option \<Rightarrow> int option \<Rightarrow> int option \<Rightarrow> bool go" where
  "CorrectCheckEnoughSelfVotes co bl ratio addSelf subSelf addTotal subTotal =
     go_bind
       (case co of
          None \<Rightarrow> if bl = [] then Inr (0, 0) else Inl NilDeref
        | Some c \<Rightarrow>
            Inr (fold (\<lambda>b (selfValue, totalValue).
                   (if Owner b = cAddr c \<and> Candidate b = cAddr c \<and> IsForeverLock b
                    then selfValue + Value b else selfValue,
                    if Candidate b = cAddr c then totalValue + Value b else totalValue)) bl (0, 0)))
       (\<lambda>(selfValue, totalValue).
          let selfValue = opt_apply sub_snap subSelf (opt_apply (+) addSelf selfValue);
              totalValue = opt_apply sub_snap subTotal (opt_apply (+) addTotal totalValue);
              limitSelfTotalValue = big_Div totalValue ratio
          in Inr (limitSelfTotalValue \<le> selfValue))"

definition CheckCandEnoughSelfVotes :: "int \<Rightarrow> Candidate \<Rightarrow> BucketList \<Rightarrow> int \<Rightarrow> bool go" where
  "CheckCandEnoughSelfVotes newVotes c bl ratio =
     go_bind (GetCandidateSelfBuckets c bl)
       (\<lambda>r. case r of
          None \<Rightarrow> Inr False
        | Some bkts \<Rightarrow>
            let self = fold (\<lambda>b acc. acc + TotalVotes b) bkts 0;
                tot = big_Div (cTotalVotes c + newVotes) ratio
            in Inr (if tot > self then False else True))"

definition CheckEnoughSelfVotes :: "int \<Rightarrow> Candidate \<Rightarrow> BucketList \<Rightarrow> int \<Rightarrow> bool go" where
  "CheckEnoughSelfVotes subVotes c bl ratio =
     go_bind (GetCandidateSelfBuckets c bl)
       (\<lambda>r. case r of
          None \<Rightarrow> Inr False
        | Some bkts \<Rightarrow>
            let selfTotal = fold (\<lambda>b acc. acc + TotalVotes b) bkts 0 - subVotes;
                limitMinTotal = big_Div (cTotalVotes c - subVotes) ratio
            in Inr (if limitMinTotal > selfTotal then False else True))"

section \<open>Bonus votes\<close>

text \<open>The product of the elapsed seconds and the rate wraps at 64 bits and is then read as signed.\<close>

definition CalcBonus :: "uint64 \<Rightarrow> uint64 \<Rightarrow> uint8 \<Rightarrow> int \<Rightarrow> int" where
  "CalcBonus fromTS toTS rate v =
     (if toTS < fromTS then 0
      else big_Div (big_NewInt64 ((toTS - fromTS) * ucast rate) * v) (3600 * 24 * 365 * 100))"

definition TouchBucketBonus :: "uint64 \<Rightarrow> Bucket \<Rightarrow> int \<times> Bucket" where
  "TouchBucketBonus ts b =
     (if ts < CalcLastTime b then (0, b)
      else
        let bonusDelta = CalcBonus (CalcLastTime b) ts (Rate b) (Value b) in
        (bonusDelta,
         b\<lparr>BonusVotes := BonusVotes b + big_Uint64 bonusDelta,
           TotalVotes := TotalVotes b + bonusDelta,
           CalcLastTime := ts\<rparr>))"

section \<open>Data corrections of the forks\<close>

definition DoTeslaFork1_Correction ::
  "externals \<Rightarrow> bytes32 \<Rightarrow> address \<Rightarrow> int \<Rightarrow> State \<Rightarrow> uint64 \<Rightarrow> State" where
  "DoTeslaFork1_Correction X bid owner amount s ts =
     (let candidateList = GetCandidateList s;
          bucketList = GetBucketList (xBucketHash X) s
      in case BucketList_Get bid bucketList of
           None \<Rightarrow> s
         | Some bucket \<Rightarrow>
             if Owner bucket \<noteq> owner then s
             else if Value bucket < amount then s
             else
               let (bonus, bucket) = TouchBucketBonus ts bucket;
                   bucket = bucket\<lparr>Value := Value bucket - amount, TotalVotes := TotalVotes bucket - amount\<rparr>;
                   bucketList = BucketList_Modify bid (\<lambda>_. bucket) bucketList;
                   candidateList =
                     (if Candidate bucket \<noteq> 0
                      then CandidateList_Modify (Candidate bucket)
                             (\<lambda>c. c\<lparr>cTotalVotes := cTotalVotes c - amount + bonus\<rparr>) candidateList
                      else candidateList)
               in SetCandidateList candidateList (SetBucketList bucketList s))"

text \<open>The body of the loop of fork 5 on one bucket, and what it does to the stakeholders.\<close>

definition fork5_bucket :: "Bucket \<Rightarrow> Bucket" where
  "fork5_bucket b =
     (let ts = CalcLastTime b in
      b\<lparr>TotalVotes := (if ts > CreateTime b then Value b + CalcBonus (CreateTime b) ts (Rate b) (Value b)
                       else Value b),
        CalcLastTime := ts, BonusVotes := 0\<rparr>)"

definition add_to_holder :: "Bucket \<Rightarrow> StakeholderList \<Rightarrow> StakeholderList" where
  "add_to_holder b sl =
     (case StakeholderList_Get (Owner b) sl of
        None \<Rightarrow> StakeholderList_Add (Stakeholder_AddBucket b (NewStakeholder (Owner b))) sl
      | Some _ \<Rightarrow> StakeholderList_Modify (Owner b) (Stakeholder_AddBucket b) sl)"

text \<open>
  A Go map from address to amount is a partial function with the list of its keys
  in insertion order; the code's loops over such a map do not depend on the order.
\<close>

definition add_votes :: "address \<Rightarrow> int \<Rightarrow> (address \<Rightarrow> int option) \<Rightarrow> address \<Rightarrow> int option" where
  "add_votes a v m = (case m a of None \<Rightarrow> m(a \<mapsto> 0 + v) | Some w \<Rightarrow> m(a \<mapsto> w + v))"

definition DoTeslaFork5_BonusCorrection :: "externals \<Rightarrow> State \<Rightarrow> State" where
  "DoTeslaFork5_BonusCorrection X s =
     (let candidateList = GetCandidateList s;
          bucketList = GetBucketList (xBucketHash X) s;
          stakeholderList = fold add_to_holder bucketList (NewStakeholderList []);
          bucketList = map fork5_bucket bucketList;
          candTotalVotes = fold (\<lambda>b m. add_votes (Candidate b) (TotalVotes b) m) bucketList (\<lambda>_. None);
          candidateList = fold (\<lambda>addr cl.
              case candTotalVotes addr of
                None \<Rightarrow> cl
              | Some v \<Rightarrow> CandidateList_Modify addr (\<lambda>c. c\<lparr>cTotalVotes := v\<rparr>) cl)
            (remdups (map Candidate bucketList)) candidateList
      in SetStakeHolderList stakeholderList (SetCandidateList candidateList (SetBucketList bucketList s)))"

definition candidateIncorrectAddrs :: "address list" where
  "candidateIncorrectAddrs =
     [0xe3aa575d47e435468060e9f9bc488665bd9bc32a, 0x0f8684f6dc76617d6831b4546381eb6cfb1c559f]"

definition balanceIncorrectAddrs :: "address list" where
  "balanceIncorrectAddrs =
     [0x5308b6f26f21238963d0ea0b391eafa9be53c78e, 0x0f8684f6dc76617d6831b4546381eb6cfb1c559f,
      0x16fb7dc58954fc1fa65318b752fc91f2824115b6, 0x353fdd79dd9a6fbc70a59178d602ad1f020ea52f]"

definition clean_summaries :: "AuctionSummary list \<Rightarrow> AuctionSummary list" where
  "clean_summaries ss =
     map (\<lambda>a. a\<lparr>asAuctionTxs := [], asDistMTRG := []\<rparr>) (butlast ss) @ (if ss = [] then [] else [last ss])"

definition DoTeslaFork6_StakingCorrection :: "externals \<Rightarrow> State \<Rightarrow> State" where
  "DoTeslaFork6_StakingCorrection X s =
     (let candidateList = GetCandidateList s;
          bucketList = GetBucketList (xBucketHash X) s;
          votes = fold (\<lambda>b m. add_votes (Candidate b) (TotalVotes b) m) bucketList (\<lambda>_. None);
          vals = fold (\<lambda>b m. add_votes (Owner b) (Value b) m) bucketList (\<lambda>_. None);
          candidateList' = fold (\<lambda>c cl.
              case votes (cAddr c) of
                None \<Rightarrow> cl
              | Some v \<Rightarrow>
                  if cTotalVotes c \<noteq> v \<and> cAddr c \<in> set candidateIncorrectAddrs
                  then CandidateList_Modify (cAddr c) (\<lambda>c. c\<lparr>cTotalVotes := v\<rparr>) cl
                  else cl) candidateList candidateList;
          s = SetCandidateList candidateList' s;
          s = fold (\<lambda>addr s.
              case vals addr of
                None \<Rightarrow> s
              | Some v \<Rightarrow>
                  let boundedBalance = GetBoundedBalance addr s in
                  if boundedBalance > v \<and> addr \<in> set balanceIncorrectAddrs
                  then SetBalance addr (GetBalance addr s + (boundedBalance - v)) (SetBoundedBalance addr v s)
                  else s) (remdups (map Owner bucketList)) s;
          (summaryList, s) = GetSummaryList s
      in SetSummaryList (clean_summaries summaryList) s)"

section \<open>Properties of the helpers\<close>

lemma CalcBonus_small:
  assumes "fromTS \<le> toTS" "uint (toTS - fromTS) * uint rate < 2 ^ 63"
  shows "CalcBonus fromTS toTS rate v = uint (toTS - fromTS) * uint rate * v div 3153600000"
proof -
  have u: "uint (ucast rate :: uint64) = uint rate"
    using uint_lt2p [of rate] by (simp add: unsigned_ucast_eq take_bit_int_eq_self_iff)
  have "uint (toTS - fromTS) * uint (ucast rate :: uint64) < 2 ^ LENGTH(64)"
    using assms(2) u by simp
  then have "uint ((toTS - fromTS) * ucast rate) = uint (toTS - fromTS) * uint rate"
    unfolding u [symmetric] by (rule uint_mult_lem [THEN iffD1])
  then show ?thesis
    using assms by (simp add: CalcBonus_def not_less big_NewInt64_def sint_small big_Div_def not_le [symmetric])
qed

text \<open>The stake a candidate has locked forever in itself, and all stake that votes for an address.\<close>

definition self_stake :: "address \<Rightarrow> BucketList \<Rightarrow> int" where
  "self_stake a bl =
     (\<Sum>b\<leftarrow>bl. if Owner b = a \<and> Candidate b = a \<and> Option b = FOREVER_LOCK then Value b else 0)"

definition voted_stake :: "address \<Rightarrow> BucketList \<Rightarrow> int" where
  "voted_stake a bl = (\<Sum>b\<leftarrow>bl. if Candidate b = a then Value b else 0)"

lemma self_votes_fold:
  "fold (\<lambda>b (self, tot).
      (if Owner b = a \<and> Candidate b = a \<and> IsForeverLock b then self + Value b else self,
       if Candidate b = a then tot + Value b else tot)) bl (x, y) =
   (x + self_stake a bl, y + voted_stake a bl)"
  by (induction bl arbitrary: x y) (auto simp: self_stake_def voted_stake_def IsForeverLock_def)


definition self_bucket :: Bucket where
  "self_bucket = NewBucket (\<lambda>_ _ _. 1) 7 7 2000 MTRG FOREVER_LOCK 5 0 100 1"


text \<open>
  C22.  Bonus votes: as long as the seconds times the rate stay below \<open>2 ^ 63\<close>, a bucket
  earns its value times the rate in percent per year of 365 days, rounded down; the
  bonus is never negative, grows with time, and splitting a period loses at most
  the rounding of one of the parts.
\<close>

theorem CalcBonus_spec:
  assumes "t0 \<le> t1" "t1 \<le> t2" "uint (t2 - t0) * uint rate < 2 ^ 63" "0 \<le> v"
  shows "CalcBonus t0 t2 rate v = uint (t2 - t0) * uint rate * v div (100 * (365 * 24 * 3600)) \<and>
    0 \<le> CalcBonus t0 t1 rate v \<and> CalcBonus t0 t1 rate v \<le> CalcBonus t0 t2 rate v \<and>
    CalcBonus t0 t1 rate v + CalcBonus t1 t2 rate v \<le> CalcBonus t0 t2 rate v \<and>
    CalcBonus t0 t2 rate v \<le> CalcBonus t0 t1 rate v + CalcBonus t1 t2 rate v + 1"
proof -
  have split: "uint (t2 - t0) = uint (t1 - t0) + uint (t2 - t1)"
    using assms(1,2) by (simp add: uint_sub_lem [THEN iffD1] word_le_def)
  have le: "uint (t1 - t0) * uint rate \<le> uint (t2 - t0) * uint rate"
    "uint (t2 - t1) * uint rate \<le> uint (t2 - t0) * uint rate"
    by (simp_all add: split mult_right_mono)
  let ?a = "uint (t1 - t0) * uint rate * v" and ?b = "uint (t2 - t1) * uint rate * v"
  have c: "CalcBonus t0 t1 rate v = ?a div 3153600000" "CalcBonus t1 t2 rate v = ?b div 3153600000"
    "CalcBonus t0 t2 rate v = (?a + ?b) div 3153600000"
    using CalcBonus_small [OF assms(1) le_less_trans [OF le(1) assms(3)], of v]
      CalcBonus_small [OF assms(2) le_less_trans [OF le(2) assms(3)], of v]
      CalcBonus_small [OF order_trans [OF assms(1,2)] assms(3), of v]
    unfolding split by (simp_all add: distrib_right)
  have "0 \<le> ?a div 3153600000" "0 \<le> ?b div 3153600000"
    using assms(4) by (simp_all add: pos_imp_zdiv_nonneg_iff)
  then show ?thesis
    using c div_add_bounds [of 3153600000 ?a ?b] split by (simp add: distrib_right)
qed

theorem CalcBonus_spec_witness:
  "CalcBonus 0 31536000 5 (10 ^ 18) = 5 * 10 ^ 16"
  using CalcBonus_spec [of 0 0 31536000 5 "10 ^ 18"] by simp

end
