(* ===== verification/Staking_Handlers.thy ===== *)
theory Staking_Handlers
  imports Staking_Utils
begin

text \<open>
  The transaction handlers of the staking module (\<^verbatim>\<open>script/staking/handler_*.go\<close>), one
  definition per handler.  A handler reads the lists from the state, works on the
  copies and writes them back at its end; a handler that returns early leaves the
  state alone.  Writing through a pointer that \<^verbatim>\<open>Get\<close> returned is \<open>Modify\<close> on the list.
\<close>

section \<open>Shared steps\<close>

definition SetLists :: "CandidateList \<Rightarrow> BucketList \<Rightarrow> StakeholderList \<Rightarrow> ScriptEnv \<Rightarrow> ScriptEnv" where
  "SetLists cl bl sl e =
     onState (SetStakeHolderList sl) (onState (SetBucketList bl) (onState (SetCandidateList cl) e))"

text \<open>Since fork 7 the time and the nonce of the payload are ignored.\<close>

definition handler_ts :: "ScriptEnv \<Rightarrow> StakingBody \<Rightarrow> uint64" where
  "handler_ts e sb = (if isFork TeslaFork7 e then envTime e else sbTimestamp sb)"

definition handler_nonce :: "ScriptEnv \<Rightarrow> StakingBody \<Rightarrow> uint64" where
  "handler_nonce e sb =
     (if isFork TeslaFork7 e
      then txcNonce (envTxCtx e) + ucast (envClauseIndex e) + txcCounter (envTxCtx e)
      else sbNonce sb)"

definition eventAfterFork10 :: "script_event \<Rightarrow> ScriptEnv \<Rightarrow> ScriptEnv" where
  "eventAfterFork10 ev e = (if isFork TeslaFork10 e then AddEvent ev e else e)"

definition selfRatioValid :: "ScriptEnv \<Rightarrow> Candidate \<Rightarrow> BucketList \<Rightarrow> int \<Rightarrow> int \<Rightarrow> int \<Rightarrow> bool go" where
  "selfRatioValid e c bl v8 v1 v0 =
     (if isFork TeslaFork8 e
      then CorrectCheckEnoughSelfVotes (Some c) bl TESLA1_1_SELF_VOTE_RATIO None None (Some v8) None
      else if isFork TeslaFork1 e then CheckCandEnoughSelfVotes v1 c bl TESLA1_1_SELF_VOTE_RATIO
      else CheckCandEnoughSelfVotes v0 c bl TESLA1_0_SELF_VOTE_RATIO)"

text \<open>The first candidate that shares the public key, the IP address or the name.\<close>

fun listed_loop :: "address option \<Rightarrow> bytes \<Rightarrow> bytes \<Rightarrow> bytes \<Rightarrow> Candidate list \<Rightarrow> go_error option" where
  "listed_loop self pk ip name [] = None"
| "listed_loop self pk ip name (r # rs) =
     (let isSelf = (self = Some (cAddr r)) in
      if \<not> isSelf \<and> cPubKey r = pk then Some ErrPubKeyListed
      else if \<not> isSelf \<and> cIPAddr r = ip then Some ErrIPListed
      else if \<not> isSelf \<and> cName r = name then Some ErrNameListed
      else listed_loop self pk ip name rs)"

section \<open>Bound and unbound\<close>

definition BoundHandler :: "externals \<Rightarrow> ScriptEnv \<Rightarrow> StakingBody \<Rightarrow> uint64 \<Rightarrow> handler_result" where
  "BoundHandler X e sb gas =
     (let s = envState e;
          candidateList = GetCandidateList s;
          bucketList = GetBucketList (xBucketHash X) s;
          stakeholderList = GetStakeHolderList s
      in
      if sbAmount sb < MIN_BOUND_BALANCE then handler_return gas (Some ErrLessThanMinBoundBalance) e
      else if sbToken sb \<noteq> MTRG then handler_return gas (Some ErrInvalidToken) e
      else
        go_bind
          (if sbCandAddr sb = 0 then Inr False
           else
             (case CandidateList_Get (sbCandAddr sb) candidateList of
                None \<Rightarrow> Inr False
              | Some c \<Rightarrow> selfRatioValid e c bucketList (sbAmount sb) (sbAmount sb) (sbAmount sb)))
          (\<lambda>setCand.
             if GetBalance (sbHolderAddr sb) s < sbAmount sb
             then handler_return gas (Some (ErrText ''not enough meter-gov balance'')) e
             else if sbAutobid sb > 100 then handler_return gas None e
             else
               let (opt, rate, locktime) = GetBoundLockOption (sbOption sb);
                   candAddr = (if setCand then sbCandAddr sb else 0);
                   bucket = NewBucket (xBucketHash X) (sbHolderAddr sb) candAddr (sbAmount sb)
                              (sbToken sb) opt rate (sbAutobid sb) (handler_ts e sb) (handler_nonce e sb);
                   e = envInc e;
                   bucketList = BucketList_Add bucket bucketList;
                   stakeholderList = add_to_holder bucket stakeholderList
               in
               if setCand \<and> CandidateList_Get (sbCandAddr sb) candidateList = None
               then handler_return gas (Some ErrCandidateNotListed) e
               else
                 let candidateList =
                       (if setCand
                        then CandidateList_Modify (sbCandAddr sb) (Candidate_AddBucket bucket) candidateList
                        else candidateList);
                     (err, e) = BoundAccountMeterGov (sbHolderAddr sb) (sbAmount sb) e;
                     e = eventAfterFork10
                           (NativeBucketOpen (Owner bucket) (BucketID bucket) (sbAmount sb) (sbToken sb)) e
                 in handler_return gas err (SetLists candidateList bucketList stakeholderList e)))"

definition UnBoundHandler :: "externals \<Rightarrow> ScriptEnv \<Rightarrow> StakingBody \<Rightarrow> uint64 \<Rightarrow> handler_result" where
  "UnBoundHandler X e sb gas =
     (let s = envState e;
          candidateList = GetCandidateList s;
          bucketList = GetBucketList (xBucketHash X) s;
          stakeholderList = GetStakeHolderList s
      in case BucketList_Get (sbStakingID sb) bucketList of
           None \<Rightarrow> handler_return gas (Some ErrBucketNotFound) e
         | Some b \<Rightarrow>
             if Owner b \<noteq> sbHolderAddr sb then handler_return gas (Some ErrBucketOwnerMismatch) e
             else if Value b \<noteq> sbAmount sb then handler_return gas (Some ErrBucketAmountMismatch) e
             else if Token b \<noteq> sbToken sb then handler_return gas (Some ErrBucketTokenMismatch) e
             else if isFork TeslaFork7 e \<and> Unbounded b
             then handler_return gas (Some ErrBucketAlreadyUnbounded) e
             else if IsForeverLock b then handler_return gas (Some ErrUpdateForeverBucket) e
             else
               let bucketList = BucketList_Modify (sbStakingID sb)
                     (\<lambda>b. b\<lparr>Unbounded := True,
                            MatureTime := handler_ts e sb + GetBoundLocktime (Option b)\<rparr>) bucketList;
                   e = eventAfterFork10 (NativeBucketClose (Owner b) (BucketID b)) e
               in handler_return gas None (SetLists candidateList bucketList stakeholderList e))"

section \<open>Candidates\<close>

definition CandidateHandler :: "externals \<Rightarrow> ScriptEnv \<Rightarrow> StakingBody \<Rightarrow> uint64 \<Rightarrow> handler_result" where
  "CandidateHandler X e sb gas =
     (let s = envState e;
          candidateList = GetCandidateList s;
          bucketList = GetBucketList (xBucketHash X) s;
          stakeholderList = GetStakeHolderList s
      in
      if sbAmount sb < MIN_REQUIRED_BY_DELEGATE
      then handler_return gas (Some ErrLessThanMinimalBalance) e
      else if sbToken sb \<noteq> MTRG then handler_return gas (Some ErrInvalidToken) e
      else if GetBalance (sbCandAddr sb) s < sbAmount sb then handler_return gas (Some ErrNotEnoughMTRG) e
      else if sbAutobid sb > 100 then handler_return gas (Some (ErrText ''autobid > 100%'')) e
      else
        (case validatePubKey X (sbCandPubKey sb) of
           None \<Rightarrow> handler_return gas (Some ErrInvalidPubkey) e
         | Some candidatePubKey \<Rightarrow>
             if sbCandPort sb < 1 then handler_return gas (Some ErrInvalidPort) e
             else if \<not> ip_match (sbCandIP sb) then handler_return gas (Some ErrInvalidIpAddress) e
             else
               (case listed_loop None candidatePubKey (sbCandIP sb) (sbCandName sb) candidateList of
                  Some err \<Rightarrow> handler_return gas (Some err) e
                | None \<Rightarrow>
                    (case CandidateList_Get (sbCandAddr sb) candidateList of
                       Some record \<Rightarrow>
                         if cPubKey record = candidatePubKey \<and> cIPAddr record = sbCandIP sb \<and>
                            cPort record = sbCandPort sb
                         then handler_return gas (Some ErrCandidateListed) e
                         else handler_return gas (Some ErrCandidateListedWithDiffInfo) e
                     | None \<Rightarrow>
                         let (opt, rate, locktime) = GetBoundLockOption FOREVER_LOCK;
                             commission = GetCommissionRate (sbOption sb);
                             ts = handler_ts e sb;
                             bucket = NewBucket (xBucketHash X) (sbCandAddr sb) (sbCandAddr sb)
                                        (sbAmount sb) (sbToken sb) opt rate (sbAutobid sb) ts
                                        (handler_nonce e sb);
                             e = envInc e;
                             bucketList = BucketList_Add bucket bucketList;
                             candidate = NewCandidate (sbCandAddr sb) (sbCandName sb)
                                           (sbCandDescription sb) candidatePubKey (sbCandIP sb)
                                           (sbCandPort sb) commission ts;
                             candidateList =
                               CandidateList_Add (Candidate_AddBucket bucket candidate) candidateList;
                             stakeholderList = add_to_holder bucket stakeholderList;
                             (err, e) = BoundAccountMeterGov (sbCandAddr sb) (sbAmount sb) e;
                             e = eventAfterFork10 (NativeBucketOpen (sbCandAddr sb)
                                   (Bucket_ID (xBucketHash X) bucket) (sbAmount sb) (sbToken sb)) e
                         in handler_return gas err (SetLists candidateList bucketList stakeholderList e)))))"

text \<open>The body of the loop over the buckets of a candidate that steps down.\<close>

definition uncandidate_bucket ::
  "Candidate \<Rightarrow> bytes32 \<Rightarrow> BucketList \<times> ScriptEnv \<Rightarrow> BucketList \<times> ScriptEnv" where
  "uncandidate_bucket record i = (\<lambda>(bl, e).
     case BucketList_Get i bl of
       None \<Rightarrow> (bl, e)
     | Some b \<Rightarrow>
         if Candidate b \<noteq> cAddr record then (bl, e)
         else
           let e = eventAfterFork10
                     (NativeBucketUpdateCandidate (Owner b) (BucketID b) (Candidate b) 0) e;
               b = b\<lparr>Candidate := 0\<rparr>
           in if IsForeverLock b then
                let (opt, rate, _) = GetBoundLockOption ONE_WEEK_LOCK;
                    b = UpdateLockOption opt rate b
                in (BucketList_Modify i (\<lambda>_. b) bl,
                    eventAfterFork10 (NativeBucketClose (Owner b) (BucketID b)) e)
              else (BucketList_Modify i (\<lambda>_. b) bl, e))"

definition UnCandidateHandler :: "externals \<Rightarrow> ScriptEnv \<Rightarrow> StakingBody \<Rightarrow> uint64 \<Rightarrow> handler_result" where
  "UnCandidateHandler X e sb gas =
     (let s = envState e;
          candidateList = GetCandidateList s;
          bucketList = GetBucketList (xBucketHash X) s;
          stakeholderList = GetStakeHolderList s;
          inJailList = GetInJailList s
      in case CandidateList_Get (sbCandAddr sb) candidateList of
           None \<Rightarrow> handler_return gas (Some ErrCandidateNotListed) e
         | Some record \<Rightarrow>
             if InJailList_Exist (sbCandAddr sb) inJailList
             then handler_return gas (Some ErrCandidateInJail) e
             else
               let (bucketList, e) = fold (uncandidate_bucket record) (cBuckets record) (bucketList, e);
                   candidateList = CandidateList_Remove (cAddr record) candidateList
               in handler_return gas None (SetLists candidateList bucketList stakeholderList e))"

definition CandidateUpdateHandler :: "externals \<Rightarrow> ScriptEnv \<Rightarrow> StakingBody \<Rightarrow> uint64 \<Rightarrow> handler_result" where
  "CandidateUpdateHandler X e sb gas =
     (let s = envState e;
          candidateList = GetCandidateList s;
          inJailList = GetInJailList s;
          bucketList = GetBucketList (xBucketHash X) s
      in
      case validatePubKey X (sbCandPubKey sb) of
        None \<Rightarrow> handler_return gas (Some ErrInvalidPubkey) e
      | Some candidatePubKey \<Rightarrow>
          if sbCandPort sb < 1 then handler_return gas (Some ErrInvalidPort) e
          else if \<not> ip_match (sbCandIP sb) then handler_return gas (Some ErrInvalidIpAddress) e
          else if sbAutobid sb > 100 then handler_return gas (Some ErrInvalidParams) e
          else
            (case
               (if isFork TeslaFork8 e then
                  (if CandidateList_Get (sbCandAddr sb) candidateList = None
                   then Some ErrCandidateNotListed
                   else listed_loop (Some (sbCandAddr sb)) candidatePubKey (sbCandIP sb)
                          (sbCandName sb) candidateList)
                else if isFork TeslaFork6 e then
                  listed_loop None candidatePubKey (sbCandIP sb) (sbCandName sb) candidateList
                else None)
             of
               Some err \<Rightarrow> handler_return gas (Some err) e
             | None \<Rightarrow>
                 (case CandidateList_Get (sbCandAddr sb) candidateList of
                    None \<Rightarrow> handler_return gas (Some ErrCandidateNotListed) e
                  | Some record \<Rightarrow>
                      if InJailList_Exist (sbCandAddr sb) inJailList \<and> \<not> isFork TeslaFork5 e
                      then handler_return gas (Some ErrCandidateInJail) e
                      else
                        let inJailList = InJailList_Modify (sbCandAddr sb)
                              (\<lambda>j. j\<lparr>jName := sbCandName sb, jPubKey := sbCandPubKey sb\<rparr>) inJailList;
                            pubUpdated = (cPubKey record \<noteq> candidatePubKey);
                            ipUpdated = (cIPAddr record \<noteq> sbCandIP sb);
                            nameUpdated = (cName record \<noteq> sbCandName sb);
                            descUpdated = (cDescription record \<noteq> sbCandDescription sb);
                            commission = GetCommissionRate (sbOption sb);
                            commissionUpdated = (cCommission record \<noteq> commission)
                        in go_bind (GetCandidateBucket record bucketList) (\<lambda>candBucket.
                          let err = (if candBucket = None then Some (ErrText ''not found'') else None);
                              autobidUpdated = (case candBucket of None \<Rightarrow> False
                                                | Some b \<Rightarrow> sbAutobid sb \<noteq> Autobid b);
                              ts = handler_ts e sb;
                              late = (ts - cTimestamp record \<ge> MIN_CANDIDATE_UPDATE_INTV)
                          in
                          if \<not> late \<and> \<not> ipUpdated \<and> \<not> pubUpdated
                          then handler_return gas (Some ErrUpdateTooFrequent) e
                          else
                            let portUpdated = (cPort record \<noteq> sbCandPort sb);
                                record' = record\<lparr>
                                  cPubKey := (if pubUpdated then candidatePubKey else cPubKey record),
                                  cIPAddr := (if ipUpdated then sbCandIP sb else cIPAddr record),
                                  cCommission := (if late \<and> commissionUpdated then commission
                                                  else cCommission record),
                                  cName := (if late \<and> nameUpdated then sbCandName sb else cName record),
                                  cDescription := (if late \<and> descUpdated then sbCandDescription sb
                                                   else cDescription record),
                                  cPort := (if late \<and> portUpdated then sbCandPort sb else cPort record)\<rparr>;
                                bucketList =
                                  (case candBucket of
                                     None \<Rightarrow> bucketList
                                   | Some b \<Rightarrow>
                                       if late \<and> autobidUpdated
                                       then BucketList_Modify (BucketID b)
                                              (\<lambda>b. b\<lparr>Autobid := sbAutobid sb\<rparr>) bucketList
                                       else bucketList);
                                changed = (pubUpdated \<or> ipUpdated \<or>
                                  late \<and> (commissionUpdated \<or> nameUpdated \<or> descUpdated \<or>
                                          autobidUpdated \<or> portUpdated))
                            in
                            if \<not> changed then handler_return gas (Some ErrCandidateNotChanged) e
                            else
                              let e = (if isFork TeslaFork5 e then onState (SetInJailList inJailList) e
                                       else e);
                                  e = onState (SetBucketList bucketList) e;
                                  e = onState (SetCandidateList
                                        (CandidateList_Modify (sbCandAddr sb) (\<lambda>_. record') candidateList)) e
                              in handler_return gas err e))))"

section \<open>Delegation\<close>

definition DelegateHandler :: "externals \<Rightarrow> ScriptEnv \<Rightarrow> StakingBody \<Rightarrow> uint64 \<Rightarrow> handler_result" where
  "DelegateHandler X e sb gas =
     (let s = envState e;
          candidateList = GetCandidateList s;
          bucketList = GetBucketList (xBucketHash X) s;
          stakeholderList = GetStakeHolderList s
      in case BucketList_Get (sbStakingID sb) bucketList of
           None \<Rightarrow> handler_return gas (Some ErrBucketNotFound) e
         | Some b \<Rightarrow>
             if Owner b \<noteq> sbHolderAddr sb then handler_return gas (Some ErrBucketOwnerMismatch) e
             else if Value b \<noteq> sbAmount sb then handler_return gas (Some ErrBucketAmountMismatch) e
             else if Token b \<noteq> sbToken sb then handler_return gas (Some ErrBucketTokenMismatch) e
             else if IsForeverLock b then handler_return gas (Some ErrUpdateForeverBucket) e
             else if Candidate b \<noteq> 0 then handler_return gas (Some ErrBucketInUse) e
             else if sbAutobid sb > 100 then handler_return gas (Some (ErrText ''autobid > 100%'')) e
             else
               (case CandidateList_Get (sbCandAddr sb) candidateList of
                  None \<Rightarrow> handler_return gas (Some ErrBucketNotFound) e
                | Some cand \<Rightarrow>
                    go_bind (selfRatioValid e cand bucketList (Value b) (sbAmount sb) (TotalVotes b))
                      (\<lambda>valid.
                         if \<not> valid then handler_return gas (Some ErrCandidateNotEnoughSelfVotes) e
                         else
                           let e = eventAfterFork10 (NativeBucketUpdateCandidate (Owner b) (BucketID b)
                                     (Candidate b) (sbCandAddr sb)) e;
                               b = b\<lparr>Candidate := sbCandAddr sb, Autobid := sbAutobid sb\<rparr>;
                               bucketList = BucketList_Modify (sbStakingID sb) (\<lambda>_. b) bucketList;
                               candidateList = CandidateList_Modify (sbCandAddr sb)
                                                 (Candidate_AddBucket b) candidateList
                           in handler_return gas None
                                (SetLists candidateList bucketList stakeholderList e))))"

definition UnDelegateHandler :: "externals \<Rightarrow> ScriptEnv \<Rightarrow> StakingBody \<Rightarrow> uint64 \<Rightarrow> handler_result" where
  "UnDelegateHandler X e sb gas =
     (let s = envState e;
          candidateList = GetCandidateList s;
          bucketList = GetBucketList (xBucketHash X) s;
          stakeholderList = GetStakeHolderList s
      in case BucketList_Get (sbStakingID sb) bucketList of
           None \<Rightarrow> handler_return gas (Some ErrBucketNotFound) e
         | Some b \<Rightarrow>
             if Owner b \<noteq> sbHolderAddr sb then handler_return gas (Some ErrBucketOwnerMismatch) e
             else if Value b \<noteq> sbAmount sb then handler_return gas (Some ErrBucketAmountMismatch) e
             else if Token b \<noteq> sbToken sb then handler_return gas (Some ErrBucketTokenMismatch) e
             else if IsForeverLock b then handler_return gas (Some ErrUpdateForeverBucket) e
             else if Candidate b = 0 then handler_return gas (Some ErrBucketInUse) e
             else
               (case CandidateList_Get (Candidate b) candidateList of
                  None \<Rightarrow> handler_return gas (Some ErrCandidateNotListed) e
                | Some cand \<Rightarrow>
                    let e = eventAfterFork10
                              (NativeBucketUpdateCandidate (Owner b) (BucketID b) (Candidate b) 0) e;
                        b = b\<lparr>Candidate := 0, Autobid := 0\<rparr>;
                        bucketList = BucketList_Modify (sbStakingID sb) (\<lambda>_. b) bucketList;
                        candidateList = CandidateList_Modify (cAddr cand) (Candidate_RemoveBucket b)
                                          candidateList
                    in handler_return gas None (SetLists candidateList bucketList stakeholderList e)))"

section \<open>Bucket updates\<close>

text \<open>The three ways a bucket is updated: fork 5 added the subtraction and changed the addition.\<close>

definition bucket_sub ::
  "externals \<Rightarrow> ScriptEnv \<Rightarrow> StakingBody \<Rightarrow> uint64 \<Rightarrow> Bucket \<Rightarrow> handler_result" where
  "bucket_sub X e sb gas b =
     (let s = envState e;
          candidateList = GetCandidateList s;
          bucketList = GetBucketList (xBucketHash X) s;
          stakeholderList = GetStakeHolderList s;
          cand = CandidateList_Get (Candidate b) candidateList;
          amount = sbAmount sb;
          valueAfterSub = Value b - amount
      in
      if Unbounded b then handler_return gas (Some (ErrText ''can not update unbounded bucket'')) e
      else
        go_bind
          (if IsForeverLock b then
             if valueAfterSub < MIN_REQUIRED_BY_DELEGATE
             then Inr (Some (ErrText ''limit MIN_REQUIRED_BY_DELEGATE''))
             else
               (case cand of
                  None \<Rightarrow> Inr (Some ErrCandidateNotListed)
                | Some c \<Rightarrow>
                    go_bind
                      (if isFork TeslaFork8 e
                       then CorrectCheckEnoughSelfVotes (Some c) bucketList TESLA1_1_SELF_VOTE_RATIO
                              None (Some amount) None (Some amount)
                       else CheckEnoughSelfVotes amount c bucketList TESLA1_1_SELF_VOTE_RATIO)
                      (\<lambda>valid. Inr (if valid then None else Some ErrCandidateNotEnoughSelfVotes)))
           else if valueAfterSub < MIN_BOUND_BALANCE
           then Inr (Some (ErrText ''limit MIN_BOUND_BALANCE''))
           else Inr None)
          (\<lambda>refused.
             case refused of
               Some err \<Rightarrow> handler_return gas (Some err) e
             | None \<Rightarrow>
                 if Value b = 0 then Inl DivByZero
                 else
                   let bonusDelta = big_Div ((TotalVotes b - Value b) * amount) (Value b);
                       b = b\<lparr>BonusVotes := 0,
                             Value := (if isFork TeslaFork6 e then Value b - amount
                                       else Value b - amount - bonusDelta),
                             TotalVotes := TotalVotes b - amount - bonusDelta\<rparr>;
                       bucketList = BucketList_Modify (sbStakingID sb) (\<lambda>_. b) bucketList;
                       newBucket = NewBucket (xBucketHash X) (Owner b) (Candidate b) amount (Token b)
                                     ONE_WEEK_LOCK (Rate b) (Autobid b) (handler_ts e sb)
                                     (handler_nonce e sb);
                       newBucket = newBucket\<lparr>Unbounded := True,
                                     MatureTime := handler_ts e sb + GetBoundLocktime (Option newBucket)\<rparr>;
                       e = envInc e;
                       newBucketID = BucketID newBucket;
                       bucketList = BucketList_Add newBucket bucketList;
                       candidateList = CandidateList_Modify (Candidate b)
                         (\<lambda>c. c\<lparr>cTotalVotes := (if isFork TeslaFork9 e then cTotalVotes c
                                               else cTotalVotes c - amount) - bonusDelta,
                               cBuckets := cBuckets c @ [newBucketID]\<rparr>) candidateList;
                       stakeholderList = StakeholderList_Modify (Owner b)
                         (\<lambda>h. h\<lparr>sBuckets := sBuckets h @ [newBucketID]\<rparr>) stakeholderList;
                       e = eventAfterFork10 (NativeBucketWithdraw (Owner b) (BucketID b) amount
                             (sbToken sb) (Owner newBucket) newBucketID) e;
                       e = onState (SetBucketList bucketList) e;
                       e = onState (SetCandidateList candidateList) e;
                       e = onState (SetStakeHolderList stakeholderList) e
                   in handler_return gas None e))"

definition bucket_add ::
  "externals \<Rightarrow> ScriptEnv \<Rightarrow> StakingBody \<Rightarrow> uint64 \<Rightarrow> Bucket \<Rightarrow> handler_result" where
  "bucket_add X e sb gas b =
     (let s = envState e;
          candidateList = GetCandidateList s;
          bucketList = GetBucketList (xBucketHash X) s;
          stakeholderList = GetStakeHolderList s;
          amount = sbAmount sb
      in
      if Unbounded b then handler_return gas (Some (ErrText ''can not update unbounded bucket'')) e
      else if GetBalance (sbHolderAddr sb) s < amount
      then handler_return gas (Some (ErrText ''not enough meter-gov balance'')) e
      else
        go_bind
          (if isFork TeslaFork8 e \<and> \<not> IsForeverLock b
           then CorrectCheckEnoughSelfVotes (CandidateList_Get (Candidate b) candidateList) bucketList
                  TESLA1_1_SELF_VOTE_RATIO None None (Some amount) None
           else Inr True)
          (\<lambda>valid.
             if \<not> valid then handler_return gas (Some ErrCandidateNotEnoughSelfVotes) e
             else
               let (err, e) = BoundAccountMeterGov (sbHolderAddr sb) amount e in
               if err \<noteq> None then handler_return gas err e
               else
                 let b = b\<lparr>BonusVotes := 0, Value := Value b + amount, TotalVotes := TotalVotes b + amount\<rparr>;
                     bucketList = BucketList_Modify (sbStakingID sb) (\<lambda>_. b) bucketList;
                     candidateList =
                       (if Candidate b \<noteq> 0
                        then CandidateList_Modify (Candidate b)
                               (\<lambda>c. c\<lparr>cTotalVotes := cTotalVotes c + amount\<rparr>) candidateList
                        else candidateList);
                     stakeholderList = StakeholderList_Modify (Owner b)
                       (\<lambda>h. h\<lparr>sTotalStake := sTotalStake h + amount\<rparr>) stakeholderList;
                     e = eventAfterFork10
                           (NativeBucketDeposit (Owner b) (BucketID b) amount (sbToken sb)) e;
                     e = onState (SetBucketList bucketList) e;
                     e = onState (SetCandidateList candidateList) e;
                     e = onState (SetStakeHolderList stakeholderList) e
                 in handler_return gas None e))"

text \<open>
  Before fork 1 the two checks of this path set or log an error and go on; the lists are
  written and the error is returned with them.
\<close>

definition bucket_add_before_fork5 ::
  "externals \<Rightarrow> ScriptEnv \<Rightarrow> StakingBody \<Rightarrow> uint64 \<Rightarrow> Bucket \<Rightarrow> handler_result" where
  "bucket_add_before_fork5 X e sb gas b =
     (let s = envState e;
          candidateList = GetCandidateList s;
          bucketList = GetBucketList (xBucketHash X) s;
          amount = sbAmount sb;
          (stop, err, e) =
            (if isFork TeslaFork1 e then
               if Unbounded b then (True, Some (ErrText ''can not update unbounded bucket''), e)
               else if GetBalance (sbHolderAddr sb) s < amount
               then (True, Some (ErrText ''not enough meter-gov balance''), e)
               else (case BoundAccountMeterGov (sbHolderAddr sb) amount e of
                       (err, e) \<Rightarrow> (err \<noteq> None, err, e))
             else (False, if IsForeverLock b then Some ErrUpdateForeverBucket else None, e))
      in
      if stop then handler_return gas err e
      else
        let (bonus, b) = TouchBucketBonus (handler_ts e sb) b;
            b = b\<lparr>Value := Value b + amount, TotalVotes := TotalVotes b + amount\<rparr>;
            bucketList = BucketList_Modify (sbStakingID sb) (\<lambda>_. b) bucketList;
            candidateList =
              (if Candidate b \<noteq> 0
               then CandidateList_Modify (Candidate b)
                      (\<lambda>c. c\<lparr>cTotalVotes := cTotalVotes c + bonus + amount\<rparr>) candidateList
               else candidateList);
            e = onState (SetBucketList bucketList) e;
            e = onState (SetCandidateList candidateList) e
        in handler_return gas err e)"

definition BucketUpdateHandler :: "externals \<Rightarrow> ScriptEnv \<Rightarrow> StakingBody \<Rightarrow> uint64 \<Rightarrow> handler_result" where
  "BucketUpdateHandler X e sb gas =
     (case BucketList_Get (sbStakingID sb) (GetBucketList (xBucketHash X) (envState e)) of
        None \<Rightarrow> handler_return gas (Some ErrBucketNotFound) e
      | Some b \<Rightarrow>
          if Owner b \<noteq> sbHolderAddr sb then handler_return gas (Some ErrBucketOwnerMismatch) e
          else if isFork TeslaFork5 e then
            if sbOption sb = BUCKET_SUB_OPT then bucket_sub X e sb gas b
            else if sbOption sb = BUCKET_ADD_OPT then bucket_add X e sb gas b
            else handler_return gas (Some (ErrText ''unsupported option for bucket update'')) e
          else bucket_add_before_fork5 X e sb gas b)"

section \<open>Delegate statistics and the jail\<close>

definition phase_out_all ::
  "uint32 \<Rightarrow> InJailList \<Rightarrow> DelegateStatList \<Rightarrow> DelegateStatList" where
  "phase_out_all epoch inJailList stats =
     (let phased = map (\<lambda>d. if InJailList_Exist (dAddr d) inJailList then d else PhaseOut epoch d) stats;
          removed = map dAddr (filter (\<lambda>d. \<not> InJailList_Exist (dAddr d) inJailList \<and> dTotalPts d = 0) phased)
      in fold DelegateStatList_Remove removed phased)"

definition DelegateStatHandler :: "externals \<Rightarrow> ScriptEnv \<Rightarrow> StakingBody \<Rightarrow> uint64 \<Rightarrow> handler_result" where
  "DelegateStatHandler X e sb gas =
     (let s = envState e;
          candidateList = GetCandidateList s;
          statisticsList = GetDelegateStatList s;
          inJailList = GetInJailList s;
          phaseOutEpoch = GetStatisticsEpoch s;
          epoch = sbOption sb;
          statisticsList = (if epoch > phaseOutEpoch then phase_out_all epoch inJailList statisticsList
                            else statisticsList);
          phaseOutEpoch = (if epoch > phaseOutEpoch then epoch else phaseOutEpoch);
          save = (\<lambda>stats jail e. onState (SetInJailList jail) (onState (SetDelegateStatList stats)
                    (onState (SetStatisticsEpoch phaseOutEpoch) e)))
      in
      if InJailList_Exist (sbCandAddr sb) inJailList
      then handler_return gas None (save statisticsList inJailList e)
      else
        (case xDecodeInfraction X (sbExtraData sb) of
           None \<Rightarrow> handler_return gas (Some (ErrText ''rlp'')) (save statisticsList inJailList e)
         | Some incr \<Rightarrow>
             let (stats, statisticsList) =
                   (case DelegateStatList_Get (sbCandAddr sb) statisticsList of
                      None \<Rightarrow>
                        (let d = DelegateStat_Update incr
                                   (NewDelegateStat (sbCandAddr sb) (sbCandName sb) (sbCandPubKey sb))
                         in (d, DelegateStatList_Add d statisticsList))
                    | Some d \<Rightarrow>
                        (let d = DelegateStat_Update incr d
                         in (d, DelegateStatList_Modify (sbCandAddr sb) (\<lambda>_. d) statisticsList)));
                 proposerViolation = CountMissingProposerViolation epoch stats;
                 leaderViolation = CountMissingLeaderViolation epoch stats;
                 doubleSignViolation = CountDoubleSignViolation epoch stats;
                 shouldPutInJail =
                   (proposerViolation \<ge> JailCriteria_MissingProposerViolation \<or>
                    leaderViolation \<ge> JailCriteria_MissingLeaderViolation \<or>
                    doubleSignViolation \<ge> JailCriteria_DoubleSignViolation \<or>
                    (proposerViolation \<ge> 1 \<and> leaderViolation \<ge> 1));
                 inJailList =
                   (if shouldPutInJail \<and> CandidateList_Get (dAddr stats) candidateList \<noteq> None
                    then InJailList_Add
                           (NewInJail (dAddr stats) (dName stats) (dPubKey stats) (dTotalPts stats)
                             (dInfractions stats) BAIL_FOR_EXIT_JAIL
                             (if isFork TeslaFork6 e then ucast (envNumber e) else sbTimestamp sb))
                           inJailList
                    else inJailList)
             in handler_return gas None (save statisticsList inJailList e)))"

definition DelegateStatFlushHandler :: "externals \<Rightarrow> ScriptEnv \<Rightarrow> StakingBody \<Rightarrow> uint64 \<Rightarrow> handler_result" where
  "DelegateStatFlushHandler X e sb gas =
     handler_return gas None (onState (SetInJailList []) (onState (SetDelegateStatList []) e))"

definition DelegateExitJailHandler :: "externals \<Rightarrow> ScriptEnv \<Rightarrow> StakingBody \<Rightarrow> uint64 \<Rightarrow> handler_result" where
  "DelegateExitJailHandler X e sb gas =
     (let s = envState e;
          inJailList = GetInJailList s;
          statisticsList = GetDelegateStatList s
      in case InJailList_Get (sbCandAddr sb) inJailList of
           None \<Rightarrow> handler_return gas None e
         | Some jailed \<Rightarrow>
             if GetBalance (jAddr jailed) s < jBailAmount jailed
             then handler_return gas (Some (ErrText ''not enough balance for bail'')) e
             else
               let (err, e) = CollectBailMeterGov (jAddr jailed) (jBailAmount jailed) e in
               if err \<noteq> None then handler_return gas err e
               else
                 let inJailList = InJailList_Remove (jAddr jailed) inJailList;
                     statisticsList = DelegateStatList_Remove (jAddr jailed) statisticsList;
                     e = onState (SetInJailList inJailList) e;
                     e = onState (SetDelegateStatList statisticsList) e
                 in handler_return gas None e)"

end
