(* ===== verification/Staking_Govern.thy ===== *)
theory Staking_Govern
  imports Staking_Handlers
begin

text \<open>
  The governing step of the staking module (\<^verbatim>\<open>script/staking/handler_govern.go\<close>), which every
  key block runs once: it distributes the rewards of the epoch, releases matured
  buckets, adds the bonus votes and computes the next delegate list.  At the end
  the dispatch of \<^verbatim>\<open>script/staking/handler.go\<close>.
\<close>

section \<open>Validator rewards before fork 12\<close>

definition push_reward :: "ValidatorReward \<Rightarrow> ValidatorRewardList \<Rightarrow> ValidatorRewardList" where
  "push_reward reward rewards =
     (let rLen = length rewards in
      if rLen \<ge> STAKING_MAX_VALIDATOR_REWARDS
      then drop (rLen - STAKING_MAX_VALIDATOR_REWARDS + 1) rewards @ [reward]
      else rewards @ [reward])"

definition record_rewards ::
  "uint32 \<Rightarrow> RewardInfo list \<Rightarrow> ValidatorRewardList \<Rightarrow> ScriptEnv \<Rightarrow> ScriptEnv" where
  "record_rewards epoch rinfo rewardList e =
     (let (acc, e) = DistValidatorRewards rinfo e;
          reward = \<lparr>vrEpoch = epoch, vrBaseReward = Params_Get KeyValidatorBaseReward (envState e),
                    vrTotalReward = acc, vrRewards = rinfo\<rparr>
      in onState (SetValidatorRewardList (push_reward reward rewardList)) e)"

definition distributeValidatorRewards :: "externals \<Rightarrow> ScriptEnv \<Rightarrow> StakingBody \<Rightarrow> ScriptEnv" where
  "distributeValidatorRewards X e sb =
     (let rewardList = GetValidatorRewardList (envState e) in
      case xDecodeRewardInfos X (sbExtraData sb) of
        None \<Rightarrow> e
      | Some rinfo \<Rightarrow>
          if length rinfo \<noteq> 0 then record_rewards (sbVersion sb) rinfo rewardList e
          else onState (SetValidatorRewardList rewardList) e)"

text \<open>
  The loop over the autobids writes through the pointer to the cached control block:
  the bids that were added before an early return stay in the cache.
\<close>

fun autobid_loop :: "externals \<Rightarrow> nat \<Rightarrow> RewardInfo list \<Rightarrow> AuctionCB \<Rightarrow> ScriptEnv \<Rightarrow> ScriptEnv" where
  "autobid_loop X i [] cb e = onState (SetAuctionCB cb) e"
| "autobid_loop X i (a # as) cb e =
     (if GetEnergy ValidatorBenefitAddr (envState e) < riAmount a then e
      else
        let tx = NewAuctionTx (xAuctionTxHash X) (riAddress a) (riAmount a) AUTO_BID (envTime e) (of_nat i);
            (failed, cb) = AddAuctionTx tx cb
        in
        if failed then e
        else
          let (err, e) = TransferAutobidMTRToAuction (riAddress a) (riAmount a) (onState (SetAuctionCB cb) e)
          in if err \<noteq> None then e else autobid_loop X (i + 1) as cb e)"

definition distributeAndAutobidAfterTeslaFork6 :: "externals \<Rightarrow> ScriptEnv \<Rightarrow> StakingBody \<Rightarrow> ScriptEnv" where
  "distributeAndAutobidAfterTeslaFork6 X e sb =
     (let rewardList = GetValidatorRewardList (envState e) in
      case xDecodeRewardInfoV2s X (sbExtraData sb) of
        None \<Rightarrow> e
      | Some riV2s \<Rightarrow>
          let rinfo = map (\<lambda>r. \<lparr>riAddress = riv2Address r, riAmount = riv2DistAmount r\<rparr>)
                        (filter (\<lambda>r. riv2DistAmount r > 0) riV2s);
              ainfo = map (\<lambda>r. \<lparr>riAddress = riv2Address r, riAmount = riv2AutobidAmount r\<rparr>)
                        (filter (\<lambda>r. riv2AutobidAmount r > 0) riV2s);
              e = (if length rinfo > 0 then record_rewards (sbVersion sb) rinfo rewardList e
                   else onState (SetValidatorRewardList rewardList) e);
              (auctionCB, s) = GetAuctionCB (envState e);
              e = e\<lparr>envState := s\<rparr>
          in if \<not> IsActive auctionCB then e else autobid_loop X 0 ainfo auctionCB e)"

section \<open>MTRG emission since fork 12\<close>

text \<open>
  The emission of a day is computed in 64-bit floating point (\<^verbatim>\<open>math.Log\<close>, \<^verbatim>\<open>math.Pow\<close>); it
  is the parameter \<open>xDailyReward\<close>.
\<close>

definition DailyReward :: "externals \<Rightarrow> int \<Rightarrow> int" where
  "DailyReward X i = xDailyReward X i"

text \<open>On an error the code returns 0 with it, and both callers drop the error.\<close>

definition ComputeEpochReleaseWithEmissionCurve :: "externals \<Rightarrow> State \<Rightarrow> uint64 \<Rightarrow> int \<times> go_error option" where
  "ComputeEpochReleaseWithEmissionCurve X s blockTime =
     (let fork12Start = big_Uint64 (Params_Get KeyTesla_Fork12_Timestamp s) in
      if blockTime \<ge> fork12Start then
        let duration = blockTime - fork12Start;
            days = uint (duration div 3600 div 24) + 1
        in if days \<ge> 0 then (big_Div \<bar>DailyReward X days\<bar> 24, None)
           else (0, Some (ErrText ''days<0, not valid for emission curve''))
      else (0, Some (ErrText ''not fork12 yet'')))"

definition MintMTRG :: "address \<Rightarrow> int \<Rightarrow> ScriptEnv \<Rightarrow> ScriptEnv" where
  "MintMTRG addr amount e =
     (if amount = 0 then e
      else
        AddTransfer 0 addr amount MTRG
          (onState (if isFork TeslaFork8 e then MintBalanceAfterFork8 addr amount
                    else MintBalance addr amount) e))"

definition distributeMTRGAfterTeslaFork12 ::
  "externals \<Rightarrow> ScriptEnv \<Rightarrow> CandidateList \<Rightarrow> InJailList \<Rightarrow> ScriptEnv go" where
  "distributeMTRGAfterTeslaFork12 X e candidateList inJailList =
     (let epochRelease = fst (ComputeEpochReleaseWithEmissionCurve X (envState e) (envTime e));
          injails = set (map jAddr inJailList);
          cands = filter (\<lambda>c. cAddr c \<notin> injails) candidateList;
          validCands = map_of (rev (map (\<lambda>c. (cAddr c, cTotalVotes c)) cands));
          totalVotes = fold (\<lambda>c acc. acc + cTotalVotes c) cands 0;
          sortedCands = sort_SliceStable (\<lambda>x y. x > y) (remdups (map cAddr cands))
      in go_fold (\<lambda>addr e.
           if totalVotes = 0 then Inl DivByZero
           else Inr (MintMTRG addr (big_Div (epochRelease * the (validCands addr)) totalVotes) e))
         sortedCands e)"

text \<open>
  A release map of the code: the keys in the order they were entered and the amount
  of each.  The sums do not depend on the order in which Go ranges over its maps.
\<close>

definition add_release :: "address \<Rightarrow> int \<Rightarrow> (address \<times> int) list \<Rightarrow> (address \<times> int) list" where
  "add_release a v m =
     (case map_of m a of None \<Rightarrow> m @ [(a, 0 + v)] | Some w \<Rightarrow> AList.update a (w + v) m)"

definition delegate_shares :: "Delegate \<Rightarrow> (address \<times> int) list" where
  "delegate_shares d =
     fold (\<lambda>dist. add_release (distAddress dist) (big_NewInt64 (distShares dist))) (dlgDistList d) []"

definition release_voter ::
  "Delegate \<Rightarrow> int \<Rightarrow> int \<Rightarrow> address \<times> int \<Rightarrow> (address \<times> int) list \<Rightarrow> (address \<times> int) list go" where
  "release_voter d mtrg totalShares entry m =
     (case entry of
        (voterAddr, shares) \<Rightarrow>
          if totalShares = 0 then Inl DivByZero
          else
            let reward = big_Div (mtrg * shares) totalShares in
            if voterAddr = dlgAddress d then Inr (add_release voterAddr reward m)
            else
              let commission = big_Div (reward * big_NewInt64 (dlgCommission d)) 1000000000 in
              Inr (add_release voterAddr (reward - commission)
                    (add_release (dlgAddress d) commission m)))"

definition release_delegate ::
  "int \<Rightarrow> int \<Rightarrow> Delegate \<Rightarrow> (address \<times> int) list \<Rightarrow> (address \<times> int) list go" where
  "release_delegate epochRelease totalVotes d m =
     (if totalVotes = 0 then Inl DivByZero
      else
        let mtrg = big_Div (epochRelease * dlgVotingPower d) totalVotes;
            totalShares = fold (\<lambda>dist acc. acc + big_NewInt64 (distShares dist)) (dlgDistList d) 0
        in go_fold (release_voter d mtrg totalShares) (delegate_shares d) (add_release (dlgAddress d) 0 m))"

definition distributeMTRGAfterTeslaFork13 ::
  "externals \<Rightarrow> ScriptEnv \<Rightarrow> DelegateList \<Rightarrow> InJailList \<Rightarrow> ScriptEnv go" where
  "distributeMTRGAfterTeslaFork13 X e delegateList inJailList =
     (let epochRelease = fst (ComputeEpochReleaseWithEmissionCurve X (envState e) (envTime e));
          injails = set (map jAddr inJailList);
          ds = filter (\<lambda>d. dlgAddress d \<notin> injails) delegateList;
          validDelegates = map_of (rev (map (\<lambda>d. (dlgAddress d, d)) ds));
          totalVotes = fold (\<lambda>d acc. acc + dlgVotingPower d) ds 0
      in go_bind
           (go_fold (\<lambda>a. release_delegate epochRelease totalVotes (the (validDelegates a)))
             (remdups (map dlgAddress ds)) [])
           (\<lambda>releaseMap.
              let sortedAddrs = sort_SliceStable (<) (map fst releaseMap)
              in Inr (fold (\<lambda>a. MintMTRG a (the (map_of releaseMap a))) sortedAddrs e)))"

section \<open>Delegates of the next epoch\<close>

text \<open>\<^verbatim>\<open>bytes.Compare\<close> on slices.\<close>

fun bytes_Compare :: "bytes \<Rightarrow> bytes \<Rightarrow> int" where
  "bytes_Compare [] [] = 0"
| "bytes_Compare [] (y # ys) = - 1"
| "bytes_Compare (x # xs) [] = 1"
| "bytes_Compare (x # xs) (y # ys) = (if x < y then - 1 else if y < x then 1 else bytes_Compare xs ys)"

definition delegate_before :: "Delegate \<Rightarrow> Delegate \<Rightarrow> bool" where
  "delegate_before x y =
     (if dlgVotingPower x > dlgVotingPower y then True
      else if dlgVotingPower x < dlgVotingPower y then False
      else bytes_Compare (dlgPubKey x) (dlgPubKey y) \<ge> 0)"

fun dist_list :: "BucketList \<Rightarrow> int \<Rightarrow> bytes32 list \<Rightarrow> Distributor list go" where
  "dist_list bl votes [] = Inr []"
| "dist_list bl votes (i # is) =
     (case BucketList_Get i bl of
        None \<Rightarrow> dist_list bl votes is
      | Some b \<Rightarrow>
          if votes = 0 then Inl DivByZero
          else
            go_bind (dist_list bl votes is) (\<lambda>ds. Inr
              (NewDistributor (Owner b) (Autobid b)
                 (big_Uint64 (big_Div (TotalVotes b * 1000000000) votes)) # ds)))"

fun collect_delegates :: "int \<Rightarrow> BucketList \<Rightarrow> InJailList \<Rightarrow> Candidate list \<Rightarrow> Delegate list go" where
  "collect_delegates minRequire bl jl [] = Inr []"
| "collect_delegates minRequire bl jl (c # cs) =
     (if InJailList_Exist (cAddr c) jl then collect_delegates minRequire bl jl cs
      else if cTotalVotes c < minRequire then collect_delegates minRequire bl jl cs
      else
        go_bind (dist_list bl (cTotalVotes c) (cBuckets c)) (\<lambda>dist.
        go_bind (collect_delegates minRequire bl jl cs) (\<lambda>ds. Inr
          (\<lparr>dlgAddress = cAddr c, dlgPubKey = cPubKey c, dlgName = cName c,
            dlgVotingPower = cTotalVotes c, dlgIPAddr = cIPAddr c, dlgPort = cPort c,
            dlgCommission = cCommission c, dlgDistList = dist\<rparr> # ds))))"

definition calcDelegates :: "ScriptEnv \<Rightarrow> BucketList \<Rightarrow> CandidateList \<Rightarrow> InJailList \<Rightarrow> ScriptEnv go" where
  "calcDelegates e bucketList candidateList inJailList =
     go_bind (collect_delegates (Params_Get KeyMinRequiredByDelegate (envState e)) bucketList inJailList
                candidateList)
       (\<lambda>delegates. Inr (onState (SetDelegateList (sort_SliceStable delegate_before delegates)) e))"

section \<open>Release of matured buckets and bonus votes\<close>

definition matured :: "uint64 \<Rightarrow> Bucket \<Rightarrow> bool" where
  "matured ts b = (Unbounded b \<and> ts \<ge> MatureTime b + 720)"

definition release_holder :: "Bucket \<Rightarrow> StakeholderList \<Rightarrow> StakeholderList" where
  "release_holder b sl =
     (case StakeholderList_Get (Owner b) sl of
        None \<Rightarrow> sl
      | Some h \<Rightarrow>
          let h = Stakeholder_RemoveBucket b h;
              sl = StakeholderList_Modify (Owner b) (\<lambda>_. h) sl
          in if length (sBuckets h) = 0 then StakeholderList_Remove (sHolder h) sl else sl)"

definition release_candidate :: "Bucket \<Rightarrow> CandidateList \<Rightarrow> CandidateList" where
  "release_candidate b cl =
     (case CandidateList_Get (Candidate b) cl of
        None \<Rightarrow> cl
      | Some c \<Rightarrow>
          let c = Candidate_RemoveBucket b c;
              cl = CandidateList_Modify (Candidate b) (\<lambda>_. c) cl
          in if length (cBuckets c) = 0 then CandidateList_Remove (cAddr c) cl else cl)"

definition unbound_token :: "Bucket \<Rightarrow> ScriptEnv \<Rightarrow> go_error option \<times> ScriptEnv" where
  "unbound_token b e =
     (if Token b = MTR then UnboundAccountMeter (Owner b) (Value b) e
      else if Token b = MTRG then UnboundAccountMeterGov (Owner b) (Value b) e
      else (Some (ErrText ''Invalid token parameter''), e))"

text \<open>
  The loop of the code removes the current bucket and steps back; it ends only if the
  removal finds the bucket.
\<close>

partial_function (option) unbound_loop ::
  "uint64 \<Rightarrow> nat \<Rightarrow> BucketList \<Rightarrow> CandidateList \<Rightarrow> StakeholderList \<Rightarrow> go_error option \<Rightarrow> ScriptEnv \<Rightarrow>
   (BucketList \<times> CandidateList \<times> StakeholderList \<times> go_error option \<times> ScriptEnv) option" where
  "unbound_loop ts i bl cl sl err e =
     (if i < length bl then
        if matured ts (bl ! i) then
          unbound_loop ts i (BucketList_Remove (BucketID (bl ! i)) bl) (release_candidate (bl ! i) cl)
            (release_holder (bl ! i) sl) (fst (unbound_token (bl ! i) e)) (snd (unbound_token (bl ! i) e))
        else unbound_loop ts (i + 1) bl cl sl err e
      else Some (bl, cl, sl, err, e))"

declare unbound_loop.simps [code]

definition add_bonus :: "uint64 \<Rightarrow> Bucket \<Rightarrow> Bucket" where
  "add_bonus ts b =
     (if ts \<ge> CalcLastTime b
      then b\<lparr>BonusVotes := 0,
             TotalVotes := TotalVotes b + CalcBonus (CalcLastTime b) ts (Rate b) (Value b),
             CalcLastTime := ts\<rparr>
      else b)"

definition credit_bonus :: "uint64 \<Rightarrow> Bucket \<Rightarrow> CandidateList \<Rightarrow> CandidateList" where
  "credit_bonus ts b cl =
     (if ts \<ge> CalcLastTime b \<and> Candidate b \<noteq> 0
      then CandidateList_Modify (Candidate b)
             (\<lambda>c. c\<lparr>cTotalVotes := cTotalVotes c + CalcBonus (CalcLastTime b) ts (Rate b) (Value b)\<rparr>) cl
      else cl)"

type_synonym staking_lists = "BucketList \<times> CandidateList \<times> StakeholderList \<times> go_error option \<times> ScriptEnv"

definition unboundAndCalcBonusAfterTeslaFork5 ::
  "ScriptEnv \<Rightarrow> BucketList \<Rightarrow> CandidateList \<Rightarrow> StakeholderList \<Rightarrow> uint64 \<Rightarrow> staking_lists go" where
  "unboundAndCalcBonusAfterTeslaFork5 e bl cl sl ts =
     (case unbound_loop ts 0 bl cl sl None e of
        None \<Rightarrow> Inl NoReturn
      | Some (bl, cl, sl, err, e) \<Rightarrow>
          Inr (map (add_bonus ts) bl, fold (credit_bonus ts) bl cl, sl, err, e))"

text \<open>
  Before fork 5 the loop ranged over the slice it removed from.  Go evaluates the slice
  once, and a removal shifts the elements of the same array: the loop skips the bucket
  after a removed one and meets the last ones again.  \<open>heap\<close> holds the buckets the
  pointers of the array \<open>arr\<close> refer to, \<open>len\<close> is the current length of the slice.
\<close>

record range_state =
  heap :: "Bucket list"
  arr :: "nat list"
  len :: nat
  rsCandidates :: CandidateList
  rsStakeholders :: StakeholderList
  rsErr :: "go_error option"
  rsEnv :: ScriptEnv

definition range_list :: "range_state \<Rightarrow> BucketList" where
  "range_list r = map ((!) (heap r)) (take (len r) (arr r))"

definition range_remove :: "bytes32 \<Rightarrow> range_state \<Rightarrow> range_state" where
  "range_remove i r =
     (let (index, _) = BucketList_indexOf i (range_list r) in
      if index \<ge> 0
      then r\<lparr>arr := take (nat index) (arr r) @ drop (nat index + 1) (take (len r) (arr r)) @
                     drop (len r - 1) (arr r),
             len := len r - 1\<rparr>
      else r)"

text \<open>A candidate found here is in the list, so the list is not empty and nothing is removed.\<close>

definition range_release_candidate :: "Bucket \<Rightarrow> CandidateList \<Rightarrow> CandidateList" where
  "range_release_candidate b cl =
     (case CandidateList_Get (Candidate b) cl of
        None \<Rightarrow> cl
      | Some c \<Rightarrow>
          let c = Candidate_RemoveBucket b c;
              cl = CandidateList_Modify (Candidate b) (\<lambda>_. c) cl
          in if length cl = 0 then CandidateList_Remove (cAddr c) cl else cl)"

definition range_step :: "uint64 \<Rightarrow> nat \<Rightarrow> range_state \<Rightarrow> range_state" where
  "range_step ts k r =
     (let p = arr r ! k; b = heap r ! p in
      if Unbounded b then
        if ts \<ge> MatureTime b + 720 then
          let (err, e) = unbound_token b (rsEnv r);
              r = r\<lparr>rsStakeholders := release_holder b (rsStakeholders r),
                    rsCandidates := range_release_candidate b (rsCandidates r),
                    rsErr := err, rsEnv := e\<rparr>
          in range_remove (BucketID b) r
        else r
      else if ts \<ge> CalcLastTime b then
        let bonusDelta = CalcBonus (CalcLastTime b) ts (Rate b) (Value b) in
        r\<lparr>heap := (heap r)[p := b\<lparr>BonusVotes := BonusVotes b + big_Uint64 bonusDelta,
                                  TotalVotes := TotalVotes b + bonusDelta, CalcLastTime := ts\<rparr>],
          rsCandidates := credit_bonus ts b (rsCandidates r)\<rparr>
      else r)"

definition unboundAndCalcBonus ::
  "ScriptEnv \<Rightarrow> BucketList \<Rightarrow> CandidateList \<Rightarrow> StakeholderList \<Rightarrow> uint64 \<Rightarrow> staking_lists" where
  "unboundAndCalcBonus e bl cl sl ts =
     (let n = length bl;
          r = fold (range_step ts) [0..<n]
                \<lparr>heap = bl, arr = [0..<n], len = n, rsCandidates = cl, rsStakeholders = sl,
                 rsErr = None, rsEnv = e\<rparr>
      in (range_list r, rsCandidates r, rsStakeholders r, rsErr r, rsEnv r))"

section \<open>The governing handler\<close>

definition GoverningHandler :: "externals \<Rightarrow> ScriptEnv \<Rightarrow> StakingBody \<Rightarrow> uint64 \<Rightarrow> handler_result" where
  "GoverningHandler X e sb gas =
     (let s = envState e;
          candidateList = GetCandidateList s;
          bucketList = GetBucketList (xBucketHash X) s;
          stakeholderList = GetStakeHolderList s;
          inJailList = GetInJailList s;
          delegateList = GetDelegateList s
      in
      go_bind
        (if isFork TeslaFork13 e then distributeMTRGAfterTeslaFork13 X e delegateList inJailList
         else if isFork TeslaFork12 e then distributeMTRGAfterTeslaFork12 X e candidateList inJailList
         else if isFork TeslaFork6 e then Inr (distributeAndAutobidAfterTeslaFork6 X e sb)
         else Inr (distributeValidatorRewards X e sb))
        (\<lambda>e.
      go_bind
        (if isFork TeslaFork7 e
         then unboundAndCalcBonusAfterTeslaFork5 e bucketList candidateList stakeholderList (envTime e)
         else if isFork TeslaFork5 e
         then unboundAndCalcBonusAfterTeslaFork5 e bucketList candidateList stakeholderList (sbTimestamp sb)
         else Inr (unboundAndCalcBonus e bucketList candidateList stakeholderList (sbTimestamp sb)))
        (\<lambda>(bucketList, candidateList, stakeholderList, err, e).
      go_bind
        (if IsStaging (envConfig e) then Inr e
         else calcDelegates e bucketList candidateList inJailList)
        (\<lambda>e. handler_return gas err (SetLists candidateList bucketList stakeholderList e)))))"

section \<open>Dispatch\<close>

definition OP_BOUND :: uint32 where "OP_BOUND = 1"
definition OP_UNBOUND :: uint32 where "OP_UNBOUND = 2"
definition OP_CANDIDATE :: uint32 where "OP_CANDIDATE = 3"
definition OP_UNCANDIDATE :: uint32 where "OP_UNCANDIDATE = 4"
definition OP_DELEGATE :: uint32 where "OP_DELEGATE = 5"
definition OP_UNDELEGATE :: uint32 where "OP_UNDELEGATE = 6"
definition OP_CANDIDATE_UPDT :: uint32 where "OP_CANDIDATE_UPDT = 7"
definition OP_BUCKET_UPDT :: uint32 where "OP_BUCKET_UPDT = 8"
definition OP_DELEGATE_STATISTICS :: uint32 where "OP_DELEGATE_STATISTICS = 101"
definition OP_DELEGATE_EXITJAIL :: uint32 where "OP_DELEGATE_EXITJAIL = 102"
definition OP_FLUSH_ALL_STATISTICS :: uint32 where "OP_FLUSH_ALL_STATISTICS = 103"
definition OP_GOVERNING :: uint32 where "OP_GOVERNING = 10001"

lemmas opcode_defs = OP_BOUND_def OP_UNBOUND_def OP_CANDIDATE_def OP_UNCANDIDATE_def OP_DELEGATE_def
  OP_UNDELEGATE_def OP_CANDIDATE_UPDT_def OP_BUCKET_UPDT_def OP_DELEGATE_STATISTICS_def
  OP_DELEGATE_EXITJAIL_def OP_FLUSH_ALL_STATISTICS_def OP_GOVERNING_def

definition from_holder ::
  "(externals \<Rightarrow> ScriptEnv \<Rightarrow> StakingBody \<Rightarrow> uint64 \<Rightarrow> handler_result) \<Rightarrow>
   externals \<Rightarrow> ScriptEnv \<Rightarrow> StakingBody \<Rightarrow> uint64 \<Rightarrow> handler_result" where
  "from_holder h X e sb gas =
     (if txcOrigin (envTxCtx e) \<noteq> sbHolderAddr sb
      then Inr (gas, Some (ErrText ''holder address is not the same from transaction''), e)
      else h X e sb gas)"

definition from_candidate ::
  "(externals \<Rightarrow> ScriptEnv \<Rightarrow> StakingBody \<Rightarrow> uint64 \<Rightarrow> handler_result) \<Rightarrow>
   externals \<Rightarrow> ScriptEnv \<Rightarrow> StakingBody \<Rightarrow> uint64 \<Rightarrow> handler_result" where
  "from_candidate h X e sb gas =
     (if txcOrigin (envTxCtx e) \<noteq> sbCandAddr sb
      then Inr (gas, Some (ErrText ''candidate address is not the same from transaction''), e)
      else h X e sb gas)"

definition from_kblock ::
  "(externals \<Rightarrow> ScriptEnv \<Rightarrow> StakingBody \<Rightarrow> uint64 \<Rightarrow> handler_result) \<Rightarrow> address option \<Rightarrow>
   externals \<Rightarrow> ScriptEnv \<Rightarrow> StakingBody \<Rightarrow> uint64 \<Rightarrow> handler_result" where
  "from_kblock h to X e sb gas =
     (if \<not> Address_IsZero (txcOrigin (envTxCtx e))
      then Inr (gas, Some (ErrText ''not from kblock''), e)
      else
        (case to of
           None \<Rightarrow> Inl NilDeref
         | Some a \<Rightarrow>
             if a \<noteq> StakingModuleAddr
             then Inr (gas, Some (ErrText ''to address is not the same from module address''), e)
             else h X e sb gas))"

text \<open>The payload is decoded by the RLP library; \<open>None\<close> is a payload it refuses.\<close>

definition Handle ::
  "externals \<Rightarrow> ScriptEnv \<Rightarrow> StakingBody option \<Rightarrow> address option \<Rightarrow> uint64 \<Rightarrow> handler_result" where
  "Handle X e payload to gas =
     (case payload of
        None \<Rightarrow> Inr (gas, Some (ErrText ''rlp''), e)
      | Some sb \<Rightarrow>
          let op = sbOpcode sb in
          if op = OP_BOUND then from_holder BoundHandler X e sb gas
          else if op = OP_UNBOUND then from_holder UnBoundHandler X e sb gas
          else if op = OP_CANDIDATE then from_candidate CandidateHandler X e sb gas
          else if op = OP_UNCANDIDATE then from_candidate UnCandidateHandler X e sb gas
          else if op = OP_DELEGATE then from_holder DelegateHandler X e sb gas
          else if op = OP_UNDELEGATE then from_holder UnDelegateHandler X e sb gas
          else if op = OP_GOVERNING then from_kblock GoverningHandler to X e sb gas
          else if op = OP_CANDIDATE_UPDT then from_candidate CandidateUpdateHandler X e sb gas
          else if op = OP_BUCKET_UPDT then from_holder BucketUpdateHandler X e sb gas
          else if op = OP_DELEGATE_STATISTICS then from_kblock DelegateStatHandler to X e sb gas
          else if op = OP_DELEGATE_EXITJAIL then from_candidate DelegateExitJailHandler X e sb gas
          else if op = OP_FLUSH_ALL_STATISTICS then
            let executor = Params_GetAddress KeyExecutorAddress (envState e) in
            if txcOrigin (envTxCtx e) \<noteq> executor \<or> sbHolderAddr sb \<noteq> executor
            then Inr (gas, Some (ErrText ''only executor can exec this API''), e)
            else DelegateStatFlushHandler X e sb gas
          else Inr (gas, Some (ErrText ''unknow staking opcode''), e))"

end
