(* ===== verification/Staking_Books.thy ===== *)
theory Staking_Books
  imports Staking_Govern
begin

text \<open>
  The bookkeeping invariant of staking and the effect of the list operations on it.
  The buckets are the ledger: the bounded balance of an account is the sum of the
  values of its buckets, and a candidate lists exactly the buckets that vote for it and
  holds the sum of their votes.  The invariant is stated over the multiset of
  buckets and over the lookup function of the candidate list, so that the
  operations of the code become additions to and removals from a multiset.
\<close>

section \<open>What the buckets say\<close>

definition votes_for :: "address \<Rightarrow> Bucket multiset \<Rightarrow> int" where
  "votes_for a M = (\<Sum>b\<in>#M. if Candidate b = a then TotalVotes b else 0)"

definition stake_of :: "address \<Rightarrow> Bucket multiset \<Rightarrow> int" where
  "stake_of a M = (\<Sum>b\<in>#M. if Owner b = a then Value b else 0)"

definition ids_for :: "address \<Rightarrow> Bucket multiset \<Rightarrow> bytes32 multiset" where
  "ids_for a M = image_mset BucketID (filter_mset (\<lambda>b. Candidate b = a) M)"

lemma votes_for_simps [simp]:
  "votes_for a {#} = 0"
  "votes_for a (add_mset b M) = (if Candidate b = a then TotalVotes b else 0) + votes_for a M"
  by (simp_all add: votes_for_def)

lemma stake_of_simps [simp]:
  "stake_of a {#} = 0"
  "stake_of a (add_mset b M) = (if Owner b = a then Value b else 0) + stake_of a M"
  by (simp_all add: stake_of_def)

lemma ids_for_simps [simp]:
  "ids_for a {#} = {#}"
  "ids_for a (add_mset b M) = (if Candidate b = a then add_mset (BucketID b) (ids_for a M) else ids_for a M)"
  by (simp_all add: ids_for_def)

lemma ids_for_empty_iff: "ids_for a M = {#} \<longleftrightarrow> (\<forall>b\<in>#M. Candidate b \<noteq> a)"
  by (induction M) auto

lemma in_ids_for: "i \<in># ids_for a M \<longleftrightarrow> (\<exists>b\<in>#M. Candidate b = a \<and> BucketID b = i)"
  by (auto simp: ids_for_def)

lemma votes_for_none: "(\<forall>b\<in>#M. Candidate b \<noteq> a) \<Longrightarrow> votes_for a M = 0"
  by (induction M) auto

lemma votes_for_nonneg: "(\<forall>b\<in>#M. 0 \<le> TotalVotes b) \<Longrightarrow> 0 \<le> votes_for a M"
  by (induction M) auto

lemma stake_of_nonneg: "(\<forall>b\<in>#M. 0 \<le> Value b) \<Longrightarrow> 0 \<le> stake_of a M"
  by (induction M) auto

section \<open>The invariant\<close>

definition bucket_ok :: "bucket_hash \<Rightarrow> Bucket \<Rightarrow> bool" where
  "bucket_ok hash b \<longleftrightarrow>
     BucketID b = Bucket_ID hash b \<and> 0 \<le> Value b \<and> Value b \<le> TotalVotes b \<and> Token b = MTRG"

definition buckets_ok :: "bucket_hash \<Rightarrow> BucketList \<Rightarrow> bool" where
  "buckets_ok hash bl \<longleftrightarrow> BucketList_wf bl \<and> (\<forall>b\<in>set bl. bucket_ok hash b)"

definition votes_ok :: "Bucket multiset \<Rightarrow> (address \<Rightarrow> Candidate option) \<Rightarrow> bool" where
  "votes_ok M g \<longleftrightarrow>
     (\<forall>a c. g a = Some c \<longrightarrow> a \<noteq> 0 \<and> mset (cBuckets c) = ids_for a M \<and> cTotalVotes c = votes_for a M) \<and>
     (\<forall>b\<in>#M. Candidate b \<noteq> 0 \<longrightarrow> g (Candidate b) \<noteq> None)"

definition bound_ok :: "Bucket multiset \<Rightarrow> (address \<Rightarrow> int) \<Rightarrow> bool" where
  "bound_ok M bound \<longleftrightarrow> (\<forall>a. bound a = stake_of a M)"

definition holders_ok :: "StakeholderList \<Rightarrow> bool" where
  "holders_ok sl \<longleftrightarrow> StakeholderList_wf sl \<and> (\<forall>h\<in>set sl. 0 \<le> sTotalStake h)"

definition cands :: "CandidateList \<Rightarrow> address \<Rightarrow> Candidate option" where
  "cands cl = (\<lambda>a. CandidateList_Get a cl)"

text \<open>The lookup function after the operations of the code on a candidate list.\<close>

lemma cands_Modify:
  "CandidateList_wf cl \<Longrightarrow> (\<And>c. CandidateList_Get a cl = Some c \<Longrightarrow> cAddr (f c) = a) \<Longrightarrow>
     cands (CandidateList_Modify a f cl) = (cands cl)(a := map_option f (cands cl a))"
  unfolding cands_def by (rule ext) (subst cl.get_modify; simp)

lemma cands_Add:
  "CandidateList_wf cl \<Longrightarrow> cands (CandidateList_Add c cl) = (cands cl)(cAddr c \<mapsto> c)"
  unfolding cands_def by (rule ext) (simp add: cl.get_add)

lemma cands_Remove:
  "CandidateList_wf cl \<Longrightarrow> cands (CandidateList_Remove a cl) = (cands cl)(a := None)"
  unfolding cands_def by (rule ext) (simp add: cl.get_remove)

section \<open>Votes under the operations\<close>

lemma votes_ok_zero: "votes_ok M g \<Longrightarrow> g 0 = None"
  unfolding votes_ok_def by (cases "g 0") auto

text \<open>A bucket is added without a candidate, or with a listed one, or with a new one.\<close>

lemma votes_ok_add_free: "votes_ok M g \<Longrightarrow> Candidate b = 0 \<Longrightarrow> votes_ok (add_mset b M) g"
  unfolding votes_ok_def by auto

lemma votes_ok_add:
  assumes "votes_ok M g" "Candidate b \<noteq> 0" "g (Candidate b) \<noteq> None"
    and "\<And>c. mset (cBuckets (f c)) = add_mset (BucketID b) (mset (cBuckets c)) \<and>
           cTotalVotes (f c) = cTotalVotes c + TotalVotes b"
  shows "votes_ok (add_mset b M) (g(Candidate b := map_option f (g (Candidate b))))"
  using assms unfolding votes_ok_def by auto

lemma votes_ok_new:
  assumes "votes_ok M g" "Candidate b \<noteq> 0" "g (Candidate b) = None"
    and "cBuckets c = [BucketID b]" "cTotalVotes c = TotalVotes b"
  shows "votes_ok (add_mset b M) (g(Candidate b \<mapsto> c))"
proof -
  have none: "\<forall>x\<in>#M. Candidate x \<noteq> Candidate b" using assms(1-3) unfolding votes_ok_def by metis
  then show ?thesis
    using assms votes_for_none [OF none] ids_for_empty_iff [of "Candidate b" M]
    unfolding votes_ok_def by auto
qed

text \<open>A bucket is taken out.\<close>

lemma votes_ok_remove:
  assumes ok: "votes_ok (add_mset b M) g" and "\<forall>x\<in>#M. 0 \<le> TotalVotes x"
  shows "votes_ok M (g(Candidate b := map_option (Candidate_RemoveBucket b) (g (Candidate b))))"
proof -
  have "mset (cBuckets (Candidate_RemoveBucket b c)) = ids_for (Candidate b) M \<and>
      cTotalVotes (Candidate_RemoveBucket b c) = votes_for (Candidate b) M"
    if "g (Candidate b) = Some c" for c
  proof -
    have c: "mset (cBuckets c) = add_mset (BucketID b) (ids_for (Candidate b) M)"
      "cTotalVotes c = TotalVotes b + votes_for (Candidate b) M"
      using ok that unfolding votes_ok_def by auto
    have "BucketID b \<in> set (cBuckets c)" using c(1) by (metis set_mset_mset union_single_eq_member)
    then show ?thesis
      using c votes_for_nonneg [OF assms(2), of "Candidate b"] by (simp add: Candidate_RemoveBucket_def Let_def)
  qed
  then show ?thesis using ok unfolding votes_ok_def by auto
qed

lemma votes_ok_remove_free: "votes_ok (add_mset b M) g \<Longrightarrow> Candidate b = 0 \<Longrightarrow> votes_ok M g"
  unfolding votes_ok_def by auto

text \<open>The votes of a bucket change, and its candidate gets the difference.\<close>

lemma votes_ok_replace:
  assumes "votes_ok (add_mset b M) g" "BucketID b' = BucketID b" "Candidate b' = Candidate b"
    and "\<And>c. mset (cBuckets (f c)) = mset (cBuckets c) \<and>
           cTotalVotes (f c) = cTotalVotes c + (TotalVotes b' - TotalVotes b)"
  shows "votes_ok (add_mset b' M) (g(Candidate b := map_option f (g (Candidate b))))"
  using assms unfolding votes_ok_def by auto

lemma votes_ok_same:
  assumes "votes_ok (add_mset b M) g" "BucketID b' = BucketID b" "Candidate b' = Candidate b"
    and "TotalVotes b' = TotalVotes b"
  shows "votes_ok (add_mset b' M) g"
  using assms unfolding votes_ok_def by auto

text \<open>Only the description of a candidate changes, or a candidate without buckets goes.\<close>

lemma votes_ok_info:
  assumes "votes_ok M g" "g a = Some c" "cBuckets c' = cBuckets c" "cTotalVotes c' = cTotalVotes c"
  shows "votes_ok M (g(a \<mapsto> c'))"
  using assms unfolding votes_ok_def by auto

lemma votes_ok_drop:
  assumes "votes_ok M g" "g a = Some c" "cBuckets c = []"
  shows "votes_ok M (g(a := None))"
proof -
  have "\<forall>b\<in>#M. Candidate b \<noteq> a"
    using assms ids_for_empty_iff [of a M] unfolding votes_ok_def by (metis mset.simps(1))
  then show ?thesis using assms(1) unfolding votes_ok_def by auto
qed

section \<open>Bounded balances under the operations\<close>

lemma bound_ok_add:
  "bound_ok M bound \<Longrightarrow> bound_ok (add_mset b M) (bound(Owner b := bound (Owner b) + Value b))"
  unfolding bound_ok_def by auto

lemma bound_ok_remove:
  "bound_ok (add_mset b M) bound \<Longrightarrow> bound_ok M (bound(Owner b := bound (Owner b) - Value b))"
  unfolding bound_ok_def by auto

lemma bound_ok_replace:
  "bound_ok (add_mset b M) bound \<Longrightarrow> Owner b' = Owner b \<Longrightarrow>
     bound_ok (add_mset b' M) (bound(Owner b := bound (Owner b) + (Value b' - Value b)))"
  unfolding bound_ok_def by auto

lemma bound_ok_same:
  "bound_ok (add_mset b M) bound \<Longrightarrow> Owner b' = Owner b \<Longrightarrow> Value b' = Value b \<Longrightarrow>
     bound_ok (add_mset b' M) bound"
  unfolding bound_ok_def by auto

lemma bound_ok_covers:
  assumes "bound_ok (add_mset b M) bound" "\<forall>x\<in>#M. 0 \<le> Value x"
  shows "Value b \<le> bound (Owner b)"
  using assms(1) stake_of_nonneg [OF assms(2), of "Owner b"] unfolding bound_ok_def by simp

section \<open>Bucket lists under the operations\<close>

lemma buckets_ok_Add:
  "buckets_ok hash bl \<Longrightarrow> bucket_ok hash b \<Longrightarrow> buckets_ok hash (BucketList_Add b bl)"
  unfolding buckets_ok_def by (auto simp: bl.wf_add bl.set_add)

lemma buckets_ok_Remove: "buckets_ok hash bl \<Longrightarrow> buckets_ok hash (BucketList_Remove i bl)"
  unfolding buckets_ok_def by (auto simp: bl.wf_remove bl.set_remove)

lemma buckets_ok_Modify:
  assumes ok: "buckets_ok hash bl"
    and f: "\<And>b. BucketList_Get i bl = Some b \<Longrightarrow> BucketID (f b) = i \<and> bucket_ok hash (f b)"
  shows "buckets_ok hash (BucketList_Modify i f bl)"
proof (cases "BucketList_Get i bl")
  case None
  then show ?thesis using ok by (simp add: bl.modify_absent)
next
  case (Some b)
  have "BucketList_wf (BucketList_Modify i f bl)"
    using ok f by (intro bl.wf_modify) (auto simp: buckets_ok_def)
  then show ?thesis
    using ok f Some bl.set_modify [of bl i b f] unfolding buckets_ok_def by auto
qed

text \<open>A bucket found in the list, and the others.\<close>

lemma bucket_found:
  assumes "buckets_ok hash bl" "BucketList_Get i bl = Some b"
  obtains M where "mset bl = add_mset b M" "BucketID b = i" "bucket_ok hash b"
    "\<forall>x\<in>#M. bucket_ok hash x" "mset (BucketList_Remove i bl) = M"
    "\<And>f. BucketID (f b) = i \<Longrightarrow> mset (BucketList_Modify i f bl) = add_mset (f b) M"
proof -
  have wf: "BucketList_wf bl" using assms(1) by (simp add: buckets_ok_def)
  obtain M where M: "mset bl = add_mset b M" using bl.get_split [OF wf assms(2)] by blast
  have set: "set bl = insert b (set_mset M)" using arg_cong [OF M, of set_mset] by simp
  show ?thesis
  proof (rule that [OF M])
    show "BucketID b = i" using bl.get_key [OF wf assms(2)] .
    show "bucket_ok hash b" "\<forall>x\<in>#M. bucket_ok hash x" using assms(1) set by (auto simp: buckets_ok_def)
    show "mset (BucketList_Remove i bl) = M" by (rule bl.remove_split [OF wf assms(2) M])
    show "mset (BucketList_Modify i f bl) = add_mset (f b) M" if "BucketID (f b) = i" for f
      using bl.modify_split [of bl i b f] wf assms(2) that M by simp
  qed
qed

lemma bucket_ok_votes: "\<forall>x\<in>#M. bucket_ok hash x \<Longrightarrow> \<forall>x\<in>#M. 0 \<le> TotalVotes x"
  unfolding bucket_ok_def by force

lemma bucket_ok_values: "\<forall>x\<in>#M. bucket_ok hash x \<Longrightarrow> \<forall>x\<in>#M. 0 \<le> Value x"
  unfolding bucket_ok_def by force

section \<open>Stakeholder lists under the operations\<close>

lemma holders_ok_Modify:
  assumes "holders_ok sl" "\<And>h. sHolder (f h) = sHolder h" "\<And>h. 0 \<le> sTotalStake h \<Longrightarrow> 0 \<le> sTotalStake (f h)"
  shows "holders_ok (StakeholderList_Modify a f sl)"
proof (cases "StakeholderList_Get a sl")
  case None
  then show ?thesis using assms(1) by (simp add: sl.modify_absent)
next
  case (Some h)
  have wf: "StakeholderList_wf sl" using assms(1) by (simp add: holders_ok_def)
  have a: "sHolder (f h) = a" using assms(2) sl.get_key [OF wf Some] by simp
  have "StakeholderList_wf (StakeholderList_Modify a f sl)"
    using a Some by (intro sl.wf_modify wf) simp
  moreover have "0 \<le> sTotalStake (f h)"
    using assms(1,3) sl.get_in_set [OF wf Some] by (simp add: holders_ok_def)
  ultimately show ?thesis
    using assms(1) sl.set_modify [of sl a h f] wf Some a unfolding holders_ok_def by auto
qed

lemma holders_ok_Add:
  "holders_ok sl \<Longrightarrow> 0 \<le> sTotalStake h \<Longrightarrow> holders_ok (StakeholderList_Add h sl)"
  unfolding holders_ok_def by (auto simp: sl.wf_add sl.set_add)

lemma holders_ok_Remove: "holders_ok sl \<Longrightarrow> holders_ok (StakeholderList_Remove a sl)"
  unfolding holders_ok_def by (auto simp: sl.wf_remove sl.set_remove)

lemma holders_ok_add_to_holder: "holders_ok sl \<Longrightarrow> 0 \<le> Value b \<Longrightarrow> holders_ok (add_to_holder b sl)"
  unfolding add_to_holder_def
  by (auto intro!: holders_ok_Add holders_ok_Modify
      simp: Stakeholder_AddBucket_def NewStakeholder_def split: option.splits)

section \<open>The books under the operations\<close>

text \<open>The part of the invariant that ties buckets, votes and bounded balances together.\<close>

definition core :: "bucket_hash \<Rightarrow> BucketList \<Rightarrow> (address \<Rightarrow> Candidate option) \<Rightarrow> (address \<Rightarrow> int) \<Rightarrow> bool" where
  "core hash bl g bound \<longleftrightarrow>
     buckets_ok hash bl \<and> votes_ok (mset bl) g \<and> bound_ok (mset bl) bound"

lemma coreD:
  assumes "core hash bl g bound"
  shows "buckets_ok hash bl" "votes_ok (mset bl) g" "bound_ok (mset bl) bound" "BucketList_wf bl"
    "g 0 = None"
  using assms votes_ok_zero by (auto simp: core_def buckets_ok_def)

lemma core_open_free:
  assumes "core hash bl g bound" "BucketList_Get (BucketID b) bl = None" "bucket_ok hash b"
    and "Candidate b = 0"
  shows "core hash (BucketList_Add b bl) g (bound(Owner b := bound (Owner b) + Value b))"
  using assms coreD [OF assms(1)]
  by (simp add: core_def buckets_ok_Add bl.mset_add_fresh votes_ok_add_free bound_ok_add)

lemma core_open:
  assumes "core hash bl g bound" "BucketList_Get (BucketID b) bl = None" "bucket_ok hash b"
    and "Candidate b \<noteq> 0" "g (Candidate b) \<noteq> None"
    and "\<And>c. mset (cBuckets (f c)) = add_mset (BucketID b) (mset (cBuckets c)) \<and>
           cTotalVotes (f c) = cTotalVotes c + TotalVotes b"
  shows "core hash (BucketList_Add b bl) (g(Candidate b := map_option f (g (Candidate b))))
           (bound(Owner b := bound (Owner b) + Value b))"
  using assms(2-3) coreD [OF assms(1)] votes_ok_add [OF coreD(2) [OF assms(1)] assms(4-6)]
  by (simp add: core_def buckets_ok_Add bl.mset_add_fresh bound_ok_add)

lemma core_new:
  assumes "core hash bl g bound" "BucketList_Get (BucketID b) bl = None" "bucket_ok hash b"
    and "Candidate b \<noteq> 0" "g (Candidate b) = None" "cBuckets c = [BucketID b]" "cTotalVotes c = TotalVotes b"
  shows "core hash (BucketList_Add b bl) (g(Candidate b \<mapsto> c))
           (bound(Owner b := bound (Owner b) + Value b))"
  using assms(2-3) coreD [OF assms(1)] votes_ok_new [OF coreD(2) [OF assms(1)] assms(4-7)]
  by (simp add: core_def buckets_ok_Add bl.mset_add_fresh bound_ok_add)

text \<open>Fields that an update of a bucket never changes.\<close>

definition same_bucket :: "Bucket \<Rightarrow> Bucket \<Rightarrow> bool" where
  "same_bucket b b' \<longleftrightarrow> BucketID b' = BucketID b \<and> Owner b' = Owner b \<and> Nonce b' = Nonce b \<and>
     CreateTime b' = CreateTime b \<and> Token b' = Token b"

lemma bucket_ok_update:
  "bucket_ok hash b \<Longrightarrow> same_bucket b b' \<Longrightarrow> 0 \<le> Value b' \<Longrightarrow> Value b' \<le> TotalVotes b' \<Longrightarrow> bucket_ok hash b'"
  by (simp add: bucket_ok_def same_bucket_def Bucket_ID_def)

lemma core_update:
  assumes "core hash bl g bound" "BucketList_Get i bl = Some b" "same_bucket b b'"
    and "0 \<le> Value b'" "Value b' \<le> TotalVotes b'"
    and "\<And>M. votes_ok (add_mset b M) g \<Longrightarrow> \<forall>x\<in>#M. 0 \<le> TotalVotes x \<Longrightarrow> votes_ok (add_mset b' M) g'"
    and "\<And>M. bound_ok (add_mset b M) bound \<Longrightarrow> bound_ok (add_mset b' M) bound'"
  shows "core hash (BucketList_Modify i (\<lambda>_. b') bl) g' bound'"
proof -
  note ok = coreD [OF assms(1)]
  obtain M where M: "mset bl = add_mset b M" "BucketID b = i" "bucket_ok hash b" "\<forall>x\<in>#M. bucket_ok hash x"
    "\<And>f. BucketID (f b) = i \<Longrightarrow> mset (BucketList_Modify i f bl) = add_mset (f b) M"
    using bucket_found [OF ok(1) assms(2)] by metis
  have b': "bucket_ok hash b'" "BucketID b' = i"
    using bucket_ok_update [OF M(3) assms(3-5)] assms(3) M(2) by (simp_all add: same_bucket_def)
  have "buckets_ok hash (BucketList_Modify i (\<lambda>_. b') bl)"
    using ok(1) b' by (intro buckets_ok_Modify) auto
  then show ?thesis
    using ok(2,3) M(1) M(5) [of "\<lambda>_. b'"] b' assms(6) [of M] assms(7) [of M] bucket_ok_votes [OF M(4)]
    by (simp add: core_def)
qed

lemma core_replace:
  assumes "core hash bl g bound" "BucketList_Get i bl = Some b" "same_bucket b b'"
    and "0 \<le> Value b'" "Value b' \<le> TotalVotes b'" "Candidate b' = Candidate b"
    and "\<And>c. mset (cBuckets (f c)) = mset (cBuckets c) \<and>
           cTotalVotes (f c) = cTotalVotes c + (TotalVotes b' - TotalVotes b)"
  shows "core hash (BucketList_Modify i (\<lambda>_. b') bl) (g(Candidate b := map_option f (g (Candidate b))))
           (bound(Owner b := bound (Owner b) + (Value b' - Value b)))"
  using assms by (intro core_update [of hash bl g bound i b b'])
    (auto simp: same_bucket_def intro: votes_ok_replace bound_ok_replace)

lemma core_same:
  assumes "core hash bl g bound" "BucketList_Get i bl = Some b" "same_bucket b b'"
    and "Value b' = Value b" "TotalVotes b' = TotalVotes b" "Candidate b' = Candidate b"
  shows "core hash (BucketList_Modify i (\<lambda>_. b') bl) g bound"
proof -
  have "bucket_ok hash b" using bucket_found [OF coreD(1) [OF assms(1)] assms(2)] by metis
  then show ?thesis
    using assms by (intro core_update [of hash bl g bound i b b'])
      (auto simp: same_bucket_def bucket_ok_def intro: votes_ok_same bound_ok_same)
qed

lemma core_free:
  assumes "core hash bl g bound" "BucketList_Get i bl = Some b" "same_bucket b b'"
    and "Value b' = Value b" "TotalVotes b' = TotalVotes b" "Candidate b' = 0"
  shows "core hash (BucketList_Modify i (\<lambda>_. b') bl)
           (g(Candidate b := map_option (Candidate_RemoveBucket b) (g (Candidate b)))) bound"
proof -
  have "bucket_ok hash b" using bucket_found [OF coreD(1) [OF assms(1)] assms(2)] by metis
  then show ?thesis
    using assms by (intro core_update [of hash bl g bound i b b'])
      (auto simp: same_bucket_def bucket_ok_def intro: votes_ok_add_free votes_ok_remove bound_ok_same)
qed

lemma core_vote:
  assumes "core hash bl g bound" "BucketList_Get i bl = Some b" "same_bucket b b'"
    and "Value b' = Value b" "TotalVotes b' = TotalVotes b" "Candidate b = 0"
    and "Candidate b' \<noteq> 0" "g (Candidate b') \<noteq> None"
    and f: "\<And>c. mset (cBuckets (f c)) = add_mset (BucketID b') (mset (cBuckets c)) \<and>
           cTotalVotes (f c) = cTotalVotes c + TotalVotes b'"
  shows "core hash (BucketList_Modify i (\<lambda>_. b') bl)
           (g(Candidate b' := map_option f (g (Candidate b')))) bound"
proof -
  have "bucket_ok hash b" using bucket_found [OF coreD(1) [OF assms(1)] assms(2)] by metis
  moreover have "votes_ok (add_mset b' M) (g(Candidate b' := map_option f (g (Candidate b'))))"
    if "votes_ok (add_mset b M) g" for M
    using votes_ok_add [OF votes_ok_remove_free [OF that assms(6)] assms(7,8) f] .
  ultimately show ?thesis
    using assms by (intro core_update [of hash bl g bound i b b'])
      (auto simp: same_bucket_def bucket_ok_def intro: bound_ok_same)
qed

lemma core_remove:
  assumes "core hash bl g bound" "BucketList_Get i bl = Some b"
  shows "core hash (BucketList_Remove i bl)
      (g(Candidate b := map_option (Candidate_RemoveBucket b) (g (Candidate b))))
      (bound(Owner b := bound (Owner b) - Value b))" (is ?core)
    and "Value b \<le> bound (Owner b)" "0 \<le> Value b" "Token b = MTRG" "BucketID b = i"
proof -
  note ok = coreD [OF assms(1)]
  obtain M where M: "mset bl = add_mset b M" "BucketID b = i" "bucket_ok hash b" "\<forall>x\<in>#M. bucket_ok hash x"
    "mset (BucketList_Remove i bl) = M"
    using bucket_found [OF ok(1) assms(2)] by metis
  have v: "\<forall>x\<in>#M. 0 \<le> TotalVotes x" "\<forall>x\<in>#M. 0 \<le> Value x"
    using bucket_ok_votes [OF M(4)] bucket_ok_values [OF M(4)] .
  show ?core using ok M(1,5) buckets_ok_Remove [OF ok(1), of i] votes_ok_remove [of b M g] v(1)
      bound_ok_remove [of b M bound] by (simp add: core_def)
  show "Value b \<le> bound (Owner b)" using ok(3) M(1) v(2) bound_ok_covers by metis
  show "0 \<le> Value b" "Token b = MTRG" "BucketID b = i" using M(2,3) by (simp_all add: bucket_ok_def)
qed

lemma core_info:
  assumes "core hash bl g bound" "g a = Some c" "cBuckets c' = cBuckets c" "cTotalVotes c' = cTotalVotes c"
  shows "core hash bl (g(a \<mapsto> c')) bound"
  using assms votes_ok_info by (auto simp: core_def)

lemma core_drop:
  assumes "core hash bl g bound" "g a = Some c" "cBuckets c = []"
  shows "core hash bl (g(a := None)) bound"
  using assms votes_ok_drop by (auto simp: core_def)

end
