(* ===== verification/Staking_Invariant.thy ===== *)
theory Staking_Invariant
  imports Staking_Books
begin

text \<open>
  The bookkeeping invariant on states and its preservation by every staking
  handler at blocks where fork 9 is active.  What is proved of a handler is phrased
  with \<open>outcome\<close>: a predicate of the error and of the environment that the handler
  returns, if it does not panic.
\<close>

section \<open>Outcomes of handlers\<close>

definition outcome :: "(go_error option \<Rightarrow> ScriptEnv \<Rightarrow> bool) \<Rightarrow> handler_result \<Rightarrow> bool" where
  "outcome P r \<longleftrightarrow> (\<forall>g err e'. r = Inr (g, err, e') \<longrightarrow> P err e')"

lemma outcome_Inl [simp]: "outcome P (Inl p)"
  by (simp add: outcome_def)

lemma outcome_return [simp]: "outcome P (handler_return gas err e) \<longleftrightarrow> P err (SetReturnData err e)"
  by (auto simp: outcome_def handler_return_def)

lemma outcome_refuse [simp]: "outcome P (Inr (gas, err, e)) \<longleftrightarrow> P err e"
  by (auto simp: outcome_def)

lemma outcome_bind: "(\<And>x. m = Inr x \<Longrightarrow> outcome P (f x)) \<Longrightarrow> outcome P (go_bind m f)"
  by (cases m) auto

lemma outcome_if: "(c \<Longrightarrow> outcome P r) \<Longrightarrow> (\<not> c \<Longrightarrow> outcome P q) \<Longrightarrow> outcome P (if c then r else q)"
  by simp

lemma outcome_option:
  "(m = None \<Longrightarrow> outcome P r) \<Longrightarrow> (\<And>x. m = Some x \<Longrightarrow> outcome P (f x)) \<Longrightarrow>
     outcome P (case m of None \<Rightarrow> r | Some x \<Rightarrow> f x)"
  by (cases m) auto

lemmas outcome_intros = outcome_bind outcome_if outcome_option

section \<open>The environment around the state\<close>

lemma env_simps [simp]:
  "envState (SetReturnData d e) = envState e" "envState (AddEvent ev e) = envState e"
  "envState (AddTransfer a b v t e) = envState e" "envState (envInc e) = envState e"
  "envState (onState f e) = f (envState e)"
  by (simp_all add: SetReturnData_def AddEvent_def AddTransfer_def envInc_def onState_def)

lemma env_event [simp]: "envState (eventAfterFork10 ev e) = envState e"
  by (simp add: eventAfterFork10_def)

lemma env_config [simp]:
  "envConfig (SetReturnData d e) = envConfig e" "envNumber (SetReturnData d e) = envNumber e"
  "envConfig (AddEvent ev e) = envConfig e" "envNumber (AddEvent ev e) = envNumber e"
  "envConfig (AddTransfer a b v t e) = envConfig e" "envNumber (AddTransfer a b v t e) = envNumber e"
  "envConfig (envInc e) = envConfig e" "envNumber (envInc e) = envNumber e"
  "envConfig (onState f e) = envConfig e" "envNumber (onState f e) = envNumber e"
  "envConfig (eventAfterFork10 ev e) = envConfig e" "envNumber (eventAfterFork10 ev e) = envNumber e"
  by (simp_all add: SetReturnData_def AddEvent_def AddTransfer_def envInc_def onState_def
      eventAfterFork10_def)

lemma isFork_simps [simp]:
  "isFork f (SetReturnData d e) = isFork f e" "isFork f (AddEvent ev e) = isFork f e"
  "isFork f (AddTransfer a b v t e) = isFork f e" "isFork f (envInc e) = isFork f e"
  "isFork f (onState h e) = isFork f e" "isFork f (eventAfterFork10 ev e) = isFork f e"
  by (simp_all add: isFork_def)

text \<open>Binding moves an amount from the free to the bounded balance of one account.\<close>

definition moveBound :: "address \<Rightarrow> int \<Rightarrow> State \<Rightarrow> State" where
  "moveBound a v s = updateAccount a ((accounts s a)\<lparr>Balance := Balance (accounts s a) - v,
     BoundBalance := BoundBalance (accounts s a) + v\<rparr>) s"

lemma moveBound_0 [simp]: "moveBound a 0 s = s"
  by (simp add: moveBound_def updateAccount_def)

lemma BoundAccountMeterGov_ok:
  assumes "v \<le> GetBalance a (envState e)"
  shows "fst (BoundAccountMeterGov a v e) = None"
    "envState (snd (BoundAccountMeterGov a v e)) = moveBound a v (envState e)"
    "isFork f (snd (BoundAccountMeterGov a v e)) = isFork f e"
  using assms
  by (auto simp: BoundAccountMeterGov_def Let_def moveBound_def account_defs)

lemma UnboundAccountMeterGov_ok:
  assumes "v \<le> GetBoundedBalance a (envState e)"
  shows "fst (UnboundAccountMeterGov a v e) = None"
    "envState (snd (UnboundAccountMeterGov a v e)) = moveBound a (- v) (envState e)"
    "isFork f (snd (UnboundAccountMeterGov a v e)) = isFork f e"
  using assms
  by (auto simp: UnboundAccountMeterGov_def Let_def moveBound_def account_defs)

lemma moveBound_slots [simp]:
  "bucketSlot (moveBound a v s) = bucketSlot s" "candidateSlot (moveBound a v s) = candidateSlot s"
  "stakeholderSlot (moveBound a v s) = stakeholderSlot s" "inJailSlot (moveBound a v s) = inJailSlot s"
  "delegateStatSlot (moveBound a v s) = delegateStatSlot s"
  by (simp_all add: moveBound_def updateAccount_def)

definition bounds :: "State \<Rightarrow> address \<Rightarrow> int" where
  "bounds s = (\<lambda>a. GetBoundedBalance a s)"

lemma bounds_moveBound [simp]: "bounds (moveBound a v s) = (bounds s)(a := bounds s a + v)"
  by (auto simp: bounds_def moveBound_def account_defs)

section \<open>The invariant on states\<close>

definition books :: "externals \<Rightarrow> BucketList \<Rightarrow> CandidateList \<Rightarrow> StakeholderList \<Rightarrow> (address \<Rightarrow> int) \<Rightarrow> bool" where
  "books X bl cl sl bound \<longleftrightarrow>
     core (xBucketHash X) bl (cands cl) bound \<and> CandidateList_wf cl \<and> holders_ok sl"

definition jail_ok :: "State \<Rightarrow> bool" where
  "jail_ok s \<longleftrightarrow> InJailList_wf (inJailSlot s) \<and> (\<forall>j\<in>set (inJailSlot s). 0 \<le> jBailAmount j) \<and>
     DelegateStatList_wf (delegateStatSlot s)"

definition staking_inv :: "externals \<Rightarrow> State \<Rightarrow> bool" where
  "staking_inv X s \<longleftrightarrow>
     books X (bucketSlot s) (candidateSlot s) (stakeholderSlot s) (bounds s) \<and> jail_ok s"

text \<open>Reading the lists gives the slots as they are.\<close>

lemma inv_reads:
  assumes "staking_inv X s"
  shows "GetBucketList (xBucketHash X) s = bucketSlot s" "GetCandidateList s = candidateSlot s"
    "GetStakeHolderList s = stakeholderSlot s" "GetInJailList s = inJailSlot s"
    "GetDelegateStatList s = delegateStatSlot s"
proof -
  have "ids_valid (xBucketHash X) (bucketSlot s)" "BucketList_wf (bucketSlot s)"
    using assms by (auto simp: staking_inv_def books_def core_def buckets_ok_def ids_valid_def bucket_ok_def)
  then show "GetBucketList (xBucketHash X) s = bucketSlot s"
    unfolding GetBucketList_def by (intro NewBucketList_id)
  show "GetCandidateList s = candidateSlot s" "GetStakeHolderList s = stakeholderSlot s"
    "GetInJailList s = inJailSlot s" "GetDelegateStatList s = delegateStatSlot s"
    using assms unfolding staking_inv_def books_def holders_ok_def jail_ok_def
      GetCandidateList_def GetStakeHolderList_def GetInJailList_def GetDelegateStatList_def
    by (simp_all add: cl.new_id sl.new_id jl.new_id dsl.new_id)
qed

lemma books_candidate:
  assumes "books X bl cl sl bound" "c \<in> set cl"
  shows "cAddr c \<noteq> 0" "mset (cBuckets c) = ids_for (cAddr c) (mset bl)"
    "cTotalVotes c = votes_for (cAddr c) (mset bl)" "0 \<le> cTotalVotes c"
proof -
  have "cands cl (cAddr c) = Some c"
    using assms by (simp add: books_def cands_def cl.get_self)
  then show c: "cAddr c \<noteq> 0" "mset (cBuckets c) = ids_for (cAddr c) (mset bl)"
    "cTotalVotes c = votes_for (cAddr c) (mset bl)"
    using assms(1) by (auto simp: books_def core_def votes_ok_def)
  have "\<forall>b\<in>#mset bl. 0 \<le> TotalVotes b"
    using assms(1) by (intro bucket_ok_votes) (auto simp: books_def core_def buckets_ok_def)
  then show "0 \<le> cTotalVotes c" using c votes_for_nonneg by simp
qed

text \<open>Books that are in order can be encoded, so writing them stores them.\<close>

lemma books_encodable:
  assumes "books X bl cl sl bound"
  shows "SetBucketList bl s = s\<lparr>bucketSlot := bl\<rparr>" "SetCandidateList cl s = s\<lparr>candidateSlot := cl\<rparr>"
    "SetStakeHolderList sl s = s\<lparr>stakeholderSlot := sl\<rparr>"
proof -
  have "\<forall>b\<in>set bl. rlp_Bucket b" "\<forall>h\<in>set sl. rlp_Stakeholder h"
    using assms by (force simp: books_def core_def buckets_ok_def bucket_ok_def rlp_Bucket_def holders_ok_def
        rlp_Stakeholder_def)+
  moreover have "\<forall>c\<in>set cl. rlp_Candidate c"
    using books_candidate(4) [OF assms] by (simp add: rlp_Candidate_def)
  ultimately show "SetBucketList bl s = s\<lparr>bucketSlot := bl\<rparr>" "SetCandidateList cl s = s\<lparr>candidateSlot := cl\<rparr>"
    "SetStakeHolderList sl s = s\<lparr>stakeholderSlot := sl\<rparr>"
    by (simp_all add: SetBucketList_def SetCandidateList_def SetStakeHolderList_def EncodeStorage_def)
qed

lemma staking_inv_write:
  assumes "books X bl cl sl (bounds s)" "jail_ok s"
  shows "staking_inv X (s\<lparr>bucketSlot := bl, candidateSlot := cl, stakeholderSlot := sl\<rparr>)"
  using assms by (simp add: staking_inv_def jail_ok_def bounds_def GetBoundedBalance_def)

lemma SetLists_inv:
  assumes "books X bl cl sl (bounds (envState e))" "jail_ok (envState e)"
  shows "staking_inv X (envState (SetLists cl bl sl e))"
proof -
  have "envState (SetLists cl bl sl e) =
      (envState e)\<lparr>bucketSlot := bl, candidateSlot := cl, stakeholderSlot := sl\<rparr>"
    unfolding SetLists_def by (simp add: books_encodable [OF assms(1)])
  then show ?thesis using staking_inv_write [OF assms] by simp
qed

text \<open>Updates that leave slots and bounded balances alone.\<close>

lemma jail_ok_moveBound [simp]: "jail_ok (moveBound a v s) = jail_ok s"
  by (simp add: jail_ok_def)

section \<open>Preservation by the handlers\<close>

text \<open>The identifier a new bucket of the account gets is not taken.\<close>

definition fresh_id :: "externals \<Rightarrow> ScriptEnv \<Rightarrow> StakingBody \<Rightarrow> address \<Rightarrow> bool" where
  "fresh_id X e sb a \<longleftrightarrow>
     BucketList_Get (xBucketHash X a (handler_nonce e sb) (handler_ts e sb)) (bucketSlot (envState e)) = None"

definition keeps_inv :: "externals \<Rightarrow> handler_result \<Rightarrow> bool" where
  "keeps_inv X = outcome (\<lambda>_ e'. staking_inv X (envState e'))"

lemma invD:
  assumes "staking_inv X s"
  shows "core (xBucketHash X) (bucketSlot s) (cands (candidateSlot s)) (bounds s)"
    "CandidateList_wf (candidateSlot s)" "holders_ok (stakeholderSlot s)" "jail_ok s"
  using assms by (simp_all add: staking_inv_def books_def)

lemma GetBoundLockOption_FOREVER:
  "GetBoundLockOption FOREVER_LOCK = (FOREVER_LOCK, FOREVER_LOCK_RATE, FOREVER_LOCK_TIME)"
  by (simp add: GetBoundLockOption_def lock_defs)

lemma BoundHandler_inv:
  assumes inv: "staking_inv X (envState e)" and fresh: "fresh_id X e sb (sbHolderAddr sb)"
  shows "keeps_inv X (BoundHandler X e sb gas)"
proof -
  let ?s = "envState e"
  note ok = invD [OF inv]
  have main: "staking_inv X (envState (SetLists
      (if setCand then CandidateList_Modify (sbCandAddr sb) (Candidate_AddBucket b) (candidateSlot ?s)
       else candidateSlot ?s)
      (BucketList_Add b (bucketSlot ?s)) (add_to_holder b (stakeholderSlot ?s))
      (eventAfterFork10 ev (snd (BoundAccountMeterGov (sbHolderAddr sb) (sbAmount sb) (envInc e))))))"
    if b: "b = NewBucket (xBucketHash X) (sbHolderAddr sb) (if setCand then sbCandAddr sb else 0)
        (sbAmount sb) MTRG opt rate ab (handler_ts e sb) (handler_nonce e sb)"
      and amt: "\<not> sbAmount sb < MIN_BOUND_BALANCE" "\<not> GetBalance (sbHolderAddr sb) ?s < sbAmount sb"
      and cand: "setCand \<longrightarrow> CandidateList_Get (sbCandAddr sb) (candidateSlot ?s) \<noteq> None"
    for b setCand opt rate ab ev
  proof (rule SetLists_inv)
    have pos: "0 \<le> sbAmount sb" using amt(1) by (simp add: MIN_BOUND_BALANCE_def)
    have bok: "bucket_ok (xBucketHash X) b" using pos by (simp add: b bucket_ok_def Bucket_ID_def)
    have bfresh: "BucketList_Get (BucketID b) (bucketSlot ?s) = None"
      using fresh by (simp add: b fresh_id_def)
    have bal: "sbAmount sb \<le> GetBalance (sbHolderAddr sb) (envState (envInc e))" using amt(2) by simp
    note bound = BoundAccountMeterGov_ok [OF bal]
    show "jail_ok (envState (eventAfterFork10 ev (snd (BoundAccountMeterGov (sbHolderAddr sb)
        (sbAmount sb) (envInc e)))))"
      using ok(4) by (simp add: bound)
    show "books X (BucketList_Add b (bucketSlot ?s))
      (if setCand then CandidateList_Modify (sbCandAddr sb) (Candidate_AddBucket b) (candidateSlot ?s)
       else candidateSlot ?s) (add_to_holder b (stakeholderSlot ?s))
      (bounds (envState (eventAfterFork10 ev (snd (BoundAccountMeterGov (sbHolderAddr sb)
        (sbAmount sb) (envInc e))))))"
    proof (cases setCand)
      case True
      then have nz: "cands (candidateSlot ?s) (sbCandAddr sb) \<noteq> None" "sbCandAddr sb \<noteq> 0"
        using cand coreD(5) [OF ok(1)] by (auto simp: cands_def)
      have "core (xBucketHash X) (BucketList_Add b (bucketSlot ?s))
          ((cands (candidateSlot ?s))(Candidate b := map_option (Candidate_AddBucket b)
             (cands (candidateSlot ?s) (Candidate b))))
          ((bounds ?s)(Owner b := bounds ?s (Owner b) + Value b))"
        using True nz by (intro core_open ok bfresh bok) (simp_all add: b Candidate_AddBucket_def)
      then show ?thesis
        using True ok pos by (simp add: books_def bound cands_Modify b cl.get_key cl.wf_modify
            holders_ok_add_to_holder)
    next
      case False
      then show ?thesis
        using core_open_free [OF ok(1) bfresh bok] ok pos
        by (simp add: books_def bound b holders_ok_add_to_holder)
    qed
  qed
  show ?thesis
    unfolding keeps_inv_def BoundHandler_def Let_def inv_reads [OF inv]
    by (intro outcome_intros)
      (auto simp: inv split_beta split: if_splits option.splits
        intro!: main [where setCand = True, simplified] main [where setCand = False, simplified])
qed

text \<open>Writing back lists that differ in one bucket and in the lookup of candidates.\<close>

lemma SetLists_core:
  assumes "core (xBucketHash X) bl (cands cl) (bounds (envState e))" "CandidateList_wf cl"
    and "holders_ok sl" "jail_ok (envState e)"
  shows "staking_inv X (envState (SetLists cl bl sl e))"
  using assms by (intro SetLists_inv) (simp_all add: books_def)

lemma UnBoundHandler_inv:
  assumes inv: "staking_inv X (envState e)"
  shows "keeps_inv X (UnBoundHandler X e sb gas)"
proof -
  let ?s = "envState e"
  note ok = invD [OF inv]
  have main: "staking_inv X (envState (SetLists (candidateSlot ?s)
      (BucketList_Modify i (\<lambda>b. b\<lparr>Unbounded := True, MatureTime := t b\<rparr>) (bucketSlot ?s))
      (stakeholderSlot ?s) (eventAfterFork10 ev e)))"
    if b: "BucketList_Get i (bucketSlot ?s) = Some b" for i b t ev
  proof (rule SetLists_core)
    have "BucketList_Modify i (\<lambda>b. b\<lparr>Unbounded := True, MatureTime := t b\<rparr>) (bucketSlot ?s) =
        BucketList_Modify i (\<lambda>_. b\<lparr>Unbounded := True, MatureTime := t b\<rparr>) (bucketSlot ?s)"
      using b unfolding BucketList_Modify_def BucketList_Get_def by (rule list_Modify_at)
    then show "core (xBucketHash X) (BucketList_Modify i (\<lambda>b. b\<lparr>Unbounded := True, MatureTime := t b\<rparr>)
        (bucketSlot ?s)) (cands (candidateSlot ?s)) (bounds (envState (eventAfterFork10 ev e)))"
      using core_same [OF ok(1) b] by (simp add: same_bucket_def)
  qed (use ok in simp_all)
  show ?thesis
    unfolding keeps_inv_def UnBoundHandler_def Let_def inv_reads [OF inv]
    by (intro outcome_intros) (auto simp: inv intro!: main)
qed

lemma CandidateHandler_inv:
  assumes inv: "staking_inv X (envState e)" and fresh: "fresh_id X e sb (sbCandAddr sb)"
    and nz: "sbCandAddr sb \<noteq> 0"
  shows "keeps_inv X (CandidateHandler X e sb gas)"
proof -
  let ?s = "envState e"
  note ok = invD [OF inv]
  have main: "staking_inv X (envState (SetLists
      (CandidateList_Add (Candidate_AddBucket b c) (candidateSlot ?s))
      (BucketList_Add b (bucketSlot ?s)) (add_to_holder b (stakeholderSlot ?s))
      (eventAfterFork10 ev (snd (BoundAccountMeterGov (sbCandAddr sb) (sbAmount sb) (envInc e))))))"
    if b: "b = NewBucket (xBucketHash X) (sbCandAddr sb) (sbCandAddr sb)
        (sbAmount sb) MTRG opt rate ab (handler_ts e sb) (handler_nonce e sb)"
      and c: "c = NewCandidate (sbCandAddr sb) nm desc pk ip port comm ts"
      and amt: "\<not> sbAmount sb < MIN_REQUIRED_BY_DELEGATE" "\<not> GetBalance (sbCandAddr sb) ?s < sbAmount sb"
      and none: "CandidateList_Get (sbCandAddr sb) (candidateSlot ?s) = None"
    for b c opt rate ab ev nm desc pk ip port comm ts
  proof (rule SetLists_core)
    have pos: "0 \<le> sbAmount sb" using amt(1) by (simp add: MIN_REQUIRED_BY_DELEGATE_def)
    have bok: "bucket_ok (xBucketHash X) b" using pos by (simp add: b bucket_ok_def Bucket_ID_def)
    have bfresh: "BucketList_Get (BucketID b) (bucketSlot ?s) = None"
      using fresh by (simp add: b fresh_id_def)
    have bal: "sbAmount sb \<le> GetBalance (sbCandAddr sb) (envState (envInc e))" using amt(2) by simp
    note bound = BoundAccountMeterGov_ok [OF bal]
    have "core (xBucketHash X) (BucketList_Add b (bucketSlot ?s))
        ((cands (candidateSlot ?s))(Candidate b \<mapsto> Candidate_AddBucket b c))
        ((bounds ?s)(Owner b := bounds ?s (Owner b) + Value b))"
      using none nz by (intro core_new ok bfresh bok)
        (simp_all add: b c cands_def Candidate_AddBucket_def NewCandidate_def)
    then show "core (xBucketHash X) (BucketList_Add b (bucketSlot ?s))
        (cands (CandidateList_Add (Candidate_AddBucket b c) (candidateSlot ?s)))
        (bounds (envState (eventAfterFork10 ev (snd (BoundAccountMeterGov (sbCandAddr sb)
          (sbAmount sb) (envInc e))))))"
      using ok by (simp add: cands_Add bound) (simp add: b c NewCandidate_def)
    show "CandidateList_wf (CandidateList_Add (Candidate_AddBucket b c) (candidateSlot ?s))"
      using ok by (simp add: cl.wf_add)
    show "holders_ok (add_to_holder b (stakeholderSlot ?s))"
      using ok pos by (simp add: holders_ok_add_to_holder b)
    show "jail_ok (envState (eventAfterFork10 ev (snd (BoundAccountMeterGov (sbCandAddr sb)
        (sbAmount sb) (envInc e)))))"
      using ok(4) by (simp add: bound)
  qed
  show ?thesis
    unfolding keeps_inv_def CandidateHandler_def Let_def inv_reads [OF inv] GetBoundLockOption_FOREVER
    by (intro outcome_intros) (auto simp: inv split_beta intro!: main)
qed

lemma DelegateHandler_inv:
  assumes inv: "staking_inv X (envState e)"
  shows "keeps_inv X (DelegateHandler X e sb gas)"
proof -
  let ?s = "envState e"
  note ok = invD [OF inv]
  have main: "staking_inv X (envState (SetLists
      (CandidateList_Modify (sbCandAddr sb) (Candidate_AddBucket b') (candidateSlot ?s))
      (BucketList_Modify i (\<lambda>_. b') (bucketSlot ?s)) (stakeholderSlot ?s) (eventAfterFork10 ev e)))"
    if b: "BucketList_Get i (bucketSlot ?s) = Some b" "Candidate b = 0"
      and b': "b' = b\<lparr>Candidate := sbCandAddr sb, Autobid := ab\<rparr>"
      and c: "CandidateList_Get (sbCandAddr sb) (candidateSlot ?s) = Some c" for i b b' c ab ev
  proof (rule SetLists_core)
    have nz: "cands (candidateSlot ?s) (sbCandAddr sb) \<noteq> None" "sbCandAddr sb \<noteq> 0"
      using c coreD(5) [OF ok(1)] by (auto simp: cands_def)
    have "core (xBucketHash X) (BucketList_Modify i (\<lambda>_. b') (bucketSlot ?s))
        ((cands (candidateSlot ?s))(Candidate b' := map_option (Candidate_AddBucket b')
          (cands (candidateSlot ?s) (Candidate b')))) (bounds ?s)"
      using b nz by (intro core_vote [OF ok(1) b(1)])
        (simp_all add: b' same_bucket_def Candidate_AddBucket_def)
    then show "core (xBucketHash X) (BucketList_Modify i (\<lambda>_. b') (bucketSlot ?s))
        (cands (CandidateList_Modify (sbCandAddr sb) (Candidate_AddBucket b') (candidateSlot ?s)))
        (bounds (envState (eventAfterFork10 ev e)))"
      using ok by (simp add: cands_Modify cl.get_key b')
  qed (use ok in \<open>simp_all add: cl.wf_modify cl.get_key\<close>)
  show ?thesis
    unfolding keeps_inv_def DelegateHandler_def Let_def inv_reads [OF inv]
    by (intro outcome_intros) (auto simp: inv intro!: main)
qed

lemma UnDelegateHandler_inv:
  assumes inv: "staking_inv X (envState e)"
  shows "keeps_inv X (UnDelegateHandler X e sb gas)"
proof -
  let ?s = "envState e"
  note ok = invD [OF inv]
  have main: "staking_inv X (envState (SetLists
      (CandidateList_Modify (cAddr c) (Candidate_RemoveBucket b') (candidateSlot ?s))
      (BucketList_Modify i (\<lambda>_. b') (bucketSlot ?s)) (stakeholderSlot ?s) (eventAfterFork10 ev e)))"
    if b: "BucketList_Get i (bucketSlot ?s) = Some b"
      and b': "b' = b\<lparr>Candidate := 0, Autobid := 0\<rparr>"
      and c: "CandidateList_Get (Candidate b) (candidateSlot ?s) = Some c" for i b b' c ev
  proof (rule SetLists_core)
    have addr: "cAddr c = Candidate b" using c ok(2) by (simp add: cl.get_key)
    have rem: "Candidate_RemoveBucket b' = Candidate_RemoveBucket b"
      by (rule ext) (simp add: b' Candidate_RemoveBucket_def)
    have "core (xBucketHash X) (BucketList_Modify i (\<lambda>_. b') (bucketSlot ?s))
        ((cands (candidateSlot ?s))(Candidate b := map_option (Candidate_RemoveBucket b)
          (cands (candidateSlot ?s) (Candidate b)))) (bounds ?s)"
      using b by (intro core_free [OF ok(1) b]) (simp_all add: b' same_bucket_def)
    then show "core (xBucketHash X) (BucketList_Modify i (\<lambda>_. b') (bucketSlot ?s))
        (cands (CandidateList_Modify (cAddr c) (Candidate_RemoveBucket b') (candidateSlot ?s)))
        (bounds (envState (eventAfterFork10 ev e)))"
      using ok by (simp add: cands_Modify cl.get_key addr rem)
  qed (use ok in \<open>simp_all add: cl.wf_modify cl.get_key\<close>)
  show ?thesis
    unfolding keeps_inv_def UnDelegateHandler_def Let_def inv_reads [OF inv]
    by (intro outcome_intros) (auto simp: inv intro!: main)
qed

text \<open>The handlers that write the bucket list first.\<close>

lemma Set3_core:
  assumes "core (xBucketHash X) bl (cands cl) (bounds s)" "CandidateList_wf cl" "holders_ok sl" "jail_ok s"
  shows "staking_inv X (SetStakeHolderList sl (SetCandidateList cl (SetBucketList bl s)))"
proof -
  have books: "books X bl cl sl (bounds s)" using assms by (simp add: books_def)
  show ?thesis
    using staking_inv_write [OF books assms(4)] by (simp add: books_encodable [OF books])
qed

lemma core_Autobid:
  assumes "core hash bl g bound"
  shows "core hash (BucketList_Modify i (\<lambda>b. b\<lparr>Autobid := x\<rparr>) bl) g bound"
proof (cases "BucketList_Get i bl")
  case None
  then show ?thesis using assms by (simp add: bl.modify_absent)
next
  case (Some b)
  have "BucketList_Modify i (\<lambda>b. b\<lparr>Autobid := x\<rparr>) bl = BucketList_Modify i (\<lambda>_. b\<lparr>Autobid := x\<rparr>) bl"
    using Some unfolding BucketList_Modify_def BucketList_Get_def by (rule list_Modify_at)
  then show ?thesis using core_same [OF assms Some] by (simp add: same_bucket_def)
qed

lemma SetInJailList_ok:
  assumes "jail_ok s" "InJailList_wf jl" "\<forall>j\<in>set jl. 0 \<le> jBailAmount j"
  shows "jail_ok (SetInJailList jl s)" "bounds (SetInJailList jl s) = bounds s"
    "bucketSlot (SetInJailList jl s) = bucketSlot s" "candidateSlot (SetInJailList jl s) = candidateSlot s"
    "stakeholderSlot (SetInJailList jl s) = stakeholderSlot s"
  using assms by (simp_all add: SetInJailList_def EncodeStorage_def rlp_InJail_def jail_ok_def bounds_def
      GetBoundedBalance_def)

lemma jail_Modify_ok:
  assumes "jail_ok s" "\<And>j. jAddr (f j) = jAddr j \<and> jBailAmount (f j) = jBailAmount j"
  shows "InJailList_wf (InJailList_Modify a f (inJailSlot s))"
    "\<forall>j\<in>set (InJailList_Modify a f (inJailSlot s)). 0 \<le> jBailAmount j"
proof -
  have wf: "InJailList_wf (inJailSlot s)" using assms(1) by (simp add: jail_ok_def)
  show "InJailList_wf (InJailList_Modify a f (inJailSlot s))"
    using assms(2) wf by (intro jl.wf_modify) (auto simp: jl.get_key)
  show "\<forall>j\<in>set (InJailList_Modify a f (inJailSlot s)). 0 \<le> jBailAmount j"
  proof (cases "InJailList_Get a (inJailSlot s)")
    case None
    then show ?thesis using assms(1) by (simp add: jl.modify_absent jail_ok_def)
  next
    case (Some j)
    then have "jAddr (f j) = a" "0 \<le> jBailAmount (f j)"
      using assms jl.get_key [OF wf Some] jl.get_in_set [OF wf Some] by (auto simp: jail_ok_def)
    then show ?thesis
      using assms(1) jl.set_modify [of "inJailSlot s" a j f] wf Some by (auto simp: jail_ok_def)
  qed
qed

lemma CandidateUpdateHandler_inv:
  assumes inv: "staking_inv X (envState e)"
  shows "keeps_inv X (CandidateUpdateHandler X e sb gas)"
proof -
  let ?s = "envState e"
  note ok = invD [OF inv]
  have main: "staking_inv X (SetCandidateList
      (CandidateList_Modify a (\<lambda>_. c') (candidateSlot ?s)) (SetBucketList bl s1))"
    if c: "CandidateList_Get a (candidateSlot ?s) = Some c" "cAddr c' = cAddr c"
        "cBuckets c' = cBuckets c" "cTotalVotes c' = cTotalVotes c"
      and bl: "core (xBucketHash X) bl (cands (candidateSlot ?s)) (bounds ?s)"
      and s1: "s1 = ?s \<or> s1 = SetInJailList (InJailList_Modify a
          (\<lambda>j. j\<lparr>jName := nm, jPubKey := pk\<rparr>) (inJailSlot ?s)) ?s" for a c c' bl s1 nm pk
  proof -
    note jail = jail_Modify_ok [OF ok(4), of "\<lambda>j. j\<lparr>jName := nm, jPubKey := pk\<rparr>" a, simplified]
    have s1': "jail_ok s1" "bounds s1 = bounds ?s" "stakeholderSlot s1 = stakeholderSlot ?s"
      using s1 ok(4) SetInJailList_ok [OF ok(4) jail] by auto
    have addr: "cAddr c = a" using c(1) ok(2) by (simp add: cl.get_key)
    have cands: "cands (CandidateList_Modify a (\<lambda>_. c') (candidateSlot ?s)) = (cands (candidateSlot ?s))(a \<mapsto> c')"
      using c(1,2) addr ok(2) by (subst cands_Modify) (auto simp: cands_def)
    have "core (xBucketHash X) bl ((cands (candidateSlot ?s))(a \<mapsto> c')) (bounds ?s)"
      using c by (intro core_info [OF bl, of _ c]) (simp_all add: cands_def)
    then have books: "books X bl (CandidateList_Modify a (\<lambda>_. c') (candidateSlot ?s)) (stakeholderSlot s1) (bounds s1)"
      using ok c(2) addr by (simp add: books_def cands s1' cl.wf_modify)
    show ?thesis using staking_inv_write [OF books s1'(1)] by (simp add: books_encodable [OF books])
  qed
  show ?thesis
    unfolding keeps_inv_def CandidateUpdateHandler_def Let_def inv_reads [OF inv]
    by (intro outcome_intros; simp only: outcome_return env_simps inv; 
        rule main [where nm = "sbCandName sb" and pk = "sbCandPubKey sb"], assumption)
      (simp_all add: ok core_Autobid split: option.split)
qed

section \<open>Bucket updates\<close>

text \<open>The part of the bonus that leaves with an amount is at most the whole bonus.\<close>

lemma withdraw_bonus:
  assumes "0 < v" "v \<le> t" "0 \<le> a" "a \<le> v"
  shows "0 \<le> big_Div ((t - v) * a) v" "big_Div ((t - v) * a) v \<le> t - v"
proof -
  show "0 \<le> big_Div ((t - v) * a) v" using assms by (intro big_Div_nonneg) auto
  have "(t - v) * a \<le> (t - v) * v" using assms by (intro mult_left_mono) auto
  also have "\<dots> < v * (t - v + 1)" using assms(1) by (simp add: algebra_simps)
  finally show "big_Div ((t - v) * a) v \<le> t - v" using big_Div_le_iff [OF assms(1)] by blast
qed

lemma CandidateList_Modify_zero:
  "core hash bl (cands cl) bound \<Longrightarrow> CandidateList_Modify 0 f cl = cl"
  using coreD(5) [of hash bl "cands cl" bound] by (simp add: cands_def cl.modify_absent)

lemma bucket_add_inv:
  assumes inv: "staking_inv X (envState e)" and amt: "0 \<le> sbAmount sb"
    and b: "BucketList_Get (sbStakingID sb) (bucketSlot (envState e)) = Some b" "Owner b = sbHolderAddr sb"
  shows "keeps_inv X (bucket_add X e sb gas b)"
proof -
  let ?s = "envState e" and ?a = "sbAmount sb"
  note ok = invD [OF inv]
  have bok: "bucket_ok (xBucketHash X) b" using bucket_found [OF coreD(1) [OF ok(1)] b(1)] by metis
  have main: "staking_inv X (SetStakeHolderList (StakeholderList_Modify (Owner b)
        (\<lambda>h. h\<lparr>sTotalStake := sTotalStake h + ?a\<rparr>) (stakeholderSlot ?s))
      (SetCandidateList cl' (SetBucketList (BucketList_Modify (sbStakingID sb) (\<lambda>_. b') (bucketSlot ?s))
        (moveBound (sbHolderAddr sb) ?a ?s))))"
    if b': "b' = b\<lparr>BonusVotes := 0, Value := Value b + ?a, TotalVotes := TotalVotes b + ?a\<rparr>"
      and cl': "cl' = (if Candidate b \<noteq> 0 then CandidateList_Modify (Candidate b)
          (\<lambda>c. c\<lparr>cTotalVotes := cTotalVotes c + ?a\<rparr>) (candidateSlot ?s) else candidateSlot ?s)" for b' cl'
  proof (rule Set3_core)
    have "core (xBucketHash X) (BucketList_Modify (sbStakingID sb) (\<lambda>_. b') (bucketSlot ?s))
        ((cands (candidateSlot ?s))(Candidate b := map_option (\<lambda>c. c\<lparr>cTotalVotes := cTotalVotes c + ?a\<rparr>)
          (cands (candidateSlot ?s) (Candidate b))))
        ((bounds ?s)(Owner b := bounds ?s (Owner b) + (Value b' - Value b)))"
      using amt bok by (intro core_replace [OF ok(1) b(1)]) (auto simp: b' same_bucket_def bucket_ok_def)
    then show "core (xBucketHash X) (BucketList_Modify (sbStakingID sb) (\<lambda>_. b') (bucketSlot ?s))
        (cands cl') (bounds (moveBound (sbHolderAddr sb) ?a ?s))"
      using ok(2) b(2) coreD(5) [OF ok(1)]
      by (cases "Candidate b = 0") (simp_all add: cands_Modify cl.get_key cl' b' fun_upd_idem)
  qed (use ok amt in \<open>auto simp: cl' cl.wf_modify cl.get_key intro: holders_ok_Modify\<close>)
  show ?thesis
    unfolding keeps_inv_def bucket_add_def Let_def inv_reads [OF inv]
    by (intro outcome_intros) (auto simp: inv split_beta BoundAccountMeterGov_ok intro!: main)
qed

lemma bucket_sub_inv:
  assumes inv: "staking_inv X (envState e)" and amt: "0 \<le> sbAmount sb"
    and forks: "isFork TeslaFork6 e" "isFork TeslaFork9 e"
    and b: "BucketList_Get (sbStakingID sb) (bucketSlot (envState e)) = Some b" "Owner b = sbHolderAddr sb"
    and fresh: "fresh_id X e sb (sbHolderAddr sb)"
  shows "keeps_inv X (bucket_sub X e sb gas b)"
proof -
  let ?s = "envState e" and ?a = "sbAmount sb" and ?i = "sbStakingID sb"
  let ?d = "big_Div ((TotalVotes b - Value b) * ?a) (Value b)"
  note ok = invD [OF inv]
  have bok: "bucket_ok (xBucketHash X) b" using bucket_found [OF coreD(1) [OF ok(1)] b(1)] by metis
  have main: "staking_inv X (SetStakeHolderList (StakeholderList_Modify (Owner b)
        (\<lambda>h. h\<lparr>sBuckets := sBuckets h @ [nid]\<rparr>) (stakeholderSlot ?s))
      (SetCandidateList (CandidateList_Modify (Candidate b)
          (\<lambda>c. c\<lparr>cTotalVotes := cTotalVotes c - ?d, cBuckets := cBuckets c @ [nid]\<rparr>) (candidateSlot ?s))
      (SetBucketList (BucketList_Add n (BucketList_Modify ?i (\<lambda>_. b') (bucketSlot ?s))) ?s)))"
    if b': "b' = b\<lparr>BonusVotes := 0, Value := Value b - ?a, TotalVotes := TotalVotes b - ?a - ?d\<rparr>"
      and n: "n = (NewBucket (xBucketHash X) (Owner b) (Candidate b) ?a (Token b) ONE_WEEK_LOCK (Rate b)
          (Autobid b) (handler_ts e sb) (handler_nonce e sb))\<lparr>Unbounded := True, MatureTime := mt\<rparr>"
      and nid: "nid = xBucketHash X (Owner b) (handler_nonce e sb) (handler_ts e sb)"
      and v: "0 < Value b - ?a" for b' n mt nid
  proof (rule Set3_core)
    let ?bl = "BucketList_Modify ?i (\<lambda>_. b') (bucketSlot ?s)" and ?g = "cands (candidateSlot ?s)"
    let ?g1 = "?g(Candidate b := map_option (\<lambda>c. c\<lparr>cTotalVotes := cTotalVotes c - ?a - ?d\<rparr>) (?g (Candidate b)))"
    let ?f = "\<lambda>c. c\<lparr>cTotalVotes := cTotalVotes c + ?a, cBuckets := cBuckets c @ [nid]\<rparr>"
    have d: "0 \<le> ?d" "?d \<le> TotalVotes b - Value b"
      using withdraw_bonus [of "Value b" "TotalVotes b" ?a] v amt bok by (auto simp: bucket_ok_def)
    have core1: "core (xBucketHash X) ?bl ?g1
        ((bounds ?s)(Owner b := bounds ?s (Owner b) + (Value b' - Value b)))"
      using v d amt by (intro core_replace [OF ok(1) b(1)]) (auto simp: b' same_bucket_def)
    have id: "BucketID b' = ?i" using bok b(1) coreD(4) [OF ok(1)] by (simp add: b' bl.get_key)
    have nfresh: "BucketList_Get (BucketID n) ?bl = None"
      using fresh id coreD(4) [OF ok(1)] b(1) by (subst bl.get_modify) (auto simp: n fresh_id_def b(2))
    have nok: "bucket_ok (xBucketHash X) n" using amt bok by (simp add: n bucket_ok_def Bucket_ID_def)
    have "core (xBucketHash X) (BucketList_Add n ?bl) (?g(Candidate b := map_option
        (\<lambda>c. c\<lparr>cTotalVotes := cTotalVotes c - ?d, cBuckets := cBuckets c @ [nid]\<rparr>) (?g (Candidate b))))
        (bounds ?s)"
    proof (cases "Candidate b = 0")
      case True
      then show ?thesis
        using core_open_free [OF core1 nfresh nok] coreD(5) [OF ok(1)]
        by (simp add: n b' nid fun_upd_idem)
    next
      case False
      then have "?g1 (Candidate n) \<noteq> None"
        using ok(1) b(1) coreD(4) [OF ok(1)] by (auto simp: n core_def votes_ok_def bl.get_Some)
      then show ?thesis
        using core_open [OF core1 nfresh nok, of ?f] False
        by (simp add: n b' nid option.map_comp comp_def)
    qed
    then show "core (xBucketHash X) (BucketList_Add n ?bl) (cands (CandidateList_Modify (Candidate b)
          (\<lambda>c. c\<lparr>cTotalVotes := cTotalVotes c - ?d, cBuckets := cBuckets c @ [nid]\<rparr>) (candidateSlot ?s)))
        (bounds ?s)"
      using ok(2) by (simp add: cands_Modify cl.get_key)
  qed (use ok in \<open>auto simp: cl.wf_modify cl.get_key intro: holders_ok_Modify\<close>)
  show ?thesis
    unfolding keeps_inv_def bucket_sub_def Let_def inv_reads [OF inv]
    by (intro outcome_intros)
      (auto simp: inv forks MIN_REQUIRED_BY_DELEGATE_def MIN_BOUND_BALANCE_def intro!: main
        split: if_splits option.splits)
qed

lemma BucketUpdateHandler_inv:
  assumes inv: "staking_inv X (envState e)" and amt: "0 \<le> sbAmount sb"
    and forks: "isFork TeslaFork5 e" "isFork TeslaFork6 e" "isFork TeslaFork9 e"
    and fresh: "fresh_id X e sb (sbHolderAddr sb)"
  shows "keeps_inv X (BucketUpdateHandler X e sb gas)"
  unfolding BucketUpdateHandler_def inv_reads [OF inv] keeps_inv_def
  using bucket_sub_inv [OF inv amt forks(2,3) _ _ fresh] bucket_add_inv [OF inv amt]
  by (intro outcome_intros) (simp_all add: inv forks keeps_inv_def)

section \<open>Candidates that step down\<close>

text \<open>The loop over the buckets of the candidate frees every bucket that votes for it.\<close>

lemma uncandidate_bucket_step:
  assumes "BucketList_Get i bl = Some b" "Candidate b = cAddr record"
  obtains b' e' where "uncandidate_bucket record i (bl, e) = (BucketList_Modify i (\<lambda>_. b') bl, e')"
    "same_bucket b b'" "Value b' = Value b" "TotalVotes b' = TotalVotes b" "Candidate b' = 0"
    "envState e' = envState e"
  using assms by (cases "IsForeverLock (b\<lparr>Candidate := 0\<rparr>)")
    (auto simp: uncandidate_bucket_def Let_def UpdateLockOption_def same_bucket_def split_beta)

lemma uncandidate_loop:
  assumes "core hash bl g bound" "g a = Some c" "mset (cBuckets c) = mset is" "cAddr record = a"
  shows "\<exists>c'. core hash (fst (fold (uncandidate_bucket record) is (bl, e))) (g(a \<mapsto> c')) bound \<and>
      cBuckets c' = [] \<and> envState (snd (fold (uncandidate_bucket record) is (bl, e))) = envState e"
  using assms
proof (induction "is" arbitrary: bl g c e)
  case Nil
  then show ?case by (intro exI [of _ c]) (simp add: fun_upd_idem)
next
  case (Cons i "is")
  have "i \<in># ids_for a (mset bl)"
    using Cons.prems(1-3) by (auto simp: core_def votes_ok_def)
  then obtain b where b: "b \<in> set bl" "Candidate b = a" "BucketID b = i" by (auto simp: in_ids_for)
  then have get: "BucketList_Get i bl = Some b"
    using coreD(4) [OF Cons.prems(1)] by (simp add: bl.get_Some)
  obtain b' e' where b': "uncandidate_bucket record i (bl, e) = (BucketList_Modify i (\<lambda>_. b') bl, e')"
    "same_bucket b b'" "Value b' = Value b" "TotalVotes b' = TotalVotes b" "Candidate b' = 0"
    "envState e' = envState e"
    using uncandidate_bucket_step [OF get, of "record" e] b(2) Cons.prems(4) by metis
  let ?c = "Candidate_RemoveBucket b c"
  have core: "core hash (BucketList_Modify i (\<lambda>_. b') bl) (g(a \<mapsto> ?c)) bound"
    using core_free [OF Cons.prems(1) get b'(2-5)] b(2) Cons.prems(2) by simp
  have "i \<in> set (cBuckets c)" using Cons.prems(3) by (metis list.set_intros(1) mset_eq_setD)
  then have rest: "mset (cBuckets ?c) = mset is"
    using Cons.prems(3) b(3) by (simp add: Candidate_RemoveBucket_def Let_def)
  show ?case
    using Cons.IH [OF core fun_upd_same rest Cons.prems(4), of e']
    by (simp only: fold_Cons comp_apply b'(1,6) fun_upd_upd)
qed

lemma UnCandidateHandler_inv:
  assumes inv: "staking_inv X (envState e)"
  shows "keeps_inv X (UnCandidateHandler X e sb gas)"
proof -
  let ?s = "envState e"
  note ok = invD [OF inv]
  have main: "staking_inv X (envState (SetLists (CandidateList_Remove (cAddr c) (candidateSlot ?s))
      (fst (fold (uncandidate_bucket c) (cBuckets c) (bucketSlot ?s, e))) (stakeholderSlot ?s)
      (snd (fold (uncandidate_bucket c) (cBuckets c) (bucketSlot ?s, e)))))"
    if c: "CandidateList_Get a (candidateSlot ?s) = Some c" for a c
  proof -
    have a: "cAddr c = a" using c ok(2) by (simp add: cl.get_key)
    obtain c' where c': "core (xBucketHash X) (fst (fold (uncandidate_bucket c) (cBuckets c) (bucketSlot ?s, e)))
        ((cands (candidateSlot ?s))(a \<mapsto> c')) (bounds ?s)" "cBuckets c' = []"
      "envState (snd (fold (uncandidate_bucket c) (cBuckets c) (bucketSlot ?s, e))) = ?s"
      using uncandidate_loop [OF ok(1) _ _ a, of c] c by (fastforce simp: cands_def)
    have "core (xBucketHash X) (fst (fold (uncandidate_bucket c) (cBuckets c) (bucketSlot ?s, e)))
        (cands (CandidateList_Remove (cAddr c) (candidateSlot ?s))) (bounds ?s)"
      using core_drop [OF c'(1) _ c'(2), of a] ok(2) a by (simp add: cands_Remove)
    then show ?thesis using ok c'(3) by (intro SetLists_core) (simp_all add: cl.wf_remove)
  qed
  show ?thesis
    unfolding keeps_inv_def UnCandidateHandler_def Let_def inv_reads [OF inv] split_beta
    by (intro outcome_intros) (auto simp: inv intro!: main)
qed

section \<open>Statistics and the jail\<close>

lemma staking_inv_jail:
  assumes "staking_inv X s" "bucketSlot s' = bucketSlot s" "candidateSlot s' = candidateSlot s"
    "stakeholderSlot s' = stakeholderSlot s" "bounds s' = bounds s" "jail_ok s'"
  shows "staking_inv X s'"
  using assms by (simp add: staking_inv_def)

lemma PhaseOut_dAddr [simp]: "dAddr (PhaseOut e d) = dAddr d"
  by (simp add: PhaseOut_def Let_def split_beta)

lemma DelegateStat_Update_dAddr [simp]: "dAddr (DelegateStat_Update incr d) = dAddr d"
  by (simp add: DelegateStat_Update_def Let_def)

lemma key_sorted_map: "key_sorted k xs \<Longrightarrow> (\<And>x. k (f x) = k x) \<Longrightarrow> key_sorted k (map f xs)"
  by (simp add: key_sorted_def sorted_wrt_map)

lemma phase_out_all_wf: "DelegateStatList_wf l \<Longrightarrow> DelegateStatList_wf (phase_out_all epoch jl l)"
proof -
  have rem: "DelegateStatList_wf (fold DelegateStatList_Remove as ys)" if "DelegateStatList_wf ys" for as ys
    using that by (induction as arbitrary: ys) (auto simp: dsl.wf_remove)
  show "DelegateStatList_wf l \<Longrightarrow> ?thesis"
    unfolding phase_out_all_def Let_def
    by (rule rem) (auto simp: DelegateStatList_wf_def intro: key_sorted_map)
qed

lemma jail_slots [simp]:
  "bucketSlot (SetDelegateStatList l s) = bucketSlot s" "candidateSlot (SetDelegateStatList l s) = candidateSlot s"
  "stakeholderSlot (SetDelegateStatList l s) = stakeholderSlot s" "bounds (SetDelegateStatList l s) = bounds s"
  "bucketSlot (SetStatisticsEpoch p s) = bucketSlot s" "candidateSlot (SetStatisticsEpoch p s) = candidateSlot s"
  "stakeholderSlot (SetStatisticsEpoch p s) = stakeholderSlot s" "bounds (SetStatisticsEpoch p s) = bounds s"
  "jail_ok (SetStatisticsEpoch p s) = jail_ok s"
  by (simp_all add: SetDelegateStatList_def SetStatisticsEpoch_def bounds_def GetBoundedBalance_def jail_ok_def)

lemma SetDelegateStatList_ok: "jail_ok s \<Longrightarrow> DelegateStatList_wf l \<Longrightarrow> jail_ok (SetDelegateStatList l s)"
  by (simp add: SetDelegateStatList_def jail_ok_def)

lemma jail_write:
  assumes "staking_inv X s" "DelegateStatList_wf l" "InJailList_wf jl" "\<forall>j\<in>set jl. 0 \<le> jBailAmount j"
  shows "staking_inv X (SetInJailList jl (SetDelegateStatList l s))"
    "staking_inv X (SetInJailList jl (SetDelegateStatList l (SetStatisticsEpoch p s)))"
    "staking_inv X (SetDelegateStatList l (SetInJailList jl s))"
proof -
  have jail: "jail_ok s" using invD(4) [OF assms(1)] .
  note st = SetDelegateStatList_ok [OF jail assms(2)] SetDelegateStatList_ok [OF _ assms(2), of "SetStatisticsEpoch p s"]
  show "staking_inv X (SetInJailList jl (SetDelegateStatList l s))"
    by (rule staking_inv_jail [OF assms(1)]) (simp_all add: SetInJailList_ok [OF st(1) assms(3,4)])
  show "staking_inv X (SetInJailList jl (SetDelegateStatList l (SetStatisticsEpoch p s)))"
    using jail by (intro staking_inv_jail [OF assms(1)]) (simp_all add: SetInJailList_ok [OF st(2) assms(3,4)])
  show "staking_inv X (SetDelegateStatList l (SetInJailList jl s))"
    by (rule staking_inv_jail [OF assms(1)])
      (simp_all add: SetInJailList_ok [OF jail assms(3,4)] SetDelegateStatList_ok assms(2))
qed

lemma DelegateStatHandler_inv:
  assumes inv: "staking_inv X (envState e)"
  shows "keeps_inv X (DelegateStatHandler X e sb gas)"
proof -
  have jail: "InJailList_wf (inJailSlot (envState e))" "\<forall>j\<in>set (inJailSlot (envState e)). 0 \<le> jBailAmount j"
    "DelegateStatList_wf (delegateStatSlot (envState e))"
    using invD(4) [OF inv] by (auto simp: jail_ok_def)
  define L where "L = (if GetStatisticsEpoch (envState e) < sbOption sb
    then phase_out_all (sbOption sb) (inJailSlot (envState e)) (delegateStatSlot (envState e))
    else delegateStatSlot (envState e))"
  have L: "DelegateStatList_wf L" using jail(3) by (simp add: L_def phase_out_all_wf)
  have add: "DelegateStatList_wf (snd (case DelegateStatList_Get a L of
      None \<Rightarrow> (x, DelegateStatList_Add x L)
    | Some d \<Rightarrow> (DelegateStat_Update incr d, DelegateStatList_Modify a (\<lambda>_. DelegateStat_Update incr d) L)))"
    for a x incr
    using L by (auto simp: dsl.get_key intro!: dsl.wf_add dsl.wf_modify split: option.split)
  have bail: "0 \<le> jBailAmount (NewInJail a b c d f BAIL_FOR_EXIT_JAIL t)" for a b c d f t
    by (simp add: NewInJail_def BAIL_FOR_EXIT_JAIL_def)
  have jl: "InJailList_wf (if c then InJailList_Add j (inJailSlot (envState e)) else inJailSlot (envState e))"
    "0 \<le> jBailAmount j \<Longrightarrow> \<forall>x\<in>set (if c then InJailList_Add j (inJailSlot (envState e))
       else inJailSlot (envState e)). 0 \<le> jBailAmount x" for c j
    using jail by (auto simp: jl.wf_add jl.set_add)
  show ?thesis
    unfolding keeps_inv_def DelegateStatHandler_def Let_def inv_reads [OF inv] split_beta L_def [symmetric]
    by (intro outcome_intros; simp only: outcome_return env_simps; rule jail_write(2) [OF inv];
        rule jail L add jl(1) jl(2) [OF bail])
qed

lemma DelegateStatFlushHandler_inv:
  assumes inv: "staking_inv X (envState e)"
  shows "keeps_inv X (DelegateStatFlushHandler X e sb gas)"
  unfolding DelegateStatFlushHandler_def keeps_inv_def
  using jail_write(1) [OF inv dsl.wf_Nil jl.wf_Nil] by simp

lemma CollectBail_ok:
  assumes "staking_inv X (envState e)"
  shows "staking_inv X (envState (snd (CollectBailMeterGov a v e)))"
    "inJailSlot (envState (snd (CollectBailMeterGov a v e))) = inJailSlot (envState e)"
    "delegateStatSlot (envState (snd (CollectBailMeterGov a v e))) = delegateStatSlot (envState e)"
proof -
  let ?s = "envState (snd (CollectBailMeterGov a v e))"
  have slots: "bucketSlot ?s = bucketSlot (envState e)" "candidateSlot ?s = candidateSlot (envState e)"
    "stakeholderSlot ?s = stakeholderSlot (envState e)" "bounds ?s = bounds (envState e)"
    "inJailSlot ?s = inJailSlot (envState e)" "delegateStatSlot ?s = delegateStatSlot (envState e)"
    by (auto simp: CollectBailMeterGov_def account_defs bounds_def)
  then show "inJailSlot ?s = inJailSlot (envState e)" "delegateStatSlot ?s = delegateStatSlot (envState e)"
    by simp_all
  show "staking_inv X ?s"
    using invD(4) [OF assms] by (intro staking_inv_jail [OF assms]) (simp_all add: slots jail_ok_def)
qed

lemma DelegateExitJailHandler_inv:
  assumes inv: "staking_inv X (envState e)"
  shows "keeps_inv X (DelegateExitJailHandler X e sb gas)"
proof -
  have jail: "InJailList_wf (inJailSlot (envState e))" "\<forall>j\<in>set (inJailSlot (envState e)). 0 \<le> jBailAmount j"
    "DelegateStatList_wf (delegateStatSlot (envState e))"
    using invD(4) [OF inv] by (auto simp: jail_ok_def)
  note rem = dsl.wf_remove [OF jail(3)] jl.wf_remove [OF jail(1)]
  show ?thesis
    unfolding keeps_inv_def DelegateExitJailHandler_def Let_def inv_reads [OF inv] split_beta
    by (intro outcome_intros)
      (auto simp: inv rem jail jl.set_remove CollectBail_ok [OF inv] intro!: jail_write(3))
qed

end
