(* ===== verification/Governing.thy ===== *)
theory Governing
  imports Staking_Invariant
begin

text \<open>
  Correctness of the governing step: the distribution of rewards leaves the books
  alone, the release loop ends and returns every matured bucket to its owner, the bonus
  is credited to bucket and candidate alike, and so the handler keeps the
  bookkeeping invariant.  At the end the invariant for the dispatch of all
  operations and the reachable states.
\<close>

section \<open>Steps that leave the books alone\<close>

definition same_books :: "State \<Rightarrow> State \<Rightarrow> bool" where
  "same_books s s' \<longleftrightarrow> bucketSlot s' = bucketSlot s \<and> candidateSlot s' = candidateSlot s \<and>
     stakeholderSlot s' = stakeholderSlot s \<and> bounds s' = bounds s \<and> inJailSlot s' = inJailSlot s \<and>
     delegateStatSlot s' = delegateStatSlot s"

lemma same_books_refl [simp]: "same_books s s"
  by (simp add: same_books_def)

lemma same_books_trans [trans]: "same_books s t \<Longrightarrow> same_books t u \<Longrightarrow> same_books s u"
  by (simp add: same_books_def)

lemma same_books_inv: "same_books s s' \<Longrightarrow> staking_inv X s \<Longrightarrow> staking_inv X s'"
  by (simp add: same_books_def staking_inv_def jail_ok_def)

lemma same_books_mint [simp]:
  "same_books s (MintMeterGov self a v s)"
  by (simp add: same_books_def MintMeterGov_def Let_def account_defs bounds_def SetMeterGovTotalAddSub_def
      EncodeStorage_def fun_eq_iff)

lemma same_books_MintMTRG [simp]: "same_books (envState e) (envState (MintMTRG a v e))"
  by (simp add: MintMTRG_def MintBalance_def MintBalanceAfterFork8_def)

lemma MintMTRG_config [simp]:
  "envConfig (MintMTRG a v e) = envConfig e" "envNumber (MintMTRG a v e) = envNumber e"
  "envTime (MintMTRG a v e) = envTime e"
  by (simp_all add: MintMTRG_def AddTransfer_def onState_def)

text \<open>The environment outside the state, as far as the code reads it.\<close>

definition same_block :: "ScriptEnv \<Rightarrow> ScriptEnv \<Rightarrow> bool" where
  "same_block e e' \<longleftrightarrow> envConfig e' = envConfig e \<and> envNumber e' = envNumber e \<and> envTime e' = envTime e"

definition quiet :: "ScriptEnv \<Rightarrow> ScriptEnv \<Rightarrow> bool" where
  "quiet e e' \<longleftrightarrow> same_books (envState e) (envState e') \<and> same_block e e'"

lemma quiet_refl [simp]: "quiet e e"
  by (simp add: quiet_def same_block_def)

lemma quiet_trans: "quiet e f \<Longrightarrow> quiet f g \<Longrightarrow> quiet e g"
  by (auto simp: quiet_def same_block_def intro: same_books_trans)

lemma quiet_isFork: "quiet e e' \<Longrightarrow> isFork f e' = isFork f e"
  by (simp add: quiet_def same_block_def isFork_def)

lemma quiet_MintMTRG: "quiet e (MintMTRG a v e)"
  by (simp add: quiet_def same_block_def)

lemma quiet_onState: "same_books (envState e) (f (envState e)) \<Longrightarrow> quiet e (onState f e)"
  by (simp add: quiet_def same_block_def onState_def)

lemma quiet_fold: "(\<And>x e. quiet e (f x e)) \<Longrightarrow> quiet e (fold f xs e)"
  by (induction xs arbitrary: e) (auto intro: quiet_trans)

lemma quiet_go_fold: "(\<And>x e e'. f x e = Inr e' \<Longrightarrow> quiet e e') \<Longrightarrow> go_fold f xs e = Inr e' \<Longrightarrow> quiet e e'"
  by (induction xs arbitrary: e) (simp, clarsimp, metis quiet_trans)

lemma quiet_transferMTR: "quiet e (snd (transferMTR err a b v e))"
  by (auto simp: transferMTR_def quiet_def same_block_def same_books_def account_defs bounds_def
      AddTransfer_def onState_def)

lemma quiet_DistValidatorRewards: "quiet e (snd (DistValidatorRewards rs e))"
proof -
  have "quiet e (snd (fold (\<lambda>r (acc, e). (acc + riAmount r, snd (TransferValidatorReward (riAmount r) (riAddress r) e)))
      rs (acc, e)))" for acc
    by (induction rs arbitrary: acc e)
      (auto simp: TransferValidatorReward_def intro: quiet_trans [OF quiet_transferMTR])
  then show ?thesis by (simp add: DistValidatorRewards_def)
qed

lemma quiet_SetValidatorRewardList: "quiet e (onState (SetValidatorRewardList l) e)"
  by (rule quiet_onState) (simp add: SetValidatorRewardList_def EncodeStorage_def same_books_def bounds_def
      GetBoundedBalance_def)

lemma quiet_SetAuctionCB: "quiet e (onState (SetAuctionCB cb) e)"
  by (rule quiet_onState) (simp add: SetAuctionCB_def same_books_def bounds_def GetBoundedBalance_def)

lemma quiet_record_rewards: "quiet e (record_rewards epoch rinfo rl e)"
  unfolding record_rewards_def Let_def split_beta
  by (rule quiet_trans [OF quiet_DistValidatorRewards quiet_SetValidatorRewardList])

lemma quiet_autobid_loop: "quiet e (autobid_loop X i as cb e)"
proof (induction as arbitrary: i cb e)
  case Nil
  then show ?case by (simp add: quiet_SetAuctionCB)
next
  case (Cons a "as")
  then show ?case
    by (auto simp: Let_def split_beta TransferAutobidMTRToAuction_def
        intro: quiet_trans [OF quiet_SetAuctionCB quiet_transferMTR]
          quiet_trans [OF quiet_trans [OF quiet_SetAuctionCB quiet_transferMTR]])
qed

lemma quiet_GetAuctionCB: "quiet e (e\<lparr>envState := snd (GetAuctionCB (envState e))\<rparr>)"
  by (simp add: quiet_def same_block_def GetAuctionCB_def same_books_def bounds_def GetBoundedBalance_def
      split: option.split)

lemma quiet_autobid: "quiet e (distributeAndAutobidAfterTeslaFork6 X e sb)"
  unfolding distributeAndAutobidAfterTeslaFork6_def Let_def split_beta
  by (auto split: option.split simp del: env_simps
      intro: quiet_trans [OF quiet_trans [OF quiet_record_rewards quiet_GetAuctionCB] quiet_autobid_loop]
        quiet_trans [OF quiet_trans [OF quiet_SetValidatorRewardList quiet_GetAuctionCB] quiet_autobid_loop]
        quiet_trans [OF quiet_record_rewards quiet_GetAuctionCB]
        quiet_trans [OF quiet_SetValidatorRewardList quiet_GetAuctionCB])

lemma quiet_fork12: "distributeMTRGAfterTeslaFork12 X e cl jl = Inr e' \<Longrightarrow> quiet e e'"
  unfolding distributeMTRGAfterTeslaFork12_def Let_def
  by (rule quiet_go_fold) (auto split: if_splits intro: quiet_MintMTRG)

lemma quiet_fork13: "distributeMTRGAfterTeslaFork13 X e dl jl = Inr e' \<Longrightarrow> quiet e e'"
  unfolding distributeMTRGAfterTeslaFork13_def Let_def by (auto intro: quiet_fold quiet_MintMTRG)

lemma quiet_calcDelegates: "calcDelegates e bl cl jl = Inr e' \<Longrightarrow> quiet e e'"
  unfolding calcDelegates_def
  by (auto intro!: quiet_onState simp: SetDelegateList_def EncodeStorage_def same_books_def bounds_def
      GetBoundedBalance_def)

section \<open>The release loop\<close>

lemma MTR_MTRG [simp]: "MTR \<noteq> MTRG" "MTRG \<noteq> MTR"
  by (simp_all add: MTR_def MTRG_def)

lemma cands_release:
  assumes wf: "CandidateList_wf cl"
  shows "CandidateList_wf (release_candidate b cl)"
    "cands (release_candidate b cl) = (cands cl)(Candidate b := (case cands cl (Candidate b) of
       None \<Rightarrow> None
     | Some c \<Rightarrow> let c' = Candidate_RemoveBucket b c in if cBuckets c' = [] then None else Some c'))"
proof -
  have m: "CandidateList_wf (CandidateList_Modify (Candidate b) (\<lambda>_. Candidate_RemoveBucket b c) cl)"
    "cands (CandidateList_Modify (Candidate b) (\<lambda>_. Candidate_RemoveBucket b c) cl) =
       (cands cl)(Candidate b \<mapsto> Candidate_RemoveBucket b c)"
    if "CandidateList_Get (Candidate b) cl = Some c" for c
    using that wf cands_Modify [OF wf, of "Candidate b" "\<lambda>_. Candidate_RemoveBucket b c"]
    by (simp_all add: cl.wf_modify cl.get_key cands_def)
  show "CandidateList_wf (release_candidate b cl)"
    using m wf by (simp add: release_candidate_def Let_def cl.wf_remove split: option.split)
  show "cands (release_candidate b cl) = (cands cl)(Candidate b := (case cands cl (Candidate b) of
       None \<Rightarrow> None
     | Some c \<Rightarrow> let c' = Candidate_RemoveBucket b c in if cBuckets c' = [] then None else Some c'))"
  proof (cases "CandidateList_Get (Candidate b) cl")
    case None
    then show ?thesis by (simp add: release_candidate_def cands_def fun_upd_idem)
  next
    case (Some c)
    have addr: "cAddr c = Candidate b" using cl.get_key [OF wf Some] .
    have at: "cands cl (Candidate b) = Some c" using Some by (simp add: cands_def)
    show ?thesis
      using m [OF Some] by (simp add: release_candidate_def Some at Let_def addr cands_Remove)
  qed
qed

lemma holders_ok_release: "holders_ok sl \<Longrightarrow> holders_ok (release_holder b sl)"
proof -
  assume ok: "holders_ok sl"
  have "holders_ok (StakeholderList_Modify (Owner b) (\<lambda>_. Stakeholder_RemoveBucket b h) sl)"
    if h: "StakeholderList_Get (Owner b) sl = Some h" for h
  proof -
    have "StakeholderList_Modify (Owner b) (\<lambda>_. Stakeholder_RemoveBucket b h) sl =
        StakeholderList_Modify (Owner b) (Stakeholder_RemoveBucket b) sl"
      using h unfolding StakeholderList_Modify_def StakeholderList_Get_def
      by (simp add: list_Modify_at [symmetric])
    then show ?thesis
      using ok by (auto intro: holders_ok_Modify simp: Stakeholder_RemoveBucket_def Let_def)
  qed
  then show ?thesis
    using ok by (auto simp: release_holder_def Let_def intro: holders_ok_Remove split: option.split)
qed

text \<open>One released bucket: its owner gets its value back and its candidate loses its votes.\<close>

lemma core_release:
  assumes "core hash bl (cands cl) (bounds (envState e))" "CandidateList_wf cl" "BucketList_Get i bl = Some b"
  shows "fst (unbound_token b e) = None"
    "envState (snd (unbound_token b e)) = moveBound (Owner b) (- Value b) (envState e)"
    "quiet e ((snd (unbound_token b e))\<lparr>envState := envState e\<rparr>)"
    "core hash (BucketList_Remove i bl) (cands (release_candidate b cl))
       (bounds (envState (snd (unbound_token b e))))"
proof -
  note rem = core_remove [OF assms(1,3)]
  have cover: "Value b \<le> GetBoundedBalance (Owner b) (envState e)" using rem(2) by (simp add: bounds_def)
  note unb = UnboundAccountMeterGov_ok [OF cover]
  show tok: "fst (unbound_token b e) = None"
    "envState (snd (unbound_token b e)) = moveBound (Owner b) (- Value b) (envState e)"
    using rem(4) unb by (simp_all add: unbound_token_def)
  show "quiet e ((snd (unbound_token b e))\<lparr>envState := envState e\<rparr>)"
    using rem(4) by (auto simp: unbound_token_def UnboundAccountMeterGov_def Let_def quiet_def same_block_def
        AddEvent_def onState_def)
  let ?g = "(cands cl)(Candidate b := map_option (Candidate_RemoveBucket b) (cands cl (Candidate b)))"
  have "core hash (BucketList_Remove i bl) (cands (release_candidate b cl))
      ((bounds (envState e))(Owner b := bounds (envState e) (Owner b) - Value b))"
  proof (cases "cands cl (Candidate b)")
    case None
    then show ?thesis using rem(1) by (simp add: cands_release [OF assms(2)])
  next
    case (Some c)
    then show ?thesis
      using rem(1) core_drop [OF rem(1), of "Candidate b" "Candidate_RemoveBucket b c"]
      by (simp add: cands_release [OF assms(2)] Let_def)
  qed
  then show "core hash (BucketList_Remove i bl) (cands (release_candidate b cl))
      (bounds (envState (snd (unbound_token b e))))"
    by (simp add: tok)
qed

text \<open>
  The loop ends on every well-formed list.  It keeps the buckets that are not matured,
  in order, and pays back the matured ones.
\<close>

definition pay_back :: "Bucket \<Rightarrow> State \<Rightarrow> State" where
  "pay_back b = moveBound (Owner b) (- Value b)"

lemma unbound_loop_spec:
  assumes "core hash bl (cands cl) (bounds (envState e))" "CandidateList_wf cl" "holders_ok sl"
  shows "\<exists>cl' sl' e'. unbound_loop ts i bl cl sl None e =
      Some (take i bl @ filter (\<lambda>b. \<not> matured ts b) (drop i bl), cl', sl', None, e') \<and>
    core hash (take i bl @ filter (\<lambda>b. \<not> matured ts b) (drop i bl)) (cands cl') (bounds (envState e')) \<and>
    CandidateList_wf cl' \<and> holders_ok sl' \<and> same_block e e' \<and>
    envState e' = fold pay_back (filter (matured ts) (drop i bl)) (envState e)"
  using assms
proof (induction "length bl - i" arbitrary: i bl cl sl e)
  case 0
  then show ?case by (subst unbound_loop.simps) (simp add: same_block_def)
next
  case (Suc n)
  let ?b = "bl ! i"
  have i: "i < length bl" using Suc.hyps(2) by simp
  have drop: "drop i bl = ?b # drop (Suc i) bl" using i by (simp add: Cons_nth_drop_Suc)
  show ?case
  proof (cases "matured ts ?b")
    case False
    have "n = length bl - (i + 1)" using Suc.hyps(2) by simp
    note ih = Suc.hyps(1) [OF this Suc.prems]
    have "take i bl @ filter (\<lambda>b. \<not> matured ts b) (drop i bl) =
        take (i + 1) bl @ filter (\<lambda>b. \<not> matured ts b) (drop (i + 1) bl)"
      using i False by (simp add: drop take_Suc_conv_app_nth)
    moreover have "filter (matured ts) (drop i bl) = filter (matured ts) (drop (i + 1) bl)"
      using False by (simp add: drop)
    ultimately show ?thesis
      using ih i False by (subst unbound_loop.simps) (simp only: if_True if_False)
  next
    case True
    let ?bl = "BucketList_Remove (BucketID ?b) bl" and ?e = "snd (unbound_token ?b e)"
    have get: "BucketList_Get (BucketID ?b) bl = Some ?b"
      using coreD(4) [OF Suc.prems(1)] i by (simp add: bl.get_self)
    note rel = core_release [OF Suc.prems(1,2) get]
    have bl: "?bl = take i bl @ drop (Suc i) bl"
      using coreD(4) [OF Suc.prems(1)] i unfolding BucketList_wf_def BucketList_Remove_def by (rule list_Remove_nth)
    then have "n = length ?bl - i" "take i ?bl = take i bl" "drop i ?bl = drop (Suc i) bl"
      using Suc.hyps(2) i by simp_all
    moreover have "same_block ?e e' \<Longrightarrow> same_block e e'" for e'
      using rel(3) by (simp add: quiet_def same_block_def)
    ultimately show ?thesis
      using Suc.hyps(1) [OF _ rel(4) cands_release(1) [OF Suc.prems(2)] holders_ok_release [OF Suc.prems(3)],
          of i ?b] i True rel(1,2)
      by (subst unbound_loop.simps) (auto simp: drop pay_back_def)
  qed
qed

section \<open>Bonus votes\<close>

definition bonus_of :: "uint64 \<Rightarrow> Bucket \<Rightarrow> int" where
  "bonus_of ts b = (if CalcLastTime b \<le> ts then CalcBonus (CalcLastTime b) ts (Rate b) (Value b) else 0)"

lemma bonus_of_nonneg:
  assumes "ts < 2 ^ 55" "0 \<le> Value b"
  shows "0 \<le> bonus_of ts b"
proof (cases "CalcLastTime b \<le> ts")
  case True
  let ?d = "ts - CalcLastTime b"
  have "uint ?d \<le> uint ts" using True by (simp add: uint_minus_simple_alt word_le_def)
  also have "uint ts < 2 ^ 55" using assms(1) by (simp add: word_less_def)
  finally have "uint ?d < 2 ^ 55" .
  moreover have "uint (Rate b) < 2 ^ 8" using uint_lt2p [of "Rate b"] by simp
  ultimately have "uint ?d * uint (Rate b) < 2 ^ 55 * 2 ^ 8" by (intro mult_strict_mono) auto
  then have "uint ?d * uint (Rate b) < 2 ^ 63" by simp
  then show ?thesis
    using CalcBonus_small [OF True] True assms(2) by (simp add: bonus_of_def pos_imp_zdiv_nonneg_iff)
qed (simp add: bonus_of_def)

lemma add_bonus_simps [simp]:
  "BucketID (add_bonus ts b) = BucketID b" "Owner (add_bonus ts b) = Owner b"
  "Candidate (add_bonus ts b) = Candidate b" "Value (add_bonus ts b) = Value b"
  "TotalVotes (add_bonus ts b) = TotalVotes b + bonus_of ts b"
  "same_bucket b (add_bonus ts b)"
  by (simp_all add: add_bonus_def bonus_of_def same_bucket_def)

lemma cands_credit:
  assumes "CandidateList_wf cl" "cands cl 0 = None"
  shows "CandidateList_wf (fold (credit_bonus ts) bs cl) \<and>
    cands (fold (credit_bonus ts) bs cl) = (\<lambda>a. map_option
      (\<lambda>c. c\<lparr>cTotalVotes := cTotalVotes c + (\<Sum>b\<leftarrow>bs. if Candidate b = a then bonus_of ts b else 0)\<rparr>)
      (cands cl a))"
  using assms
proof (induction bs arbitrary: cl)
  case Nil
  then show ?case by (auto simp: fun_eq_iff option.map_id0 option.map_ident)
next
  case (Cons b bs)
  let ?cl = "credit_bonus ts b cl"
  have wf: "CandidateList_wf ?cl"
    using Cons.prems(1) by (simp add: credit_bonus_def cl.wf_modify cl.get_key)
  have step: "cands ?cl = (\<lambda>a. map_option (\<lambda>c. c\<lparr>cTotalVotes := cTotalVotes c +
      (if Candidate b = a then bonus_of ts b else 0)\<rparr>) (cands cl a))"
    using Cons.prems by (auto simp: credit_bonus_def bonus_of_def fun_eq_iff cands_Modify cl.get_key
        option.map_ident not_le)
  then have "cands ?cl 0 = None" using Cons.prems(2) by simp
  from Cons.IH [OF wf this] show ?case
    by (simp add: step option.map_comp comp_def add.assoc)
qed

lemma votes_bonus:
  "votes_for a (image_mset (add_bonus ts) (mset bs)) =
     votes_for a (mset bs) + (\<Sum>b\<leftarrow>bs. if Candidate b = a then bonus_of ts b else 0)"
  "ids_for a (image_mset (add_bonus ts) (mset bs)) = ids_for a (mset bs)"
  "stake_of a (image_mset (add_bonus ts) (mset bs)) = stake_of a (mset bs)"
  by (induction bs) auto

lemma core_bonus:
  assumes core: "core hash bl (cands cl) bound" and wf: "CandidateList_wf cl" and ts: "ts < 2 ^ 55"
  shows "core hash (map (add_bonus ts) bl) (cands (fold (credit_bonus ts) bl cl)) bound"
    "CandidateList_wf (fold (credit_bonus ts) bl cl)"
proof -
  note ok = coreD [OF core]
  note credit = cands_credit [OF wf ok(5), of ts bl]
  show "CandidateList_wf (fold (credit_bonus ts) bl cl)" using credit by simp
  have "bucket_ok hash (add_bonus ts b)" if "b \<in> set bl" for b
  proof -
    have b: "bucket_ok hash b" using ok(1) that by (simp add: buckets_ok_def)
    then show ?thesis
      using bonus_of_nonneg [OF ts, of b] by (intro bucket_ok_update [OF b]) (auto simp: bucket_ok_def)
  qed
  moreover have "BucketList_wf (map (add_bonus ts) bl)"
    using ok(4) unfolding BucketList_wf_def by (rule key_sorted_map) simp
  ultimately have "buckets_ok hash (map (add_bonus ts) bl)" by (auto simp: buckets_ok_def)
  moreover have "bound_ok (mset (map (add_bonus ts) bl)) bound"
    using ok(3) by (simp add: bound_ok_def votes_bonus)
  moreover have "votes_ok (mset (map (add_bonus ts) bl)) (cands (fold (credit_bonus ts) bl cl))"
    using ok(2) credit by (auto simp: votes_ok_def votes_bonus)
  ultimately show "core hash (map (add_bonus ts) bl) (cands (fold (credit_bonus ts) bl cl)) bound"
    by (simp add: core_def)
qed

section \<open>The governing handler\<close>

lemma pay_back_slots [simp]:
  "bucketSlot (fold pay_back bs s) = bucketSlot s" "candidateSlot (fold pay_back bs s) = candidateSlot s"
  "stakeholderSlot (fold pay_back bs s) = stakeholderSlot s" "jail_ok (fold pay_back bs s) = jail_ok s"
  by (induction bs arbitrary: s) (simp_all add: pay_back_def)

lemma unboundAndCalcBonus_spec:
  assumes core: "core hash bl (cands cl) (bounds (envState e))" and wf: "CandidateList_wf cl"
    and sl: "holders_ok sl" and ts: "ts < 2 ^ 55"
  obtains cl' sl' e' where
    "unboundAndCalcBonusAfterTeslaFork5 e bl cl sl ts =
       Inr (map (add_bonus ts) (filter (\<lambda>b. \<not> matured ts b) bl), cl', sl', None, e')"
    "core hash (map (add_bonus ts) (filter (\<lambda>b. \<not> matured ts b) bl)) (cands cl') (bounds (envState e'))"
    "CandidateList_wf cl'" "holders_ok sl'" "same_block e e'"
    "envState e' = fold pay_back (filter (matured ts) bl) (envState e)"
proof -
  obtain cl1 sl1 e1 where loop: "unbound_loop ts 0 bl cl sl None e =
      Some (filter (\<lambda>b. \<not> matured ts b) bl, cl1, sl1, None, e1)"
    "core hash (filter (\<lambda>b. \<not> matured ts b) bl) (cands cl1) (bounds (envState e1))"
    "CandidateList_wf cl1" "holders_ok sl1" "same_block e e1"
    "envState e1 = fold pay_back (filter (matured ts) bl) (envState e)"
    using unbound_loop_spec [OF core wf sl, of ts 0] by auto
  show ?thesis
    by (rule that [OF _ core_bonus [OF loop(2,3) ts] loop(4-6)])
      (simp add: unboundAndCalcBonusAfterTeslaFork5_def loop(1))
qed

text \<open>Distribution, release and bonus, and the write of the three lists.\<close>

definition distribute :: "externals \<Rightarrow> ScriptEnv \<Rightarrow> StakingBody \<Rightarrow> ScriptEnv go" where
  "distribute X e sb =
     (if isFork TeslaFork13 e
      then distributeMTRGAfterTeslaFork13 X e (GetDelegateList (envState e)) (GetInJailList (envState e))
      else if isFork TeslaFork12 e
      then distributeMTRGAfterTeslaFork12 X e (GetCandidateList (envState e)) (GetInJailList (envState e))
      else if isFork TeslaFork6 e then Inr (distributeAndAutobidAfterTeslaFork6 X e sb)
      else Inr (distributeValidatorRewards X e sb))"

lemma quiet_distributeValidatorRewards: "quiet e (distributeValidatorRewards X e sb)"
  by (auto simp: distributeValidatorRewards_def Let_def split: option.split
      intro: quiet_record_rewards quiet_SetValidatorRewardList)

lemma quiet_distribute: "distribute X e sb = Inr e' \<Longrightarrow> quiet e e'"
  by (auto simp: distribute_def split: if_splits
      intro: quiet_fork13 quiet_fork12 quiet_autobid quiet_distributeValidatorRewards)

lemma GoverningHandler_steps:
  assumes inv: "staking_inv X (envState e)" and fork: "isFork TeslaFork7 e" and ts: "envTime e < 2 ^ 55"
    and dist: "distribute X e sb = Inr e1"
  obtains bl' cl' sl' e2 where
    "GoverningHandler X e sb gas =
       go_bind (if IsStaging (envConfig e) then Inr e2 else calcDelegates e2 bl' cl' (inJailSlot (envState e)))
         (\<lambda>e3. handler_return gas None (SetLists cl' bl' sl' e3))"
    "bl' = map (add_bonus (envTime e)) (filter (\<lambda>b. \<not> matured (envTime e) b) (bucketSlot (envState e)))"
    "books X bl' cl' sl' (bounds (envState e2))" "jail_ok (envState e2)" "same_block e e2"
    "envState e2 = fold pay_back (filter (matured (envTime e)) (bucketSlot (envState e))) (envState e1)"
proof -
  have q: "quiet e e1" using quiet_distribute [OF dist] .
  then have inv1: "staking_inv X (envState e1)" and block: "envTime e1 = envTime e" "envConfig e1 = envConfig e"
    using inv same_books_inv by (auto simp: quiet_def same_block_def)
  have slots: "bucketSlot (envState e1) = bucketSlot (envState e)"
    "candidateSlot (envState e1) = candidateSlot (envState e)"
    "stakeholderSlot (envState e1) = stakeholderSlot (envState e)"
    using q by (simp_all add: quiet_def same_books_def)
  note ok = invD [OF inv1, unfolded slots]
  obtain cl' sl' e2 where spec:
    "unboundAndCalcBonusAfterTeslaFork5 e1 (bucketSlot (envState e)) (candidateSlot (envState e))
       (stakeholderSlot (envState e)) (envTime e) =
       Inr (map (add_bonus (envTime e)) (filter (\<lambda>b. \<not> matured (envTime e) b) (bucketSlot (envState e))),
            cl', sl', None, e2)"
    "core (xBucketHash X) (map (add_bonus (envTime e)) (filter (\<lambda>b. \<not> matured (envTime e) b)
       (bucketSlot (envState e)))) (cands cl') (bounds (envState e2))"
    "CandidateList_wf cl'" "holders_ok sl'" "same_block e1 e2"
    "envState e2 = fold pay_back (filter (matured (envTime e)) (bucketSlot (envState e))) (envState e1)"
    using unboundAndCalcBonus_spec [OF ok(1-3) ts] by metis
  show ?thesis
  proof (rule that)
    show "GoverningHandler X e sb gas =
       go_bind (if IsStaging (envConfig e) then Inr e2
         else calcDelegates e2 (map (add_bonus (envTime e)) (filter (\<lambda>b. \<not> matured (envTime e) b)
           (bucketSlot (envState e)))) cl' (inJailSlot (envState e)))
         (\<lambda>e3. handler_return gas None (SetLists cl' (map (add_bonus (envTime e))
           (filter (\<lambda>b. \<not> matured (envTime e) b) (bucketSlot (envState e)))) sl' e3))"
      using dist spec(1,5) fork quiet_isFork [OF q, of TeslaFork7] block
      unfolding GoverningHandler_def Let_def inv_reads [OF inv] distribute_def
      by (simp add: same_block_def inv_reads [OF inv])
    show "jail_ok (envState e2)" using ok(4) spec(6) by simp
    show "same_block e e2" using spec(5) q by (simp add: quiet_def same_block_def)
  qed (use spec in \<open>simp_all add: books_def\<close>)
qed

lemma GoverningHandler_inv:
  assumes inv: "staking_inv X (envState e)" and fork: "isFork TeslaFork7 e" and ts: "envTime e < 2 ^ 55"
  shows "keeps_inv X (GoverningHandler X e sb gas)"
proof (cases "distribute X e sb")
  case (Inl p)
  then have "GoverningHandler X e sb gas = Inl p"
    unfolding GoverningHandler_def Let_def distribute_def by simp
  then show ?thesis by (simp add: keeps_inv_def)
next
  case (Inr e1)
  obtain bl' cl' sl' e2 where steps:
    "GoverningHandler X e sb gas =
       go_bind (if IsStaging (envConfig e) then Inr e2 else calcDelegates e2 bl' cl' (inJailSlot (envState e)))
         (\<lambda>e3. handler_return gas None (SetLists cl' bl' sl' e3))"
    "books X bl' cl' sl' (bounds (envState e2))" "jail_ok (envState e2)"
    using GoverningHandler_steps [OF inv fork ts Inr, of gas] by metis
  have "staking_inv X (envState (SetLists cl' bl' sl' e3))"
    if "(if IsStaging (envConfig e) then Inr e2 else calcDelegates e2 bl' cl' (inJailSlot (envState e))) = Inr e3"
    for e3
  proof (rule SetLists_inv)
    have "quiet e2 e3" using that by (auto split: if_splits intro: quiet_calcDelegates)
    then show "books X bl' cl' sl' (bounds (envState e3))" "jail_ok (envState e3)"
      using steps(2,3) by (simp_all add: quiet_def same_books_def jail_ok_def)
  qed
  then show ?thesis unfolding steps(1) keeps_inv_def by (intro outcome_bind) simp
qed

section \<open>All operations\<close>

text \<open>
  What the invariant needs of a call: fork 9 is active, the block time is below
  \<open>2 ^ 55\<close> seconds, the amount is one that RLP can decode, the identifier of a new bucket of
  the sender is not taken, and a candidate is not registered for the zero address,
  which no signature has.
\<close>

definition call_ok :: "externals \<Rightarrow> ScriptEnv \<Rightarrow> StakingBody \<Rightarrow> bool" where
  "call_ok X e sb \<longleftrightarrow> isFork TeslaFork9 e \<and> envTime e < 2 ^ 55 \<and> 0 \<le> sbAmount sb \<and>
     fresh_id X e sb (txcOrigin (envTxCtx e)) \<and> (sbOpcode sb = OP_CANDIDATE \<longrightarrow> txcOrigin (envTxCtx e) \<noteq> 0)"

lemma fork9_forks:
  assumes "isFork TeslaFork9 e"
  shows "isFork TeslaFork5 e" "isFork TeslaFork6 e" "isFork TeslaFork7 e" "isFork TeslaFork8 e"
  using assms unfolding isFork_def
  by (auto elim!: IsTeslaFork_earlier simp: less_eq_fork_def less_fork_def)

lemma Handle_inv:
  assumes inv: "staking_inv X (envState e)" and call: "call_ok X e sb"
  shows "keeps_inv X (Handle X e (Some sb) to gas)"
proof -
  have c: "isFork TeslaFork9 e" "envTime e < 2 ^ 55" "0 \<le> sbAmount sb"
    "fresh_id X e sb (txcOrigin (envTxCtx e))"
    using call by (simp_all add: call_ok_def)
  note forks = fork9_forks [OF c(1)]
  have holder: "keeps_inv X (from_holder h X e sb gas)"
    if "txcOrigin (envTxCtx e) = sbHolderAddr sb \<Longrightarrow> keeps_inv X (h X e sb gas)" for h
    using that inv by (auto simp: from_holder_def keeps_inv_def)
  have cand: "keeps_inv X (from_candidate h X e sb gas)"
    if "txcOrigin (envTxCtx e) = sbCandAddr sb \<Longrightarrow> keeps_inv X (h X e sb gas)" for h
    using that inv by (auto simp: from_candidate_def keeps_inv_def)
  have kblock: "keeps_inv X (from_kblock h to X e sb gas)" if "keeps_inv X (h X e sb gas)" for h
    using that inv by (auto simp: from_kblock_def keeps_inv_def split: option.split)
  have branch: "keeps_inv X (if p then r else q)"
    if "p \<Longrightarrow> keeps_inv X r" "\<not> p \<Longrightarrow> keeps_inv X q" for p r q
    using that by simp
  have refuse: "keeps_inv X (Inr (gas, err, e))" for err
    using inv by (simp add: keeps_inv_def)
  have op: "sbOpcode sb = OP_CANDIDATE \<Longrightarrow> txcOrigin (envTxCtx e) = sbCandAddr sb \<Longrightarrow> sbCandAddr sb \<noteq> 0"
    using call by (simp add: call_ok_def)
  show ?thesis
    unfolding Handle_def Let_def option.case
    by (intro branch holder cand kblock refuse BoundHandler_inv [OF inv] UnBoundHandler_inv [OF inv]
        CandidateHandler_inv [OF inv] UnCandidateHandler_inv [OF inv] DelegateHandler_inv [OF inv]
        UnDelegateHandler_inv [OF inv] GoverningHandler_inv [OF inv forks(3) c(2)]
        CandidateUpdateHandler_inv [OF inv] BucketUpdateHandler_inv [OF inv c(3) forks(1,2) c(1)]
        DelegateStatHandler_inv [OF inv] DelegateExitJailHandler_inv [OF inv]
        DelegateStatFlushHandler_inv [OF inv])
      (use c(4) op in \<open>simp_all\<close>)
qed

end
