(* ===== verification/Staking_Safety.thy ===== *)
theory Staking_Safety
  imports Governing
begin

text \<open>
  What a staking operation may do to accounts.  These lemmas hold at every fork and in
  every state: the operations of a user touch only the account of the sender, and
  they move MTRG between its free and its bounded balance without creating or
  destroying any.
\<close>

section \<open>Operations on the account of one user\<close>

definition only_own :: "address \<Rightarrow> (address \<Rightarrow> Account) \<Rightarrow> (address \<Rightarrow> Account) \<Rightarrow> bool" where
  "only_own a f f' \<longleftrightarrow>
     (\<forall>x. x \<noteq> a \<longrightarrow> f' x = f x) \<and>
     Balance (f' a) + BoundBalance (f' a) = Balance (f a) + BoundBalance (f a) \<and>
     Energy (f' a) = Energy (f a) \<and> BoundEnergy (f' a) = BoundEnergy (f a)"

lemma only_own_refl [simp]: "only_own a f f"
  by (simp add: only_own_def)

lemma only_own_sums: "only_own a f f' \<Longrightarrow> accMTRG f' = accMTRG f \<and> accMTR f' = accMTR f"
proof -
  assume own: "only_own a f f'"
  then have "f' = f(a := f' a)" by (auto simp: only_own_def)
  then show ?thesis
    using own accMTRG_upd [of f a "f' a"] accMTR_upd [of f a "f' a"] by (simp add: only_own_def)
qed

lemma only_own_bound: "only_own a (accounts (envState e)) (accounts (envState (snd (BoundAccountMeterGov a v e))))"
  by (simp add: BoundAccountMeterGov_def Let_def only_own_def account_defs)

lemma SetLists_accounts [simp]: "accounts (envState (SetLists cl bl sl e)) = accounts (envState e)"
  by (simp add: SetLists_def SetCandidateList_def SetBucketList_def SetStakeHolderList_def)

lemma Set_accounts [simp]:
  "accounts (SetBucketList bl s) = accounts s" "accounts (SetCandidateList cl s) = accounts s"
  "accounts (SetStakeHolderList sl s) = accounts s" "accounts (SetInJailList jl s) = accounts s"
  "accounts (SetDelegateStatList l s) = accounts s" "accounts (SetStatisticsEpoch p s) = accounts s"
  by (simp_all add: SetBucketList_def SetCandidateList_def SetStakeHolderList_def SetInJailList_def
      SetDelegateStatList_def SetStatisticsEpoch_def)

definition owns :: "address \<Rightarrow> ScriptEnv \<Rightarrow> handler_result \<Rightarrow> bool" where
  "owns a e = outcome (\<lambda>_ e'. only_own a (accounts (envState e)) (accounts (envState e')))"

lemma only_own_bound_inc:
  "only_own a (accounts (envState e)) (accounts (envState (snd (BoundAccountMeterGov a v (envInc e)))))"
  using only_own_bound [of a "envInc e" v] by simp

lemma BoundHandler_owns: "owns (sbHolderAddr sb) e (BoundHandler X e sb gas)"
  unfolding owns_def BoundHandler_def Let_def split_beta
  by (intro outcome_intros) (simp_all add: only_own_bound_inc)

lemma UnBoundHandler_owns: "owns a e (UnBoundHandler X e sb gas)"
  unfolding owns_def UnBoundHandler_def Let_def split_beta by (intro outcome_intros) simp_all

lemma CandidateHandler_owns: "owns (sbCandAddr sb) e (CandidateHandler X e sb gas)"
  unfolding owns_def CandidateHandler_def Let_def split_beta
  by (intro outcome_intros) (simp_all add: only_own_bound_inc)

lemma uncandidate_state: "envState (snd (fold (uncandidate_bucket c) is (bl, e))) = envState e"
proof (induction "is" arbitrary: bl e)
  case (Cons i "is")
  have "envState (snd (uncandidate_bucket c i (bl, e))) = envState e"
    by (simp add: uncandidate_bucket_def Let_def split_beta split: option.split)
  then show ?case using Cons.IH [of "fst (uncandidate_bucket c i (bl, e))" "snd (uncandidate_bucket c i (bl, e))"]
    by simp
qed simp

lemma UnCandidateHandler_owns: "owns a e (UnCandidateHandler X e sb gas)"
  unfolding owns_def UnCandidateHandler_def Let_def split_beta
  by (intro outcome_intros) (simp_all add: uncandidate_state)

lemma DelegateHandler_owns: "owns a e (DelegateHandler X e sb gas)"
  unfolding owns_def DelegateHandler_def Let_def by (intro outcome_intros) simp_all

lemma UnDelegateHandler_owns: "owns a e (UnDelegateHandler X e sb gas)"
  unfolding owns_def UnDelegateHandler_def Let_def by (intro outcome_intros) simp_all

lemma CandidateUpdateHandler_owns: "owns a e (CandidateUpdateHandler X e sb gas)"
  unfolding owns_def CandidateUpdateHandler_def Let_def by (intro outcome_intros) simp_all

lemma bucket_sub_owns: "owns a e (bucket_sub X e sb gas b)"
  unfolding owns_def bucket_sub_def Let_def by (intro outcome_intros) simp_all

lemma bucket_add_owns: "owns (sbHolderAddr sb) e (bucket_add X e sb gas b)"
  unfolding owns_def bucket_add_def Let_def split_beta
  by (intro outcome_intros) (simp_all add: only_own_bound)

lemma bucket_add_before_fork5_owns: "owns (sbHolderAddr sb) e (bucket_add_before_fork5 X e sb gas b)"
  unfolding owns_def bucket_add_before_fork5_def Let_def split_beta
  by (intro outcome_intros) (simp_all add: only_own_bound)

lemma BucketUpdateHandler_owns: "owns (sbHolderAddr sb) e (BucketUpdateHandler X e sb gas)"
  using bucket_sub_owns bucket_add_owns bucket_add_before_fork5_owns
  unfolding owns_def BucketUpdateHandler_def by (intro outcome_intros) simp_all

lemma DelegateStatHandler_owns: "owns a e (DelegateStatHandler X e sb gas)"
  unfolding owns_def DelegateStatHandler_def Let_def split_beta by (intro outcome_intros) simp_all

lemma DelegateStatFlushHandler_owns: "owns a e (DelegateStatFlushHandler X e sb gas)"
  unfolding owns_def DelegateStatFlushHandler_def by simp

lemma Handle_owns:
  assumes "sbOpcode sb \<noteq> OP_GOVERNING" "sbOpcode sb \<noteq> OP_DELEGATE_EXITJAIL"
  shows "owns (txcOrigin (envTxCtx e)) e (Handle X e (Some sb) to gas)"
proof -
  let ?a = "txcOrigin (envTxCtx e)"
  have holder: "owns ?a e (from_holder h X e sb gas)" if "owns (sbHolderAddr sb) e (h X e sb gas)" for h
    using that by (auto simp: from_holder_def owns_def)
  have cand: "owns ?a e (from_candidate h X e sb gas)" if "owns (sbCandAddr sb) e (h X e sb gas)" for h
    using that by (auto simp: from_candidate_def owns_def)
  have kblock: "owns ?a e (from_kblock h to X e sb gas)" if "owns ?a e (h X e sb gas)" for h
    using that by (auto simp: from_kblock_def owns_def split: option.split)
  have refuse: "owns ?a e (Inr (gas, err, e))" for err
    by (simp add: owns_def)
  show ?thesis
    using assms unfolding Handle_def Let_def option.case
    by (simp add: holder cand kblock refuse BoundHandler_owns UnBoundHandler_owns CandidateHandler_owns
        UnCandidateHandler_owns DelegateHandler_owns UnDelegateHandler_owns CandidateUpdateHandler_owns
        BucketUpdateHandler_owns DelegateStatHandler_owns DelegateStatFlushHandler_owns)
qed

section \<open>Leaving the jail\<close>

lemma CollectBail_sums:
  "accMTRG (accounts (envState (snd (CollectBailMeterGov a v e)))) = accMTRG (accounts (envState e)) \<and>
   accMTR (accounts (envState (snd (CollectBailMeterGov a v e)))) = accMTR (accounts (envState e))"
  by (simp add: CollectBailMeterGov_def account_defs accounting)

definition conserves :: "ScriptEnv \<Rightarrow> handler_result \<Rightarrow> bool" where
  "conserves e = outcome (\<lambda>_ e'. sumMTRG (envState e') = sumMTRG (envState e) \<and>
     sumMTR (envState e') = sumMTR (envState e))"

lemma ExitJail_conserves: "conserves e (DelegateExitJailHandler X e sb gas)"
  unfolding conserves_def DelegateExitJailHandler_def Let_def split_beta
  by (intro outcome_intros) (simp_all add: CollectBail_sums)

lemma owns_conserves: "owns a e r \<Longrightarrow> conserves e r"
  unfolding owns_def conserves_def outcome_def using only_own_sums by blast

lemma Handle_conserves_op:
  assumes "sbOpcode sb \<noteq> OP_GOVERNING"
  shows "conserves e (Handle X e (Some sb) to gas)"
proof (cases "sbOpcode sb = OP_DELEGATE_EXITJAIL")
  case True
  then have "Handle X e (Some sb) to gas = from_candidate DelegateExitJailHandler X e sb gas"
    by (simp add: Handle_def opcode_defs)
  then show ?thesis
    using ExitJail_conserves by (auto simp: from_candidate_def conserves_def)
next
  case False
  then show ?thesis using Handle_owns [OF assms] owns_conserves by blast
qed

end
