(* ===== verification/Emission.thy ===== *)
theory Emission
  imports Staking_Safety
begin

text \<open>
  The MTRG emission of a governing step since fork 12: what each candidate, delegate or
  voter is minted, and that an epoch never mints more than its release.
\<close>

section \<open>Shares of a total\<close>

lemma shares_bounds:
  fixes w :: "'a \<Rightarrow> int"
  assumes "\<forall>x\<in>set xs. 0 \<le> w x" "0 \<le> r" "0 < t" "(\<Sum>x\<leftarrow>xs. w x) \<le> t"
  shows "0 \<le> (\<Sum>x\<leftarrow>xs. big_Div (r * w x) t)" "(\<Sum>x\<leftarrow>xs. big_Div (r * w x) t) \<le> r"
proof -
  have "(\<Sum>x\<leftarrow>xs. big_Div (r * w x) t) * t \<le> r * (\<Sum>x\<leftarrow>xs. w x)"
    by (induction xs) (use big_Div_bounds(1) [OF assms(3)] in \<open>auto simp: distrib_left distrib_right intro: add_mono\<close>)
  also have "\<dots> \<le> r * t" using assms(2,4) by (intro mult_left_mono) auto
  finally show "(\<Sum>x\<leftarrow>xs. big_Div (r * w x) t) \<le> r" using assms(3) by simp
  show "0 \<le> (\<Sum>x\<leftarrow>xs. big_Div (r * w x) t)"
    using assms(1-3) by (intro sum_list_nonneg) (auto intro: big_Div_nonneg)
qed

lemma fold_plus_sum: "fold (\<lambda>x acc. acc + f x) xs a = a + (\<Sum>x\<leftarrow>xs. f x)" for f :: "'a \<Rightarrow> int"
  by (induction xs arbitrary: a) auto

section \<open>Minting\<close>

lemma MintMTRG_accounts:
  "accounts (envState (MintMTRG a v e)) =
     (accounts (envState e))(a := (accounts (envState e) a)\<lparr>Balance := Balance (accounts (envState e) a) + v\<rparr>)"
  by (auto simp: MintMTRG_def MintBalance_def MintBalanceAfterFork8_def MintMeterGov_def Let_def account_defs
      SetMeterGovTotalAddSub_def EncodeStorage_def fun_eq_iff)

lemma MintMTRG_sums:
  "sumMTRG (envState (MintMTRG a v e)) = sumMTRG (envState e) + v"
  "sumMTR (envState (MintMTRG a v e)) = sumMTR (envState e)"
  by (simp_all add: MintMTRG_accounts accounting)

lemma mint_all:
  "sumMTRG (envState (fold (\<lambda>a. MintMTRG a (f a)) as e)) = sumMTRG (envState e) + (\<Sum>a\<leftarrow>as. f a)"
  "sumMTR (envState (fold (\<lambda>a. MintMTRG a (f a)) as e)) = sumMTR (envState e)"
  by (induction as arbitrary: e) (simp_all add: MintMTRG_sums)

lemma mint_balance:
  assumes "distinct as"
  shows "GetBalance x (envState (fold (\<lambda>a. MintMTRG a (f a)) as e)) =
     GetBalance x (envState e) + (if x \<in> set as then f x else 0)"
  using assms by (induction as arbitrary: e) (auto simp: MintMTRG_accounts GetBalance_def)

lemma go_fold_Inr: "go_fold (\<lambda>x s. Inr (f x s)) xs s = Inr (fold f xs s)"
  by (induction xs arbitrary: s) auto

lemma ComputeEpochRelease_nonneg: "0 \<le> fst (ComputeEpochReleaseWithEmissionCurve X s t)"
  by (simp add: ComputeEpochReleaseWithEmissionCurve_def Let_def big_Div_nonneg)

section \<open>Emission to candidates (fork 12)\<close>

text \<open>The candidates that are not in jail, and their votes.\<close>

definition free_cands :: "CandidateList \<Rightarrow> InJailList \<Rightarrow> Candidate list" where
  "free_cands cl jl = filter (\<lambda>c. cAddr c \<notin> set (map jAddr jl)) cl"

definition release_of :: "externals \<Rightarrow> ScriptEnv \<Rightarrow> int" where
  "release_of X e = fst (ComputeEpochReleaseWithEmissionCurve X (envState e) (envTime e))"

lemma map_of_rev_map:
  assumes "distinct (map k xs)" "x \<in> set xs"
  shows "map_of (rev (map (\<lambda>x. (k x, v x)) xs)) (k x) = Some (v x)"
  using assms by (subst map_of_eq_Some_iff) (auto simp: rev_map [symmetric] comp_def)

lemma fork12_spec:
  assumes wf: "CandidateList_wf cl" and votes: "0 < (\<Sum>c\<leftarrow>free_cands cl jl. cTotalVotes c)"
  defines "T \<equiv> \<Sum>c\<leftarrow>free_cands cl jl. cTotalVotes c"
  shows "\<exists>e'. distributeMTRGAfterTeslaFork12 X e cl jl = Inr e' \<and>
    sumMTRG (envState e') = sumMTRG (envState e) +
      (\<Sum>c\<leftarrow>free_cands cl jl. big_Div (release_of X e * cTotalVotes c) T) \<and>
    sumMTR (envState e') = sumMTR (envState e) \<and>
    (\<forall>c\<in>set (free_cands cl jl). GetBalance (cAddr c) (envState e') =
       GetBalance (cAddr c) (envState e) + big_Div (release_of X e * cTotalVotes c) T)"
proof -
  let ?cs = "free_cands cl jl"
  let ?v = "map_of (rev (map (\<lambda>c. (cAddr c, cTotalVotes c)) ?cs))"
  let ?f = "\<lambda>a. big_Div (release_of X e * the (?v a)) T"
  let ?as = "sort_SliceStable (\<lambda>x y. y < x) (remdups (map cAddr ?cs))"
  have dist: "distinct (map cAddr ?cs)"
    using cl.wf_distinct [OF wf] by (simp add: free_cands_def distinct_map_filter)
  have v: "the (?v (cAddr c)) = cTotalVotes c" if "c \<in> set ?cs" for c
    using map_of_rev_map [OF dist that, of cTotalVotes] by simp
  have as: "distinct ?as" "set ?as = set (map cAddr ?cs)" "mset ?as = mset (map cAddr ?cs)"
    using dist by (simp_all add: distinct_remdups_id)
      (metis dist distinct_remdups_id mset_sort_SliceStable mset_eq_imp_distinct_iff)
  have run: "distributeMTRGAfterTeslaFork12 X e cl jl = Inr (fold (\<lambda>a. MintMTRG a (?f a)) ?as e)"
    using votes unfolding distributeMTRGAfterTeslaFork12_def Let_def fold_plus_sum free_cands_def [symmetric]
    by (simp add: T_def release_of_def go_fold_Inr)
  have "(\<Sum>a\<leftarrow>?as. ?f a) = (\<Sum>c\<leftarrow>?cs. big_Div (release_of X e * cTotalVotes c) T)"
    using sum_list_map_mset_cong [OF as(3), of ?f] v by (simp add: comp_def cong: map_cong)
  then show ?thesis
    using mint_all [of ?f ?as e] mint_balance [OF as(1), of _ ?f e] as(2) v run by auto
qed

section \<open>Emission to voters (fork 13)\<close>

definition amounts :: "(address \<times> int) list \<Rightarrow> int" where
  "amounts m = (\<Sum>x\<leftarrow>m. snd x)"

lemma amounts_update: "map_of m a = Some w \<Longrightarrow> amounts (AList.update a (w + v) m) = amounts m + v"
  by (induction m) (auto simp: amounts_def split: if_splits)

lemma add_release_amounts [simp]: "amounts (add_release a v m) = amounts m + v"
  by (auto simp: add_release_def amounts_update split: option.split) (simp add: amounts_def)

lemma add_release_distinct: "distinct (map fst m) \<Longrightarrow> distinct (map fst (add_release a v m))"
  by (auto simp: add_release_def distinct_update map_of_eq_None_iff split: option.split)

text \<open>The shares of the voters of a delegate, gathered by address.\<close>

definition total_shares :: "Delegate \<Rightarrow> int" where
  "total_shares d = (\<Sum>x\<leftarrow>dlgDistList d. big_NewInt64 (distShares x))"

lemma delegate_shares_sum: "amounts (delegate_shares d) = total_shares d"
proof -
  have "amounts (fold (\<lambda>x. add_release (distAddress x) (big_NewInt64 (distShares x))) ds m) =
      amounts m + (\<Sum>x\<leftarrow>ds. big_NewInt64 (distShares x))" for ds :: "Distributor list" and m
    by (induction ds arbitrary: m) simp_all
  then show ?thesis by (simp add: delegate_shares_def total_shares_def amounts_def)
qed

lemma add_release_nonneg: "\<forall>x\<in>set m. 0 \<le> snd x \<Longrightarrow> 0 \<le> v \<Longrightarrow> \<forall>x\<in>set (add_release a v m). 0 \<le> snd x"
  unfolding add_release_def
  by (induction m) (auto split: option.split if_splits dest: map_of_SomeD)

lemma delegate_shares_nonneg:
  assumes "\<forall>x\<in>set (dlgDistList d). 0 \<le> big_NewInt64 (distShares x)"
  shows "\<forall>x\<in>set (delegate_shares d). 0 \<le> snd x"
proof -
  have *: "\<forall>x\<in>set (fold (\<lambda>x. add_release (distAddress x) (big_NewInt64 (distShares x))) ds m). 0 \<le> snd x"
    if "\<forall>x\<in>set m. 0 \<le> snd x" "\<forall>x\<in>set ds. 0 \<le> big_NewInt64 (distShares x)"
    for ds :: "Distributor list" and m
    using that
  proof (induction ds arbitrary: m)
    case (Cons x ds)
    have "0 \<le> big_NewInt64 (distShares x)" using Cons.prems(2) by simp
    from Cons.IH [OF add_release_nonneg [OF Cons.prems(1) this]] Cons.prems(2) show ?case by simp
  qed simp
  show ?thesis using * [of "[]", OF _ assms] by (simp add: delegate_shares_def)
qed

lemma release_voter_amounts:
  assumes "t \<noteq> 0"
  shows "\<exists>m'. release_voter d mtrg t x m = Inr m' \<and> amounts m' = amounts m + big_Div (mtrg * snd x) t \<and>
    (distinct (map fst m) \<longrightarrow> distinct (map fst m'))"
  using assms by (cases x) (auto simp: release_voter_def Let_def intro: add_release_distinct)

lemma go_fold_amounts:
  assumes "\<And>x m. x \<in> set xs \<Longrightarrow> \<exists>m'. f x m = Inr m' \<and> amounts m' = amounts m + g x \<and>
    (distinct (map fst m) \<longrightarrow> distinct (map fst m'))"
  shows "\<exists>m'. go_fold f xs m = Inr m' \<and> amounts m' = amounts m + (\<Sum>x\<leftarrow>xs. g x) \<and>
    (distinct (map fst m) \<longrightarrow> distinct (map fst m'))"
  using assms
proof (induction xs arbitrary: m)
  case (Cons x xs)
  obtain m1 where m1: "f x m = Inr m1" "amounts m1 = amounts m + g x"
    "distinct (map fst m) \<longrightarrow> distinct (map fst m1)"
    using Cons.prems [of x m] by auto
  obtain m2 where "go_fold f xs m1 = Inr m2" "amounts m2 = amounts m1 + (\<Sum>x\<leftarrow>xs. g x)"
    "distinct (map fst m1) \<longrightarrow> distinct (map fst m2)"
    using Cons.IH [of m1] Cons.prems by auto
  then show ?case using m1 by auto
qed simp

lemma release_delegate_amounts:
  assumes "T \<noteq> 0" "dlgDistList d \<noteq> [] \<longrightarrow> total_shares d \<noteq> 0"
  shows "\<exists>m'. release_delegate r T d m = Inr m' \<and>
    amounts m' = amounts m + (\<Sum>x\<leftarrow>delegate_shares d.
       big_Div (big_Div (r * dlgVotingPower d) T * snd x) (total_shares d)) \<and>
    (distinct (map fst m) \<longrightarrow> distinct (map fst m'))"
proof -
  have "total_shares d \<noteq> 0" if "x \<in> set (delegate_shares d)" for x
    using that assms(2) by (auto simp: delegate_shares_def)
  then have "\<exists>m'. go_fold (release_voter d (big_Div (r * dlgVotingPower d) T) (total_shares d))
      (delegate_shares d) (add_release (dlgAddress d) 0 m) = Inr m' \<and>
    amounts m' = amounts (add_release (dlgAddress d) 0 m) + (\<Sum>x\<leftarrow>delegate_shares d.
       big_Div (big_Div (r * dlgVotingPower d) T * snd x) (total_shares d)) \<and>
    (distinct (map fst (add_release (dlgAddress d) 0 m)) \<longrightarrow> distinct (map fst m'))"
    by (intro go_fold_amounts release_voter_amounts) blast
  then show ?thesis
    using assms(1) add_release_distinct [of m "dlgAddress d" 0]
    unfolding release_delegate_def Let_def fold_plus_sum by (auto simp: total_shares_def)
qed

text \<open>
  A delegate list as \<^verbatim>\<open>calcDelegates\<close> builds it: no address twice, no negative voting
  power, and a distribution list whose shares are small and do not all vanish.
\<close>

definition delegate_ok :: "Delegate \<Rightarrow> bool" where
  "delegate_ok d \<longleftrightarrow> 0 \<le> dlgVotingPower d \<and> (\<forall>x\<in>set (dlgDistList d). 0 \<le> big_NewInt64 (distShares x)) \<and>
     (dlgDistList d \<noteq> [] \<longrightarrow> 0 < total_shares d)"

definition free_delegates :: "DelegateList \<Rightarrow> InJailList \<Rightarrow> Delegate list" where
  "free_delegates dl jl = filter (\<lambda>d. dlgAddress d \<notin> set (map jAddr jl)) dl"

text \<open>What the voters of a delegate receive when the delegate earns \<open>v\<close>.\<close>

definition paid_voters :: "int \<Rightarrow> Delegate \<Rightarrow> int" where
  "paid_voters v d = (\<Sum>x\<leftarrow>delegate_shares d. big_Div (v * snd x) (total_shares d))"

lemma paid_voters_bounds:
  assumes "delegate_ok d" "0 \<le> v"
  shows "0 \<le> paid_voters v d" "paid_voters v d \<le> v"
proof -
  have "0 \<le> paid_voters v d \<and> paid_voters v d \<le> v"
  proof (cases "dlgDistList d = []")
    case True
    then show ?thesis using assms(2) by (simp add: paid_voters_def delegate_shares_def)
  next
    case False
    have "\<forall>x\<in>set (delegate_shares d). 0 \<le> snd x"
      using assms(1) by (intro delegate_shares_nonneg) (simp add: delegate_ok_def)
    moreover have "0 < total_shares d" using assms(1) False by (simp add: delegate_ok_def)
    moreover have "(\<Sum>x\<leftarrow>delegate_shares d. snd x) \<le> total_shares d"
      using delegate_shares_sum [of d] by (simp add: amounts_def)
    ultimately show ?thesis
      using shares_bounds [of "delegate_shares d" snd v "total_shares d"] assms(2) by (simp add: paid_voters_def)
  qed
  then show "0 \<le> paid_voters v d" "paid_voters v d \<le> v" by simp_all
qed

lemma amounts_keys:
  "distinct (map fst m) \<Longrightarrow> (\<Sum>a\<leftarrow>map fst m. the (map_of m a)) = amounts m"
proof -
  assume "distinct (map fst m)"
  then have "map (\<lambda>a. the (map_of m a)) (map fst m) = map snd m"
    by (auto intro!: map_cong simp: comp_def)
  then show ?thesis unfolding amounts_def by (simp only:)
qed

lemma fork13_spec:
  assumes dist: "distinct (map dlgAddress dl)" and ok: "\<forall>d\<in>set dl. delegate_ok d"
    and votes: "0 < (\<Sum>d\<leftarrow>free_delegates dl jl. dlgVotingPower d)"
  defines "T \<equiv> \<Sum>d\<leftarrow>free_delegates dl jl. dlgVotingPower d"
  shows "\<exists>e'. distributeMTRGAfterTeslaFork13 X e dl jl = Inr e' \<and>
    sumMTRG (envState e') = sumMTRG (envState e) +
      (\<Sum>d\<leftarrow>free_delegates dl jl. paid_voters (big_Div (release_of X e * dlgVotingPower d) T) d) \<and>
    sumMTR (envState e') = sumMTR (envState e)"
proof -
  let ?ds = "free_delegates dl jl"
  let ?m = "map_of (rev (map (\<lambda>d. (dlgAddress d, d)) ?ds))"
  have dist': "distinct (map dlgAddress ?ds)" using dist by (simp add: free_delegates_def distinct_map_filter)
  have get: "the (?m (dlgAddress d)) = d" if "d \<in> set ?ds" for d
    using map_of_rev_map [OF dist' that, of "\<lambda>d. d"] by simp
  have one: "\<exists>m'. release_delegate (release_of X e) T (the (?m a)) m = Inr m' \<and>
      amounts m' = amounts m + paid_voters (big_Div (release_of X e * dlgVotingPower (the (?m a))) T) (the (?m a)) \<and>
      (distinct (map fst m) \<longrightarrow> distinct (map fst m'))" if a: "a \<in> set (remdups (map dlgAddress ?ds))" for a m
  proof -
    obtain d where d: "d \<in> set ?ds" "a = dlgAddress d" using a by auto
    then have "delegate_ok d" using ok by (auto simp: free_delegates_def)
    then show ?thesis
      using release_delegate_amounts [of T d "release_of X e" m] votes get [OF d(1)] d(2)
      by (auto simp: T_def paid_voters_def delegate_ok_def)
  qed
  obtain m where m: "go_fold (\<lambda>a. release_delegate (release_of X e) T (the (?m a)))
      (remdups (map dlgAddress ?ds)) [] = Inr m"
    "amounts m = (\<Sum>a\<leftarrow>remdups (map dlgAddress ?ds).
       paid_voters (big_Div (release_of X e * dlgVotingPower (the (?m a))) T) (the (?m a)))"
    "distinct (map fst m)"
    using go_fold_amounts [of "remdups (map dlgAddress ?ds)"
        "\<lambda>a. release_delegate (release_of X e) T (the (?m a))"
        "\<lambda>a. paid_voters (big_Div (release_of X e * dlgVotingPower (the (?m a))) T) (the (?m a))" "[]", OF one]
    by (auto simp: amounts_def)
  let ?as = "sort_SliceStable (<) (map fst m)"
  have run: "distributeMTRGAfterTeslaFork13 X e dl jl = Inr (fold (\<lambda>a. MintMTRG a (the (map_of m a))) ?as e)"
    using m(1) unfolding distributeMTRGAfterTeslaFork13_def Let_def fold_plus_sum
      free_delegates_def [symmetric] by (simp add: T_def release_of_def)
  have "(\<Sum>a\<leftarrow>?as. the (map_of m a)) = amounts m"
    using sum_list_map_mset_cong [OF mset_sort_SliceStable, of "\<lambda>a. the (map_of m a)" "(<)" "map fst m"]
      amounts_keys [OF m(3)] by simp
  also have "\<dots> = (\<Sum>d\<leftarrow>?ds. paid_voters (big_Div (release_of X e * dlgVotingPower d) T) d)"
    using m(2) dist' get by (simp add: distinct_remdups_id comp_def cong: map_cong)
  finally show ?thesis
    using mint_all [of "\<lambda>a. the (map_of m a)" ?as e] run by simp
qed

lemma fork13_total:
  assumes "\<forall>d\<in>set dl. delegate_ok d" "0 < (\<Sum>d\<leftarrow>free_delegates dl jl. dlgVotingPower d)"
  defines "T \<equiv> \<Sum>d\<leftarrow>free_delegates dl jl. dlgVotingPower d"
  assumes "0 \<le> r"
  shows "0 \<le> (\<Sum>d\<leftarrow>free_delegates dl jl. paid_voters (big_Div (r * dlgVotingPower d) T) d)"
    "(\<Sum>d\<leftarrow>free_delegates dl jl. paid_voters (big_Div (r * dlgVotingPower d) T) d) \<le> r"
proof -
  let ?ds = "free_delegates dl jl"
  have ok: "delegate_ok d" if "d \<in> set ?ds" for d using assms(1) that by (auto simp: free_delegates_def)
  have nn: "0 \<le> big_Div (r * dlgVotingPower d) T" if "d \<in> set ?ds" for d
    using ok [OF that] assms(2,4) by (intro big_Div_nonneg) (auto simp: T_def delegate_ok_def)
  show "0 \<le> (\<Sum>d\<leftarrow>?ds. paid_voters (big_Div (r * dlgVotingPower d) T) d)"
    using paid_voters_bounds(1) ok nn by (intro sum_list_nonneg) auto
  have "(\<Sum>d\<leftarrow>?ds. paid_voters (big_Div (r * dlgVotingPower d) T) d) \<le> (\<Sum>d\<leftarrow>?ds. big_Div (r * dlgVotingPower d) T)"
    using paid_voters_bounds(2) ok nn by (intro sum_list_mono) auto
  also have "\<dots> \<le> r"
    using shares_bounds(2) [of ?ds dlgVotingPower r T] ok assms(2,4) by (auto simp: T_def delegate_ok_def)
  finally show "(\<Sum>d\<leftarrow>?ds. paid_voters (big_Div (r * dlgVotingPower d) T) d) \<le> r" .
qed

end
