(* ===== verification/Delegate_Election.thy ===== *)
theory Delegate_Election
  imports Emission
begin

text \<open>
  The election of the next delegates (\<^verbatim>\<open>calcDelegates\<close>): who is elected, in which order, how
  the shares of the voters come out, and that a governing step that starts from books in
  order neither panics nor returns an error and leaves a delegate list on which the
  next governing step can distribute.
\<close>

section \<open>Shares of the voters\<close>

text \<open>The distribution list of a candidate whose buckets all exist.\<close>

definition share_of :: "int \<Rightarrow> Bucket \<Rightarrow> int" where
  "share_of votes b = big_Div (TotalVotes b * 1000000000) votes"

definition distributor_of :: "int \<Rightarrow> Bucket \<Rightarrow> Distributor" where
  "distributor_of votes b = NewDistributor (Owner b) (Autobid b) (big_Uint64 (share_of votes b))"

lemma dist_list_spec:
  assumes "\<forall>i\<in>set is. \<exists>b. BucketList_Get i bl = Some b" "votes \<noteq> 0"
  shows "dist_list bl votes is = Inr (map (\<lambda>i. distributor_of votes (the (BucketList_Get i bl))) is)"
  using assms by (induction "is") (auto simp: distributor_of_def share_of_def)

lemma share_of_bounds:
  assumes "0 \<le> TotalVotes b" "TotalVotes b \<le> votes" "0 < votes"
  shows "0 \<le> share_of votes b" "share_of votes b \<le> 1000000000"
    "big_NewInt64 (big_Uint64 (share_of votes b)) = share_of votes b"
proof -
  show nn: "0 \<le> share_of votes b" using assms by (simp add: share_of_def big_Div_nonneg)
  have "TotalVotes b * 1000000000 < votes * (1000000000 + 1)" using assms by (simp add: algebra_simps)
  then show le: "share_of votes b \<le> 1000000000" using big_Div_le_iff [OF assms(3)] by (simp add: share_of_def)
  have "uint (word_of_int (share_of votes b) :: uint64) = share_of votes b"
    using nn le by (simp add: uint_word_of_int_eq take_bit_int_eq_self_iff)
  then show "big_NewInt64 (big_Uint64 (share_of votes b)) = share_of votes b"
    using nn le by (simp add: big_NewInt64_def big_Uint64_def sint_small)
qed

lemma shares_sum:
  fixes w :: "'a \<Rightarrow> int"
  assumes "\<forall>x\<in>set xs. 0 \<le> w x" "0 < (\<Sum>x\<leftarrow>xs. w x)" "0 \<le> r"
  defines "t \<equiv> \<Sum>x\<leftarrow>xs. w x"
  shows "(\<Sum>x\<leftarrow>xs. big_Div (w x * r) t) \<le> r" "r - int (length xs) < (\<Sum>x\<leftarrow>xs. big_Div (w x * r) t)"
proof -
  have t: "0 < t" using assms(2) by (simp add: t_def)
  show "(\<Sum>x\<leftarrow>xs. big_Div (w x * r) t) \<le> r"
    using shares_bounds(2) [OF assms(1,3) t] by (simp add: t_def mult.commute)
  have "xs \<noteq> []" using assms(2) by auto
  have "r * (\<Sum>x\<leftarrow>ys. w x) < ((\<Sum>x\<leftarrow>ys. big_Div (w x * r) t) + int (length ys)) * t" if "ys \<noteq> []" for ys
    using that
  proof (induction ys)
    case (Cons y ys)
    have "w y * r < (big_Div (w y * r) t + 1) * t" using big_Div_bounds(2) [OF t] .
    then show ?case using Cons.IH by (cases "ys = []") (simp_all add: algebra_simps)
  qed simp
  from this [OF \<open>xs \<noteq> []\<close>] have "r * t < ((\<Sum>x\<leftarrow>xs. big_Div (w x * r) t) + int (length xs)) * t"
    by (simp add: t_def)
  then show "r - int (length xs) < (\<Sum>x\<leftarrow>xs. big_Div (w x * r) t)" using t by simp
qed

section \<open>The elected delegates\<close>

definition eligible :: "int \<Rightarrow> InJailList \<Rightarrow> Candidate \<Rightarrow> bool" where
  "eligible minRequire jl c \<longleftrightarrow> \<not> InJailList_Exist (cAddr c) jl \<and> minRequire \<le> cTotalVotes c"

definition delegate_of :: "BucketList \<Rightarrow> Candidate \<Rightarrow> Delegate" where
  "delegate_of bl c =
     \<lparr>dlgAddress = cAddr c, dlgPubKey = cPubKey c, dlgName = cName c, dlgVotingPower = cTotalVotes c,
      dlgIPAddr = cIPAddr c, dlgPort = cPort c, dlgCommission = cCommission c,
      dlgDistList = map (\<lambda>i. distributor_of (cTotalVotes c) (the (BucketList_Get i bl))) (cBuckets c)\<rparr>"

lemma collect_spec:
  assumes "0 < minRequire" "\<forall>c\<in>set cs. \<forall>i\<in>set (cBuckets c). \<exists>b. BucketList_Get i bl = Some b"
  shows "collect_delegates minRequire bl jl cs = Inr (map (delegate_of bl) (filter (eligible minRequire jl) cs))"
  using assms(2)
proof (induction cs)
  case (Cons c cs)
  show ?case
  proof (cases "eligible minRequire jl c")
    case True
    then have "cTotalVotes c \<noteq> 0" using assms(1) by (auto simp: eligible_def)
    then have "dist_list bl (cTotalVotes c) (cBuckets c) =
        Inr (map (\<lambda>i. distributor_of (cTotalVotes c) (the (BucketList_Get i bl))) (cBuckets c))"
      using Cons.prems by (intro dist_list_spec) auto
    then show ?thesis
      using True Cons by (simp add: eligible_def delegate_of_def)
  next
    case False
    then show ?thesis using Cons by (auto simp: eligible_def)
  qed
qed simp

lemma delegate_before_votes:
  "delegate_before x y \<Longrightarrow> dlgVotingPower y \<le> dlgVotingPower x"
  "dlgVotingPower y < dlgVotingPower x \<Longrightarrow> delegate_before x y"
  by (auto simp: delegate_before_def split: if_splits)

lemma delegates_sorted:
  "sorted_wrt (\<lambda>x y. dlgVotingPower y \<le> dlgVotingPower x) (sort_SliceStable delegate_before ds)"
  using sort_SliceStable_sorted_wrt [of delegate_before "\<lambda>d. - dlgVotingPower d" ds]
  by (simp add: delegate_before_votes)

text \<open>The buckets a candidate lists, under books in order.\<close>

lemma listed_buckets:
  assumes books: "books X bl cl sl bound" and c: "c \<in> set cl"
  shows "\<forall>i\<in>set (cBuckets c). \<exists>b. BucketList_Get i bl = Some b"
    "mset (map (\<lambda>i. the (BucketList_Get i bl)) (cBuckets c)) = filter_mset (\<lambda>b. Candidate b = cAddr c) (mset bl)"
proof -
  have wf: "BucketList_wf bl" using books by (auto simp: books_def dest: coreD)
  have ids: "mset (cBuckets c) = image_mset BucketID (filter_mset (\<lambda>b. Candidate b = cAddr c) (mset bl))"
    using books_candidate(2) [OF books c] by (simp add: ids_for_def)
  have set: "set (cBuckets c) = BucketID ` {b \<in> set bl. Candidate b = cAddr c}"
    using arg_cong [OF ids, of set_mset] by simp
  show "\<forall>i\<in>set (cBuckets c). \<exists>b. BucketList_Get i bl = Some b"
    using wf by (auto simp: set bl.get_self)
  have "mset (map (\<lambda>i. the (BucketList_Get i bl)) (cBuckets c)) =
      image_mset (\<lambda>b. the (BucketList_Get (BucketID b) bl)) (filter_mset (\<lambda>b. Candidate b = cAddr c) (mset bl))"
    by (simp add: ids image_mset.compositionality comp_def)
  also have "\<dots> = image_mset (\<lambda>b. b) (filter_mset (\<lambda>b. Candidate b = cAddr c) (mset bl))"
    using wf by (intro image_mset_cong) (simp add: bl.get_self)
  finally show "mset (map (\<lambda>i. the (BucketList_Get i bl)) (cBuckets c)) =
      filter_mset (\<lambda>b. Candidate b = cAddr c) (mset bl)" by simp
qed

lemma votes_for_filter: "votes_for a M = (\<Sum>b\<in>#filter_mset (\<lambda>b. Candidate b = a) M. TotalVotes b)"
  by (induction M) auto

text \<open>The shares of an elected delegate add up to a billion, up to one unit per bucket.\<close>

lemma delegate_of_shares:
  assumes books: "books X bl cl sl bound" and c: "c \<in> set cl" and pos: "0 < cTotalVotes c"
  shows "\<forall>x\<in>set (dlgDistList (delegate_of bl c)). 0 \<le> big_NewInt64 (distShares x)"
    "total_shares (delegate_of bl c) \<le> 1000000000"
    "1000000000 - int (length (cBuckets c)) < total_shares (delegate_of bl c)"
proof -
  let ?bs = "map (\<lambda>i. the (BucketList_Get i bl)) (cBuckets c)"
  have M: "mset ?bs = filter_mset (\<lambda>b. Candidate b = cAddr c) (mset bl)" by (rule listed_buckets(2) [OF books c])
  have "\<forall>b\<in>set bl. 0 \<le> TotalVotes b"
    using books by (force simp: books_def core_def buckets_ok_def bucket_ok_def)
  then have nn: "\<forall>b\<in>set ?bs. 0 \<le> TotalVotes b"
    using arg_cong [OF M, of set_mset] by auto
  have "cTotalVotes c = (\<Sum>b\<in>#mset ?bs. TotalVotes b)"
    using books_candidate(3) [OF books c] by (simp only: M votes_for_filter)
  then have sum: "cTotalVotes c = (\<Sum>b\<leftarrow>?bs. TotalVotes b)" by (simp only: mset_map [symmetric] sum_mset_sum_list)
  have le: "TotalVotes b \<le> cTotalVotes c" if "b \<in> set ?bs" for b
    unfolding sum using that nn by (intro member_le_sum_list) auto
  note sh = share_of_bounds [OF _ le pos]
  have dist: "dlgDistList (delegate_of bl c) = map (distributor_of (cTotalVotes c)) ?bs"
    by (simp add: delegate_of_def comp_def)
  show "\<forall>x\<in>set (dlgDistList (delegate_of bl c)). 0 \<le> big_NewInt64 (distShares x)"
    unfolding dist using nn sh by (auto simp: distributor_of_def NewDistributor_def)
  have "total_shares (delegate_of bl c) = (\<Sum>b\<leftarrow>?bs. big_NewInt64 (big_Uint64 (share_of (cTotalVotes c) b)))"
    unfolding total_shares_def dist by (simp add: distributor_of_def NewDistributor_def comp_def)
  also have "\<dots> = (\<Sum>b\<leftarrow>?bs. big_Div (TotalVotes b * 1000000000) (cTotalVotes c))"
    using nn sh by (intro arg_cong [of _ _ sum_list] map_cong) (auto simp: share_of_def)
  finally have total: "total_shares (delegate_of bl c) = \<dots>" .
  show "total_shares (delegate_of bl c) \<le> 1000000000"
    "1000000000 - int (length (cBuckets c)) < total_shares (delegate_of bl c)"
    using shares_sum [OF nn, of 1000000000] pos unfolding total sum by simp_all
qed

section \<open>Delegate lists the next epoch can use\<close>

definition delegates_ok :: "DelegateList \<Rightarrow> bool" where
  "delegates_ok dl \<longleftrightarrow> distinct (map dlgAddress dl) \<and> (\<forall>d\<in>set dl. delegate_ok d \<and> 0 < dlgVotingPower d)"

definition elected :: "int \<Rightarrow> BucketList \<Rightarrow> CandidateList \<Rightarrow> InJailList \<Rightarrow> DelegateList" where
  "elected minRequire bl cl jl =
     sort_SliceStable delegate_before (map (delegate_of bl) (filter (eligible minRequire jl) cl))"

lemma calcDelegates_run:
  fixes jl :: InJailList
  assumes books: "books X bl cl sl bound" and pos: "0 < Params_Get KeyMinRequiredByDelegate (envState e)"
  defines "D \<equiv> elected (Params_Get KeyMinRequiredByDelegate (envState e)) bl cl jl"
  shows "calcDelegates e bl cl jl = Inr (e\<lparr>envState := (envState e)\<lparr>delegateSlot := D\<rparr>\<rparr>)"
proof -
  have "\<forall>d\<in>set D. rlp_Delegate d"
    using books_candidate(4) [OF books] by (auto simp: D_def elected_def delegate_of_def rlp_Delegate_def)
  then show ?thesis
    using listed_buckets(1) [OF books] pos
    by (simp add: calcDelegates_def collect_spec D_def elected_def SetDelegateList_def EncodeStorage_def onState_def)
qed

lemma elected_ok:
  assumes books: "books X bl cl sl bound" and pos: "0 < minRequire" and size: "length bl \<le> 1000000000"
  shows "delegates_ok (elected minRequire bl cl jl)"
proof -
  let ?cs = "filter (eligible minRequire jl) cl"
  have "delegate_ok (delegate_of bl c) \<and> 0 < dlgVotingPower (delegate_of bl c)" if "c \<in> set ?cs" for c
  proof -
    have c: "c \<in> set cl" "0 < cTotalVotes c" using that pos by (auto simp: eligible_def)
    note sh = delegate_of_shares [OF books c]
    have "length (cBuckets c) \<le> length bl"
      using arg_cong [OF listed_buckets(2) [OF books c(1)], of size] size_filter_mset_lesseq
      by (metis length_map size_mset)
    then have "0 < total_shares (delegate_of bl c)" using sh(3) size by simp
    then show ?thesis using sh(1) c(2) by (simp add: delegate_ok_def) (simp add: delegate_of_def)
  qed
  moreover have "distinct (map dlgAddress (map (delegate_of bl) ?cs))"
    using books cl.wf_distinct [of cl] by (simp add: books_def delegate_of_def comp_def distinct_map_filter)
  then have "distinct (map dlgAddress (elected minRequire bl cl jl))"
    unfolding elected_def by (metis mset_map mset_sort_SliceStable mset_eq_imp_distinct_iff)
  ultimately show ?thesis by (auto simp: delegates_ok_def elected_def)
qed

section \<open>Governing succeeds\<close>

lemma sum_list_pos:
  fixes f :: "'a \<Rightarrow> int"
  shows "xs \<noteq> [] \<Longrightarrow> (\<forall>x\<in>set xs. 0 < f x) \<Longrightarrow> 0 < (\<Sum>x\<leftarrow>xs. f x)"
  by (induction xs) (simp, case_tac "xs = []", simp_all)

lemma distribute_fork13:
  assumes "delegates_ok (delegateSlot (envState e))" "isFork TeslaFork13 e"
  shows "\<exists>e1. distribute X e sb = Inr e1 \<and> sumMTR (envState e1) = sumMTR (envState e) \<and>
    sumMTRG (envState e) \<le> sumMTRG (envState e1) \<and>
    sumMTRG (envState e1) \<le> sumMTRG (envState e) + release_of X e"
proof -
  let ?dl = "delegateSlot (envState e)" and ?jl = "GetInJailList (envState e)"
  have r: "0 \<le> release_of X e" using ComputeEpochRelease_nonneg by (simp add: release_of_def)
  have run: "distribute X e sb = distributeMTRGAfterTeslaFork13 X e ?dl ?jl"
    using assms(2) by (simp add: distribute_def GetDelegateList_def)
  show ?thesis
  proof (cases "free_delegates ?dl ?jl = []")
    case True
    then have "distributeMTRGAfterTeslaFork13 X e ?dl ?jl = Inr e"
      unfolding distributeMTRGAfterTeslaFork13_def Let_def free_delegates_def [symmetric]
      by (simp add: sort_SliceStable_def)
    then show ?thesis using run r by simp
  next
    case False
    have ok: "distinct (map dlgAddress ?dl)" "\<forall>d\<in>set ?dl. delegate_ok d"
      using assms(1) by (auto simp: delegates_ok_def)
    have pos: "0 < (\<Sum>d\<leftarrow>free_delegates ?dl ?jl. dlgVotingPower d)"
      using assms(1) False by (intro sum_list_pos) (auto simp: delegates_ok_def free_delegates_def)
    show ?thesis
      using fork13_spec [OF ok pos, of X e] fork13_total [OF ok(2) pos r] run by auto
  qed
qed

text \<open>Only the slots and the release matter, not how the environment got there.\<close>

lemma pay_back_sums:
  "sumMTRG (fold pay_back bs s) = sumMTRG s" "sumMTR (fold pay_back bs s) = sumMTR s"
  by (induction bs arbitrary: s)
    (simp_all add: pay_back_def moveBound_def updateAccount_def accounting)

lemma pay_back_params: "Params_Get k (fold pay_back bs s) = Params_Get k s"
  by (induction bs arbitrary: s) (simp_all add: pay_back_def moveBound_def updateAccount_def Params_Get_def)

lemma mint_params: "Params_Get k (envState (MintMTRG a v e)) = Params_Get k (envState e)"
  by (simp add: MintMTRG_def MintBalance_def MintBalanceAfterFork8_def MintMeterGov_def Let_def account_defs
      SetMeterGovTotalAddSub_def EncodeStorage_def Params_Get_def)

lemma mint_all_params: "Params_Get k (envState (fold (\<lambda>a. MintMTRG a (f a)) as e)) = Params_Get k (envState e)"
  by (induction as arbitrary: e) (simp_all add: mint_params)

lemma fork13_params:
  "distributeMTRGAfterTeslaFork13 X e dl jl = Inr e' \<Longrightarrow> Params_Get k (envState e') = Params_Get k (envState e)"
  unfolding distributeMTRGAfterTeslaFork13_def Let_def by (auto simp: mint_all_params)

lemma governing_fork13:
  assumes inv: "staking_inv X (envState e)" and dok: "delegates_ok (delegateSlot (envState e))"
    and forks: "isFork TeslaFork7 e" "isFork TeslaFork13 e" and ts: "envTime e < 2 ^ 55"
    and staging: "\<not> IsStaging (envConfig e)"
    and pos: "0 < Params_Get KeyMinRequiredByDelegate (envState e)"
    and size: "length (bucketSlot (envState e)) \<le> 1000000000"
  obtains e' where "GoverningHandler X e sb gas = Inr (leftOver gas, None, e')"
    "staking_inv X (envState e')" "delegates_ok (delegateSlot (envState e'))"
    "bucketSlot (envState e') = map (add_bonus (envTime e))
       (filter (\<lambda>b. \<not> matured (envTime e) b) (bucketSlot (envState e)))"
    "sumMTR (envState e') = sumMTR (envState e)" "sumMTRG (envState e) \<le> sumMTRG (envState e')"
    "sumMTRG (envState e') \<le> sumMTRG (envState e) + release_of X e"
    "delegateSlot (envState e') = elected (Params_Get KeyMinRequiredByDelegate (envState e))
       (bucketSlot (envState e')) (candidateSlot (envState e')) (inJailSlot (envState e))"
proof -
  let ?min = "Params_Get KeyMinRequiredByDelegate (envState e)"
  obtain e1 where e1: "distribute X e sb = Inr e1" "sumMTR (envState e1) = sumMTR (envState e)"
    "sumMTRG (envState e) \<le> sumMTRG (envState e1)"
    "sumMTRG (envState e1) \<le> sumMTRG (envState e) + release_of X e"
    using distribute_fork13 [OF dok forks(2), of X sb] by auto
  obtain bl' cl' sl' e2 where steps:
    "GoverningHandler X e sb gas =
       go_bind (if IsStaging (envConfig e) then Inr e2 else calcDelegates e2 bl' cl' (inJailSlot (envState e)))
         (\<lambda>e3. handler_return gas None (SetLists cl' bl' sl' e3))"
    "bl' = map (add_bonus (envTime e)) (filter (\<lambda>b. \<not> matured (envTime e) b) (bucketSlot (envState e)))"
    "books X bl' cl' sl' (bounds (envState e2))" "jail_ok (envState e2)" "same_block e e2"
    "envState e2 = fold pay_back (filter (matured (envTime e)) (bucketSlot (envState e))) (envState e1)"
    by (rule GoverningHandler_steps [OF inv forks(1) ts e1(1), of gas])
  have min: "Params_Get KeyMinRequiredByDelegate (envState e2) = ?min"
    using fork13_params e1(1) forks(2) by (simp add: steps(6) pay_back_params distribute_def)
  let ?D = "elected ?min bl' cl' (inJailSlot (envState e))"
  let ?e3 = "e2\<lparr>envState := (envState e2)\<lparr>delegateSlot := ?D\<rparr>\<rparr>"
  have calc: "calcDelegates e2 bl' cl' (inJailSlot (envState e)) = Inr ?e3"
    using calcDelegates_run [OF steps(3), of e2] pos by (simp add: min)
  have bounds3: "bounds (envState ?e3) = bounds (envState e2)"
    by (simp add: bounds_def GetBoundedBalance_def)
  have st: "envState (SetLists cl' bl' sl' ?e3) = (envState e2)\<lparr>delegateSlot := ?D, bucketSlot := bl',
      candidateSlot := cl', stakeholderSlot := sl'\<rparr>"
    unfolding SetLists_def by (simp add: books_encodable [OF steps(3)])
  let ?e' = "SetReturnData None (SetLists cl' bl' sl' ?e3)"
  have len: "length bl' \<le> 1000000000" using order_trans [OF length_filter_le size] by (simp add: steps(2))
  show ?thesis
  proof (rule that [of ?e'])
    show "GoverningHandler X e sb gas = Inr (leftOver gas, None, ?e')"
      by (simp add: steps(1) staging calc handler_return_def)
    have "jail_ok (envState ?e3)" using steps(4) by (simp add: jail_ok_def)
    moreover have "books X bl' cl' sl' (bounds (envState ?e3))" using steps(3) by (simp only: bounds3)
    ultimately show "staking_inv X (envState ?e')" using SetLists_inv by (simp only: env_simps)
    show "delegates_ok (delegateSlot (envState ?e'))" using elected_ok [OF steps(3) pos len] by (simp add: st)
    show "bucketSlot (envState ?e') = map (add_bonus (envTime e))
       (filter (\<lambda>b. \<not> matured (envTime e) b) (bucketSlot (envState e)))"
      by (simp add: st) (rule steps(2))
    show "sumMTR (envState ?e') = sumMTR (envState e)" "sumMTRG (envState e) \<le> sumMTRG (envState ?e')"
      "sumMTRG (envState ?e') \<le> sumMTRG (envState e) + release_of X e"
      using e1 by (simp_all add: steps(6) pay_back_sums)
    show "delegateSlot (envState ?e') = elected ?min (bucketSlot (envState ?e')) (candidateSlot (envState ?e'))
        (inJailSlot (envState e))" by (simp add: st)
  qed
qed

end
