(* ===== verification/Native_Staking.thy ===== *)
theory Native_Staking
  imports Staking_Handlers
begin

text \<open>
  The staking operations that the system contract reaches through native calls:
  \<^verbatim>\<open>builtin/metertracker/meter_tracker_staking.go\<close>, \<^verbatim>\<open>meter_tracker_candidate_update.go\<close>
  and \<^verbatim>\<open>meter_tracker_uncandidate.go\<close>.

  They work on the state directly, without the script environment.  An operation that
  creates a bucket returns its identifier.  Functions that may panic return a value of
  type \<open>go\<close>.  The bucket and candidate pointers that the code takes from its lists are
  shared with the lists, so a write through them is a \<open>Modify\<close> of the list.
\<close>

section \<open>Balances and checks\<close>

definition BoundMeterGov :: "address \<Rightarrow> int \<Rightarrow> State \<Rightarrow> go_error option \<times> State" where
  "BoundMeterGov addr amount s =
     (if amount = 0 then (None, s)
      else
        let meterGov = GetBalance addr s;
            meterGovBounded = GetBoundedBalance addr s
        in if meterGov < amount then (Some ErrNotEnoughBalance, s)
           else (None, SetBoundedBalance addr (meterGovBounded + amount)
                   (SetBalance addr (meterGov - amount) s)))"

text \<open>This function has the body of the one above; nothing calls it.\<close>

definition UnboundMeterGov :: "address \<Rightarrow> int \<Rightarrow> State \<Rightarrow> go_error option \<times> State" where
  "UnboundMeterGov addr amount s =
     (if amount = 0 then (None, s)
      else
        let meterGov = GetBalance addr s;
            meterGovBounded = GetBoundedBalance addr s
        in if meterGov < amount then (Some ErrNotEnoughBalance, s)
           else (None, SetBoundedBalance addr (meterGovBounded + amount)
                   (SetBalance addr (meterGov - amount) s)))"

definition checkBucket :: "Bucket option \<Rightarrow> address \<Rightarrow> go_error option" where
  "checkBucket bo owner =
     (case bo of
        None \<Rightarrow> Some ErrBucketNotListed
      | Some b \<Rightarrow>
          if Unbounded b then Some ErrBucketAlreadyUnbounded
          else if Owner b \<noteq> owner then Some ErrBucketNotOwned
          else if IsForeverLock b then Some ErrNoUpdateAllowedOnForeverBucket
          else None)"

text \<open>
  Every operation looks a bucket up, returns the error of \<open>checkBucket\<close> if there is one,
  and goes on with the bucket otherwise; \<open>checkBucket\<close> refuses a nil bucket.
\<close>

definition with_bucket :: "Bucket option \<Rightarrow> address \<Rightarrow> (go_error \<Rightarrow> 'a) \<Rightarrow> (Bucket \<Rightarrow> 'a) \<Rightarrow> 'a" where
  "with_bucket bo owner fail k =
     (case bo of
        None \<Rightarrow> fail ErrBucketNotListed
      | Some b \<Rightarrow> (case checkBucket (Some b) owner of Some err \<Rightarrow> fail err | None \<Rightarrow> k b))"

lemma with_bucket_fails: "checkBucket bo owner = Some err \<Longrightarrow> with_bucket bo owner fail k = fail err"
  by (auto simp: with_bucket_def checkBucket_def split: option.splits)

text \<open>The tracker has its own copy of the self-vote check.\<close>

definition tracker_CorrectCheckEnoughSelfVotes ::
  "Candidate \<Rightarrow> BucketList \<Rightarrow> int \<Rightarrow> int option \<Rightarrow> int option \<Rightarrow> int option \<Rightarrow> int option \<Rightarrow> bool" where
  "tracker_CorrectCheckEnoughSelfVotes c bl selfVoteRatio addSelfValue subSelfValue addTotalValue subTotalValue =
     (let (selfValue, totalValue) =
            fold (\<lambda>b (selfValue, totalValue).
                (if Owner b = cAddr c \<and> Candidate b = cAddr c \<and> IsForeverLock b
                 then selfValue + Value b else selfValue,
                 if Candidate b = cAddr c then totalValue + Value b else totalValue)) bl (0, 0);
          selfValue = (case addSelfValue of None \<Rightarrow> selfValue | Some v \<Rightarrow> selfValue + v);
          selfValue = (case subSelfValue of None \<Rightarrow> selfValue
                       | Some v \<Rightarrow> if selfValue > v then selfValue - v else 0);
          totalValue = (case addTotalValue of None \<Rightarrow> totalValue | Some v \<Rightarrow> totalValue + v);
          totalValue = (case subTotalValue of None \<Rightarrow> totalValue
                        | Some v \<Rightarrow> if totalValue > v then totalValue - v else 0);
          limitSelfTotalValue = big_Div totalValue selfVoteRatio
      in limitSelfTotalValue \<le> selfValue)"

abbreviation enough_self_votes :: "Candidate \<Rightarrow> BucketList \<Rightarrow> int \<Rightarrow> bool" where
  "enough_self_votes c bl amount \<equiv>
     tracker_CorrectCheckEnoughSelfVotes c bl TESLA1_1_SELF_VOTE_RATIO None None (Some amount) None"

section \<open>Operations on buckets\<close>

definition BucketDeposit :: "bucket_hash \<Rightarrow> address \<Rightarrow> bytes32 \<Rightarrow> int \<Rightarrow> State \<Rightarrow> go_error option \<times> State" where
  "BucketDeposit hash owner bid amount s =
     (let candidateList = GetCandidateList s;
          bucketList = GetBucketList hash s;
          injailList = GetInJailList s
      in with_bucket (BucketList_Get bid bucketList) owner (\<lambda>err. (Some err, s)) (\<lambda>b.
                  if GetBalance owner s < amount then (Some ErrNotEnoughBalance, s)
                  else if (case CandidateList_Get (Candidate b) candidateList of
                             None \<Rightarrow> False
                           | Some cand \<Rightarrow> \<not> enough_self_votes cand bucketList amount)
                  then (Some ErrCandidateNotEnoughSelfVotes, s)
                  else if InJailList_Get (Candidate b) injailList \<noteq> None
                  then (Some ErrCandidateJailed, s)
                  else
                    (case BoundMeterGov owner amount s of
                       (Some err, s) \<Rightarrow> (Some err, s)
                     | (None, s) \<Rightarrow>
                         let b = b\<lparr>BonusVotes := 0, Value := Value b + amount,
                                   TotalVotes := TotalVotes b + amount\<rparr>;
                             bucketList = BucketList_Modify bid (\<lambda>_. b) bucketList;
                             candidateList =
                               (if Candidate b \<noteq> 0
                                then CandidateList_Modify (Candidate b)
                                       (\<lambda>c. c\<lparr>cTotalVotes := cTotalVotes c + amount\<rparr>) candidateList
                                else candidateList)
                         in (None, SetCandidateList candidateList (SetBucketList bucketList s)))))"

definition BucketOpen ::
  "bucket_hash \<Rightarrow> address \<Rightarrow> address \<Rightarrow> int \<Rightarrow> uint64 \<Rightarrow> uint64 \<Rightarrow> State \<Rightarrow> bytes32 \<times> go_error option \<times> State" where
  "BucketOpen hash owner candAddr amount ts nonce s =
     (let injailList = GetInJailList s in
      if amount = 0 then (0, Some ErrZeroAmount, s)
      else if amount < MIN_BOUND_BALANCE then (0, Some ErrLessThanMinBoundBalance, s)
      else if Address_IsZero candAddr then (0, Some ErrEmptyCandidate, s)
      else if GetBalance owner s < amount then (0, Some ErrNotEnoughBalance, s)
      else if owner = candAddr then (0, Some ErrSelfVoteNotAllowed, s)
      else if InJailList_Get candAddr injailList \<noteq> None then (0, Some ErrCandidateJailed, s)
      else
        let candidateList = GetCandidateList s;
            bucketList = GetBucketList hash s
        in case find (\<lambda>b. candAddr = Candidate b \<and> owner = Owner b) bucketList of
             Some bkt \<Rightarrow> (Bucket_ID hash bkt, BucketDeposit hash owner (Bucket_ID hash bkt) amount s)
           | None \<Rightarrow>
               (case CandidateList_Get candAddr candidateList of
                  None \<Rightarrow> (0, Some ErrCandidateNotListed, s)
                | Some candidate \<Rightarrow>
                    if \<not> enough_self_votes candidate bucketList amount
                    then (0, Some ErrCandidateNotEnoughSelfVotes, s)
                    else
                      let meterGov = GetBalance owner s;
                          meterGovBounded = GetBoundedBalance owner s;
                          s = SetBalance owner (meterGov - amount) s;
                          s = SetBoundedBalance owner (meterGovBounded + amount) s;
                          newBucket = NewBucket hash owner candAddr amount MTRG ONE_WEEK_LOCK
                                        ONE_WEEK_LOCK_RATE 100 ts nonce;
                          bucketList = BucketList_Add newBucket bucketList;
                          candidateList = CandidateList_Modify candAddr (Candidate_AddBucket newBucket)
                                            candidateList;
                          s = SetCandidateList candidateList s;
                          s = SetBucketList bucketList s
                      in (Bucket_ID hash newBucket, None, s)))"

definition BucketClose :: "bucket_hash \<Rightarrow> address \<Rightarrow> bytes32 \<Rightarrow> uint64 \<Rightarrow> State \<Rightarrow> go_error option \<times> State" where
  "BucketClose hash owner bid timestamp s =
     (let bucketList = GetBucketList hash s in
      with_bucket (BucketList_Get bid bucketList) owner (\<lambda>err. (Some err, s)) (\<lambda>b.
        let b = b\<lparr>Unbounded := True, MatureTime := timestamp + GetBoundLocktime (Option b)\<rparr>
        in (None, SetBucketList (BucketList_Modify bid (\<lambda>_. b) bucketList) s)))"

text \<open>A part of a bucket moves to a new, closed bucket of the recipient.\<close>

definition BucketWithdraw ::
  "bucket_hash \<Rightarrow> address \<Rightarrow> bytes32 \<Rightarrow> int \<Rightarrow> address \<Rightarrow> uint64 \<Rightarrow> uint64 \<Rightarrow> State \<Rightarrow>
   (bytes32 \<times> go_error option \<times> State) go" where
  "BucketWithdraw hash owner bid amount recipient ts nonce s =
     (let candidateList = GetCandidateList s;
          bucketList = GetBucketList hash s
      in with_bucket (BucketList_Get bid bucketList) owner (\<lambda>err. Inr (0, Some err, s)) (\<lambda>b.
                  if GetBoundedBalance owner s < amount
                  then Inr (0, Some ErrNotEnoughBoundedBalance, s)
                  else if Value b < amount \<or> TotalVotes b < amount
                  then Inr (0, Some ErrBucketNotEnoughValue, s)
                  else if Value b - amount < MIN_BOUND_BALANCE
                  then Inr (0, Some ErrLessThanMinBoundBalance, s)
                  else if Value b = 0 then Inl DivByZero
                  else
                    let oldBonus = TotalVotes b - Value b;
                        bonusDelta = big_Div (oldBonus * amount) (Value b);
                        b = b\<lparr>BonusVotes := 0, Value := Value b - amount,
                              TotalVotes := TotalVotes b - amount - bonusDelta\<rparr>;
                        bucketList = BucketList_Modify bid (\<lambda>_. b) bucketList;
                        ownerBounded = GetBoundedBalance owner s;
                        s = SetBoundedBalance owner (ownerBounded - amount) s;
                        recipientBounded = GetBoundedBalance recipient s;
                        s = SetBoundedBalance recipient (recipientBounded + amount) s;
                        newBucket = NewBucket hash recipient (Candidate b) amount (Token b) ONE_WEEK_LOCK
                                      (Rate b) (Autobid b) ts nonce;
                        newBucket = newBucket\<lparr>Unbounded := True,
                                      MatureTime := ts + GetBoundLocktime (Option newBucket)\<rparr>;
                        newBucketID = BucketID newBucket;
                        candidateList = CandidateList_Modify (Candidate b)
                          (\<lambda>c. c\<lparr>cTotalVotes := cTotalVotes c - bonusDelta,
                                 cBuckets := cBuckets c @ [newBucketID]\<rparr>) candidateList;
                        bucketList = BucketList_Add newBucket bucketList
                    in Inr (newBucketID, None,
                         SetCandidateList candidateList (SetBucketList bucketList s))))"

text \<open>
  The old and the new candidate may be the same; both pointers then refer to one
  entry, which the removal and the addition update in turn.
\<close>

definition BucketUpdateCandidate ::
  "bucket_hash \<Rightarrow> address \<Rightarrow> bytes32 \<Rightarrow> address \<Rightarrow> State \<Rightarrow> go_error option \<times> State" where
  "BucketUpdateCandidate hash owner bid newCandidateAddr s =
     (let candidateList = GetCandidateList s;
          bucketList = GetBucketList hash s;
          injailList = GetInJailList s
      in case BucketList_Get bid bucketList of
           None \<Rightarrow> (Some ErrBucketNotListed, s)
         | Some b \<Rightarrow>
             if Owner b \<noteq> owner then (Some ErrBucketNotOwned, s)
             else if IsForeverLock b then (Some ErrNoUpdateAllowedOnForeverBucket, s)
             else
               (case CandidateList_Get newCandidateAddr candidateList of
                  None \<Rightarrow> (Some ErrCandidateNotListed, s)
                | Some nc \<Rightarrow>
                    if InJailList_Get newCandidateAddr injailList \<noteq> None
                    then (Some ErrCandidateJailed, s)
                    else if \<not> enough_self_votes nc bucketList (TotalVotes b)
                    then (Some ErrCandidateNotEnoughSelfVotes, s)
                    else if (case CandidateList_Get (Candidate b) candidateList of
                               None \<Rightarrow> False
                             | Some c \<Rightarrow> cTotalVotes c < TotalVotes b)
                    then (Some ErrNotEnoughVotes, s)
                    else
                      let candidateList = CandidateList_Modify (Candidate b) (Candidate_RemoveBucket b)
                                            candidateList;
                          candidateList = CandidateList_Modify newCandidateAddr (Candidate_AddBucket b)
                                            candidateList;
                          b = b\<lparr>Candidate := cAddr nc\<rparr>;
                          bucketList = BucketList_Modify bid (\<lambda>_. b) bucketList
                      in (None, SetCandidateList candidateList (SetBucketList bucketList s))))"

definition BucketMerge ::
  "bucket_hash \<Rightarrow> address \<Rightarrow> bytes32 \<Rightarrow> bytes32 \<Rightarrow> State \<Rightarrow> go_error option \<times> State" where
  "BucketMerge hash owner fromBucketID toBucketID s =
     (let candidateList = GetCandidateList s;
          bucketList = GetBucketList hash s;
          injailList = GetInJailList s
      in
      if fromBucketID = toBucketID then (Some ErrBucketNotMergableToItself, s)
      else
        with_bucket (BucketList_Get fromBucketID bucketList) owner (\<lambda>err. (Some err, s)) (\<lambda>fromBkt.
          with_bucket (BucketList_Get toBucketID bucketList) owner (\<lambda>err. (Some err, s)) (\<lambda>toBkt.
               if InJailList_Get (Candidate toBkt) injailList \<noteq> None then (Some ErrCandidateJailed, s)
               else if (case CandidateList_Get (Candidate toBkt) candidateList of
                          None \<Rightarrow> False
                        | Some toCand \<Rightarrow> \<not> enough_self_votes toCand bucketList (TotalVotes fromBkt))
               then (Some ErrCandidateNotEnoughSelfVotes, s)
               else
                 let candidateList = CandidateList_Modify (Candidate fromBkt)
                                       (Candidate_RemoveBucket fromBkt) candidateList;
                     toBkt' = toBkt\<lparr>BonusVotes := BonusVotes toBkt + BonusVotes fromBkt,
                                     Value := Value toBkt + Value fromBkt,
                                     TotalVotes := TotalVotes toBkt + TotalVotes fromBkt\<rparr>;
                     bucketList = BucketList_Modify toBucketID (\<lambda>_. toBkt') bucketList;
                     candidateList = CandidateList_Modify (Candidate toBkt)
                                       (\<lambda>c. c\<lparr>cTotalVotes := cTotalVotes c + TotalVotes fromBkt\<rparr>)
                                       candidateList;
                     bucketList = BucketList_Remove fromBucketID bucketList
                 in (None, SetCandidateList candidateList (SetBucketList bucketList s)))))"

text \<open>The candidate of the target bucket is read before the code checks that there is such a bucket.\<close>

definition BucketTransferFund ::
  "bucket_hash \<Rightarrow> address \<Rightarrow> bytes32 \<Rightarrow> bytes32 \<Rightarrow> int \<Rightarrow> State \<Rightarrow> (go_error option \<times> State) go" where
  "BucketTransferFund hash owner fromBucketID toBucketID amount s =
     (let candidateList = GetCandidateList s;
          bucketList = GetBucketList hash s;
          injailList = GetInJailList s;
          fromBkt = BucketList_Get fromBucketID bucketList;
          toBkt = BucketList_Get toBucketID bucketList;
          fail = (\<lambda>err. Inr (Some err, s))
      in case toBkt of
           None \<Rightarrow> Inl NilDeref
         | Some t \<Rightarrow>
             if InJailList_Get (Candidate t) injailList \<noteq> None then fail ErrCandidateJailed
             else if fromBucketID = toBucketID then fail ErrBucketNotMergableToItself
             else
               with_bucket fromBkt owner fail (\<lambda>fromBkt.
               with_bucket toBkt owner fail (\<lambda>toBkt.
                 if (case CandidateList_Get (Candidate toBkt) candidateList of
                       None \<Rightarrow> False
                     | Some toCand \<Rightarrow> \<not> enough_self_votes toCand bucketList amount)
                 then fail ErrCandidateNotEnoughSelfVotes
                 else if GetBoundedBalance owner s < amount then fail ErrNotEnoughBoundedBalance
                 else if Value fromBkt < amount \<or> TotalVotes fromBkt < amount
                 then fail ErrBucketNotEnoughValue
                 else if Value fromBkt - amount < MIN_BOUND_BALANCE then fail ErrLessThanMinBoundBalance
                 else if Value fromBkt = 0 then Inl DivByZero
                 else
                   let fromBonus = TotalVotes fromBkt - Value fromBkt;
                       bonusDelta = big_Div (fromBonus * amount) (Value fromBkt);
                       fromBkt' = fromBkt\<lparr>BonusVotes := big_Uint64 (fromBonus - bonusDelta),
                                           Value := Value fromBkt - amount,
                                           TotalVotes := TotalVotes fromBkt - amount - bonusDelta\<rparr>;
                       toBkt' = toBkt\<lparr>BonusVotes := BonusVotes toBkt + big_Uint64 bonusDelta,
                                       Value := Value toBkt + amount,
                                       TotalVotes := TotalVotes toBkt + amount + bonusDelta\<rparr>;
                       bucketList = BucketList_Modify fromBucketID (\<lambda>_. fromBkt') bucketList;
                       bucketList = BucketList_Modify toBucketID (\<lambda>_. toBkt') bucketList;
                       candidateList = CandidateList_Modify (Candidate fromBkt)
                         (\<lambda>c. c\<lparr>cTotalVotes := cTotalVotes c - amount - bonusDelta\<rparr>) candidateList;
                       candidateList = CandidateList_Modify (Candidate toBkt)
                         (\<lambda>c. c\<lparr>cTotalVotes := cTotalVotes c + amount + bonusDelta\<rparr>) candidateList
                   in Inr (None, SetCandidateList candidateList (SetBucketList bucketList s)))))"

definition BucketValue :: "bucket_hash \<Rightarrow> bytes32 \<Rightarrow> State \<Rightarrow> int \<times> go_error option" where
  "BucketValue hash bid s =
     (case BucketList_Get bid (GetBucketList hash s) of
        None \<Rightarrow> (0, Some ErrBucketNotListed)
      | Some b \<Rightarrow> (Value b, None))"

section \<open>Candidates\<close>

text \<open>
  The tracker's \<^verbatim>\<open>validatePubKey\<close> and \<^verbatim>\<open>GetCandidateBucket\<close> are copies of the functions of the
  staking module, and \<open>validatePubKey\<close> and \<open>GetCandidateBucket\<close> stand for both.
\<close>

fun tracker_listed_loop :: "address option \<Rightarrow> bytes \<Rightarrow> bytes \<Rightarrow> bytes \<Rightarrow> Candidate list \<Rightarrow> go_error option" where
  "tracker_listed_loop self pk ip name [] = None"
| "tracker_listed_loop self pk ip name (r # rs) =
     (let isSelf = (self = Some (cAddr r)) in
      if \<not> isSelf \<and> cPubKey r = pk then Some ErrPubkeyListed
      else if \<not> isSelf \<and> cIPAddr r = ip then Some ErrIPListed
      else if \<not> isSelf \<and> cName r = name then Some ErrNameListed
      else tracker_listed_loop self pk ip name rs)"

definition ListAsCandidate ::
  "externals \<Rightarrow> address \<Rightarrow> bytes \<Rightarrow> bytes \<Rightarrow> bytes \<Rightarrow> bytes \<Rightarrow> uint16 \<Rightarrow> int \<Rightarrow> uint8 \<Rightarrow> uint32 \<Rightarrow>
   uint64 \<Rightarrow> uint64 \<Rightarrow> State \<Rightarrow> bytes32 \<times> go_error option \<times> State" where
  "ListAsCandidate X owner name description pubkey ip port amount autobid commissionRate timestamp nonce s =
     (let candidateList = GetCandidateList s;
          bucketList = GetBucketList (xBucketHash X) s;
          stakeholderList = GetStakeHolderList s
      in
      if amount < MIN_REQUIRED_BY_DELEGATE then (0, Some ErrLessThanMinCandidateRequirement, s)
      else if autobid > 100 then (0, Some ErrInvalidAutobid, s)
      else
        (case validatePubKey X pubkey of
           None \<Rightarrow> (0, Some ErrInvalidPubkey, s)
         | Some candidatePubKey \<Rightarrow>
             if port < 1 then (0, Some ErrInvalidPort, s)
             else if \<not> ip_match ip then (0, Some ErrInvalidIP, s)
             else
               (case tracker_listed_loop None candidatePubKey ip name candidateList of
                  Some err \<Rightarrow> (0, Some err, s)
                | None \<Rightarrow>
                    (case CandidateList_Get owner candidateList of
                       Some record \<Rightarrow>
                         if cPubKey record = pubkey \<and> cIPAddr record = ip \<and> cPort record = port
                         then (0, Some ErrCandidateListed, s)
                         else (0, Some ErrCandidateListedWithDiffInfo, s)
                     | None \<Rightarrow>
                         let (opt, rate, locktime) = GetBoundLockOption FOREVER_LOCK;
                             commission = GetCommissionRate commissionRate;
                             bucket = NewBucket (xBucketHash X) owner owner amount MTRG opt rate autobid
                                        timestamp nonce;
                             bucketList = BucketList_Add bucket bucketList;
                             candidate = NewCandidate owner name description candidatePubKey ip port
                                           commission timestamp;
                             candidateList =
                               CandidateList_Add (Candidate_AddBucket bucket candidate) candidateList;
                             stakeholderList = add_to_holder bucket stakeholderList
                         in (case BoundMeterGov owner amount s of
                               (Some err, s) \<Rightarrow> (0, Some err, s)
                             | (None, s) \<Rightarrow>
                                 (BucketID bucket, None,
                                  SetStakeHolderList stakeholderList
                                    (SetBucketList bucketList (SetCandidateList candidateList s))))))))"

definition CandidateUpdate ::
  "externals \<Rightarrow> address \<Rightarrow> bytes \<Rightarrow> bytes \<Rightarrow> bytes \<Rightarrow> bytes \<Rightarrow> uint16 \<Rightarrow> uint8 \<Rightarrow> uint32 \<Rightarrow> uint64 \<Rightarrow>
   State \<Rightarrow> (go_error option \<times> State) go" where
  "CandidateUpdate X owner name description pubkey ip port autobid commissionRate timestamp s =
     (let candidateList = GetCandidateList s;
          inJailList = GetInJailList s;
          bucketList = GetBucketList (xBucketHash X) s
      in
      case validatePubKey X pubkey of
        None \<Rightarrow> Inr (Some ErrInvalidPubkey, s)
      | Some candidatePubKey \<Rightarrow>
          if port < 1 then Inr (Some ErrInvalidPort, s)
          else if \<not> ip_match ip then Inr (Some ErrInvalidIP, s)
          else if autobid > 100 then Inr (Some ErrInvalidAutobid, s)
          else if ucast commissionRate > COMMISSION_RATE_MAX \<or> ucast commissionRate < COMMISSION_RATE_MIN
          then Inr (Some ErrInvalidCommission, s)
          else if CandidateList_Get owner candidateList = None then Inr (Some ErrCandidateNotListed, s)
          else
            (case tracker_listed_loop (Some owner) candidatePubKey ip name candidateList of
               Some err \<Rightarrow> Inr (Some err, s)
             | None \<Rightarrow>
                 (case CandidateList_Get owner candidateList of
                    None \<Rightarrow> Inr (Some ErrCandidateNotListed, s)
                  | Some record \<Rightarrow>
                      let inJailList = InJailList_Modify owner
                            (\<lambda>j. j\<lparr>jName := name, jPubKey := pubkey\<rparr>) inJailList;
                          pubUpdated = (cPubKey record \<noteq> candidatePubKey);
                          ipUpdated = (cIPAddr record \<noteq> ip);
                          nameUpdated = (cName record \<noteq> name);
                          descUpdated = (cDescription record \<noteq> description);
                          commission = GetCommissionRate commissionRate;
                          commissionUpdated = (cCommission record \<noteq> commission)
                      in go_bind (GetCandidateBucket record bucketList) (\<lambda>candBucket.
                        let err = (if candBucket = None then Some (ErrText ''not found'') else None);
                            autobidUpdated = (case candBucket of None \<Rightarrow> False
                                              | Some b \<Rightarrow> autobid \<noteq> Autobid b);
                            late = (timestamp - cTimestamp record \<ge> MIN_CANDIDATE_UPDATE_INTV)
                        in
                        if \<not> late \<and> \<not> ipUpdated \<and> \<not> pubUpdated then Inr (Some ErrUpdateTooFrequent, s)
                        else
                          let portUpdated = (cPort record \<noteq> port);
                              record' = record\<lparr>
                                cPubKey := (if pubUpdated then candidatePubKey else cPubKey record),
                                cIPAddr := (if ipUpdated then ip else cIPAddr record),
                                cCommission := (if late \<and> commissionUpdated then commission
                                                else cCommission record),
                                cName := (if late \<and> nameUpdated then name else cName record),
                                cDescription := (if late \<and> descUpdated then description
                                                 else cDescription record),
                                cPort := (if late \<and> portUpdated then port else cPort record)\<rparr>;
                              bucketList =
                                (case candBucket of
                                   None \<Rightarrow> bucketList
                                 | Some b \<Rightarrow>
                                     if late \<and> autobidUpdated
                                     then BucketList_Modify (BucketID b) (\<lambda>b. b\<lparr>Autobid := autobid\<rparr>) bucketList
                                     else bucketList);
                              changed = (pubUpdated \<or> ipUpdated \<or>
                                late \<and> (commissionUpdated \<or> nameUpdated \<or> descUpdated \<or>
                                        autobidUpdated \<or> portUpdated))
                          in
                          if \<not> changed then Inr (Some ErrCandidateNotChanged, s)
                          else Inr (err, SetCandidateList (CandidateList_Modify owner (\<lambda>_. record') candidateList)
                                 (SetBucketList bucketList (SetInJailList inJailList s)))))))"

text \<open>The body of the loop over the buckets; the last self bucket found is returned.\<close>

definition tracker_uncandidate_bucket ::
  "Candidate \<Rightarrow> bytes32 \<Rightarrow> BucketList \<times> bytes32 \<Rightarrow> BucketList \<times> bytes32" where
  "tracker_uncandidate_bucket record i = (\<lambda>(bl, bucketID).
     case BucketList_Get i bl of
       None \<Rightarrow> (bl, bucketID)
     | Some b \<Rightarrow>
         if Candidate b \<noteq> cAddr record then (bl, bucketID)
         else
           let b = b\<lparr>Candidate := 0\<rparr>
           in if IsForeverLock b then
                let (opt, rate, _) = GetBoundLockOption ONE_WEEK_LOCK;
                    b = UpdateLockOption opt rate b
                in (BucketList_Modify i (\<lambda>_. b) bl, BucketID b)
              else (BucketList_Modify i (\<lambda>_. b) bl, bucketID))"

definition UnCandidate :: "bucket_hash \<Rightarrow> address \<Rightarrow> State \<Rightarrow> bytes32 \<times> go_error option \<times> State" where
  "UnCandidate hash owner s =
     (let candidateList = GetCandidateList s;
          bucketList = GetBucketList hash s;
          stakeholderList = GetStakeHolderList s;
          inJailList = GetInJailList s
      in case CandidateList_Get owner candidateList of
           None \<Rightarrow> (0, Some ErrCandidateNotListed, s)
         | Some record \<Rightarrow>
             if InJailList_Exist owner inJailList then (0, Some ErrCandidateInJail, s)
             else
               let (bucketList, bucketID) =
                     fold (tracker_uncandidate_bucket record) (cBuckets record) (bucketList, 0);
                   candidateList = CandidateList_Remove (cAddr record) candidateList
               in (bucketID, None,
                   SetStakeHolderList stakeholderList
                     (SetBucketList bucketList (SetCandidateList candidateList s))))"

end
