(* ===== verification/Native_Calls.thy ===== *)
theory Native_Calls
  imports Native_Staking Meter_Supply
begin

text \<open>
  The native calls of the meter tracker contract: \<^verbatim>\<open>builtin/meter_tracker_native.go\<close>, with the
  environment of \<^verbatim>\<open>xenv/env.go\<close> they run in.

  A call charges gas of the contract and may run out of it, which is a panic of the
  environment that \<^verbatim>\<open>Environment.Call\<close> turns into an error; the EVM then reverts the state.  The
  ABI library decodes the arguments and encodes the results; the arguments of an
  event are static, so each takes 32 bytes of log data.  The results \<^verbatim>\<open>""\<close> and
  \<^verbatim>\<open>err.Error()\<close> are \<open>None\<close> and the error.
\<close>

section \<open>The environment\<close>

record Environment =
  nvState :: State
  nvConfig :: ChainConfig
  nvNumber :: uint32
  nvTime :: uint64
  nvTxCtx :: TransactionContext
  nvClauseIndex :: uint32
  nvGas :: uint64
  nvLogs :: "script_event list"

datatype native_panic = OutOfGas | GoPanic panic

type_synonym 'a native = "native_panic + 'a"

fun nv_bind :: "'a native \<Rightarrow> ('a \<Rightarrow> 'b native) \<Rightarrow> 'b native" where
  "nv_bind (Inl p) f = Inl p"
| "nv_bind (Inr x) f = f x"

fun nv_lift :: "'a go \<Rightarrow> 'a native" where
  "nv_lift (Inl p) = Inl (GoPanic p)"
| "nv_lift (Inr x) = Inr x"

definition GetBalanceGas :: uint64 where "GetBalanceGas = 400"
definition SloadGas :: uint64 where "SloadGas = 200"
definition SstoreSetGas :: uint64 where "SstoreSetGas = 20000"
definition SstoreResetGas :: uint64 where "SstoreResetGas = 5000"
definition LogGas :: uint64 where "LogGas = 375"
definition LogTopicGas :: uint64 where "LogTopicGas = 375"
definition LogDataGas :: uint64 where "LogDataGas = 8"

definition UseGas :: "uint64 \<Rightarrow> Environment \<Rightarrow> Environment native" where
  "UseGas gas env = (if nvGas env < gas then Inl OutOfGas else Inr (env\<lparr>nvGas := nvGas env - gas\<rparr>))"

text \<open>Every event here has the owner as its only topic.\<close>

fun log_args :: "script_event \<Rightarrow> nat" where
  "log_args (Bound _ _ _) = 2"
| "log_args (NativeBucketOpen _ _ _ _) = 3"
| "log_args (NativeBucketClose _ _) = 1"
| "log_args (NativeBucketDeposit _ _ _ _) = 3"
| "log_args (NativeBucketWithdraw _ _ _ _ _ _) = 5"
| "log_args (NativeBucketTransferFund _ _ _ _ _) = 4"
| "log_args (NativeBucketMerge _ _ _) = 2"
| "log_args (NativeBucketUpdateCandidate _ _ _ _) = 3"
| "log_args _ = 0"

definition Log :: "script_event \<Rightarrow> Environment \<Rightarrow> Environment native" where
  "Log ev env =
     nv_bind (UseGas (LogGas + LogTopicGas * 1 + LogDataGas * of_nat (32 * log_args ev)) env)
       (\<lambda>env. Inr (env\<lparr>nvLogs := nvLogs env @ [ev]\<rparr>))"

definition nv_Inc :: "Environment \<Rightarrow> Environment" where
  "nv_Inc env = env\<lparr>nvTxCtx := txcInc (nvTxCtx env)\<rparr>"

definition nv_nonce :: "Environment \<Rightarrow> uint64" where
  "nv_nonce env = txcNonce (nvTxCtx env) + ucast (nvClauseIndex env) + txcCounter (nvTxCtx env)"

section \<open>Balances\<close>

definition AddMeterLocked :: "address \<Rightarrow> int \<Rightarrow> State \<Rightarrow> State" where
  "AddMeterLocked addr amount s = (if amount = 0 then s else AddBoundedEnergy addr amount s)"

definition SubMeterLocked :: "address \<Rightarrow> int \<Rightarrow> State \<Rightarrow> bool \<times> State" where
  "SubMeterLocked addr amount s = (if amount = 0 then (True, s) else SubBoundedEnergy addr amount s)"

definition AddMeterGovLocked :: "address \<Rightarrow> int \<Rightarrow> State \<Rightarrow> State" where
  "AddMeterGovLocked addr amount s = (if amount = 0 then s else AddBoundedBalance addr amount s)"

definition SubMeterGovLocked :: "address \<Rightarrow> int \<Rightarrow> State \<Rightarrow> bool \<times> State" where
  "SubMeterGovLocked addr amount s = (if amount = 0 then (True, s) else SubBoundedBalance addr amount s)"

text \<open>The four additions and the four subtractions charge gas in the same way.\<close>

definition native_add :: "(address \<Rightarrow> int \<Rightarrow> State \<Rightarrow> State) \<Rightarrow> address \<Rightarrow> int \<Rightarrow> Environment \<Rightarrow> Environment native" where
  "native_add add addr amount env =
     (if amount = 0 then Inr env
      else
        nv_bind (UseGas GetBalanceGas env) (\<lambda>env.
        nv_bind (UseGas (if Exists addr (nvState env) then SstoreResetGas else SstoreSetGas) env) (\<lambda>env.
        Inr (env\<lparr>nvState := add addr amount (nvState env)\<rparr>))))"

definition native_sub ::
  "(address \<Rightarrow> int \<Rightarrow> State \<Rightarrow> bool \<times> State) \<Rightarrow> address \<Rightarrow> int \<Rightarrow> Environment \<Rightarrow> (bool \<times> Environment) native" where
  "native_sub sub addr amount env =
     (if amount = 0 then Inr (True, env)
      else
        nv_bind (UseGas GetBalanceGas env) (\<lambda>env.
          let (ok, s) = sub addr amount (nvState env);
              env = env\<lparr>nvState := s\<rparr>
          in if ok then nv_bind (UseGas SstoreResetGas env) (\<lambda>env. Inr (True, env)) else Inr (False, env)))"

definition native_mtr_totalSupply :: "Environment \<Rightarrow> (int \<times> Environment) native" where
  "native_mtr_totalSupply env =
     nv_bind (UseGas SloadGas env) (\<lambda>env. Inr (GetMeterTotalSupply MeterTrackerAddress (nvState env), env))"

definition native_mtr_totalBurned :: "Environment \<Rightarrow> (int \<times> Environment) native" where
  "native_mtr_totalBurned env =
     nv_bind (UseGas SloadGas env) (\<lambda>env. Inr (GetMeterTotalBurned MeterTrackerAddress (nvState env), env))"

definition native_mtr_get :: "address \<Rightarrow> Environment \<Rightarrow> (int \<times> Environment) native" where
  "native_mtr_get addr env =
     nv_bind (UseGas GetBalanceGas env) (\<lambda>env. Inr (GetEnergy addr (nvState env), env))"

definition native_mtr_add :: "address \<Rightarrow> int \<Rightarrow> Environment \<Rightarrow> Environment native" where
  "native_mtr_add = native_add AddMeter"

definition native_mtr_sub :: "address \<Rightarrow> int \<Rightarrow> Environment \<Rightarrow> (bool \<times> Environment) native" where
  "native_mtr_sub = native_sub SubMeter"

definition native_mtr_locked_get :: "address \<Rightarrow> Environment \<Rightarrow> (int \<times> Environment) native" where
  "native_mtr_locked_get addr env =
     nv_bind (UseGas GetBalanceGas env) (\<lambda>env. Inr (GetBoundedEnergy addr (nvState env), env))"

definition native_mtr_locked_add :: "address \<Rightarrow> int \<Rightarrow> Environment \<Rightarrow> Environment native" where
  "native_mtr_locked_add = native_add AddMeterLocked"

definition native_mtr_locked_sub :: "address \<Rightarrow> int \<Rightarrow> Environment \<Rightarrow> (bool \<times> Environment) native" where
  "native_mtr_locked_sub = native_sub SubMeterLocked"

definition native_mtrg_totalSupply :: "Environment \<Rightarrow> (int \<times> Environment) native" where
  "native_mtrg_totalSupply env =
     nv_bind (UseGas SloadGas env) (\<lambda>env. Inr (GetMeterGovTotalSupply MeterTrackerAddress (nvState env), env))"

definition native_mtrg_totalBurned :: "Environment \<Rightarrow> (int \<times> Environment) native" where
  "native_mtrg_totalBurned env =
     nv_bind (UseGas SloadGas env) (\<lambda>env. Inr (GetMeterGovTotalBurned MeterTrackerAddress (nvState env), env))"

definition native_mtrg_get :: "address \<Rightarrow> Environment \<Rightarrow> (int \<times> Environment) native" where
  "native_mtrg_get addr env =
     nv_bind (UseGas GetBalanceGas env) (\<lambda>env. Inr (GetBalance addr (nvState env), env))"

definition native_mtrg_add :: "address \<Rightarrow> int \<Rightarrow> Environment \<Rightarrow> Environment native" where
  "native_mtrg_add = native_add AddMeterGov"

text \<open>The lock of an account counts from fork 1 on; the epoch is that of the best block.\<close>

definition native_mtrg_sub :: "uint32 option \<Rightarrow> address \<Rightarrow> int \<Rightarrow> Environment \<Rightarrow> (bool \<times> Environment) native" where
  "native_mtrg_sub curEpoch addr amount env =
     native_sub (if IsTeslaFork TeslaFork1 (nvConfig env) (nvNumber env) then SubMeterGov curEpoch
                 else Tesla1_0_SubMeterGov) addr amount env"

definition native_mtrg_locked_get :: "address \<Rightarrow> Environment \<Rightarrow> (int \<times> Environment) native" where
  "native_mtrg_locked_get addr env =
     nv_bind (UseGas GetBalanceGas env) (\<lambda>env. Inr (GetBoundedBalance addr (nvState env), env))"

definition native_mtrg_locked_add :: "address \<Rightarrow> int \<Rightarrow> Environment \<Rightarrow> Environment native" where
  "native_mtrg_locked_add = native_add AddMeterGovLocked"

definition native_mtrg_locked_sub :: "address \<Rightarrow> int \<Rightarrow> Environment \<Rightarrow> (bool \<times> Environment) native" where
  "native_mtrg_locked_sub = native_sub SubMeterGovLocked"

definition native_master :: "address \<Rightarrow> Environment \<Rightarrow> (address \<times> Environment) native" where
  "native_master addr env =
     nv_bind (UseGas GetBalanceGas env) (\<lambda>env. Inr (GetMaster addr (nvState env), env))"

section \<open>Buckets and candidates\<close>

text \<open>The events of a call that succeeds, in their order.\<close>

fun nv_logs :: "script_event list \<Rightarrow> Environment \<Rightarrow> Environment native" where
  "nv_logs [] env = Inr env"
| "nv_logs (ev # evs) env = nv_bind (Log ev env) (nv_logs evs)"

definition native_bucket_open ::
  "externals \<Rightarrow> address \<Rightarrow> address \<Rightarrow> int \<Rightarrow> Environment \<Rightarrow> (bytes32 \<times> go_error option \<times> Environment) native" where
  "native_bucket_open X owner candidateAddr amount env =
     (if amount = 0 then Inr (0, Some (ErrText ''amount is 0''), env)
      else
        nv_bind (UseGas GetBalanceGas env) (\<lambda>env.
          case BucketOpen (xBucketHash X) owner candidateAddr amount (nvTime env) (nv_nonce env) (nvState env) of
            (bktID, Some err, s) \<Rightarrow> Inr (bktID, Some err, env\<lparr>nvState := s\<rparr>)
          | (bktID, None, s) \<Rightarrow>
              nv_bind (nv_logs [Bound owner amount MTRG, NativeBucketOpen owner bktID amount MTRG]
                         (nv_Inc (env\<lparr>nvState := s\<rparr>)))
                (\<lambda>env. Inr (bktID, None, env))))"

definition native_bucket_close ::
  "externals \<Rightarrow> address \<Rightarrow> bytes32 \<Rightarrow> Environment \<Rightarrow> (go_error option \<times> Environment) native" where
  "native_bucket_close X owner bucketID env =
     nv_bind (UseGas GetBalanceGas env) (\<lambda>env.
       case BucketClose (xBucketHash X) owner bucketID (nvTime env) (nvState env) of
         (Some err, s) \<Rightarrow> Inr (Some err, env\<lparr>nvState := s\<rparr>)
       | (None, s) \<Rightarrow>
           nv_bind (nv_logs [NativeBucketClose owner bucketID] (env\<lparr>nvState := s\<rparr>))
             (\<lambda>env. Inr (None, env)))"

definition native_bucket_deposit ::
  "externals \<Rightarrow> address \<Rightarrow> bytes32 \<Rightarrow> int \<Rightarrow> Environment \<Rightarrow> (go_error option \<times> Environment) native" where
  "native_bucket_deposit X owner bucketID amount env =
     nv_bind (UseGas GetBalanceGas env) (\<lambda>env.
       case BucketDeposit (xBucketHash X) owner bucketID amount (nvState env) of
         (Some err, s) \<Rightarrow> Inr (Some err, env\<lparr>nvState := s\<rparr>)
       | (None, s) \<Rightarrow>
           nv_bind (nv_logs [Bound owner amount MTRG, NativeBucketDeposit owner bucketID amount MTRG]
                      (env\<lparr>nvState := s\<rparr>))
             (\<lambda>env. Inr (None, env)))"

definition native_bucket_withdraw ::
  "externals \<Rightarrow> address \<Rightarrow> bytes32 \<Rightarrow> int \<Rightarrow> address \<Rightarrow> Environment \<Rightarrow>
   (bytes32 \<times> go_error option \<times> Environment) native" where
  "native_bucket_withdraw X owner bucketID amount recipient env =
     nv_bind (UseGas GetBalanceGas env) (\<lambda>env.
     nv_bind (nv_lift (BucketWithdraw (xBucketHash X) owner bucketID amount recipient (nvTime env)
                         (nv_nonce env) (nvState env))) (\<lambda>r.
       case r of
         (bktID, Some err, s) \<Rightarrow> Inr (bktID, Some err, env\<lparr>nvState := s\<rparr>)
       | (bktID, None, s) \<Rightarrow>
           nv_bind (nv_logs [NativeBucketWithdraw owner bucketID amount MTRG recipient bktID]
                      (nv_Inc (env\<lparr>nvState := s\<rparr>)))
             (\<lambda>env. Inr (bktID, None, env))))"

definition native_bucket_update_candidate ::
  "externals \<Rightarrow> address \<Rightarrow> bytes32 \<Rightarrow> address \<Rightarrow> Environment \<Rightarrow> (go_error option \<times> Environment) native" where
  "native_bucket_update_candidate X owner bucketID newCandidateAddr env =
     nv_bind (UseGas GetBalanceGas env) (\<lambda>env.
       let (err, s) = BucketUpdateCandidate (xBucketHash X) owner bucketID newCandidateAddr (nvState env)
       in Inr (err, env\<lparr>nvState := s\<rparr>))"

definition native_bucket_transfer_fund ::
  "externals \<Rightarrow> address \<Rightarrow> bytes32 \<Rightarrow> bytes32 \<Rightarrow> int \<Rightarrow> Environment \<Rightarrow> (go_error option \<times> Environment) native" where
  "native_bucket_transfer_fund X owner fromBucketID toBucketID amount env =
     nv_bind (UseGas GetBalanceGas env) (\<lambda>env.
     nv_bind (nv_lift (BucketTransferFund (xBucketHash X) owner fromBucketID toBucketID amount (nvState env))) (\<lambda>r.
       case r of
         (Some err, s) \<Rightarrow> Inr (Some err, env\<lparr>nvState := s\<rparr>)
       | (None, s) \<Rightarrow>
           nv_bind (nv_logs [NativeBucketTransferFund owner fromBucketID amount MTRG toBucketID]
                      (env\<lparr>nvState := s\<rparr>))
             (\<lambda>env. Inr (None, env))))"

definition native_bucket_merge ::
  "externals \<Rightarrow> address \<Rightarrow> bytes32 \<Rightarrow> bytes32 \<Rightarrow> Environment \<Rightarrow> (go_error option \<times> Environment) native" where
  "native_bucket_merge X owner fromBucketID toBucketID env =
     nv_bind (UseGas GetBalanceGas env) (\<lambda>env.
       case BucketMerge (xBucketHash X) owner fromBucketID toBucketID (nvState env) of
         (Some err, s) \<Rightarrow> Inr (Some err, env\<lparr>nvState := s\<rparr>)
       | (None, s) \<Rightarrow>
           nv_bind (nv_logs [NativeBucketMerge owner fromBucketID toBucketID] (env\<lparr>nvState := s\<rparr>))
             (\<lambda>env. Inr (None, env)))"

definition native_bucket_value :: "externals \<Rightarrow> bytes32 \<Rightarrow> Environment \<Rightarrow> (int \<times> Environment) native" where
  "native_bucket_value X bucketID env =
     nv_bind (UseGas GetBalanceGas env) (\<lambda>env.
       Inr (fst (BucketValue (xBucketHash X) bucketID (nvState env)), env))"

definition native_bucket_exists :: "externals \<Rightarrow> bytes32 \<Rightarrow> Environment \<Rightarrow> (bool \<times> Environment) native" where
  "native_bucket_exists X bucketID env =
     Inr (case BucketList_Get bucketID (GetBucketList (xBucketHash X) (nvState env)) of
            None \<Rightarrow> False
          | Some bkt \<Rightarrow> Bucket_ID (xBucketHash X) bkt = bucketID, env)"

definition native_list_as_candidate ::
  "externals \<Rightarrow> address \<Rightarrow> bytes \<Rightarrow> bytes \<Rightarrow> bytes \<Rightarrow> bytes \<Rightarrow> uint16 \<Rightarrow> int \<Rightarrow> uint8 \<Rightarrow> uint32 \<Rightarrow>
   Environment \<Rightarrow> (bytes32 \<times> go_error option \<times> Environment) native" where
  "native_list_as_candidate X owner name description pubkey ip port amount autobid commission env =
     (if amount = 0 then Inr (0, Some (ErrText ''amount is 0''), env)
      else
        nv_bind (UseGas GetBalanceGas env) (\<lambda>env.
          case ListAsCandidate X owner name description pubkey ip port amount autobid commission
                 (nvTime env) (nv_nonce env) (nvState env) of
            (bktID, Some err, s) \<Rightarrow> Inr (bktID, Some err, env\<lparr>nvState := s\<rparr>)
          | (bktID, None, s) \<Rightarrow>
              nv_bind (nv_logs [Bound owner amount MTRG, NativeBucketOpen owner bktID amount MTRG]
                         (nv_Inc (env\<lparr>nvState := s\<rparr>)))
                (\<lambda>env. Inr (bktID, None, env))))"

definition native_candidate_update ::
  "externals \<Rightarrow> address \<Rightarrow> bytes \<Rightarrow> bytes \<Rightarrow> bytes \<Rightarrow> bytes \<Rightarrow> uint16 \<Rightarrow> uint8 \<Rightarrow> uint32 \<Rightarrow>
   Environment \<Rightarrow> (go_error option \<times> Environment) native" where
  "native_candidate_update X owner name description pubkey ip port autobid commission env =
     nv_bind (UseGas GetBalanceGas env) (\<lambda>env.
     nv_bind (nv_lift (CandidateUpdate X owner name description pubkey ip port autobid commission
                         (nvTime env) (nvState env))) (\<lambda>r.
       case r of
         (Some err, s) \<Rightarrow> Inr (Some err, env\<lparr>nvState := s\<rparr>)
       | (None, s) \<Rightarrow> Inr (None, nv_Inc (env\<lparr>nvState := s\<rparr>))))"

definition native_uncandidate ::
  "externals \<Rightarrow> address \<Rightarrow> Environment \<Rightarrow> (bytes32 \<times> go_error option \<times> Environment) native" where
  "native_uncandidate X owner env =
     nv_bind (UseGas GetBalanceGas env) (\<lambda>env.
       case UnCandidate (xBucketHash X) owner (nvState env) of
         (bktID, Some err, s) \<Rightarrow> Inr (bktID, Some err, env\<lparr>nvState := s\<rparr>)
       | (bktID, None, s) \<Rightarrow>
           nv_bind (nv_logs [NativeBucketUpdateCandidate owner bktID owner 0, NativeBucketClose owner bktID]
                      (env\<lparr>nvState := s\<rparr>))
             (\<lambda>env. Inr (bktID, None, env)))"

end
