(* ===== verification/Native_Invariant.thy ===== *)
theory Native_Invariant
  imports Native_Calls Staking_Safety
begin

text \<open>
  The native staking operations keep the bookkeeping invariant, and the tracker's copy
  of the self-vote check agrees with that of the staking module.
\<close>

section \<open>Shared steps\<close>

lemma with_bucket_cases:
  assumes "\<And>err. P (fail err)"
    and "\<And>b. bo = Some b \<Longrightarrow> Owner b = owner \<Longrightarrow> \<not> Unbounded b \<Longrightarrow> \<not> IsForeverLock b \<Longrightarrow> P (k b)"
  shows "P (with_bucket bo owner fail k)"
  using assms by (auto simp: with_bucket_def checkBucket_def split: option.split)

text \<open>What the result of an operation that may panic satisfies when there is one.\<close>

definition gives :: "('a \<Rightarrow> bool) \<Rightarrow> 'a go \<Rightarrow> bool" where
  "gives P r \<longleftrightarrow> (\<forall>x. r = Inr x \<longrightarrow> P x)"

lemma gives_simps [simp]: "gives P (Inl p)" "gives P (Inr x) \<longleftrightarrow> P x"
  by (simp_all add: gives_def)

lemma gives_bind: "(\<And>x. m = Inr x \<Longrightarrow> gives P (f x)) \<Longrightarrow> gives P (go_bind m f)"
  by (cases m) auto

lemma gives_if: "(c \<Longrightarrow> gives P r) \<Longrightarrow> (\<not> c \<Longrightarrow> gives P q) \<Longrightarrow> gives P (if c then r else q)"
  by simp

lemma gives_option:
  "(m = None \<Longrightarrow> gives P r) \<Longrightarrow> (\<And>x. m = Some x \<Longrightarrow> gives P (f x)) \<Longrightarrow>
     gives P (case m of None \<Rightarrow> r | Some x \<Rightarrow> f x)"
  by (cases m) auto

lemmas gives_intros = gives_bind gives_if gives_option with_bucket_cases [where P = "gives P" for P]

lemma bound_moveBound:
  "SetBoundedBalance a (GetBoundedBalance a s + v) (SetBalance a (GetBalance a s - v) s) = moveBound a v s"
  by (simp add: moveBound_def account_defs)

lemma BoundMeterGov_ok: "v \<le> GetBalance a s \<Longrightarrow> BoundMeterGov a v s = (None, moveBound a v s)"
  by (auto simp: BoundMeterGov_def Let_def bound_moveBound)

lemma SetLists_commute:
  "SetBucketList bl (SetCandidateList cl s) = SetCandidateList cl (SetBucketList bl s)"
  by (cases s) (simp add: SetBucketList_def SetCandidateList_def EncodeStorage_def)

lemma Set2_core:
  assumes "core (xBucketHash X) bl (cands cl) (bounds s)" "CandidateList_wf cl" "holders_ok (stakeholderSlot s)"
    and "jail_ok s"
  shows "staking_inv X (SetCandidateList cl (SetBucketList bl s))"
    "staking_inv X (SetBucketList bl (SetCandidateList cl s))"
proof -
  have books: "books X bl cl (stakeholderSlot s) (bounds s)" using assms by (simp add: books_def)
  show "staking_inv X (SetCandidateList cl (SetBucketList bl s))"
    "staking_inv X (SetBucketList bl (SetCandidateList cl s))"
    unfolding SetLists_commute
    using staking_inv_write [OF books assms(4)] by (simp_all add: books_encodable [OF books])
qed

lemma Set3b_core:
  assumes "core (xBucketHash X) bl (cands cl) (bounds s)" "CandidateList_wf cl" "holders_ok sl" "jail_ok s"
  shows "staking_inv X (SetStakeHolderList sl (SetBucketList bl (SetCandidateList cl s)))"
  unfolding SetLists_commute using assms by (rule Set3_core)

lemma bucket_of_inv:
  assumes "staking_inv X s" "BucketList_Get i (bucketSlot s) = Some b"
  shows "bucket_ok (xBucketHash X) b" "BucketID b = i"
  using bucket_found [OF coreD(1) [OF invD(1) [OF assms(1)]] assms(2)] by metis+

section \<open>Buckets\<close>

lemma BucketClose_inv:
  assumes inv: "staking_inv X s"
  shows "staking_inv X (snd (BucketClose (xBucketHash X) owner i ts s))"
  unfolding BucketClose_def Let_def inv_reads [OF inv]
proof (rule with_bucket_cases)
  fix b assume b: "BucketList_Get i (bucketSlot s) = Some b"
  note ok = invD [OF inv]
  let ?bl = "BucketList_Modify i (\<lambda>_. b\<lparr>Unbounded := True, MatureTime := ts + GetBoundLocktime (Option b)\<rparr>) (bucketSlot s)"
  have "core (xBucketHash X) ?bl (cands (candidateSlot s)) (bounds s)"
    by (rule core_same [OF ok(1) b]) (simp_all add: same_bucket_def)
  then have books: "books X ?bl (candidateSlot s) (stakeholderSlot s) (bounds s)" using ok by (simp add: books_def)
  show "staking_inv X (snd (None, SetBucketList ?bl s))"
    using staking_inv_write [OF books ok(4)] by (simp add: books_encodable [OF books])
qed (simp add: inv)

lemma BucketDeposit_inv:
  assumes inv: "staking_inv X s" and amt: "0 \<le> amount"
  shows "staking_inv X (snd (BucketDeposit (xBucketHash X) owner i amount s))"
  unfolding BucketDeposit_def Let_def inv_reads [OF inv]
proof (rule with_bucket_cases, goal_cases)
  case (2 b)
  note ok = invD [OF inv] and b = 2(1,2)
  let ?b = "b\<lparr>BonusVotes := 0, Value := Value b + amount, TotalVotes := TotalVotes b + amount\<rparr>"
  let ?bl = "BucketList_Modify i (\<lambda>_. ?b) (bucketSlot s)"
  let ?cl = "if Candidate ?b \<noteq> 0 then CandidateList_Modify (Candidate ?b)
      (\<lambda>c. c\<lparr>cTotalVotes := cTotalVotes c + amount\<rparr>) (candidateSlot s) else candidateSlot s"
  have main: "staking_inv X (SetCandidateList ?cl (SetBucketList ?bl (moveBound owner amount s)))"
  proof (rule Set2_core)
    have "core (xBucketHash X) ?bl
        ((cands (candidateSlot s))(Candidate b := map_option (\<lambda>c. c\<lparr>cTotalVotes := cTotalVotes c + amount\<rparr>)
          (cands (candidateSlot s) (Candidate b))))
        ((bounds s)(Owner b := bounds s (Owner b) + (Value ?b - Value b)))"
      using amt bucket_of_inv(1) [OF inv b(1)]
      by (intro core_replace [OF ok(1) b(1)]) (auto simp: same_bucket_def bucket_ok_def)
    then show "core (xBucketHash X) ?bl (cands ?cl) (bounds (moveBound owner amount s))"
      using ok(2) b(2) coreD(5) [OF ok(1)]
      by (cases "Candidate b = 0") (simp_all add: cands_Modify cl.get_key fun_upd_idem)
  qed (use ok in \<open>auto simp: cl.wf_modify cl.get_key\<close>)
  show ?case using main by (auto simp: inv BoundMeterGov_ok)
qed (simp add: inv)

lemma BucketOpen_inv:
  assumes inv: "staking_inv X s"
    and fresh: "BucketList_Get (xBucketHash X owner nonce ts) (bucketSlot s) = None"
  shows "staking_inv X (snd (snd (BucketOpen (xBucketHash X) owner candAddr amount ts nonce s)))"
proof -
  note ok = invD [OF inv]
  have main: "staking_inv X (SetBucketList (BucketList_Add b (bucketSlot s))
      (SetCandidateList (CandidateList_Modify candAddr (Candidate_AddBucket b) (candidateSlot s))
        (moveBound owner amount s)))"
    if b: "b = NewBucket (xBucketHash X) owner candAddr amount MTRG opt rate ab ts nonce"
      and amt: "\<not> amount < MIN_BOUND_BALANCE" and c: "CandidateList_Get candAddr (candidateSlot s) = Some c"
    for b c opt rate ab
  proof (rule Set2_core)
    have pos: "0 \<le> amount" using amt by (simp add: MIN_BOUND_BALANCE_def)
    have nz: "cands (candidateSlot s) candAddr \<noteq> None" "candAddr \<noteq> 0"
      using c coreD(5) [OF ok(1)] by (auto simp: cands_def)
    have "core (xBucketHash X) (BucketList_Add b (bucketSlot s))
        ((cands (candidateSlot s))(Candidate b := map_option (Candidate_AddBucket b)
           (cands (candidateSlot s) (Candidate b))))
        ((bounds s)(Owner b := bounds s (Owner b) + Value b))"
      using nz fresh pos by (intro core_open ok) (simp_all add: b Candidate_AddBucket_def bucket_ok_def Bucket_ID_def)
    then show "core (xBucketHash X) (BucketList_Add b (bucketSlot s))
        (cands (CandidateList_Modify candAddr (Candidate_AddBucket b) (candidateSlot s)))
        (bounds (moveBound owner amount s))"
      using ok by (simp add: cands_Modify b cl.get_key)
  qed (use ok in \<open>simp_all add: cl.wf_modify cl.get_key\<close>)
  have dep: "staking_inv X (snd (BucketDeposit (xBucketHash X) owner i amount s))"
    if "\<not> amount < MIN_BOUND_BALANCE" for i
    using that by (intro BucketDeposit_inv [OF inv]) (simp add: MIN_BOUND_BALANCE_def)
  show ?thesis
    unfolding BucketOpen_def Let_def inv_reads [OF inv]
    by (auto simp: inv bound_moveBound dep intro!: main split: option.split)
qed

text \<open>A withdrawal moves bounded balance to the recipient.\<close>

definition giveBound :: "address \<Rightarrow> address \<Rightarrow> int \<Rightarrow> State \<Rightarrow> State" where
  "giveBound a r v s =
     (let s = SetBoundedBalance a (GetBoundedBalance a s - v) s
      in SetBoundedBalance r (GetBoundedBalance r s + v) s)"

lemma giveBound_simps [simp]:
  "bounds (giveBound a r v s) = (bounds s)(a := bounds s a - v, r := (if r = a then bounds s a else bounds s r + v))"
  "bucketSlot (giveBound a r v s) = bucketSlot s" "candidateSlot (giveBound a r v s) = candidateSlot s"
  "stakeholderSlot (giveBound a r v s) = stakeholderSlot s" "jail_ok (giveBound a r v s) = jail_ok s"
  by (auto simp: giveBound_def Let_def bounds_def account_defs jail_ok_def fun_eq_iff)

lemma BucketWithdraw_inv:
  assumes inv: "staking_inv X s" and amt: "0 \<le> amount"
    and fresh: "BucketList_Get (xBucketHash X recipient nonce ts) (bucketSlot s) = None"
    and run: "BucketWithdraw (xBucketHash X) owner i amount recipient ts nonce s = Inr (nid, err, s')"
  shows "staking_inv X s'"
proof -
  note ok = invD [OF inv]
  have main: "staking_inv X (SetCandidateList (CandidateList_Modify (Candidate b)
          (\<lambda>c. c\<lparr>cTotalVotes := cTotalVotes c - d, cBuckets := cBuckets c @ [k]\<rparr>) (candidateSlot s))
      (SetBucketList (BucketList_Add n (BucketList_Modify i (\<lambda>_. b') (bucketSlot s)))
        (giveBound (Owner b) recipient amount s)))"
    if b: "BucketList_Get i (bucketSlot s) = Some b"
      and b': "b' = b\<lparr>BonusVotes := 0, Value := Value b - amount, TotalVotes := TotalVotes b - amount - d\<rparr>"
      and n: "n = (NewBucket (xBucketHash X) recipient (Candidate b) amount (Token b) opt rate ab ts nonce)
          \<lparr>Unbounded := True, MatureTime := mt\<rparr>"
      and d: "d = big_Div ((TotalVotes b - Value b) * amount) (Value b)"
      and k: "k = xBucketHash X recipient nonce ts"
      and v: "\<not> Value b - amount < MIN_BOUND_BALANCE" for b b' n d k opt rate ab mt
  proof (rule Set2_core)
    let ?bl = "BucketList_Modify i (\<lambda>_. b') (bucketSlot s)" and ?g = "cands (candidateSlot s)"
    let ?g1 = "?g(Candidate b := map_option (\<lambda>c. c\<lparr>cTotalVotes := cTotalVotes c - amount - d\<rparr>) (?g (Candidate b)))"
    let ?f = "\<lambda>c. c\<lparr>cTotalVotes := cTotalVotes c + amount, cBuckets := cBuckets c @ [k]\<rparr>"
    note bok = bucket_of_inv [OF inv b]
    have v': "0 < Value b - amount" using v by (simp add: MIN_BOUND_BALANCE_def)
    have d': "0 \<le> d" "d \<le> TotalVotes b - Value b"
      using withdraw_bonus [of "Value b" "TotalVotes b" amount] v' amt bok by (auto simp: bucket_ok_def d)
    have core1: "core (xBucketHash X) ?bl ?g1
        ((bounds s)(Owner b := bounds s (Owner b) + (Value b' - Value b)))"
      using v' d' amt by (intro core_replace [OF ok(1) b]) (auto simp: b' same_bucket_def)
    have nfresh: "BucketList_Get (BucketID n) ?bl = None"
      using fresh bok coreD(4) [OF ok(1)] b by (subst bl.get_modify) (auto simp: n b')
    have nok: "bucket_ok (xBucketHash X) n" using amt bok by (simp add: n bucket_ok_def Bucket_ID_def)
    have bnd: "((bounds s)(Owner b := bounds s (Owner b) + (Value b' - Value b)))
        (Owner n := ((bounds s)(Owner b := bounds s (Owner b) + (Value b' - Value b))) (Owner n) + Value n) =
        bounds (giveBound (Owner b) recipient amount s)"
      by (auto simp: n b' fun_eq_iff)
    have "core (xBucketHash X) (BucketList_Add n ?bl) (?g(Candidate b := map_option
        (\<lambda>c. c\<lparr>cTotalVotes := cTotalVotes c - d, cBuckets := cBuckets c @ [k]\<rparr>) (?g (Candidate b))))
        (bounds (giveBound (Owner b) recipient amount s))"
    proof (cases "Candidate b = 0")
      case True
      then show ?thesis
        using core_open_free [OF core1 nfresh nok] coreD(5) [OF ok(1)] unfolding bnd
        by (simp add: n k fun_upd_idem)
    next
      case False
      then have "?g1 (Candidate n) \<noteq> None"
        using ok(1) b coreD(4) [OF ok(1)] by (auto simp: n core_def votes_ok_def bl.get_Some)
      then show ?thesis
        using core_open [OF core1 nfresh nok, of ?f] False unfolding bnd
        by (simp add: n k option.map_comp comp_def)
    qed
    then show "core (xBucketHash X) (BucketList_Add n ?bl) (cands (CandidateList_Modify (Candidate b)
          (\<lambda>c. c\<lparr>cTotalVotes := cTotalVotes c - d, cBuckets := cBuckets c @ [k]\<rparr>) (candidateSlot s)))
        (bounds (giveBound (Owner b) recipient amount s))"
      using ok(2) by (simp add: cands_Modify cl.get_key)
  qed (use ok in \<open>auto simp: cl.wf_modify cl.get_key\<close>)
  have "gives (\<lambda>r. staking_inv X (snd (snd r))) (BucketWithdraw (xBucketHash X) owner i amount recipient ts nonce s)"
    unfolding BucketWithdraw_def Let_def inv_reads [OF inv] giveBound_def [unfolded Let_def, symmetric]
    by (intro gives_intros) (auto simp: inv intro!: main)
  then show ?thesis using run by (simp add: gives_def)
qed

text \<open>Two candidates, or the same one twice, are updated in turn.\<close>

definition upd_cand ::
  "address \<Rightarrow> (Candidate \<Rightarrow> Candidate) \<Rightarrow> (address \<Rightarrow> Candidate option) \<Rightarrow> address \<Rightarrow> Candidate option" where
  "upd_cand a f g = g(a := map_option f (g a))"

lemma cands_Modify2:
  assumes "CandidateList_wf cl" "\<And>c. cAddr (f c) = cAddr c" "\<And>c. cAddr (h c) = cAddr c"
  shows "cands (CandidateList_Modify d h (CandidateList_Modify a f cl)) = upd_cand d h (upd_cand a f (cands cl))"
    "CandidateList_wf (CandidateList_Modify d h (CandidateList_Modify a f cl))"
proof -
  have wf1: "CandidateList_wf (CandidateList_Modify a f cl)"
    by (rule cl.wf_modify [OF assms(1)]) (simp add: assms(2) cl.get_key [OF assms(1)])
  have g1: "cands (CandidateList_Modify a f cl) = upd_cand a f (cands cl)"
    unfolding upd_cand_def by (rule cands_Modify [OF assms(1)]) (simp add: assms(2) cl.get_key [OF assms(1)])
  have "cands (CandidateList_Modify d h (CandidateList_Modify a f cl)) = upd_cand d h (cands (CandidateList_Modify a f cl))"
    unfolding upd_cand_def by (rule cands_Modify [OF wf1]) (simp add: assms(3) cl.get_key [OF wf1])
  then show "cands (CandidateList_Modify d h (CandidateList_Modify a f cl)) = upd_cand d h (upd_cand a f (cands cl))"
    unfolding g1 .
  show "CandidateList_wf (CandidateList_Modify d h (CandidateList_Modify a f cl))"
    by (rule cl.wf_modify [OF wf1]) (simp add: assms(3) cl.get_key [OF wf1])
qed

text \<open>A bucket changes its candidate.\<close>

lemma core_move:
  assumes "core hash bl g bound" "BucketList_Get i bl = Some b" "same_bucket b b'"
    and "Value b' = Value b" "TotalVotes b' = TotalVotes b" "Candidate b' \<noteq> 0" "g (Candidate b') \<noteq> None"
  shows "core hash (BucketList_Modify i (\<lambda>_. b') bl)
           (upd_cand (Candidate b') (Candidate_AddBucket b) (upd_cand (Candidate b) (Candidate_RemoveBucket b) g)) bound"
proof (rule core_update [OF assms(1,2,3)])
  let ?g1 = "upd_cand (Candidate b) (Candidate_RemoveBucket b) g"
  have listed: "?g1 (Candidate b') \<noteq> None"
    using assms(7) by (cases "Candidate b' = Candidate b") (simp_all add: upd_cand_def)
  have add: "mset (cBuckets (Candidate_AddBucket b c)) = add_mset (BucketID b') (mset (cBuckets c)) \<and>
      cTotalVotes (Candidate_AddBucket b c) = cTotalVotes c + TotalVotes b'" for c
    using assms(3,5) by (simp add: same_bucket_def Candidate_AddBucket_def)
  have "bucket_ok hash b" using bucket_found [OF coreD(1) [OF assms(1)] assms(2)] by metis
  then show "0 \<le> Value b'" "Value b' \<le> TotalVotes b'" using assms(4,5) by (simp_all add: bucket_ok_def)
  show "votes_ok (add_mset b' M) (upd_cand (Candidate b') (Candidate_AddBucket b) ?g1)"
    if "votes_ok (add_mset b M) g" "\<forall>x\<in>#M. 0 \<le> TotalVotes x" for M
  proof -
    have "votes_ok M ?g1" unfolding upd_cand_def by (rule votes_ok_remove [OF that])
    then show ?thesis
      unfolding upd_cand_def [of "Candidate b'"] by (rule votes_ok_add [of M ?g1 b' "Candidate_AddBucket b", OF _ assms(6) listed add])
  qed
  show "bound_ok (add_mset b' M) bound" if "bound_ok (add_mset b M) bound" for M
    using assms(3,4) by (intro bound_ok_same [OF that]) (auto simp: same_bucket_def)
qed

lemma BucketUpdateCandidate_inv:
  assumes inv: "staking_inv X s"
  shows "staking_inv X (snd (BucketUpdateCandidate (xBucketHash X) owner i nc s))"
proof -
  note ok = invD [OF inv]
  have main: "staking_inv X (SetCandidateList (CandidateList_Modify nc (Candidate_AddBucket b)
        (CandidateList_Modify (Candidate b) (Candidate_RemoveBucket b) (candidateSlot s)))
      (SetBucketList (BucketList_Modify i (\<lambda>_. b\<lparr>Candidate := cAddr c\<rparr>) (bucketSlot s)) s))"
    if b: "BucketList_Get i (bucketSlot s) = Some b" and c: "CandidateList_Get nc (candidateSlot s) = Some c" for b c
  proof (rule Set2_core)
    have addr: "cAddr c = nc" using c ok(2) by (simp add: cl.get_key)
    have nz: "nc \<noteq> 0" "cands (candidateSlot s) nc \<noteq> None" using c coreD(5) [OF ok(1)] by (auto simp: cands_def)
    have cl2: "cands (CandidateList_Modify nc (Candidate_AddBucket b)
          (CandidateList_Modify (Candidate b) (Candidate_RemoveBucket b) (candidateSlot s))) =
        upd_cand nc (Candidate_AddBucket b) (upd_cand (Candidate b) (Candidate_RemoveBucket b) (cands (candidateSlot s)))"
      "CandidateList_wf (CandidateList_Modify nc (Candidate_AddBucket b)
          (CandidateList_Modify (Candidate b) (Candidate_RemoveBucket b) (candidateSlot s)))"
      by (rule cands_Modify2 [OF ok(2)]; simp)+
    then show "CandidateList_wf (CandidateList_Modify nc (Candidate_AddBucket b)
          (CandidateList_Modify (Candidate b) (Candidate_RemoveBucket b) (candidateSlot s)))" by simp
    show "core (xBucketHash X) (BucketList_Modify i (\<lambda>_. b\<lparr>Candidate := cAddr c\<rparr>) (bucketSlot s))
        (cands (CandidateList_Modify nc (Candidate_AddBucket b)
          (CandidateList_Modify (Candidate b) (Candidate_RemoveBucket b) (candidateSlot s)))) (bounds s)"
      unfolding cl2(1) addr using core_move [OF ok(1) b, of "b\<lparr>Candidate := nc\<rparr>"] nz
      by (simp add: same_bucket_def)
  qed (use ok in simp_all)
  show ?thesis
    unfolding BucketUpdateCandidate_def Let_def inv_reads [OF inv]
    by (auto simp: inv intro!: main split: option.split)
qed

text \<open>Two buckets of one owner become one.\<close>

lemma core_mset: "core hash bl g bound \<Longrightarrow> mset bl' = mset bl \<Longrightarrow> buckets_ok hash bl' \<Longrightarrow> core hash bl' g bound"
  by (simp add: core_def)

lemma BucketMerge_inv:
  assumes inv: "staking_inv X s"
  shows "staking_inv X (snd (BucketMerge (xBucketHash X) owner i j s))"
proof -
  note ok = invD [OF inv]
  let ?add = "\<lambda>a c. c\<lparr>cTotalVotes := cTotalVotes c + TotalVotes a\<rparr>"
  have main: "staking_inv X (SetCandidateList (CandidateList_Modify (Candidate b) (?add a)
        (CandidateList_Modify (Candidate a) (Candidate_RemoveBucket a) (candidateSlot s)))
      (SetBucketList (BucketList_Remove i (BucketList_Modify j (\<lambda>_. b') (bucketSlot s))) s))"
    if a: "BucketList_Get i (bucketSlot s) = Some a" and b: "BucketList_Get j (bucketSlot s) = Some b"
      and ne: "i \<noteq> j" and own: "Owner a = Owner b"
      and b': "b' = b\<lparr>BonusVotes := x, Value := Value b + Value a, TotalVotes := TotalVotes b + TotalVotes a\<rparr>"
    for a b b' x
  proof (rule Set2_core)
    let ?bl = "BucketList_Remove i (bucketSlot s)" and ?g = "cands (candidateSlot s)"
    let ?g1 = "?g(Candidate a := map_option (Candidate_RemoveBucket a) (?g (Candidate a)))"
    note rem = core_remove [OF ok(1) a] and bok = bucket_of_inv [OF inv b] bucket_of_inv [OF inv a]
    have wf: "BucketList_wf (bucketSlot s)" using coreD(4) [OF ok(1)] .
    have b1: "BucketList_Get j ?bl = Some b" using b ne wf by (simp add: bl.get_remove)
    have core2: "core (xBucketHash X) (BucketList_Modify j (\<lambda>_. b') ?bl)
        (?g1(Candidate b := map_option (?add a) (?g1 (Candidate b)))) (bounds s)"
      using core_replace [OF rem(1) b1, of b' "?add a"] bok by (simp add: b' same_bucket_def bucket_ok_def own)
    have same: "mset (BucketList_Remove i (BucketList_Modify j (\<lambda>_. b') (bucketSlot s))) =
        mset (BucketList_Modify j (\<lambda>_. b') ?bl)"
      using bl.remove_modify [OF wf a b, of "\<lambda>_. b'"] ne bok by (simp add: b')
    have bls: "buckets_ok (xBucketHash X) (BucketList_Remove i (BucketList_Modify j (\<lambda>_. b') (bucketSlot s)))"
      using bok coreD(1) [OF ok(1)]
      by (intro buckets_ok_Remove buckets_ok_Modify) (auto simp: b' bucket_ok_def Bucket_ID_def)
    have cl2: "cands (CandidateList_Modify (Candidate b) (?add a)
          (CandidateList_Modify (Candidate a) (Candidate_RemoveBucket a) (candidateSlot s))) =
        upd_cand (Candidate b) (?add a) (upd_cand (Candidate a) (Candidate_RemoveBucket a) ?g)"
      "CandidateList_wf (CandidateList_Modify (Candidate b) (?add a)
          (CandidateList_Modify (Candidate a) (Candidate_RemoveBucket a) (candidateSlot s)))"
      by (rule cands_Modify2 [OF ok(2)]; simp)+
    show "core (xBucketHash X) (BucketList_Remove i (BucketList_Modify j (\<lambda>_. b') (bucketSlot s)))
        (cands (CandidateList_Modify (Candidate b) (?add a)
          (CandidateList_Modify (Candidate a) (Candidate_RemoveBucket a) (candidateSlot s)))) (bounds s)"
      unfolding cl2(1) upd_cand_def by (rule core_mset [OF core2 same bls])
    show "CandidateList_wf (CandidateList_Modify (Candidate b) (?add a)
        (CandidateList_Modify (Candidate a) (Candidate_RemoveBucket a) (candidateSlot s)))"
      by (rule cl2(2))
  qed (use ok in simp_all)
  show ?thesis
    unfolding BucketMerge_def Let_def inv_reads [OF inv]
    by (intro with_bucket_cases [where P = "\<lambda>r. staking_inv X (snd r)"] conjI impI
        if_split [where P = "\<lambda>r. staking_inv X (snd r)", THEN iffD2])
      (simp_all only: snd_conv inv, rule main, simp_all)
qed

lemma BucketTransferFund_inv:
  assumes inv: "staking_inv X s" and amt: "0 \<le> amount"
    and run: "BucketTransferFund (xBucketHash X) owner i j amount s = Inr (err, s')"
  shows "staking_inv X s'"
proof -
  note ok = invD [OF inv]
  have main: "staking_inv X (SetCandidateList (CandidateList_Modify (Candidate b)
        (\<lambda>c. c\<lparr>cTotalVotes := cTotalVotes c + amount + d\<rparr>) (CandidateList_Modify (Candidate a)
          (\<lambda>c. c\<lparr>cTotalVotes := cTotalVotes c - amount - d\<rparr>) (candidateSlot s)))
      (SetBucketList (BucketList_Modify j (\<lambda>_. b') (BucketList_Modify i (\<lambda>_. a') (bucketSlot s))) s))"
    if a: "BucketList_Get i (bucketSlot s) = Some a" and b: "BucketList_Get j (bucketSlot s) = Some b"
      and ne: "i \<noteq> j" and own: "Owner a = Owner b" and v: "\<not> Value a - amount < MIN_BOUND_BALANCE"
      and d: "d = big_Div ((TotalVotes a - Value a) * amount) (Value a)"
      and a': "a' = a\<lparr>BonusVotes := x, Value := Value a - amount, TotalVotes := TotalVotes a - amount - d\<rparr>"
      and b': "b' = b\<lparr>BonusVotes := y, Value := Value b + amount, TotalVotes := TotalVotes b + amount + d\<rparr>"
    for a a' b b' d x y
  proof (rule Set2_core)
    let ?sub = "\<lambda>c. c\<lparr>cTotalVotes := cTotalVotes c - amount - d\<rparr>"
    let ?add = "\<lambda>c. c\<lparr>cTotalVotes := cTotalVotes c + amount + d\<rparr>"
    let ?bl = "BucketList_Modify i (\<lambda>_. a') (bucketSlot s)" and ?g = "cands (candidateSlot s)"
    let ?g1 = "?g(Candidate a := map_option ?sub (?g (Candidate a)))"
    note aok = bucket_of_inv [OF inv a] and bok = bucket_of_inv [OF inv b]
    have v': "0 < Value a - amount" using v by (simp add: MIN_BOUND_BALANCE_def)
    have d': "0 \<le> d" "d \<le> TotalVotes a - Value a"
      using withdraw_bonus [of "Value a" "TotalVotes a" amount] v' amt aok by (auto simp: bucket_ok_def d)
    have core1: "core (xBucketHash X) ?bl ?g1
        ((bounds s)(Owner a := bounds s (Owner a) + (Value a' - Value a)))"
      using v' d' amt by (intro core_replace [OF ok(1) a]) (auto simp: a' same_bucket_def)
    have b1: "BucketList_Get j ?bl = Some b"
      using b ne aok coreD(4) [OF ok(1)] a by (subst bl.get_modify) (auto simp: a')
    have "core (xBucketHash X) (BucketList_Modify j (\<lambda>_. b') ?bl)
        (?g1(Candidate b := map_option ?add (?g1 (Candidate b)))) (bounds s)"
      using core_replace [OF core1 b1, of b' ?add] bok d' amt by (simp add: a' b' same_bucket_def bucket_ok_def own)
    note core2 = this
    have cl2: "cands (CandidateList_Modify (Candidate b) ?add
          (CandidateList_Modify (Candidate a) ?sub (candidateSlot s))) =
        upd_cand (Candidate b) ?add (upd_cand (Candidate a) ?sub ?g)"
      "CandidateList_wf (CandidateList_Modify (Candidate b) ?add
          (CandidateList_Modify (Candidate a) ?sub (candidateSlot s)))"
      by (rule cands_Modify2 [OF ok(2)]; simp)+
    show "core (xBucketHash X) (BucketList_Modify j (\<lambda>_. b') ?bl) (cands (CandidateList_Modify (Candidate b) ?add
        (CandidateList_Modify (Candidate a) ?sub (candidateSlot s)))) (bounds s)"
      unfolding cl2(1) upd_cand_def by (rule core2)
    show "CandidateList_wf (CandidateList_Modify (Candidate b) ?add
        (CandidateList_Modify (Candidate a) ?sub (candidateSlot s)))"
      by (rule cl2(2))
  qed (use ok in simp_all)
  have "gives (\<lambda>p. staking_inv X (snd p)) (BucketTransferFund (xBucketHash X) owner i j amount s)"
    unfolding BucketTransferFund_def Let_def inv_reads [OF inv]
    by (intro gives_intros) (auto simp: inv intro!: main)
  then show ?thesis using run by (simp add: gives_def)
qed

section \<open>Candidates\<close>

lemma ListAsCandidate_inv:
  assumes inv: "staking_inv X s" and nz: "owner \<noteq> 0"
    and fresh: "BucketList_Get (xBucketHash X owner nonce ts) (bucketSlot s) = None"
  shows "staking_inv X (snd (snd (ListAsCandidate X owner nm desc pk ip port amount ab comm ts nonce s)))"
proof -
  note ok = invD [OF inv]
  have main: "staking_inv X (SetStakeHolderList (add_to_holder b (stakeholderSlot s))
      (SetBucketList (BucketList_Add b (bucketSlot s))
        (SetCandidateList (CandidateList_Add (Candidate_AddBucket b c) (candidateSlot s)) (moveBound owner amount s))))"
    if b: "b = NewBucket (xBucketHash X) owner owner amount MTRG opt rate ab ts nonce"
      and c: "c = NewCandidate owner nm desc pk' ip port comm' ts"
      and amt: "\<not> amount < MIN_REQUIRED_BY_DELEGATE"
      and none: "CandidateList_Get owner (candidateSlot s) = None" for b c opt rate pk' comm'
  proof (rule Set3b_core)
    have pos: "0 \<le> amount" using amt by (simp add: MIN_REQUIRED_BY_DELEGATE_def)
    have "core (xBucketHash X) (BucketList_Add b (bucketSlot s))
        ((cands (candidateSlot s))(Candidate b \<mapsto> Candidate_AddBucket b c))
        ((bounds s)(Owner b := bounds s (Owner b) + Value b))"
      using none nz fresh pos by (intro core_new ok)
        (simp_all add: b c cands_def Candidate_AddBucket_def NewCandidate_def bucket_ok_def Bucket_ID_def)
    then show "core (xBucketHash X) (BucketList_Add b (bucketSlot s))
        (cands (CandidateList_Add (Candidate_AddBucket b c) (candidateSlot s))) (bounds (moveBound owner amount s))"
      using ok by (simp add: cands_Add) (simp add: b c NewCandidate_def)
    show "CandidateList_wf (CandidateList_Add (Candidate_AddBucket b c) (candidateSlot s))"
      using ok by (simp add: cl.wf_add)
    show "holders_ok (add_to_holder b (stakeholderSlot s))" using ok pos by (simp add: holders_ok_add_to_holder b)
  qed (use ok in simp)
  show ?thesis
  proof (cases "amount \<le> GetBalance owner s")
    case True
    then show ?thesis
      unfolding ListAsCandidate_def Let_def inv_reads [OF inv] BoundMeterGov_ok [OF True] split_beta
      by (auto simp: inv intro!: main split: option.split)
  next
    case False
    then have "BoundMeterGov owner amount s = (Some ErrNotEnoughBalance, s) \<or> amount = 0"
      by (auto simp: BoundMeterGov_def Let_def)
    then show ?thesis
      unfolding ListAsCandidate_def Let_def inv_reads [OF inv] split_beta
      by (auto simp: inv MIN_REQUIRED_BY_DELEGATE_def split: option.split)
  qed
qed

lemma CandidateUpdate_inv:
  assumes inv: "staking_inv X s"
    and run: "CandidateUpdate X owner nm desc pk ip port ab comm ts s = Inr (err, s')"
  shows "staking_inv X s'"
proof -
  note ok = invD [OF inv]
  have main: "staking_inv X (SetCandidateList (CandidateList_Modify owner (\<lambda>_. c') (candidateSlot s))
      (SetBucketList bl (SetInJailList (InJailList_Modify owner (\<lambda>j. j\<lparr>jName := nm, jPubKey := pk\<rparr>)
        (inJailSlot s)) s)))"
    if c: "CandidateList_Get owner (candidateSlot s) = Some c" "cAddr c' = cAddr c"
        "cBuckets c' = cBuckets c" "cTotalVotes c' = cTotalVotes c"
      and bl: "core (xBucketHash X) bl (cands (candidateSlot s)) (bounds s)" for c c' bl
  proof -
    let ?s1 = "SetInJailList (InJailList_Modify owner (\<lambda>j. j\<lparr>jName := nm, jPubKey := pk\<rparr>) (inJailSlot s)) s"
    note jail = jail_Modify_ok [OF ok(4), of "\<lambda>j. j\<lparr>jName := nm, jPubKey := pk\<rparr>" owner, simplified]
    note s1 = SetInJailList_ok [OF ok(4) jail]
    have addr: "cAddr c = owner" using c(1) ok(2) by (simp add: cl.get_key)
    have cands: "cands (CandidateList_Modify owner (\<lambda>_. c') (candidateSlot s)) = (cands (candidateSlot s))(owner \<mapsto> c')"
      using c(1,2) addr ok(2) by (subst cands_Modify) (auto simp: cands_def)
    have "core (xBucketHash X) bl ((cands (candidateSlot s))(owner \<mapsto> c')) (bounds s)"
      using c by (intro core_info [OF bl, of _ c]) (simp_all add: cands_def)
    then show ?thesis
      using ok c(2) addr by (intro Set2_core(1)) (simp_all add: cands s1 cl.wf_modify)
  qed
  have "gives (\<lambda>p. staking_inv X (snd p)) (CandidateUpdate X owner nm desc pk ip port ab comm ts s)"
    unfolding CandidateUpdate_def Let_def inv_reads [OF inv]
    by (intro gives_intros; simp only: gives_simps snd_conv inv; rule main, assumption)
      (simp_all add: ok core_Autobid split: option.split)
  then show ?thesis using run by (simp add: gives_def)
qed

lemma tracker_uncandidate_loop:
  "fst (fold (tracker_uncandidate_bucket c) is (bl, i)) = fst (fold (uncandidate_bucket c) is (bl, e))"
proof (induction "is" arbitrary: bl i e)
  case (Cons j "is")
  have "fst (tracker_uncandidate_bucket c j (bl, i)) = fst (uncandidate_bucket c j (bl, e))"
    by (auto simp: tracker_uncandidate_bucket_def uncandidate_bucket_def Let_def split_beta split: option.split)
  then show ?case
    using Cons.IH [of "fst (tracker_uncandidate_bucket c j (bl, i))" "snd (tracker_uncandidate_bucket c j (bl, i))"
        "snd (uncandidate_bucket c j (bl, e))"]
    by (metis fold_simps(2) prod.collapse)
qed simp

lemma UnCandidate_inv:
  assumes inv: "staking_inv X s"
  shows "staking_inv X (snd (snd (UnCandidate (xBucketHash X) owner s)))"
proof -
  note ok = invD [OF inv]
  have main: "staking_inv X (SetStakeHolderList (stakeholderSlot s)
      (SetBucketList (fst (fold (tracker_uncandidate_bucket c) (cBuckets c) (bucketSlot s, 0)))
        (SetCandidateList (CandidateList_Remove (cAddr c) (candidateSlot s)) s)))"
    if c: "CandidateList_Get owner (candidateSlot s) = Some c" for c
  proof (rule Set3b_core)
    have a: "cAddr c = owner" using c ok(2) by (simp add: cl.get_key)
    obtain c' where c': "core (xBucketHash X) (fst (fold (tracker_uncandidate_bucket c) (cBuckets c) (bucketSlot s, 0)))
        ((cands (candidateSlot s))(owner \<mapsto> c')) (bounds s)" "cBuckets c' = []"
      using uncandidate_loop [OF ok(1) _ _ a, of c "cBuckets c" undefined] c
        tracker_uncandidate_loop [of c "cBuckets c" "bucketSlot s" 0 undefined]
      by (auto simp: cands_def)
    show "core (xBucketHash X) (fst (fold (tracker_uncandidate_bucket c) (cBuckets c) (bucketSlot s, 0)))
        (cands (CandidateList_Remove (cAddr c) (candidateSlot s))) (bounds s)"
      using core_drop [OF c'(1) _ c'(2), of owner] ok(2) a by (simp add: cands_Remove)
  qed (use ok in \<open>simp_all add: cl.wf_remove\<close>)
  show ?thesis
    unfolding UnCandidate_def Let_def inv_reads [OF inv] split_beta
    by (auto simp: inv intro!: main split: option.split)
qed

section \<open>Native calls\<close>

lemma UseGas_Inr: "UseGas g env = Inr env' \<longleftrightarrow> g \<le> nvGas env \<and> env' = env\<lparr>nvGas := nvGas env - g\<rparr>"
  by (auto simp: UseGas_def)

lemma nv_bind_Inr: "nv_bind m f = Inr y \<longleftrightarrow> (\<exists>x. m = Inr x \<and> f x = Inr y)"
  by (cases m) auto

lemma nv_lift_Inr: "nv_lift r = Inr x \<longleftrightarrow> r = Inr x"
  by (cases r) auto

lemma Log_state: "Log ev env = Inr env' \<Longrightarrow> nvState env' = nvState env"
  by (auto simp: nv_bind_Inr Log_def UseGas_Inr)

text \<open>Gas is only ever spent.\<close>

lemma nv_logs_gas: "nv_logs evs env = Inr env' \<Longrightarrow> nvGas env' \<le> nvGas env"
proof (induction evs arbitrary: env)
  case (Cons ev evs)
  then obtain env1 where e: "Log ev env = Inr env1" "nv_logs evs env1 = Inr env'"
    by (auto simp: nv_bind_Inr)
  then have "nvGas env1 \<le> nvGas env" by (auto simp: Log_def nv_bind_Inr UseGas_Inr word_sub_le)
  then show ?case using Cons.IH [OF e(2)] by simp
qed simp

text \<open>The identifier of a bucket that a native call creates for the account is not taken.\<close>

definition fresh_native :: "externals \<Rightarrow> Environment \<Rightarrow> address \<Rightarrow> bool" where
  "fresh_native X env a \<longleftrightarrow>
     BucketList_Get (xBucketHash X a (nv_nonce env) (nvTime env)) (bucketSlot (nvState env)) = None"

inductive native_step :: "externals \<Rightarrow> State \<Rightarrow> State \<Rightarrow> bool" for X where
  opens: "native_bucket_open X owner cand amount env = Inr (i, err, env') \<Longrightarrow> fresh_native X env owner \<Longrightarrow>
     native_step X (nvState env) (nvState env')"
| close: "native_bucket_close X owner i env = Inr (err, env') \<Longrightarrow> native_step X (nvState env) (nvState env')"
| deposit: "native_bucket_deposit X owner i amount env = Inr (err, env') \<Longrightarrow> 0 \<le> amount \<Longrightarrow>
     native_step X (nvState env) (nvState env')"
| withdraw: "native_bucket_withdraw X owner i amount recipient env = Inr (j, err, env') \<Longrightarrow> 0 \<le> amount \<Longrightarrow>
     fresh_native X env recipient \<Longrightarrow> native_step X (nvState env) (nvState env')"
| update_candidate: "native_bucket_update_candidate X owner i cand env = Inr (err, env') \<Longrightarrow>
     native_step X (nvState env) (nvState env')"
| transfer_fund: "native_bucket_transfer_fund X owner i j amount env = Inr (err, env') \<Longrightarrow> 0 \<le> amount \<Longrightarrow>
     native_step X (nvState env) (nvState env')"
| merge: "native_bucket_merge X owner i j env = Inr (err, env') \<Longrightarrow> native_step X (nvState env) (nvState env')"
| list_as_candidate: "native_list_as_candidate X owner nm desc pk ip port amount ab comm env = Inr (i, err, env') \<Longrightarrow>
     owner \<noteq> 0 \<Longrightarrow> fresh_native X env owner \<Longrightarrow> native_step X (nvState env) (nvState env')"
| candidate_update: "native_candidate_update X owner nm desc pk ip port ab comm env = Inr (err, env') \<Longrightarrow>
     native_step X (nvState env) (nvState env')"
| uncandidate: "native_uncandidate X owner env = Inr (i, err, env') \<Longrightarrow> native_step X (nvState env) (nvState env')"

lemmas native_run = nv_bind_Inr nv_lift_Inr UseGas_Inr nv_nonce_def nv_Inc_def

lemma native_state:
  "native_bucket_open X owner cand amount env = Inr (i, err, env') \<Longrightarrow>
     nvState env' = nvState env \<or>
     nvState env' = snd (snd (BucketOpen (xBucketHash X) owner cand amount (nvTime env) (nv_nonce env) (nvState env)))"
  "native_bucket_close X owner i env = Inr (err, env') \<Longrightarrow>
     nvState env' = snd (BucketClose (xBucketHash X) owner i (nvTime env) (nvState env))"
  "native_bucket_deposit X owner i amount env = Inr (err, env') \<Longrightarrow>
     nvState env' = snd (BucketDeposit (xBucketHash X) owner i amount (nvState env))"
  "native_bucket_merge X owner i j env = Inr (err, env') \<Longrightarrow>
     nvState env' = snd (BucketMerge (xBucketHash X) owner i j (nvState env))"
  "native_list_as_candidate X owner nm desc pk ip port amount ab comm env = Inr (i, err, env') \<Longrightarrow>
     nvState env' = nvState env \<or>
     nvState env' = snd (snd (ListAsCandidate X owner nm desc pk ip port amount ab comm (nvTime env)
       (nv_nonce env) (nvState env)))"
  "native_uncandidate X owner env = Inr (i, err, env') \<Longrightarrow>
     nvState env' = snd (snd (UnCandidate (xBucketHash X) owner (nvState env)))"
  "native_bucket_update_candidate X owner i cand env = Inr (err, env') \<Longrightarrow>
     nvState env' = snd (BucketUpdateCandidate (xBucketHash X) owner i cand (nvState env))"
  unfolding native_bucket_open_def native_bucket_close_def native_bucket_deposit_def native_bucket_merge_def
    native_list_as_candidate_def native_uncandidate_def native_bucket_update_candidate_def
  by (auto simp: native_run split: if_splits prod.splits option.splits dest!: Log_state)

lemma native_state_go:
  "native_bucket_withdraw X owner i amount recipient env = Inr (j, err, env') \<Longrightarrow>
     \<exists>j err. BucketWithdraw (xBucketHash X) owner i amount recipient (nvTime env) (nv_nonce env) (nvState env) =
       Inr (j, err, nvState env')"
  "native_bucket_transfer_fund X owner i k amount env = Inr (err, env') \<Longrightarrow>
     \<exists>err. BucketTransferFund (xBucketHash X) owner i k amount (nvState env) = Inr (err, nvState env')"
  "native_candidate_update X owner nm desc pk ip port ab comm env = Inr (err, env') \<Longrightarrow>
     \<exists>err. CandidateUpdate X owner nm desc pk ip port ab comm (nvTime env) (nvState env) = Inr (err, nvState env')"
  unfolding native_bucket_withdraw_def native_bucket_transfer_fund_def native_candidate_update_def
  by (auto simp: native_run split: prod.splits option.splits dest!: Log_state)

lemma native_step_inv: "native_step X s s' \<Longrightarrow> staking_inv X s \<Longrightarrow> staking_inv X s'"
proof (induction rule: native_step.induct)
  case opens
  then show ?case using native_state(1) [OF opens(1)] BucketOpen_inv by (auto simp: fresh_native_def)
next
  case close
  then show ?case using native_state(2) [OF close(1)] BucketClose_inv by simp
next
  case deposit
  then show ?case using native_state(3) [OF deposit(1)] BucketDeposit_inv by simp
next
  case withdraw
  then show ?case using native_state_go(1) [OF withdraw(1)] BucketWithdraw_inv unfolding fresh_native_def by blast
next
  case update_candidate
  then show ?case using native_state(7) [OF update_candidate(1)] BucketUpdateCandidate_inv by simp
next
  case transfer_fund
  then show ?case using native_state_go(2) [OF transfer_fund(1)] BucketTransferFund_inv by blast
next
  case merge
  then show ?case using native_state(4) [OF merge(1)] BucketMerge_inv by simp
next
  case list_as_candidate
  then show ?case
    using native_state(5) [OF list_as_candidate(1)] ListAsCandidate_inv by (auto simp: fresh_native_def)
next
  case candidate_update
  then show ?case using native_state_go(3) [OF candidate_update(1)] CandidateUpdate_inv by blast
next
  case uncandidate
  then show ?case using native_state(6) [OF uncandidate(1)] UnCandidate_inv by simp
qed

section \<open>What a native call does to the accounts\<close>

text \<open>
  A staking call moves MTRG from free to bounded balances of the owner, or bounded balance
  to the recipient of a withdrawal.  It creates and destroys nothing, and it
  never raises a free balance.
\<close>

definition stakes :: "State \<Rightarrow> State \<Rightarrow> bool" where
  "stakes s s' \<longleftrightarrow> sumMTRG s' = sumMTRG s \<and> sumMTR s' = sumMTR s \<and> (\<forall>a. GetBalance a s' \<le> GetBalance a s)"

lemma stakes_accounts: "accounts s' = accounts s \<Longrightarrow> stakes s s'"
  by (simp add: stakes_def GetBalance_def)

lemma stakes_refl [simp]: "stakes s s"
  by (simp add: stakes_accounts)

lemma stakes_slots [simp]:
  "stakes s (SetBucketList bl t) = stakes s t" "stakes s (SetCandidateList cl t) = stakes s t"
  "stakes s (SetStakeHolderList sl t) = stakes s t" "stakes s (SetInJailList jl t) = stakes s t"
  by (simp_all add: stakes_def GetBalance_def)

lemma stakes_moveBound: "0 \<le> v \<Longrightarrow> stakes s (moveBound a v s)"
  by (simp add: stakes_def moveBound_def updateAccount_def accounting GetBalance_def)

lemma stakes_giveBound: "stakes s (giveBound a r v s)"
  by (auto simp: stakes_def giveBound_def Let_def account_defs accounting)

lemma stakes_BoundMeterGov: "0 \<le> v \<Longrightarrow> stakes s (snd (BoundMeterGov a v s))"
  by (cases "v \<le> GetBalance a s") (auto simp: BoundMeterGov_ok stakes_moveBound, auto simp: BoundMeterGov_def Let_def)

lemma BucketDeposit_stakes: "0 \<le> amount \<Longrightarrow> stakes s (snd (BucketDeposit hash owner i amount s))"
  unfolding BucketDeposit_def Let_def
  by (rule with_bucket_cases) (auto simp: BoundMeterGov_ok stakes_moveBound)

lemma BucketOpen_stakes: "stakes s (snd (snd (BucketOpen hash owner cand amount ts nonce s)))"
  unfolding BucketOpen_def Let_def bound_moveBound
  by (auto simp: MIN_BOUND_BALANCE_def intro!: BucketDeposit_stakes stakes_moveBound split: option.split)

lemma native_ops_stakes:
  "stakes s (snd (BucketClose hash owner i ts s))"
  "stakes s (snd (BucketUpdateCandidate hash owner i cand s))"
  "stakes s (snd (BucketMerge hash owner i j s))"
  "stakes s (snd (snd (UnCandidate hash owner s)))"
  "gives (\<lambda>r. stakes s (snd (snd r))) (BucketWithdraw hash owner i amount recipient ts nonce s)"
  "gives (\<lambda>r. stakes s (snd r)) (BucketTransferFund hash owner i j amount s)"
  "gives (\<lambda>r. stakes s (snd r)) (CandidateUpdate X owner nm desc pk ip port ab comm ts s)"
proof -
  show "stakes s (snd (BucketClose hash owner i ts s))"
    unfolding BucketClose_def Let_def by (rule with_bucket_cases) simp_all
  show "stakes s (snd (BucketUpdateCandidate hash owner i cand s))"
    unfolding BucketUpdateCandidate_def Let_def by (simp split: option.split)
  show "stakes s (snd (BucketMerge hash owner i j s))"
    unfolding BucketMerge_def Let_def
    by (intro with_bucket_cases [where P = "\<lambda>r. stakes s (snd r)"]
        if_split [where P = "\<lambda>r. stakes s (snd r)", THEN iffD2] conjI impI) simp_all
  show "stakes s (snd (snd (UnCandidate hash owner s)))"
    unfolding UnCandidate_def Let_def by (simp add: split_beta split: option.split)
  show "gives (\<lambda>r. stakes s (snd (snd r))) (BucketWithdraw hash owner i amount recipient ts nonce s)"
    unfolding BucketWithdraw_def Let_def giveBound_def [unfolded Let_def, symmetric]
    by (intro gives_intros) (simp_all add: stakes_giveBound)
  show "gives (\<lambda>r. stakes s (snd r)) (BucketTransferFund hash owner i j amount s)"
    unfolding BucketTransferFund_def Let_def by (intro gives_intros) simp_all
  show "gives (\<lambda>r. stakes s (snd r)) (CandidateUpdate X owner nm desc pk ip port ab comm ts s)"
    unfolding CandidateUpdate_def Let_def by (intro gives_intros) simp_all
qed

lemma ListAsCandidate_stakes:
  "stakes s (snd (snd (ListAsCandidate X owner nm desc pk ip port amount ab comm ts nonce s)))"
proof (cases "amount < MIN_REQUIRED_BY_DELEGATE")
  case False
  then have "stakes s (snd (BoundMeterGov owner amount s))"
    by (intro stakes_BoundMeterGov) (simp add: MIN_REQUIRED_BY_DELEGATE_def)
  then show ?thesis
    unfolding ListAsCandidate_def Let_def by (auto simp: split_beta split: option.split)
qed (simp add: ListAsCandidate_def Let_def)

lemma native_step_stakes: "native_step X s s' \<Longrightarrow> stakes s s'"
proof (induction rule: native_step.induct)
  case opens
  then show ?case using native_state(1) [OF opens(1)] BucketOpen_stakes by auto
next
  case list_as_candidate
  then show ?case using native_state(5) [OF list_as_candidate(1)] ListAsCandidate_stakes by auto
next
  case withdraw
  then show ?case using native_state_go(1) [OF withdraw(1)] native_ops_stakes(5) by (fastforce simp: gives_def)
next
  case transfer_fund
  then show ?case using native_state_go(2) [OF transfer_fund(1)] native_ops_stakes(6) by (fastforce simp: gives_def)
next
  case candidate_update
  then show ?case using native_state_go(3) [OF candidate_update(1)] native_ops_stakes(7) by (fastforce simp: gives_def)
qed (simp_all add: native_state native_ops_stakes BucketDeposit_stakes)

section \<open>The two copies of the self-vote check\<close>

lemma tracker_check_agrees:
  "CorrectCheckEnoughSelfVotes (Some c) bl ratio addSelf subSelf addTotal subTotal =
     Inr (tracker_CorrectCheckEnoughSelfVotes c bl ratio addSelf subSelf addTotal subTotal)"
  by (simp add: CorrectCheckEnoughSelfVotes_def tracker_CorrectCheckEnoughSelfVotes_def Let_def split_beta
      opt_apply_def sub_snap_def split: option.split)

end
