(* ===== verification/Staking_Chain.thy ===== *)
theory Staking_Chain
  imports Delegate_Election Native_Invariant
begin

text \<open>
  Staking over time.  A state is reachable from a chain without stake by calls of the
  staking module, native calls of the system contract, and anything else that leaves the
  staking slots and the bounded balances alone, in any order.  The properties of the
  staking module are stated here over reachable states and over single calls; the example
  at the start of the theory is a chain on which their hypotheses hold.
\<close>

section \<open>Reachable states\<close>

definition no_stake :: "State \<Rightarrow> bool" where
  "no_stake s \<longleftrightarrow> bucketSlot s = [] \<and> candidateSlot s = [] \<and> stakeholderSlot s = [] \<and> inJailSlot s = [] \<and>
     delegateStatSlot s = [] \<and> (\<forall>a. GetBoundedBalance a s = 0)"

inductive staking_step :: "externals \<Rightarrow> State \<Rightarrow> State \<Rightarrow> bool" for X where
  call: "Handle X e (Some sb) to gas = Inr (g, err, e') \<Longrightarrow> call_ok X e sb \<Longrightarrow>
     staking_step X (envState e) (envState e')"
| native: "native_step X s s' \<Longrightarrow> staking_step X s s'"
| other: "same_books s s' \<Longrightarrow> staking_step X s s'"

inductive staking_reachable :: "externals \<Rightarrow> State \<Rightarrow> bool" for X where
  init: "no_stake s \<Longrightarrow> staking_reachable X s"
| step: "staking_reachable X s \<Longrightarrow> staking_step X s s' \<Longrightarrow> staking_reachable X s'"

lemma staking_inv_empty: "no_stake s \<Longrightarrow> staking_inv X s"
  by (simp add: no_stake_def staking_inv_def books_def core_def buckets_ok_def votes_ok_def bound_ok_def
      holders_ok_def jail_ok_def bl.wf_Nil cl.wf_Nil sl.wf_Nil jl.wf_Nil dsl.wf_Nil cands_def cl.get_Nil
      bounds_def)

lemma chain_same_books: "same_books s s' \<Longrightarrow> staking_inv X s \<Longrightarrow> staking_inv X s'"
  by (simp add: same_books_def staking_inv_def jail_ok_def)

lemma staking_step_inv: "staking_step X s s' \<Longrightarrow> staking_inv X s \<Longrightarrow> staking_inv X s'"
proof (induction rule: staking_step.induct)
  case (call e sb to gas g err e')
  then show ?case using Handle_inv [of X e sb to gas] by (simp add: keeps_inv_def outcome_def)
qed (auto intro: native_step_inv chain_same_books)

lemma staking_reachable_inv: "staking_reachable X s \<Longrightarrow> staking_inv X s"
  by (induction rule: staking_reachable.induct) (auto intro: staking_inv_empty staking_step_inv)

lemma stake_of_list: "stake_of a (mset bl) = (\<Sum>b\<leftarrow>bl. if Owner b = a then Value b else 0)"
  by (induction bl) auto

lemma votes_for_list: "votes_for a (mset bl) = (\<Sum>b\<leftarrow>bl. if Candidate b = a then TotalVotes b else 0)"
  by (induction bl) auto

lemma ids_for_list: "ids_for a (mset bl) = mset (map BucketID (filter (\<lambda>b. Candidate b = a) bl))"
  by (induction bl) auto

section \<open>An example chain\<close>

text \<open>
  Account 5 registers as a candidate through the staking module, account 6 opens a bucket for
  it through the system contract and later closes it.  The example state has given lists
  and bounded balances that agree with them.
\<close>

definition ex_X :: externals where
  "ex_X = \<lparr>xBucketHash = (\<lambda>a n t. ucast n), xAuctionTxHash = (\<lambda>_ _ _ _ _. 0),
     xAuctionCBHash = (\<lambda>_ _ _ _ _ _ _ _. 0), xBase64Decode = Some, xUnmarshalPubkey = (\<lambda>_. True),
     xDecodeRewardInfos = (\<lambda>_. None), xDecodeRewardInfoV2s = (\<lambda>_. None), xDecodeInfraction = (\<lambda>_. None),
     xDailyReward = (\<lambda>_. 24 * 10 ^ 18)\<rparr>"

definition ex_state :: "Bucket list \<Rightarrow> Candidate list \<Rightarrow> Stakeholder list \<Rightarrow> State" where
  "ex_state bl cl sl =
     emptyState\<lparr>accounts := (\<lambda>a. emptyAccount\<lparr>Balance := 5000 * 10 ^ 18,
                   BoundBalance := (\<Sum>b\<leftarrow>bl. if Owner b = a then Value b else 0)\<rparr>),
       candidateSlot := cl, bucketSlot := bl, stakeholderSlot := sl, paramSlot := (\<lambda>_. 2000 * 10 ^ 18)\<rparr>"

definition ex_b5 :: Bucket where
  "ex_b5 = \<lparr>BucketID = 7, Owner = 5, Nonce = 7, CreateTime = 1700000000, Value = 2000 * 10 ^ 18, Token = MTRG,
     Unbounded = False, Candidate = 5, Rate = 5, Autobid = 0, Option = FOREVER_LOCK, BonusVotes = 0,
     TotalVotes = 2000 * 10 ^ 18, MatureTime = 0, CalcLastTime = 1700000000\<rparr>"

definition ex_b6 :: Bucket where
  "ex_b6 = \<lparr>BucketID = 9, Owner = 6, Nonce = 9, CreateTime = 1700000000, Value = 100 * 10 ^ 18, Token = MTRG,
     Unbounded = False, Candidate = 5, Rate = 5, Autobid = 100, Option = ONE_WEEK_LOCK, BonusVotes = 0,
     TotalVotes = 100 * 10 ^ 18, MatureTime = 0, CalcLastTime = 1700000000\<rparr>"

definition ex_b6' :: Bucket where
  "ex_b6' = ex_b6\<lparr>Unbounded := True, MatureTime := 1700604800\<rparr>"

definition ex_c5 :: "int \<Rightarrow> bytes32 list \<Rightarrow> Candidate" where
  "ex_c5 votes ids = \<lparr>cAddr = 5, cName = [110], cDescription = [], cPubKey = [97, 58, 58, 58, 98],
     cIPAddr = [49, 46, 50, 46, 51, 46, 52], cPort = 8670, cCommission = 100000000, cTimestamp = 1700000000,
     cTotalVotes = votes, cBuckets = ids\<rparr>"

definition ex_h5 :: Stakeholder where
  "ex_h5 = \<lparr>sHolder = 5, sTotalStake = 2000 * 10 ^ 18, sBuckets = [7]\<rparr>"

definition ex_s0 :: State where "ex_s0 = ex_state [] [] []"
definition ex_s1 :: State where "ex_s1 = ex_state [ex_b5] [ex_c5 (2000 * 10 ^ 18) [7]] [ex_h5]"
definition ex_s2 :: State where "ex_s2 = ex_state [ex_b5, ex_b6] [ex_c5 (2100 * 10 ^ 18) [7, 9]] [ex_h5]"
definition ex_s3 :: State where "ex_s3 = ex_state [ex_b5, ex_b6'] [ex_c5 (2100 * 10 ^ 18) [7, 9]] [ex_h5]"

definition ex_env :: "address \<Rightarrow> uint64 \<Rightarrow> State \<Rightarrow> ScriptEnv" where
  "ex_env origin time s =
     \<lparr>envState = s, envConfig = \<lparr>ChainFlag = ''main'', Initialized = True\<rparr>, envNumber = 100000000,
      envTime = time, envTxCtx = \<lparr>txcOrigin = origin, txcNonce = 7, txcCounter = 0\<rparr>, envClauseIndex = 0,
      envReturnData = None, envTransfers = [], envEvents = []\<rparr>"

definition ex_body :: "uint32 \<Rightarrow> StakingBody" where
  "ex_body op =
     \<lparr>sbOpcode = op, sbVersion = 0, sbOption = 0, sbHolderAddr = 5, sbCandAddr = 5, sbCandName = [110],
      sbCandDescription = [], sbCandPubKey = [97, 58, 58, 58, 98], sbCandIP = [49, 46, 50, 46, 51, 46, 52],
      sbCandPort = 8670, sbStakingID = 0, sbAmount = 2000 * 10 ^ 18, sbToken = MTRG, sbAutobid = 0,
      sbTimestamp = 0, sbNonce = 0, sbExtraData = []\<rparr>"

definition ex_nenv :: "State \<Rightarrow> Environment" where
  "ex_nenv s =
     \<lparr>nvState = s, nvConfig = \<lparr>ChainFlag = ''main'', Initialized = True\<rparr>, nvNumber = 100000000,
      nvTime = 1700000000, nvTxCtx = \<lparr>txcOrigin = 6, txcNonce = 9, txcCounter = 0\<rparr>, nvClauseIndex = 0,
      nvGas = 1000000, nvLogs = []\<rparr>"

text \<open>The lists after each call.\<close>

definition ex_lists :: "State \<Rightarrow> State \<Rightarrow> bool" where
  "ex_lists s t \<longleftrightarrow> bucketSlot s = bucketSlot t \<and> candidateSlot s = candidateSlot t \<and>
     stakeholderSlot s = stakeholderSlot t \<and> inJailSlot s = [] \<and> delegateStatSlot s = []"

lemma ex_run1:
  "case Handle ex_X (ex_env 5 1700000000 ex_s0) (Some (ex_body OP_CANDIDATE)) None 100000 of
     Inl _ \<Rightarrow> False | Inr (g, err, e') \<Rightarrow> err = None \<and> ex_lists (envState e') ex_s1"
  by code_simp

lemma ex_run2:
  "case native_bucket_open ex_X 6 5 (100 * 10 ^ 18) (ex_nenv ex_s1) of
     Inl _ \<Rightarrow> False | Inr (i, err, env') \<Rightarrow> err = None \<and> ex_lists (nvState env') ex_s2"
  by code_simp

lemma ex_run3:
  "case native_bucket_close ex_X 6 9 (ex_nenv ex_s2) of
     Inl _ \<Rightarrow> False | Inr (err, env') \<Rightarrow> err = None \<and> ex_lists (nvState env') ex_s3"
  by code_simp

lemma ex_call_ok: "call_ok ex_X (ex_env 5 1700000000 ex_s0) (ex_body OP_CANDIDATE)"
  by code_simp

lemma ex_fresh: "fresh_native ex_X (ex_nenv ex_s1) 6"
  by code_simp

lemma ex_no_stake: "no_stake ex_s0"
  by (simp add: ex_s0_def ex_state_def no_stake_def emptyState_def emptyAccount_def GetBoundedBalance_def)

text \<open>A reachable state with the lists of an example state differs from it only outside the books.\<close>

lemma ex_same_books:
  assumes "staking_reachable X s" "ex_lists s (ex_state bl cl sl)"
  shows "staking_reachable X (ex_state bl cl sl)"
proof -
  have slots: "bucketSlot (ex_state bl cl sl) = bl" "candidateSlot (ex_state bl cl sl) = cl"
    "stakeholderSlot (ex_state bl cl sl) = sl" "inJailSlot (ex_state bl cl sl) = []"
    "delegateStatSlot (ex_state bl cl sl) = []"
    by (simp_all add: ex_state_def emptyState_def)
  have "bounds s = (\<lambda>a. \<Sum>b\<leftarrow>bl. if Owner b = a then Value b else 0)"
    using invD(1) [OF staking_reachable_inv [OF assms(1)]] assms(2)
    by (simp add: core_def bound_ok_def stake_of_list ex_lists_def slots fun_eq_iff)
  then have "bounds s = bounds (ex_state bl cl sl)"
    by (simp add: bounds_def GetBoundedBalance_def ex_state_def)
  then have "same_books s (ex_state bl cl sl)"
    using assms(2) by (simp add: same_books_def ex_lists_def slots)
  then show ?thesis using staking_reachable.step [OF assms(1)] staking_step.other by blast
qed

lemma ex_reachable1: "staking_reachable ex_X ex_s1"
proof -
  obtain g err e' where run: "Handle ex_X (ex_env 5 1700000000 ex_s0) (Some (ex_body OP_CANDIDATE)) None 100000 =
      Inr (g, err, e')" "ex_lists (envState e') ex_s1"
    using ex_run1 by (auto split: sum.splits prod.splits)
  have "staking_step ex_X ex_s0 (envState e')"
    using staking_step.call [OF run(1) ex_call_ok] by (simp add: ex_env_def)
  then have "staking_reachable ex_X (envState e')"
    using staking_reachable.init [OF ex_no_stake] staking_reachable.step by blast
  then show ?thesis using run(2) ex_same_books unfolding ex_s1_def by blast
qed

lemma ex_step2:
  obtains s where "native_step ex_X ex_s1 s" "ex_lists s ex_s2"
proof -
  obtain i err env' where run: "native_bucket_open ex_X 6 5 (100 * 10 ^ 18) (ex_nenv ex_s1) = Inr (i, err, env')"
    "ex_lists (nvState env') ex_s2"
    using ex_run2 by (auto split: sum.splits prod.splits)
  show ?thesis using that [OF _ run(2)] native_step.opens [OF run(1) ex_fresh] by (simp add: ex_nenv_def)
qed

lemma ex_reachable2: "staking_reachable ex_X ex_s2"
proof -
  obtain s where s: "native_step ex_X ex_s1 s" "ex_lists s ex_s2" by (rule ex_step2)
  then have "staking_reachable ex_X s" using ex_reachable1 by (meson staking_reachable.step staking_step.native)
  then show ?thesis using s(2) ex_same_books unfolding ex_s2_def by blast
qed

lemma ex_reachable3: "staking_reachable ex_X ex_s3"
proof -
  obtain err env' where run: "native_bucket_close ex_X 6 9 (ex_nenv ex_s2) = Inr (err, env')"
    "ex_lists (nvState env') ex_s3"
    using ex_run3 by (auto split: sum.splits prod.splits)
  have "native_step ex_X ex_s2 (nvState env')" using native_step.close [OF run(1)] by (simp add: ex_nenv_def)
  then have "staking_reachable ex_X (nvState env')"
    using ex_reachable2 by (meson staking_reachable.step staking_step.native)
  then show ?thesis using run(2) ex_same_books unfolding ex_s3_def by blast
qed

lemma ex_matured:
  "(\<Sum>b\<leftarrow>filter (matured 1800000000) (bucketSlot ex_s3). if Owner b = 6 then Value b else 0) = 100 * 10 ^ 18"
  by code_simp

lemma ex_governing:
  "isFork TeslaFork7 (ex_env 0 1800000000 ex_s3) \<and> isFork TeslaFork13 (ex_env 0 1800000000 ex_s3) \<and>
   \<not> IsStaging (envConfig (ex_env 0 1800000000 ex_s3)) \<and> delegateSlot ex_s3 = [] \<and>
   0 < Params_Get KeyMinRequiredByDelegate ex_s3 \<and> length (bucketSlot ex_s3) = 2"
  by code_simp

end
