(* ===== verification/Staking_Properties.thy ===== *)
theory Staking_Properties
  imports Staking_Chain
begin

text \<open>
  The properties of staking: the ledger on reachable states, what a call may do to
  accounts, and the governing step with its release loop, its emission and its election.
\<close>

section \<open>The ledger\<close>



section \<open>Accounts\<close>

text \<open>
  C3. A call of the staking module other than governing creates and destroys no MTRG and no
  MTR.  Unless it pays a bail, it changes no account but that of the sender, whose free and
  bounded MTRG keep their sum.  This holds at every fork and in every state.
\<close>

theorem Handle_accounts:
  assumes "Handle X e (Some sb) to gas = Inr (g, err, e')" "sbOpcode sb \<noteq> OP_GOVERNING"
  defines "a \<equiv> txcOrigin (envTxCtx e)"
  shows "sumMTRG (envState e') = sumMTRG (envState e) \<and> sumMTR (envState e') = sumMTR (envState e) \<and>
    (sbOpcode sb \<noteq> OP_DELEGATE_EXITJAIL \<longrightarrow>
       (\<forall>x. x \<noteq> a \<longrightarrow> accounts (envState e') x = accounts (envState e) x) \<and>
       GetBalance a (envState e') + GetBoundedBalance a (envState e') =
         GetBalance a (envState e) + GetBoundedBalance a (envState e))"
  using Handle_conserves_op [OF assms(2), of e X to gas] Handle_owns [OF assms(2), of e X to gas] assms(1)
  by (auto simp: conserves_def owns_def outcome_def only_own_def a_def GetBalance_def GetBoundedBalance_def)

theorem Handle_accounts_witness:
  "\<exists>g e'. Handle ex_X (ex_env 5 1700000000 ex_s0) (Some (ex_body OP_CANDIDATE)) None 100000 = Inr (g, None, e') \<and>
     sumMTRG (envState e') = sumMTRG ex_s0 \<and> (\<forall>x. x \<noteq> 5 \<longrightarrow> accounts (envState e') x = accounts ex_s0 x)"
proof -
  obtain g e' where run: "Handle ex_X (ex_env 5 1700000000 ex_s0) (Some (ex_body OP_CANDIDATE)) None 100000 =
      Inr (g, None, e')"
    using ex_run1 by (auto split: sum.splits prod.splits)
  have op: "sbOpcode (ex_body OP_CANDIDATE) \<noteq> OP_GOVERNING" "sbOpcode (ex_body OP_CANDIDATE) \<noteq> OP_DELEGATE_EXITJAIL"
    by (simp_all add: ex_body_def opcode_defs)
  have env: "envState (ex_env 5 1700000000 ex_s0) = ex_s0" "txcOrigin (envTxCtx (ex_env 5 1700000000 ex_s0)) = 5"
    by (simp_all add: ex_env_def)
  show ?thesis using Handle_accounts [OF run op(1), unfolded env] op(2) run by blast
qed

text \<open>
  C6. A native staking call of the system contract keeps the amounts of MTRG and MTR and never
  raises a free balance: stake leaves the bounded balance only by maturing.
\<close>

theorem native_calls_stake:
  assumes "native_step X s s'"
  shows "sumMTRG s' = sumMTRG s \<and> sumMTR s' = sumMTR s \<and> (\<forall>a. GetBalance a s' \<le> GetBalance a s)"
  using native_step_stakes [OF assms] by (simp add: stakes_def)

theorem native_calls_stake_witness:
  "\<exists>s. native_step ex_X ex_s1 s \<and> length (bucketSlot s) = 2 \<and> sumMTRG s = sumMTRG ex_s1"
proof -
  obtain s where s: "native_step ex_X ex_s1 s" "ex_lists s ex_s2" by (rule ex_step2)
  then have "length (bucketSlot s) = 2" by (simp add: ex_lists_def ex_s2_def ex_state_def)
  then show ?thesis using native_calls_stake [OF s(1)] s(1) by blast
qed

section \<open>The governing step\<close>

lemma pay_back_balance:
  "GetBalance a (fold pay_back bs s) = GetBalance a s + (\<Sum>b\<leftarrow>bs. if Owner b = a then Value b else 0)"
  by (induction bs arbitrary: s) (auto simp: pay_back_def moveBound_def updateAccount_def GetBalance_def)

text \<open>
  C4. On a reachable state the loop that releases buckets ends.  It keeps exactly the buckets
  that have not matured, in their order, and pays every owner the values of the
  matured ones.
\<close>

theorem unbound_loop_ends:
  assumes "staking_reachable X (envState e)"
  shows "\<exists>cl' sl' e'. unbound_loop ts 0 (bucketSlot (envState e)) (candidateSlot (envState e))
      (stakeholderSlot (envState e)) None e =
    Some (filter (\<lambda>b. \<not> matured ts b) (bucketSlot (envState e)), cl', sl', None, e') \<and>
    (\<forall>a. GetBalance a (envState e') = GetBalance a (envState e) +
       (\<Sum>b\<leftarrow>filter (matured ts) (bucketSlot (envState e)). if Owner b = a then Value b else 0))"
proof -
  note ok = invD [OF staking_reachable_inv [OF assms]]
  obtain cl' sl' e' where run: "unbound_loop ts 0 (bucketSlot (envState e)) (candidateSlot (envState e))
      (stakeholderSlot (envState e)) None e =
      Some (take 0 (bucketSlot (envState e)) @ filter (\<lambda>b. \<not> matured ts b) (drop 0 (bucketSlot (envState e))),
        cl', sl', None, e')"
    "envState e' = fold pay_back (filter (matured ts) (drop 0 (bucketSlot (envState e)))) (envState e)"
    using unbound_loop_spec [OF ok(1-3), of ts 0] by blast
  show ?thesis
    by (rule exI [of _ cl'], rule exI [of _ sl'], rule exI [of _ e']) (use run in \<open>simp add: pay_back_balance\<close>)
qed

theorem unbound_loop_ends_witness:
  "\<exists>cl' sl' e'. unbound_loop 1800000000 0 (bucketSlot ex_s3) (candidateSlot ex_s3) (stakeholderSlot ex_s3) None
      (ex_env 0 1800000000 ex_s3) =
    Some (filter (\<lambda>b. \<not> matured 1800000000 b) (bucketSlot ex_s3), cl', sl', None, e') \<and>
    GetBalance 6 (envState e') = GetBalance 6 ex_s3 + 100 * 10 ^ 18"
proof -
  have e: "envState (ex_env 0 1800000000 ex_s3) = ex_s3" by (simp add: ex_env_def)
  obtain cl' sl' e' where run: "unbound_loop 1800000000 0 (bucketSlot ex_s3) (candidateSlot ex_s3) (stakeholderSlot ex_s3)
      None (ex_env 0 1800000000 ex_s3) = Some (filter (\<lambda>b. \<not> matured 1800000000 b) (bucketSlot ex_s3), cl', sl', None, e')"
    "\<forall>a. GetBalance a (envState e') = GetBalance a ex_s3 +
       (\<Sum>b\<leftarrow>filter (matured 1800000000) (bucketSlot ex_s3). if Owner b = a then Value b else 0)"
    using unbound_loop_ends [of ex_X "ex_env 0 1800000000 ex_s3" 1800000000, unfolded e, OF ex_reachable3] by blast
  have "GetBalance 6 (envState e') = GetBalance 6 ex_s3 + 100 * 10 ^ 18"
    unfolding run(2) [rule_format] ex_matured by (rule refl)
  then show ?thesis using run(1) by blast
qed

text \<open>
  C2. From fork 13 on, a governing step on a reachable state with a usable delegate list does
  not panic and returns no error.  It releases the matured buckets and adds the bonus to
  the others, mints at most the epoch's emission and no MTR, and stores the election of
  the candidates that are free and have enough votes.  The new delegate list is usable by the
  next step, so governing never gets stuck.
\<close>

theorem governing_succeeds:
  assumes "staking_reachable X (envState e)" "delegates_ok (delegateSlot (envState e))"
    and "isFork TeslaFork7 e" "isFork TeslaFork13 e" "envTime e < 2 ^ 55" "\<not> IsStaging (envConfig e)"
    and "0 < Params_Get KeyMinRequiredByDelegate (envState e)" "length (bucketSlot (envState e)) \<le> 1000000000"
  shows "\<exists>e'. GoverningHandler X e sb gas = Inr (leftOver gas, None, e') \<and>
    delegates_ok (delegateSlot (envState e')) \<and>
    bucketSlot (envState e') = map (add_bonus (envTime e))
      (filter (\<lambda>b. \<not> matured (envTime e) b) (bucketSlot (envState e))) \<and>
    sumMTR (envState e') = sumMTR (envState e) \<and> sumMTRG (envState e) \<le> sumMTRG (envState e') \<and>
    sumMTRG (envState e') \<le> sumMTRG (envState e) + release_of X e \<and>
    delegateSlot (envState e') = elected (Params_Get KeyMinRequiredByDelegate (envState e))
      (bucketSlot (envState e')) (candidateSlot (envState e')) (inJailSlot (envState e))"
  by (rule governing_fork13 [OF staking_reachable_inv [OF assms(1)] assms(2-8), of sb gas]) blast

theorem governing_succeeds_witness:
  "\<exists>e'. GoverningHandler ex_X (ex_env 0 1800000000 ex_s3) (ex_body OP_GOVERNING) 100000 =
      Inr (leftOver 100000, None, e') \<and> delegates_ok (delegateSlot (envState e'))"
proof -
  have e: "envState (ex_env 0 1800000000 ex_s3) = ex_s3" "envTime (ex_env 0 1800000000 ex_s3) = 1800000000"
    by (simp_all add: ex_env_def)
  note g = ex_governing
  have "delegates_ok (delegateSlot ex_s3)" "(1800000000 :: uint64) < 2 ^ 55" "length (bucketSlot ex_s3) \<le> 1000000000"
    using g by (simp_all add: delegates_ok_def)
  then show ?thesis
    using governing_succeeds [of ex_X "ex_env 0 1800000000 ex_s3" "ex_body OP_GOVERNING" 100000] g ex_reachable3
    unfolding e by blast
qed

text \<open>
  C5. The election on a reachable state succeeds and stores a delegate list and nothing else.
  The delegates are exactly the candidates outside the jail that have the required votes, in
  descending order of votes.  The voting power of a delegate is the sum of the votes of its
  buckets, and its voters' shares are not negative and sum to a billion up to less than
  one unit per bucket.
\<close>

theorem election_shares:
  assumes "staking_reachable X (envState e)" "0 < Params_Get KeyMinRequiredByDelegate (envState e)"
  shows "\<exists>D. calcDelegates e (bucketSlot (envState e)) (candidateSlot (envState e)) (inJailSlot (envState e)) =
      Inr (e\<lparr>envState := (envState e)\<lparr>delegateSlot := D\<rparr>\<rparr>) \<and>
    dlgAddress ` set D = cAddr ` {c \<in> set (candidateSlot (envState e)). \<not> InJailList_Exist (cAddr c) (inJailSlot (envState e)) \<and>
      Params_Get KeyMinRequiredByDelegate (envState e) \<le> cTotalVotes c} \<and>
    sorted_wrt (\<lambda>x y. dlgVotingPower y \<le> dlgVotingPower x) D \<and>
    (\<forall>d\<in>set D.
      dlgVotingPower d = (\<Sum>b\<leftarrow>bucketSlot (envState e). if Candidate b = dlgAddress d then TotalVotes b else 0) \<and>
      (\<forall>x\<in>set (dlgDistList d). 0 \<le> big_NewInt64 (distShares x)) \<and>
      (\<Sum>x\<leftarrow>dlgDistList d. big_NewInt64 (distShares x)) \<le> 1000000000 \<and>
      1000000000 - int (length (dlgDistList d)) < (\<Sum>x\<leftarrow>dlgDistList d. big_NewInt64 (distShares x)))"
proof -
  let ?s = "envState e"
  let ?m = "Params_Get KeyMinRequiredByDelegate ?s"
  let ?D = "elected ?m (bucketSlot ?s) (candidateSlot ?s) (inJailSlot ?s)"
  have books: "books X (bucketSlot ?s) (candidateSlot ?s) (stakeholderSlot ?s) (bounds ?s)"
    using staking_reachable_inv [OF assms(1)] by (simp add: staking_inv_def)
  have D: "set ?D = delegate_of (bucketSlot ?s) ` {c \<in> set (candidateSlot ?s). eligible ?m (inJailSlot ?s) c}"
    by (auto simp: elected_def)
  have addr: "dlgAddress (delegate_of bl c) = cAddr c" for bl c by (simp add: delegate_of_def)
  have each: "dlgVotingPower (delegate_of (bucketSlot ?s) c) =
        (\<Sum>b\<leftarrow>bucketSlot ?s. if Candidate b = cAddr c then TotalVotes b else 0)"
      "length (dlgDistList (delegate_of (bucketSlot ?s) c)) = length (cBuckets c)"
    if "c \<in> set (candidateSlot ?s)" for c
    using books_candidate(3) [OF books that] by (simp_all add: votes_for_list delegate_of_def)
  have "dlgAddress ` set ?D = cAddr ` {c \<in> set (candidateSlot ?s). \<not> InJailList_Exist (cAddr c) (inJailSlot ?s) \<and> ?m \<le> cTotalVotes c}"
    unfolding D by (auto simp: image_image addr eligible_def)
  moreover have "sorted_wrt (\<lambda>x y. dlgVotingPower y \<le> dlgVotingPower x) ?D"
    unfolding elected_def by (rule delegates_sorted)
  moreover have "\<forall>d\<in>set ?D.
      dlgVotingPower d = (\<Sum>b\<leftarrow>bucketSlot ?s. if Candidate b = dlgAddress d then TotalVotes b else 0) \<and>
      (\<forall>x\<in>set (dlgDistList d). 0 \<le> big_NewInt64 (distShares x)) \<and>
      (\<Sum>x\<leftarrow>dlgDistList d. big_NewInt64 (distShares x)) \<le> 1000000000 \<and>
      1000000000 - int (length (dlgDistList d)) < (\<Sum>x\<leftarrow>dlgDistList d. big_NewInt64 (distShares x))"
    unfolding D
  proof (rule ballI, elim imageE, clarsimp simp only: mem_Collect_eq)
    fix c assume c: "c \<in> set (candidateSlot ?s)" "eligible ?m (inJailSlot ?s) c"
    then have pos: "0 < cTotalVotes c" using assms(2) by (simp add: eligible_def)
    show "dlgVotingPower (delegate_of (bucketSlot ?s) c) =
        (\<Sum>b\<leftarrow>bucketSlot ?s. if Candidate b = dlgAddress (delegate_of (bucketSlot ?s) c) then TotalVotes b else 0) \<and>
      (\<forall>x\<in>set (dlgDistList (delegate_of (bucketSlot ?s) c)). 0 \<le> big_NewInt64 (distShares x)) \<and>
      (\<Sum>x\<leftarrow>dlgDistList (delegate_of (bucketSlot ?s) c). big_NewInt64 (distShares x)) \<le> 1000000000 \<and>
      1000000000 - int (length (dlgDistList (delegate_of (bucketSlot ?s) c))) <
        (\<Sum>x\<leftarrow>dlgDistList (delegate_of (bucketSlot ?s) c). big_NewInt64 (distShares x))"
      unfolding each(2) [OF c(1)] addr
      using delegate_of_shares [OF books c(1) pos, unfolded total_shares_def] each(1) [OF c(1)] by blast
  qed
  ultimately show ?thesis using calcDelegates_run [OF books assms(2)] by blast
qed

theorem election_shares_witness:
  "\<exists>D. calcDelegates (ex_env 0 1800000000 ex_s3) (bucketSlot ex_s3) (candidateSlot ex_s3) (inJailSlot ex_s3) =
      Inr ((ex_env 0 1800000000 ex_s3)\<lparr>envState := ex_s3\<lparr>delegateSlot := D\<rparr>\<rparr>) \<and>
    sorted_wrt (\<lambda>x y. dlgVotingPower y \<le> dlgVotingPower x) D"
proof -
  have e: "envState (ex_env 0 1800000000 ex_s3) = ex_s3" by (simp add: ex_env_def)
  have "0 < Params_Get KeyMinRequiredByDelegate ex_s3" using ex_governing by blast
  then show ?thesis
    using election_shares [of ex_X "ex_env 0 1800000000 ex_s3", unfolded e, OF ex_reachable3] by blast
qed

end
