(* ===== verification/Governor_Rewards.thy ===== *)
theory Governor_Rewards
  imports Delegate_Election
begin

text \<open>
  The rewards of validators at the end of an epoch (\<^verbatim>\<open>consensus/governor/reward_calc.go\<close> and
  \<^verbatim>\<open>types.go\<close>): how much MTR an epoch distributes, how it is split between base
  reward, commission and voters, and the reward map that the governing transaction carries.
  A Go map is the list of its entries; where the code ranges over the map, the order of the
  entries is arbitrary and the model takes the entries in the order of the visit.
\<close>

section \<open>Delegates of the consensus layer\<close>

text \<open>
  \<^verbatim>\<open>types.Delegate\<close> without the keys of the signature schemes: \<open>tdPubKey\<close> is what
  \<^verbatim>\<open>crypto.FromECDSAPub\<close> makes of the public key.  The voting power is an \<^verbatim>\<open>int64\<close>.
\<close>

record TypesDelegate =
  tdName :: bytes
  tdAddress :: address
  tdPubKey :: bytes
  tdVotingPower :: uint64
  tdCommission :: uint64
  tdDistList :: "Distributor list"

record Validator =
  vName :: bytes
  vAddress :: address
  vPubKey :: bytes

definition convertDistList :: "Distributor list \<Rightarrow> Distributor list" where
  "convertDistList dist = map (\<lambda>d. \<lparr>distAddress = distAddress d, distAutobid = distAutobid d, distShares = distShares d\<rparr>) dist"

text \<open>
  \<^verbatim>\<open>big.Int.Int64\<close> keeps the low 64 bits.  \<open>splitPubKey\<close> is the first half of
  \<^verbatim>\<open>BlsCommon.SplitPubKey\<close>, the ECDSA key inside the combined key of a delegate.
\<close>

definition types_delegate :: "(bytes \<Rightarrow> bytes) \<Rightarrow> Delegate \<Rightarrow> TypesDelegate" where
  "types_delegate splitPubKey d =
     \<lparr>tdName = dlgName d, tdAddress = dlgAddress d, tdPubKey = splitPubKey (dlgPubKey d),
      tdVotingPower = word_of_int (big_Div (dlgVotingPower d) (10 ^ 12)),
      tdCommission = dlgCommission d, tdDistList = convertDistList (dlgDistList d)\<rparr>"

definition getDelegatesFromStaking :: "(bytes \<Rightarrow> bytes) \<Rightarrow> State \<Rightarrow> TypesDelegate list" where
  "getDelegatesFromStaking splitPubKey s = map (types_delegate splitPubKey) (GetDelegateList s)"

section \<open>The reward map\<close>

type_synonym RewardMap = "(address \<times> RewardInfoV2) list"

fun RewardMap_Add :: "int \<Rightarrow> int \<Rightarrow> address \<Rightarrow> RewardMap \<Rightarrow> RewardMap" where
  "RewardMap_Add dist autobid addr [] =
     [(addr, \<lparr>riv2Address = addr, riv2DistAmount = dist, riv2AutobidAmount = autobid\<rparr>)]"
| "RewardMap_Add dist autobid addr ((k, info) # m) =
     (if k = addr
      then (k, info\<lparr>riv2DistAmount := riv2DistAmount info + dist,
                    riv2AutobidAmount := riv2AutobidAmount info + autobid\<rparr>) # m
      else (k, info) # RewardMap_Add dist autobid addr m)"

definition GetDistList :: "RewardMap \<Rightarrow> RewardInfo list" where
  "GetDistList visit =
     map (\<lambda>(_, info). \<lparr>riAddress = riv2Address info, riAmount = riv2DistAmount info\<rparr>)
       (filter (\<lambda>(_, info). riv2DistAmount info \<noteq> 0) visit)"

definition GetAutobidList :: "RewardMap \<Rightarrow> RewardInfo list" where
  "GetAutobidList visit =
     map (\<lambda>(_, info). \<lparr>riAddress = riv2Address info, riAmount = riv2AutobidAmount info\<rparr>)
       (filter (\<lambda>(_, info). riv2AutobidAmount info \<noteq> 0) visit)"

text \<open>
  The two sums of \<^verbatim>\<open>ToList\<close> share the accumulator \<open>r\<close>: after the first entry both
  variables point to it, so each addition goes into both.  \<open>ToList_sums\<close> returns the
  values the two pointers have at the end.
\<close>

fun ToList_sums :: "RewardMap \<Rightarrow> int option \<Rightarrow> int \<times> int" where
  "ToList_sums [] r = (case r of None \<Rightarrow> (0, 0) | Some v \<Rightarrow> (v, v))"
| "ToList_sums ((_, info) # m) r =
     (let v = (case r of None \<Rightarrow> riv2AutobidAmount info
               | Some v \<Rightarrow> v + riv2DistAmount info + riv2AutobidAmount info)
      in ToList_sums m (Some v))"

definition ToList :: "RewardMap \<Rightarrow> int \<times> int \<times> RewardInfoV2 list" where
  "ToList visit =
     (let (distSum, autobidSum) = ToList_sums visit None
      in (distSum, autobidSum,
          sort_SliceStable (\<lambda>x y. riv2Address x \<le> riv2Address y) (map snd visit)))"

section \<open>Amounts of an epoch\<close>

definition NPowBlockPerEpoch :: nat where "NPowBlockPerEpoch = 60"
definition NEpochPerDay :: nat where "NEpochPerDay = 24 * 60 div NPowBlockPerEpoch"
definition NEpochPerAuction :: nat where "NEpochPerAuction = 24"
definition NAuctionPerDay :: nat where "NAuctionPerDay = 24 * 60 div NPowBlockPerEpoch div NEpochPerAuction"
definition NDaysV2 :: nat where "NDaysV2 = 1"

definition ComputeEpochBaseReward :: "int \<Rightarrow> int" where
  "ComputeEpochBaseReward validatorBaseReward = big_Div validatorBaseReward (int NEpochPerDay)"

definition ComputeEpochTotalReward :: "int \<Rightarrow> nat \<Rightarrow> nat \<Rightarrow> AuctionSummary list \<Rightarrow> int go" where
  "ComputeEpochTotalReward benefitRatio nDays nAuctionPerDay summaries =
     (let size = length summaries in
      if size = 0 then Inr 0
      else
        let d = (if size \<le> nDays * nAuctionPerDay then size else nDays * nAuctionPerDay);
            sumReward = sum_list (map (\<lambda>i. asRcvdMTR (summaries ! (size - 1 - i))) [0..<d])
        in if nDays = 0 then Inl DivByZero
           else Inr (big_Div (big_Div (big_Div (sumReward * benefitRatio) (int nDays)) (int NEpochPerDay)) (10 ^ 18)))"

section \<open>Distribution\<close>

definition getSelfDistributor :: "TypesDelegate \<Rightarrow> Distributor option" where
  "getSelfDistributor d = find (\<lambda>x. distAddress x = tdAddress d) (tdDistList d)"

definition getSelfDistributorV3 :: "TypesDelegate \<Rightarrow> Distributor option" where
  "getSelfDistributorV3 d =
     (let (shares, autobid) =
            fold (\<lambda>x (shares, autobid).
                    if distAddress x = tdAddress d
                    then (shares + distShares x, if distAutobid x > autobid then distAutobid x else autobid)
                    else (shares, autobid)) (tdDistList d) (0, 0)
      in if shares > 0
         then Some \<lparr>distAddress = tdAddress d, distAutobid = autobid, distShares = shares\<rparr>
         else None)"

definition self_distributor :: "bool \<Rightarrow> TypesDelegate \<Rightarrow> Distributor option" where
  "self_distributor v3 d = (if v3 then getSelfDistributorV3 d else getSelfDistributor d)"

text \<open>
  The loop for an epoch that pays base rewards only.  A delegate without a distributor of
  its own is stored with the pointer \<^verbatim>\<open>baseReward\<close> itself: \<open>shared\<close> lists the
  entries that hold it, and an addition to one of them changes the base reward, which
  all of them and the rest of the loop read.
\<close>

fun base_loop :: "bool \<Rightarrow> TypesDelegate list \<Rightarrow> int \<Rightarrow> address list \<Rightarrow> RewardMap \<Rightarrow> RewardMap" where
  "base_loop v3 [] baseReward shared m =
     map (\<lambda>(k, info). (k, if k \<in> set shared then info\<lparr>riv2DistAmount := baseReward\<rparr> else info)) m"
| "base_loop v3 (d # ds) baseReward shared m =
     (let a = tdAddress d in
      case self_distributor v3 d of
        None \<Rightarrow>
          if a \<in> set shared then base_loop v3 ds (baseReward + baseReward) shared m
          else if a \<in> fst ` set m then base_loop v3 ds baseReward shared (RewardMap_Add baseReward 0 a m)
          else base_loop v3 ds baseReward (a # shared) (RewardMap_Add baseReward 0 a m)
      | Some self \<Rightarrow>
          let autobidAmount = big_Div (baseReward * uint (distAutobid self)) 100;
              distAmount = baseReward - autobidAmount
          in if a \<in> set shared
             then base_loop v3 ds (baseReward + distAmount) shared (RewardMap_Add 0 autobidAmount a m)
             else base_loop v3 ds baseReward shared (RewardMap_Add distAmount autobidAmount a m))"

definition pay_voter :: "int \<Rightarrow> address \<Rightarrow> Distributor \<Rightarrow> RewardMap \<Rightarrow> RewardMap" where
  "pay_voter actualReward self dist m =
     (if distAddress dist = self then m
      else
        let voterReward = big_Div (actualReward * big_NewInt64 (distShares dist)) 1000000000;
            autobidReward = big_Div (voterReward * uint (distAutobid dist)) 100
        in RewardMap_Add (voterReward - autobidReward) autobidReward (distAddress dist) m)"

definition pay_delegate :: "bool \<Rightarrow> int \<Rightarrow> int \<Rightarrow> int \<Rightarrow> TypesDelegate \<Rightarrow> RewardMap \<Rightarrow> RewardMap" where
  "pay_delegate v3 baseReward rewards votingPowerSum d m =
     (let eachReward = big_Div (rewards * big_NewInt64 (tdVotingPower d)) votingPowerSum;
          commission = big_Div (eachReward * big_NewInt64 (tdCommission d)) 1000000000;
          actualReward = eachReward - commission;
          delegateSelf = baseReward + commission;
          m = (case self_distributor v3 d of
                 None \<Rightarrow> m
               | Some self \<Rightarrow>
                   let selfPortion = big_Div (actualReward * big_NewInt64 (distShares self)) 1000000000;
                       delegateSelf = delegateSelf + selfPortion;
                       autobidAmount = big_Div (delegateSelf * uint (distAutobid self)) 100
                   in RewardMap_Add (delegateSelf - autobidAmount) autobidAmount (tdAddress d) m)
      in fold (pay_voter actualReward (tdAddress d)) (tdDistList d) m)"

definition ComputeRewardMap :: "int \<Rightarrow> int \<Rightarrow> TypesDelegate list \<Rightarrow> bool \<Rightarrow> RewardMap go" where
  "ComputeRewardMap baseReward totalRewards delegates v3 =
     (let size = length delegates;
          baseRewards = baseReward * int size
      in
      if size = 0 then Inr []
      else if baseRewards \<ge> totalRewards
      then Inr (base_loop v3 delegates (big_Div totalRewards (int size)) [] [])
      else
        let baseReward = big_Div baseRewards (int size);
            votingPowerSum = sum_list (map (\<lambda>d. big_NewInt64 (tdVotingPower d)) delegates);
            rewards = totalRewards - baseRewards
        in if votingPowerSum = 0 then Inl DivByZero
           else Inr (fold (pay_delegate v3 baseReward rewards votingPowerSum) delegates []))"

definition member_delegates :: "TypesDelegate list \<Rightarrow> Validator list \<Rightarrow> TypesDelegate list" where
  "member_delegates delegates committeeMembers =
     filter (\<lambda>d. List.member (map vPubKey committeeMembers) (tdPubKey d)) delegates"

definition ComputeRewardMapV3 ::
  "int \<Rightarrow> int \<Rightarrow> TypesDelegate list \<Rightarrow> Validator list \<Rightarrow> RewardMap go" where
  "ComputeRewardMapV3 baseReward totalRewards delegates committeeMembers =
     ComputeRewardMap baseReward totalRewards (member_delegates delegates committeeMembers) True"

definition ComputeRewardMapV2 ::
  "int \<Rightarrow> int \<Rightarrow> TypesDelegate list \<Rightarrow> Validator list \<Rightarrow> RewardMap go" where
  "ComputeRewardMapV2 baseReward totalRewards delegates committeeMembers =
     ComputeRewardMap baseReward totalRewards (member_delegates delegates committeeMembers) False"

section \<open>What a reward map pays\<close>

definition reward_total :: "RewardMap \<Rightarrow> int" where
  "reward_total m = (\<Sum>x\<leftarrow>m. riv2DistAmount (snd x) + riv2AutobidAmount (snd x))"

definition rewards_nonneg :: "RewardMap \<Rightarrow> bool" where
  "rewards_nonneg m \<longleftrightarrow> list_all (\<lambda>x. 0 \<le> riv2DistAmount (snd x) \<and> 0 \<le> riv2AutobidAmount (snd x)) m"

text \<open>A well-formed map: one entry per address, stored under its own address.\<close>

definition reward_map_wf :: "RewardMap \<Rightarrow> bool" where
  "reward_map_wf m \<longleftrightarrow> distinct (map fst m) \<and> list_all (\<lambda>x. riv2Address (snd x) = fst x) m"

lemma reward_total_Add [simp]:
  "reward_total (RewardMap_Add dist autobid a m) = reward_total m + dist + autobid"
  by (induction m) (auto simp: reward_total_def)

lemma rewards_nonneg_Add:
  "rewards_nonneg m \<Longrightarrow> 0 \<le> dist \<Longrightarrow> 0 \<le> autobid \<Longrightarrow> rewards_nonneg (RewardMap_Add dist autobid a m)"
  by (induction m) (auto simp: rewards_nonneg_def)

lemma fst_RewardMap_Add [simp]: "fst ` set (RewardMap_Add dist autobid a m) = insert a (fst ` set m)"
proof (induction m)
  case (Cons x m)
  then show ?case by (cases x) (simp add: insert_commute)
qed simp

lemma reward_map_wf_Add: "reward_map_wf m \<Longrightarrow> reward_map_wf (RewardMap_Add dist autobid a m)"
proof (induction m)
  case (Cons x m)
  have "k \<noteq> a \<Longrightarrow> k \<notin> fst ` set m \<Longrightarrow> k \<notin> fst ` set (RewardMap_Add dist autobid a m)" for k by simp
  then show ?case using Cons by (cases x) (auto simp: reward_map_wf_def)
qed (simp add: reward_map_wf_def)

text \<open>
  What the election provides: power, commission and shares in range, and shares that sum
  to at most a billion.
\<close>

definition payable :: "TypesDelegate \<Rightarrow> bool" where
  "payable d \<longleftrightarrow> 0 \<le> big_NewInt64 (tdVotingPower d) \<and>
     0 \<le> big_NewInt64 (tdCommission d) \<and> big_NewInt64 (tdCommission d) \<le> 1000000000 \<and>
     (\<forall>x\<in>set (tdDistList d). 0 \<le> big_NewInt64 (distShares x) \<and> distAutobid x \<le> 100) \<and>
     (\<Sum>x\<leftarrow>tdDistList d. big_NewInt64 (distShares x)) \<le> 1000000000"

definition voter_shares :: "address \<Rightarrow> Distributor list \<Rightarrow> int" where
  "voter_shares a xs = (\<Sum>x\<leftarrow>xs. if distAddress x = a then 0 else big_NewInt64 (distShares x))"

definition own_shares :: "address \<Rightarrow> Distributor list \<Rightarrow> int" where
  "own_shares a xs = (\<Sum>x\<leftarrow>xs. if distAddress x = a then big_NewInt64 (distShares x) else 0)"

lemma shares_split: "(\<Sum>x\<leftarrow>xs. big_NewInt64 (distShares x)) = own_shares a xs + voter_shares a xs"
  by (induction xs) (auto simp: own_shares_def voter_shares_def)

lemma big_NewInt64_nonneg: "0 \<le> big_NewInt64 w \<Longrightarrow> big_NewInt64 w = uint w"
  using uint_lt2p [of w] take_bit_int_eq_self [of "uint w" 64]
  by (auto simp: big_NewInt64_def sint_uint signed_take_bit_eq_take_bit_minus split: if_splits)

lemma own_shares_fold:
  assumes "fold (\<lambda>x (shares, autobid).
      if distAddress x = a then (shares + distShares x, if distAutobid x > autobid then distAutobid x else autobid)
      else (shares, autobid)) xs (s, b) = (s', b')"
    and "\<forall>x\<in>set xs. 0 \<le> big_NewInt64 (distShares x) \<and> distAutobid x \<le> 100"
    and "b \<le> 100" "uint s + own_shares a xs < 2 ^ 63"
  shows "uint s' = uint s + own_shares a xs \<and> b' \<le> 100"
  using assms
proof (induction xs arbitrary: s b)
  case (Cons x xs)
  have nn: "0 \<le> own_shares a xs" using Cons.prems(2) by (auto simp: own_shares_def intro!: sum_list_nonneg)
  show ?case
  proof (cases "distAddress x = a")
    case True
    then have step: "own_shares a (x # xs) = uint (distShares x) + own_shares a xs"
      using Cons.prems(2) by (simp add: own_shares_def big_NewInt64_nonneg)
    then have "uint (s + distShares x) = uint s + uint (distShares x)"
      using Cons.prems(4) nn by (simp add: uint_plus_simple_iff uint_word_ariths(1))
    then show ?thesis
      using Cons.IH [of "s + distShares x"] Cons.prems True step by (auto split: if_splits)
  next
    case False
    then show ?thesis using Cons.IH [of s b] Cons.prems by (simp add: own_shares_def)
  qed
qed (simp add: own_shares_def)

lemma self_distributor_share:
  assumes "payable d" "self_distributor v3 d = Some s"
  shows "0 \<le> big_NewInt64 (distShares s)" "big_NewInt64 (distShares s) \<le> own_shares (tdAddress d) (tdDistList d)"
    "distAutobid s \<le> 100"
proof -
  let ?a = "tdAddress d" and ?xs = "tdDistList d"
  have xs: "\<forall>x\<in>set ?xs. 0 \<le> big_NewInt64 (distShares x) \<and> distAutobid x \<le> 100"
    using assms(1) by (simp add: payable_def)
  have nn: "0 \<le> own_shares ?a ys \<and> 0 \<le> voter_shares ?a ys" if "set ys \<subseteq> set ?xs" for ys
    using xs subsetD [OF that] by (auto simp: own_shares_def voter_shares_def intro!: sum_list_nonneg)
  have "0 \<le> big_NewInt64 (distShares s) \<and> big_NewInt64 (distShares s) \<le> own_shares ?a ?xs \<and> distAutobid s \<le> 100"
  proof (cases v3)
    case True
    obtain sh b where run: "fold (\<lambda>x (shares, autobid).
        if distAddress x = ?a then (shares + distShares x, if distAutobid x > autobid then distAutobid x else autobid)
        else (shares, autobid)) ?xs (0, 0) = (sh, b)" by fastforce
    have "own_shares ?a ?xs \<le> 1000000000"
      using assms(1) nn [of ?xs] shares_split [of ?xs ?a] by (simp add: payable_def)
    then have "uint sh = own_shares ?a ?xs \<and> b \<le> 100" "own_shares ?a ?xs \<le> 1000000000"
      using own_shares_fold [OF run xs] by simp_all
    moreover have "distShares s = sh" "distAutobid s = b"
      using assms(2) True by (auto simp: self_distributor_def getSelfDistributorV3_def run split: if_splits)
    ultimately show ?thesis using nn [of ?xs] by (simp add: big_NewInt64_def sint_small)
  next
    case False
    then obtain ys zs where ys: "?xs = ys @ s # zs" "distAddress s = ?a"
      using assms(2) by (auto simp: self_distributor_def getSelfDistributor_def find_Some_iff)
        (metis id_take_nth_drop)
    then have "own_shares ?a ?xs = own_shares ?a ys + big_NewInt64 (distShares s) + own_shares ?a zs"
      by (simp add: own_shares_def)
    moreover have "0 \<le> own_shares ?a ys" "0 \<le> own_shares ?a zs" using nn [of ys] nn [of zs] ys by auto
    ultimately show ?thesis using xs ys by auto
  qed
  then show "0 \<le> big_NewInt64 (distShares s)" "big_NewInt64 (distShares s) \<le> own_shares ?a ?xs"
    "distAutobid s \<le> 100" by simp_all
qed

text \<open>The part of an amount that goes to the auction: between nothing and all of it.\<close>

lemma autobid_part:
  assumes "0 \<le> x" "r \<le> (100 :: uint8)"
  shows "0 \<le> big_Div (x * uint r) 100" "big_Div (x * uint r) 100 \<le> x"
proof -
  have r: "uint r \<le> 100" using assms(2) by (simp add: word_le_def)
  show "0 \<le> big_Div (x * uint r) 100" using assms(1) by (simp add: big_Div_nonneg)
  have "x * uint r < 100 * (x + 1)" using mult_left_mono [OF r assms(1)] by simp
  then show "big_Div (x * uint r) 100 \<le> x" by (subst big_Div_le_iff) simp_all
qed

lemma pay_voters:
  assumes "\<forall>x\<in>set xs. 0 \<le> big_NewInt64 (distShares x) \<and> distAutobid x \<le> 100" "0 \<le> actual"
    and "rewards_nonneg m" "reward_map_wf m"
  shows "reward_total (fold (pay_voter actual a) xs m) = reward_total m +
      (\<Sum>x\<leftarrow>xs. big_Div (actual * (if distAddress x = a then 0 else big_NewInt64 (distShares x))) 1000000000) \<and>
    rewards_nonneg (fold (pay_voter actual a) xs m) \<and> reward_map_wf (fold (pay_voter actual a) xs m)"
  using assms
proof (induction xs arbitrary: m)
  case (Cons x xs)
  let ?v = "big_Div (actual * big_NewInt64 (distShares x)) 1000000000"
  have v: "0 \<le> ?v" using Cons.prems(1,2) by (simp add: big_Div_nonneg)
  have "rewards_nonneg (pay_voter actual a x m)" "reward_map_wf (pay_voter actual a x m)"
    using Cons.prems autobid_part [OF v, of "distAutobid x"]
    by (auto simp: pay_voter_def Let_def reward_map_wf_Add intro!: rewards_nonneg_Add)
  moreover have "reward_total (pay_voter actual a x m) = reward_total m +
      big_Div (actual * (if distAddress x = a then 0 else big_NewInt64 (distShares x))) 1000000000"
    by (simp add: pay_voter_def Let_def big_Div_def)
  ultimately show ?case using Cons.IH [of "pay_voter actual a x m"] Cons.prems(1,2) by simp
qed simp

text \<open>A delegate and its voters together receive no more than base and proportional reward.\<close>

lemma pay_delegate_total:
  assumes d: "payable d" and base: "0 \<le> base" and rewards: "0 \<le> rewards" and sum: "0 < vpSum"
    and m: "rewards_nonneg m" "reward_map_wf m"
  defines "each \<equiv> big_Div (rewards * big_NewInt64 (tdVotingPower d)) vpSum"
  shows "reward_total (pay_delegate v3 base rewards vpSum d m) \<le> reward_total m + base + each"
    "reward_total m \<le> reward_total (pay_delegate v3 base rewards vpSum d m)"
    "rewards_nonneg (pay_delegate v3 base rewards vpSum d m)"
    "reward_map_wf (pay_delegate v3 base rewards vpSum d m)"
proof -
  let ?a = "tdAddress d" and ?xs = "tdDistList d"
  define commission where "commission = big_Div (each * big_NewInt64 (tdCommission d)) 1000000000"
  define actual where "actual = each - commission"
  define portion where "portion s = big_Div (actual * big_NewInt64 (distShares s)) 1000000000" for s :: Distributor
  define m' where "m' = (case self_distributor v3 d of None \<Rightarrow> m
      | Some s \<Rightarrow> let self = base + commission + portion s; autobid = big_Div (self * uint (distAutobid s)) 100
                  in RewardMap_Add (self - autobid) autobid ?a m)"
  have pay: "pay_delegate v3 base rewards vpSum d m = fold (pay_voter actual ?a) ?xs m'"
    unfolding pay_delegate_def m'_def portion_def actual_def commission_def each_def Let_def by (rule refl)
  have d': "0 \<le> big_NewInt64 (tdVotingPower d)" "0 \<le> big_NewInt64 (tdCommission d)"
    "big_NewInt64 (tdCommission d) \<le> 1000000000"
    "\<forall>x\<in>set ?xs. 0 \<le> big_NewInt64 (distShares x) \<and> distAutobid x \<le> 100"
    "own_shares ?a ?xs + voter_shares ?a ?xs \<le> 1000000000"
    using d shares_split [of ?xs ?a] by (simp_all add: payable_def)
  have each: "0 \<le> each" using rewards d'(1) sum by (simp add: each_def big_Div_nonneg)
  have com: "0 \<le> commission" "commission \<le> each"
    using shares_bounds [of "[tdCommission d]" big_NewInt64 each 1000000000] each d'(2,3)
    by (simp_all add: commission_def)
  then have actual: "0 \<le> actual" by (simp add: actual_def)
  have portion: "0 \<le> portion s" if "self_distributor v3 d = Some s" for s
    using self_distributor_share(1) [OF d that] actual by (simp add: portion_def big_Div_nonneg)
  have m': "rewards_nonneg m'" "reward_map_wf m'"
    "reward_total m' = reward_total m + (case self_distributor v3 d of None \<Rightarrow> 0 | Some s \<Rightarrow> base + commission + portion s)"
    using m portion com(1) base self_distributor_share(3) [OF d]
      autobid_part [of "base + commission + portion s" for s]
    by (auto simp: m'_def Let_def reward_map_wf_Add split: option.splits intro!: rewards_nonneg_Add)
  let ?vs = "\<Sum>x\<leftarrow>?xs. big_Div (actual * (if distAddress x = ?a then 0 else big_NewInt64 (distShares x))) 1000000000"
  note run = pay_voters [OF d'(4) actual m'(1,2), of ?a]
  show "rewards_nonneg (pay_delegate v3 base rewards vpSum d m)"
    "reward_map_wf (pay_delegate v3 base rewards vpSum d m)"
    using run by (simp_all add: pay)
  define ws where "ws = map (\<lambda>x. if distAddress x = ?a then 0 else big_NewInt64 (distShares x)) ?xs"
  have ws: "?vs = (\<Sum>w\<leftarrow>ws. big_Div (actual * w) 1000000000)" "sum_list ws = voter_shares ?a ?xs" "\<forall>w\<in>set ws. 0 \<le> w"
    using d'(4) by (auto simp: ws_def voter_shares_def comp_def)
  have own: "0 \<le> own_shares ?a ?xs" using d'(4) by (auto simp: own_shares_def intro!: sum_list_nonneg)
  have vs: "0 \<le> ?vs" "?vs \<le> actual"
    using shares_bounds [of ws "\<lambda>w. w" actual 1000000000] ws actual d'(5) own by simp_all
  have both: "portion s + ?vs \<le> actual" if "self_distributor v3 d = Some s" for s
    using shares_bounds(2) [of "big_NewInt64 (distShares s) # ws" "\<lambda>w. w" actual 1000000000] ws actual d'(5)
      self_distributor_share(1,2) [OF d that] by (simp add: portion_def)
  show "reward_total (pay_delegate v3 base rewards vpSum d m) \<le> reward_total m + base + each"
    "reward_total m \<le> reward_total (pay_delegate v3 base rewards vpSum d m)"
    using run m'(3) both vs portion com base by (auto simp: pay actual_def split: option.splits)
qed

text \<open>What one address receives.\<close>

definition paid :: "address \<Rightarrow> RewardMap \<Rightarrow> int" where
  "paid a m = (case map_of m a of None \<Rightarrow> 0 | Some info \<Rightarrow> riv2DistAmount info + riv2AutobidAmount info)"

lemma paid_Add: "paid a (RewardMap_Add dist autobid k m) = paid a m + (if k = a then dist + autobid else 0)"
  by (induction m) (auto simp: paid_def)

lemma paid_pay_voters:
  assumes "\<forall>x\<in>set xs. 0 \<le> big_NewInt64 (distShares x)" "0 \<le> actual"
  shows "paid a m \<le> paid a (fold (pay_voter actual b) xs m)"
  using assms
proof (induction xs arbitrary: m)
  case (Cons x xs)
  have "paid a m \<le> paid a (pay_voter actual b x m)"
    using Cons.prems by (simp add: pay_voter_def Let_def paid_Add big_Div_nonneg)
  then show ?case using Cons.IH [of "pay_voter actual b x m"] Cons.prems by simp
qed simp

lemma paid_pay_delegate:
  assumes d: "payable d" and nn: "0 \<le> base" "0 \<le> rewards" "0 < vpSum"
  shows "paid a m + (if tdAddress d = a \<and> self_distributor v3 d \<noteq> None then base else 0)
    \<le> paid a (pay_delegate v3 base rewards vpSum d m)"
proof -
  define each where "each = big_Div (rewards * big_NewInt64 (tdVotingPower d)) vpSum"
  define commission where "commission = big_Div (each * big_NewInt64 (tdCommission d)) 1000000000"
  define m' where "m' = (case self_distributor v3 d of None \<Rightarrow> m
      | Some s \<Rightarrow> let self = base + commission + big_Div ((each - commission) * big_NewInt64 (distShares s)) 1000000000;
                      autobid = big_Div (self * uint (distAutobid s)) 100
                  in RewardMap_Add (self - autobid) autobid (tdAddress d) m)"
  have pay: "pay_delegate v3 base rewards vpSum d m = fold (pay_voter (each - commission) (tdAddress d)) (tdDistList d) m'"
    unfolding pay_delegate_def m'_def commission_def each_def Let_def by (rule refl)
  have "0 \<le> each" using d nn by (simp add: each_def big_Div_nonneg payable_def)
  then have com: "0 \<le> commission" "commission \<le> each"
    using shares_bounds [of "[tdCommission d]" big_NewInt64 each 1000000000] d
    by (simp_all add: commission_def payable_def)
  have "0 \<le> big_Div ((each - commission) * big_NewInt64 (distShares s)) 1000000000" if "self_distributor v3 d = Some s" for s
    using self_distributor_share(1) [OF d that] com by (simp add: big_Div_nonneg)
  then have "paid a m + (if tdAddress d = a \<and> self_distributor v3 d \<noteq> None then base else 0) \<le> paid a m'"
    using com(1) nn(1) by (auto simp: m'_def Let_def paid_Add split: option.splits)
  also have "\<dots> \<le> paid a (pay_delegate v3 base rewards vpSum d m)"
    unfolding pay using d com(2) by (intro paid_pay_voters) (simp_all add: payable_def)
  finally show ?thesis .
qed

text \<open>An epoch with more than the base rewards to distribute.\<close>

lemma pay_delegates:
  fixes v3 :: bool
  assumes "\<forall>d\<in>set ds. payable d" "0 \<le> base" "0 \<le> rewards" "0 < vpSum" "rewards_nonneg m" "reward_map_wf m"
  defines "m' \<equiv> fold (pay_delegate v3 base rewards vpSum) ds m"
  shows "reward_total m' \<le> reward_total m + base * int (length ds) +
      (\<Sum>d\<leftarrow>ds. big_Div (rewards * big_NewInt64 (tdVotingPower d)) vpSum) \<and>
    rewards_nonneg m' \<and> reward_map_wf m' \<and> paid a m \<le> paid a m' \<and>
    (\<forall>d\<in>set ds. self_distributor v3 d \<noteq> None \<longrightarrow> base \<le> paid (tdAddress d) m' - paid (tdAddress d) m)"
  using assms(1,5,6) unfolding m'_def
proof (induction ds arbitrary: m a)
  case (Cons d ds)
  let ?m = "pay_delegate v3 base rewards vpSum d m"
  have d: "payable d" using Cons.prems(1) by simp
  note one = pay_delegate_total [OF d assms(2-4) Cons.prems(2,3), of v3]
  note IH = Cons.IH [OF _ one(3,4)]
  have mono: "paid x m \<le> paid x ?m" for x
    using paid_pay_delegate [OF d assms(2-4), of x m v3] assms(2) by (simp split: if_splits)
  have own: "self_distributor v3 d \<noteq> None \<Longrightarrow> paid (tdAddress d) m + base \<le> paid (tdAddress d) ?m"
    using paid_pay_delegate [OF d assms(2-4), of "tdAddress d" m v3] by simp
  have ds: "\<forall>d\<in>set ds. payable d" using Cons.prems(1) by simp
  have rest: "paid x ?m \<le> paid x (fold (pay_delegate v3 base rewards vpSum) ds ?m)" for x
    using IH [OF ds, of x] by blast
  have "\<forall>y\<in>set (d # ds). self_distributor v3 y \<noteq> None \<longrightarrow>
      base \<le> paid (tdAddress y) (fold (pay_delegate v3 base rewards vpSum) ds ?m) - paid (tdAddress y) m"
    using IH [OF ds, of 0] own rest [of "tdAddress d"] mono by (auto; smt (verit))
  then show ?case
    using IH [OF ds, of 0] rest [of a] mono [of a] one(1) by (auto simp: algebra_simps)
qed simp

text \<open>
  An epoch that pays base rewards only.  With distinct delegates no entry that shares the
  base reward is met again, so the sharing has no effect.
\<close>

definition shares_base :: "int \<Rightarrow> address list \<Rightarrow> RewardMap \<Rightarrow> bool" where
  "shares_base base shared m \<longleftrightarrow> list_all (\<lambda>x. fst x \<in> set shared \<longrightarrow> riv2DistAmount (snd x) = base) m"

lemma shares_base_resolve:
  "shares_base base shared m \<Longrightarrow>
   map (\<lambda>(k, info). (k, if k \<in> set shared then info\<lparr>riv2DistAmount := base\<rparr> else info)) m = m"
  by (induction m) (auto simp: shares_base_def)

lemma shares_base_Add:
  "shares_base base shared m \<Longrightarrow> a \<notin> set shared \<Longrightarrow> shares_base base shared (RewardMap_Add dist autobid a m)"
  by (induction m) (auto simp: shares_base_def)

lemma shares_base_Add_shared:
  "shares_base base shared m \<Longrightarrow> a \<notin> fst ` set m \<Longrightarrow> shares_base base (a # shared) (RewardMap_Add base autobid a m)"
  by (induction m) (auto simp: shares_base_def)

lemma base_loop_distinct:
  assumes "distinct (map tdAddress ds)" "tdAddress ` set ds \<inter> fst ` set m = {}" "set shared \<subseteq> fst ` set m"
    and "shares_base base shared m" "\<forall>d\<in>set ds. payable d" "0 \<le> base" "rewards_nonneg m" "reward_map_wf m"
  shows "reward_total (base_loop v3 ds base shared m) = reward_total m + base * int (length ds) \<and>
    rewards_nonneg (base_loop v3 ds base shared m) \<and> reward_map_wf (base_loop v3 ds base shared m) \<and>
    (\<forall>a. paid a (base_loop v3 ds base shared m) = paid a m + (if a \<in> tdAddress ` set ds then base else 0))"
  using assms
proof (induction ds arbitrary: shared m)
  case Nil
  then show ?case by (simp add: shares_base_resolve)
next
  case (Cons d ds)
  let ?a = "tdAddress d"
  have a: "?a \<notin> fst ` set m" "?a \<notin> set shared" "?a \<notin> tdAddress ` set ds" using Cons.prems(1-3) by auto
  have d: "payable d" using Cons.prems(5) by simp
  define autobid where "autobid = (case self_distributor v3 d of None \<Rightarrow> 0 | Some s \<Rightarrow> big_Div (base * uint (distAutobid s)) 100)"
  define sh where "sh = (if self_distributor v3 d = None then ?a # shared else shared)"
  let ?m = "RewardMap_Add (base - autobid) autobid ?a m"
  have autobid: "0 \<le> autobid" "autobid \<le> base"
    using autobid_part [OF Cons.prems(6)] self_distributor_share(3) [OF d] Cons.prems(6)
    by (auto simp: autobid_def split: option.splits)
  have step: "base_loop v3 (d # ds) base shared m = base_loop v3 ds base sh ?m"
    using a by (auto simp: Let_def autobid_def sh_def split: option.splits)
  have "shares_base base sh ?m"
    using shares_base_Add [OF Cons.prems(4) a(2)] shares_base_Add_shared [OF Cons.prems(4) a(1)]
    by (auto simp: sh_def autobid_def split: option.splits)
  then have "reward_total (base_loop v3 ds base sh ?m) = reward_total ?m + base * int (length ds) \<and>
    rewards_nonneg (base_loop v3 ds base sh ?m) \<and> reward_map_wf (base_loop v3 ds base sh ?m) \<and>
    (\<forall>a. paid a (base_loop v3 ds base sh ?m) = paid a ?m + (if a \<in> tdAddress ` set ds then base else 0))"
    using Cons.prems a autobid
    by (intro Cons.IH) (auto simp: sh_def intro!: rewards_nonneg_Add reward_map_wf_Add)
  then show ?case unfolding step using a(3) by (auto simp: paid_Add algebra_simps)
qed

lemma ComputeRewardMap_pays:
  assumes ok: "\<forall>d\<in>set ds. payable d" "distinct (map tdAddress ds)" and nn: "0 \<le> base" "0 \<le> amount"
    and power: "ds \<noteq> [] \<Longrightarrow> 0 < (\<Sum>d\<leftarrow>ds. big_NewInt64 (tdVotingPower d))"
  obtains m where "ComputeRewardMap base amount ds v3 = Inr m" "reward_map_wf m" "rewards_nonneg m"
    "reward_total m \<le> amount"
    "\<forall>d\<in>set ds. self_distributor v3 d \<noteq> None \<longrightarrow> min base (big_Div amount (int (length ds))) \<le> paid (tdAddress d) m"
proof -
  have empty: "rewards_nonneg []" "reward_map_wf []" "reward_total [] = 0" "paid a [] = 0" for a
    by (simp_all add: rewards_nonneg_def reward_map_wf_def reward_total_def paid_def)
  consider "ds = []" | "ds \<noteq> []" "base * int (length ds) \<ge> amount" | "ds \<noteq> []" "base * int (length ds) < amount" by linarith
  then show thesis
  proof cases
    case 1
    then show thesis using that [of "[]"] empty nn by (simp add: ComputeRewardMap_def)
  next
    case 2
    let ?b = "big_Div amount (int (length ds))"
    have b: "0 \<le> ?b" "?b * int (length ds) \<le> amount"
      using 2 nn(2) big_Div_bounds(1) [of "int (length ds)" amount] by (simp_all add: big_Div_nonneg)
    let ?m = "base_loop v3 ds ?b [] []"
    have run: "ComputeRewardMap base amount ds v3 = Inr ?m" using 2 by (simp add: ComputeRewardMap_def Let_def)
    have m: "reward_total ?m = ?b * int (length ds) \<and> rewards_nonneg ?m \<and> reward_map_wf ?m \<and>
        (\<forall>a. paid a ?m = (if a \<in> tdAddress ` set ds then ?b else 0))"
      using base_loop_distinct [of ds "[]" "[]" ?b v3] ok empty b(1) by (simp add: shares_base_def)
    show thesis by (rule that [OF run]) (use m b(2) in \<open>auto\<close>)
  next
    case 3
    let ?vp = "\<Sum>d\<leftarrow>ds. big_NewInt64 (tdVotingPower d)" and ?r = "amount - base * int (length ds)"
    have b: "big_Div (base * int (length ds)) (int (length ds)) = base" using 3 by (simp add: big_Div_def)
    have vp: "0 < ?vp" using power 3 by simp
    have "(\<Sum>d\<leftarrow>ds. big_Div (?r * big_NewInt64 (tdVotingPower d)) ?vp) \<le> ?r"
      using shares_bounds(2) [of ds "\<lambda>d. big_NewInt64 (tdVotingPower d)" ?r ?vp] 3 vp ok(1) by (simp add: payable_def)
    moreover have run: "ComputeRewardMap base amount ds v3 = Inr (fold (pay_delegate v3 base ?r ?vp) ds [])"
      using 3 vp b by (simp add: ComputeRewardMap_def Let_def)
    moreover have "reward_total (fold (pay_delegate v3 base ?r ?vp) ds []) \<le> base * int (length ds) +
        (\<Sum>d\<leftarrow>ds. big_Div (?r * big_NewInt64 (tdVotingPower d)) ?vp) \<and>
      rewards_nonneg (fold (pay_delegate v3 base ?r ?vp) ds []) \<and>
      reward_map_wf (fold (pay_delegate v3 base ?r ?vp) ds []) \<and>
      (\<forall>d\<in>set ds. self_distributor v3 d \<noteq> None \<longrightarrow> base \<le> paid (tdAddress d) (fold (pay_delegate v3 base ?r ?vp) ds []))"
      using pay_delegates [OF ok(1) nn(1) _ vp empty(1,2), of ?r v3 0] 3 empty(3,4) by simp
    ultimately show thesis by (intro that [OF run]) (simp_all add: min.coboundedI1)
  qed
qed

end
