(* ===== verification/Governor_Properties.thy ===== *)
theory Governor_Properties
  imports Governor_Rewards Staking_Chain
begin

text \<open>
  The properties of the rewards of validators: what an epoch pays out when the
  delegates are those the staking module elected, and the list of rewards that the
  governing transaction carries.
\<close>

section \<open>Rewards of elected delegates\<close>

lemma int64_div:
  assumes "0 \<le> x" "x < 2 ^ 63 * 10 ^ 12"
  shows "big_NewInt64 (word_of_int (big_Div x (10 ^ 12))) = big_Div x (10 ^ 12)"
proof -
  have b: "0 \<le> big_Div x (10 ^ 12)" "big_Div x (10 ^ 12) < 2 ^ 63"
    using assms big_Div_nonneg [of x "10 ^ 12"] by (simp_all add: big_Div_def div_less_iff_less_mult)
  then have "uint (word_of_int (big_Div x (10 ^ 12)) :: uint64) = big_Div x (10 ^ 12)"
    by (simp add: uint_word_of_int_eq take_bit_int_eq_self_iff)
  then show ?thesis using b by (simp add: big_NewInt64_def sint_small)
qed

text \<open>
  The bounds that the handlers check when they store a bucket or a candidate, and votes that
  fit into the 64-bit voting power.
\<close>

definition in_range :: "State \<Rightarrow> bool" where
  "in_range s \<longleftrightarrow>
     (\<forall>c\<in>set (candidateSlot s). cCommission c \<le> COMMISSION_RATE_MAX \<and> cTotalVotes c < 2 ^ 63 * 10 ^ 12) \<and>
     (\<forall>b\<in>set (bucketSlot s). Autobid b \<le> 100)"

lemma elected_payable:
  assumes books: "books X (bucketSlot s) (candidateSlot s) sl bound" and range: "in_range s" and min: "10 ^ 12 \<le> minRequire"
    and d: "d \<in> set (elected minRequire (bucketSlot s) (candidateSlot s) jl)"
  shows "payable (types_delegate split d) \<and> 0 < big_NewInt64 (tdVotingPower (types_delegate split d))"
proof -
  let ?t = "types_delegate split d"
  note conv = types_delegate_def
  obtain c where c: "c \<in> set (candidateSlot s)" "minRequire \<le> cTotalVotes c" "d = delegate_of (bucketSlot s) c"
    using d by (auto simp: elected_def eligible_def)
  have pos: "0 < cTotalVotes c" using c(2) min by simp
  have wf: "BucketList_wf (bucketSlot s)" using books coreD(4) by (auto simp: books_def)
  note sh = delegate_of_shares [OF books c(1) pos]
  have vp: "big_NewInt64 (tdVotingPower ?t) = big_Div (cTotalVotes c) (10 ^ 12)"
    using int64_div [of "cTotalVotes c"] pos range c by (simp add: conv in_range_def delegate_of_def)
  moreover have "0 < big_Div (cTotalVotes c) (10 ^ 12)"
    using c(2) min by (simp add: big_Div_def pos_imp_zdiv_pos_iff)
  moreover have "cCommission c \<le> 1000000000" using range c(1) by (simp add: in_range_def COMMISSION_RATE_MAX_def)
  then have "uint (tdCommission ?t) \<le> 1000000000" using c(3) by (simp add: conv delegate_of_def word_le_def)
  then have "0 \<le> big_NewInt64 (tdCommission ?t) \<and> big_NewInt64 (tdCommission ?t) \<le> 1000000000"
    by (simp add: big_NewInt64_def sint_small)
  moreover have "distAutobid x \<le> 100" if x: "x \<in> set (dlgDistList d)" for x
  proof -
    obtain i where i: "i \<in> set (cBuckets c)" "x = distributor_of (cTotalVotes c) (the (BucketList_Get i (bucketSlot s)))"
      using x c(3) by (auto simp: delegate_of_def)
    obtain b where "BucketList_Get i (bucketSlot s) = Some b" using listed_buckets(1) [OF books] c(1) i(1) by blast
    then show ?thesis
      using i(2) range bl.get_in_set [OF wf] by (auto simp: distributor_of_def NewDistributor_def in_range_def)
  qed
  ultimately show ?thesis
    using sh by (auto simp: payable_def conv c(3) convertDistList_def total_shares_def comp_def)
qed

text \<open>
  C13. The rewards of an epoch for the delegates that the election stores.  For a reachable state
  whose parameters are in range, the computation for any committee succeeds.  Every
  amount is non-negative, each address has one entry, and all amounts together are at most
  the epoch's total.  A committee member that votes for itself receives at least the base
  reward, or an equal part of the total where that is less.
\<close>

theorem validator_rewards:
  fixes committee :: "Validator list" and splitPubKey :: "bytes \<Rightarrow> bytes"
  assumes "staking_reachable X (envState e)" "in_range (envState e)" "length (bucketSlot (envState e)) \<le> 1000000000"
    and "10 ^ 12 \<le> Params_Get KeyMinRequiredByDelegate (envState e)" "0 \<le> baseReward" "0 \<le> totalRewards"
    and "calcDelegates e (bucketSlot (envState e)) (candidateSlot (envState e)) (inJailSlot (envState e)) = Inr e'"
  defines "members \<equiv> member_delegates (getDelegatesFromStaking splitPubKey (envState e')) committee"
  shows "\<exists>m. ComputeRewardMapV3 baseReward totalRewards (getDelegatesFromStaking splitPubKey (envState e')) committee = Inr m \<and>
    distinct (map fst m) \<and> (\<forall>x\<in>set m. 0 \<le> riv2DistAmount (snd x) \<and> 0 \<le> riv2AutobidAmount (snd x)) \<and>
    (\<Sum>x\<leftarrow>m. riv2DistAmount (snd x) + riv2AutobidAmount (snd x)) \<le> totalRewards \<and>
    (\<forall>d\<in>set members. getSelfDistributorV3 d \<noteq> None \<longrightarrow>
       min baseReward (big_Div totalRewards (int (length members))) \<le> paid (tdAddress d) m)"
proof -
  let ?s = "envState e"
  let ?D = "elected (Params_Get KeyMinRequiredByDelegate ?s) (bucketSlot ?s) (candidateSlot ?s) (inJailSlot ?s)"
  have books: "books X (bucketSlot ?s) (candidateSlot ?s) (stakeholderSlot ?s) (bounds ?s)"
    using staking_reachable_inv [OF assms(1)] by (simp add: staking_inv_def)
  have pos: "0 < Params_Get KeyMinRequiredByDelegate ?s" using assms(4) by simp
  have D: "GetDelegateList (envState e') = ?D"
    using assms(7) [unfolded calcDelegates_run [OF books pos], THEN sum.inject(2) [THEN iffD1], symmetric]
    by (simp add: GetDelegateList_def)
  have sub: "set members \<subseteq> set (getDelegatesFromStaking splitPubKey (envState e'))"
    by (auto simp: members_def member_delegates_def)
  have pay: "payable d \<and> 0 < big_NewInt64 (tdVotingPower d)" if "d \<in> set members" for d
    using subsetD [OF sub that] elected_payable [OF books assms(2,4)] by (auto simp: getDelegatesFromStaking_def D)
  have "distinct (map tdAddress (getDelegatesFromStaking splitPubKey (envState e')))"
    using elected_ok [OF books pos assms(3)] by (simp add: getDelegatesFromStaking_def D delegates_ok_def comp_def types_delegate_def)
  then have dist: "distinct (map tdAddress members)" by (simp add: members_def member_delegates_def distinct_map_filter)
  have vp: "members \<noteq> [] \<Longrightarrow> 0 < (\<Sum>d\<leftarrow>members. big_NewInt64 (tdVotingPower d))"
    using sum_list_pos [of members "\<lambda>d. big_NewInt64 (tdVotingPower d)"] pay by simp
  have pays: "\<forall>d\<in>set members. payable d" using pay by simp
  obtain m where m: "ComputeRewardMap baseReward totalRewards members True = Inr m" "reward_map_wf m" "rewards_nonneg m"
    "reward_total m \<le> totalRewards"
    "\<forall>d\<in>set members. self_distributor True d \<noteq> None \<longrightarrow>
       min baseReward (big_Div totalRewards (int (length members))) \<le> paid (tdAddress d) m"
    by (rule ComputeRewardMap_pays [OF pays dist assms(5,6) vp, of True])
  have "\<forall>d\<in>set members. getSelfDistributorV3 d \<noteq> None \<longrightarrow>
      min baseReward (big_Div totalRewards (int (length members))) \<le> paid (tdAddress d) m"
    using m(5) unfolding self_distributor_def by simp
  moreover have "ComputeRewardMapV3 baseReward totalRewards (getDelegatesFromStaking splitPubKey (envState e')) committee = Inr m"
    using m(1) unfolding ComputeRewardMapV3_def members_def .
  ultimately show ?thesis
    using m(2-4) unfolding reward_map_wf_def rewards_nonneg_def reward_total_def list_all_iff by blast
qed

theorem validator_rewards_witness:
  "\<exists>e' m. calcDelegates (ex_env 0 1800000000 ex_s3) (bucketSlot ex_s3) (candidateSlot ex_s3) (inJailSlot ex_s3) = Inr e' \<and>
     ComputeRewardMapV3 100 1000 (getDelegatesFromStaking (\<lambda>k. k) (envState e'))
       [\<lparr>vName = [], vAddress = 5, vPubKey = [97, 58, 58, 58, 98]\<rparr>] = Inr m \<and>
     (\<Sum>x\<leftarrow>m. riv2DistAmount (snd x) + riv2AutobidAmount (snd x)) \<le> 1000"
proof -
  let ?e = "ex_env 0 1800000000 ex_s3"
  have e: "envState ?e = ex_s3" by (simp add: ex_env_def)
  have ok: "in_range ex_s3" "length (bucketSlot ex_s3) \<le> 1000000000"
      "10 ^ 12 \<le> Params_Get KeyMinRequiredByDelegate ex_s3"
    by (simp_all add: in_range_def ex_s3_def ex_state_def ex_c5_def ex_b5_def ex_b6'_def ex_b6_def COMMISSION_RATE_MAX_def
        Params_Get_def)
  have books: "books ex_X (bucketSlot ex_s3) (candidateSlot ex_s3) (stakeholderSlot ex_s3) (bounds ex_s3)"
    using staking_reachable_inv [OF ex_reachable3] by (simp add: staking_inv_def)
  have "0 < Params_Get KeyMinRequiredByDelegate (envState ?e)" using ok(3) by (simp add: e)
  then obtain e' where run: "calcDelegates ?e (bucketSlot ex_s3) (candidateSlot ex_s3) (inJailSlot ex_s3) = Inr e'"
    using calcDelegates_run [OF books] by blast
  let ?committee = "[\<lparr>vName = [], vAddress = 5, vPubKey = [97, 58, 58, 58, 98]\<rparr>]"
  have "(0 :: int) \<le> 100" "(0 :: int) \<le> 1000" by simp_all
  from validator_rewards [of ex_X ?e 100 1000 e' "\<lambda>k. k" ?committee, unfolded e, OF ex_reachable3 ok this run]
  show ?thesis using run by blast
qed

section \<open>The list of rewards\<close>

text \<open>
  C25. The list of rewards that validators put into the governing transaction does not depend on
  the order in which Go visits the map: it holds the entries of the map in ascending
  order of their addresses, so all validators of a committee build the same list.
\<close>

theorem ToList_deterministic:
  assumes "distinct (map fst m)" "\<forall>x\<in>set m. riv2Address (snd x) = fst x" "mset visit = mset m"
  shows "snd (snd (ToList visit)) = snd (snd (ToList m)) \<and> mset (snd (snd (ToList visit))) = mset (map snd m) \<and>
    sorted_wrt (\<lambda>x y. riv2Address x < riv2Address y) (snd (snd (ToList visit)))"
proof -
  define xs where "xs v = sort_SliceStable (\<lambda>x y. riv2Address x \<le> riv2Address y) (map snd v)" for v :: RewardMap
  have xs: "snd (snd (ToList v)) = xs v" for v by (simp add: ToList_def xs_def split_beta)
  have M: "mset (xs v) = mset (map snd v)" for v by (simp add: xs_def)
  have S: "sorted (map riv2Address (xs v))" for v
    using sort_SliceStable_sorted_wrt [of "\<lambda>x y. riv2Address x \<le> riv2Address y" riv2Address "map snd v"]
    by (simp add: xs_def sorted_map)
  have same: "mset (xs visit) = mset (xs m)" using assms(3) by (simp add: M)
  have addr: "map (riv2Address \<circ> snd) m = map fst m" using assms(2) by simp
  have "mset (map riv2Address (xs m)) = mset (map fst m)"
    unfolding addr [symmetric] by (simp add: M flip: multiset.map_comp)
  then have D: "distinct (map riv2Address (xs m))"
    using assms(1) mset_eq_imp_distinct_iff by blast
  have D': "distinct (map riv2Address (xs visit))"
    using D mset_eq_imp_distinct_iff [of "map riv2Address (xs visit)" "map riv2Address (xs m)"] same by simp
  have "inj_on riv2Address (set (xs visit) \<union> set (xs m))"
    using D mset_eq_setD [OF same] by (simp add: distinct_map)
  then have "xs visit = xs m"
    using map_sorted_distinct_set_unique [OF _ S D' S D] mset_eq_setD [OF same] by blast
  moreover have "sorted_wrt (\<lambda>x y. riv2Address x < riv2Address y) (xs m)"
    using S [of m] D strict_sorted_iff [of "map riv2Address (xs m)"] by (simp add: sorted_wrt_map)
  ultimately show ?thesis using M [of m] by (simp add: xs)
qed

definition ex_reward :: "address \<Rightarrow> int \<Rightarrow> int \<Rightarrow> address \<times> RewardInfoV2" where
  "ex_reward a d b = (a, \<lparr>riv2Address = a, riv2DistAmount = d, riv2AutobidAmount = b\<rparr>)"

theorem ToList_deterministic_witness:
  "snd (snd (ToList [ex_reward 9 1 0, ex_reward 4 2 3])) = snd (snd (ToList [ex_reward 4 2 3, ex_reward 9 1 0]))"
  using ToList_deterministic [of "[ex_reward 4 2 3, ex_reward 9 1 0]" "[ex_reward 9 1 0, ex_reward 4 2 3]"]
  by (simp add: ex_reward_def)

text \<open>
  C30. The two totals that \<^verbatim>\<open>ToList\<close> returns beside the list are not the totals of the
  distributed and the autobid amounts: they are always the same number, the sum of all
  amounts without the distributed amount of the entry visited first.
\<close>

theorem ToList_sums_shared:
  "fst (ToList ((k, info) # visit)) = reward_total ((k, info) # visit) - riv2DistAmount info \<and>
   fst (snd (ToList ((k, info) # visit))) = reward_total ((k, info) # visit) - riv2DistAmount info"
proof -
  have "ToList_sums v (Some r) = (r + reward_total v, r + reward_total v)" for v r
    by (induction v arbitrary: r) (auto simp: reward_total_def Let_def)
  then show ?thesis by (simp add: ToList_def reward_total_def split_beta Let_def)
qed

end
