(* ===== verification/Transactions.thy ===== *)
theory Transactions
  imports Chain_Config Script_Env
begin

text \<open>
  Transactions (package \<^verbatim>\<open>tx\<close>): clauses and bodies, the block reference and expiration,
  the recognition of wrapped Ethereum transactions, the intrinsic gas, and the gas price
  with the bonus for proved work.  Hashes and signature recovery are parameters, and so
  is the checked arithmetic \<^verbatim>\<open>math.SafeAdd\<close>, \<^verbatim>\<open>math.SafeMul\<close> of go-ethereum.
\<close>

section \<open>Clauses and bodies\<close>

record Clause =
  clTo :: "address option"
  clValue :: int
  clToken :: uint8
  clData :: bytes

definition NewClause :: "address option \<Rightarrow> Clause" where
  "NewClause to = \<lparr>clTo = to, clValue = 0, clToken = 0, clData = []\<rparr>"

definition WithValue :: "int \<Rightarrow> Clause \<Rightarrow> Clause" where
  "WithValue v c = c\<lparr>clValue := v\<rparr>"

definition WithData :: "bytes \<Rightarrow> Clause \<Rightarrow> Clause" where
  "WithData d c = c\<lparr>clData := d\<rparr>"

definition WithToken :: "uint8 \<Rightarrow> Clause \<Rightarrow> Clause" where
  "WithToken t c = c\<lparr>clToken := t\<rparr>"

definition IsCreatingContract :: "Clause \<Rightarrow> bool" where
  "IsCreatingContract c = (clTo c = None)"

text \<open>
  A reserved field is an \<^verbatim>\<open>interface{}\<close>: RLP decodes a string as a byte slice and a list as
  a slice of interfaces.
\<close>

datatype reserved = RBytes bytes | RList "reserved list"

record TxBody =
  txbChainTag :: uint8
  txbBlockRef :: uint64
  txbExpiration :: uint32
  txbClauses :: "Clause list"
  txbGasPriceCoef :: uint8
  txbGas :: uint64
  txbDependsOn :: "bytes32 option"
  txbNonce :: uint64
  txbReserved :: "reserved list"
  txbSignature :: bytes

section \<open>Block references\<close>

text \<open>A block reference is the 8-byte array read as a big-endian number.\<close>

definition BlockRef_Number :: "uint64 \<Rightarrow> uint32" where
  "BlockRef_Number br = ucast (drop_bit 32 br)"

definition NewBlockRef :: "uint32 \<Rightarrow> uint64" where
  "NewBlockRef blockNum = push_bit 32 (ucast blockNum)"

definition NewBlockRefFromID :: "bytes32 \<Rightarrow> uint64" where
  "NewBlockRefFromID blockID = ucast (drop_bit 192 blockID)"

definition IsExpired :: "uint32 \<Rightarrow> TxBody \<Rightarrow> bool" where
  "IsExpired blockNum t =
     ((ucast blockNum :: uint64) > ucast (BlockRef_Number (txbBlockRef t)) + ucast (txbExpiration t))"

section \<open>Wrapped Ethereum transactions\<close>

definition RESERVED_PREFIX :: bytes where "RESERVED_PREFIX = [0xee, 0xff]"

text \<open>The type assertion \<^verbatim>\<open>x.([]byte)\<close>.\<close>

fun as_bytes :: "reserved \<Rightarrow> bytes go" where
  "as_bytes (RBytes b) = Inr b"
| "as_bytes (RList _) = Inl TypeAssertion"

definition first_byte :: "bytes \<Rightarrow> uint8 go" where
  "first_byte b = (case b of [] \<Rightarrow> Inl IndexOutOfRange | x # _ \<Rightarrow> Inr x)"

definition IsEthTx :: "TxBody \<Rightarrow> bool go" where
  "IsEthTx t =
     (if length (txbReserved t) \<noteq> 3 then Inr False
      else
        go_bind (as_bytes (txbReserved t ! 0)) (\<lambda>prefix.
        go_bind (as_bytes (txbReserved t ! 2)) (\<lambda>raw.
        go_bind (first_byte raw) (\<lambda>ty.
          let sigLen65 = (length (txbSignature t) \<ge> 65);
              sigLen64 = (length (txbSignature t) \<ge> 64);
              typedTx = (ty > 0 \<and> ty < 3)
          in Inr (prefix = RESERVED_PREFIX \<and> (typedTx \<and> sigLen64 \<or> sigLen65))))))"

definition TxType :: "TxBody \<Rightarrow> uint8 go" where
  "TxType t =
     go_bind (IsEthTx t) (\<lambda>eth.
       if eth
       then go_bind (as_bytes (txbReserved t ! 2)) (\<lambda>raw.
              go_bind (first_byte raw) (\<lambda>ty. Inr (if ty = 1 then 1 else if ty = 2 then 2 else 0)))
       else Inr 0)"

text \<open>
  \<^verbatim>\<open>Signer\<close>.  \<open>sigToPub\<close> recovers the address of the key that signed the body; the second
  reserved field of a wrapped transaction is printed in hexadecimal and parsed again,
  which fails unless it has 20 bytes.
\<close>

definition Signer :: "(TxBody \<Rightarrow> address option) \<Rightarrow> TxBody \<Rightarrow> address option go" where
  "Signer sigToPub t =
     (if length (txbSignature t) = 0 then Inr (Some 0)
      else
        go_bind (IsEthTx t) (\<lambda>eth.
          if eth
          then go_bind (as_bytes (txbReserved t ! 1)) (\<lambda>from.
                 Inr (if length from = 20 then Some (BytesToAddress from) else None))
          else Inr (sigToPub t)))"

section \<open>Intrinsic gas\<close>

definition TxGas :: uint64 where "TxGas = 5000"
definition ClauseGasContractCreation :: uint64 where "ClauseGasContractCreation = 53000 - TxGas"
definition TxDataZeroGas :: uint64 where "TxDataZeroGas = 4"
definition TxDataNonZeroGas :: uint64 where "TxDataNonZeroGas = 68"
definition TxDataNonZeroGasEIP2028 :: uint64 where "TxDataNonZeroGasEIP2028 = 16"
definition InitCodeWordGas :: uint64 where "InitCodeWordGas = 2"
definition MaxUint64 :: uint64 where "MaxUint64 = - 1"

record math_lib =
  SafeAdd :: "uint64 \<Rightarrow> uint64 \<Rightarrow> uint64 \<times> bool"
  SafeMul :: "uint64 \<Rightarrow> uint64 \<Rightarrow> uint64 \<times> bool"

text \<open>The documented behaviour: the wrapped result and whether it overflowed.\<close>

definition safe_math :: "math_lib \<Rightarrow> bool" where
  "safe_math M \<longleftrightarrow>
     (\<forall>x y. SafeAdd M x y = (x + y, 2 ^ 64 \<le> uint x + uint y)) \<and>
     (\<forall>x y. SafeMul M x y = (x * y, 2 ^ 64 \<le> uint x * uint y))"

definition checked :: "uint64 \<times> bool \<Rightarrow> uint64 option" where
  "checked r = (if snd r then None else Some (fst r))"

definition toWordSize :: "uint64 \<Rightarrow> uint64" where
  "toWordSize n = (if n > MaxUint64 - 31 then MaxUint64 div 32 + 1 else (n + 31) div 32)"

text \<open>\<open>None\<close> is the error \<^verbatim>\<open>errIntrinsicGasOverflow\<close>.\<close>

definition dataGas :: "math_lib \<Rightarrow> bytes \<Rightarrow> bool \<Rightarrow> uint64 option" where
  "dataGas M data isEIP2028 =
     (if length data = 0 then Some 0
      else
        let z = of_nat (length (filter (\<lambda>b. b = 0) data));
            nz = of_nat (length (filter (\<lambda>b. b \<noteq> 0) data))
        in case checked (SafeMul M TxDataZeroGas z) of
             None \<Rightarrow> None
           | Some zgas \<Rightarrow>
               (case checked (SafeMul M (if isEIP2028 then TxDataNonZeroGasEIP2028 else TxDataNonZeroGas) nz) of
                  None \<Rightarrow> None
                | Some nzgas \<Rightarrow> checked (SafeAdd M zgas nzgas)))"

fun clauses_gas :: "math_lib \<Rightarrow> bool \<Rightarrow> bool \<Rightarrow> Clause list \<Rightarrow> uint64 \<Rightarrow> uint64 option" where
  "clauses_gas M isEIP2028 isEIP3860 [] gasSum = Some gasSum"
| "clauses_gas M isEIP2028 isEIP3860 (c # cs) gasSum =
     (case dataGas M (clData c) isEIP2028 of
        None \<Rightarrow> None
      | Some gas \<Rightarrow>
          (case checked (SafeAdd M gasSum gas) of
             None \<Rightarrow> None
           | Some gasSum \<Rightarrow>
               let cgas = (if IsCreatingContract c then ClauseGasContractCreation else ClauseGas)
               in case checked (SafeAdd M gasSum cgas) of
                    None \<Rightarrow> None
                  | Some gasSum \<Rightarrow>
                      if IsCreatingContract c \<and> isEIP3860 \<and>
                         (MaxUint64 - gas) div InitCodeWordGas < toWordSize (of_nat (length (clData c)))
                      then None
                      else clauses_gas M isEIP2028 isEIP3860 cs gasSum))"

definition IntrinsicGas :: "math_lib \<Rightarrow> bool \<Rightarrow> bool \<Rightarrow> Clause list \<Rightarrow> uint64 option" where
  "IntrinsicGas M isEIP2028 isEIP3860 clauses =
     (if length clauses = 0 then Some (TxGas + ClauseGas)
      else clauses_gas M isEIP2028 isEIP3860 clauses TxGas)"

definition Tx_IntrinsicGas :: "math_lib \<Rightarrow> ChainConfig \<Rightarrow> TxBody \<Rightarrow> uint64 option" where
  "Tx_IntrinsicGas M cfg t =
     (let isEIP2028 = IsTeslaFork TeslaFork11 cfg (BlockRef_Number (txbBlockRef t));
          isEIP3860 = IsTeslaFork TeslaFork11 cfg (BlockRef_Number (txbBlockRef t))
      in IntrinsicGas M isEIP2028 isEIP3860 (txbClauses t))"

section \<open>Gas price\<close>

definition GasPrice :: "int \<Rightarrow> TxBody \<Rightarrow> int" where
  "GasPrice baseGasPrice t = big_Div (uint (txbGasPriceCoef t) * baseGasPrice) 255 + baseGasPrice"

definition BlockInterval :: uint64 where "BlockInterval = 10"
definition MaxTxWorkDelay :: uint32 where "MaxTxWorkDelay = 30"

text \<open>\<^verbatim>\<open>gas.BitLen() > 64\<close> says that the magnitude does not fit into 64 bits.\<close>

definition workToGas :: "int \<Rightarrow> uint32 \<Rightarrow> uint64" where
  "workToGas work blockNum =
     (let gas = big_Div work 1000 in
      if gas = 0 then 0
      else
        let months = uint (ucast blockNum * BlockInterval div 3600 div 24 div 30);
            gas = (if months \<noteq> 0 then big_Div (gas * 100 ^ nat months) (104 ^ nat months) else gas)
        in if \<bar>gas\<bar> \<ge> 2 ^ 64 then MaxUint64 else big_Uint64 gas)"

text \<open>
  The work of a nonce is \<open>(2 ^ 256 - 1) / h\<close> for the hash \<open>h\<close> of the body, the signer and
  the nonce, given as the parameter \<open>workHash\<close>.
\<close>

definition EvaluateWork :: "(TxBody \<Rightarrow> address \<Rightarrow> uint64 \<Rightarrow> bytes32) \<Rightarrow> TxBody \<Rightarrow> address \<Rightarrow> uint64 \<Rightarrow> int go" where
  "EvaluateWork workHash t signer nonce =
     (let r = uint (workHash t signer nonce) in
      if r = 0 then Inl DivByZero else Inr (big_Div (2 ^ 256 - 1) r))"

definition UnprovedWork ::
  "(TxBody \<Rightarrow> address option) \<Rightarrow> (TxBody \<Rightarrow> address \<Rightarrow> uint64 \<Rightarrow> bytes32) \<Rightarrow> TxBody \<Rightarrow> int go" where
  "UnprovedWork sigToPub workHash t =
     go_bind (Signer sigToPub t) (\<lambda>signer.
       case signer of None \<Rightarrow> Inr 0 | Some a \<Rightarrow> EvaluateWork workHash t a (txbNonce t))"

definition ProvedWork ::
  "(TxBody \<Rightarrow> address option) \<Rightarrow> (TxBody \<Rightarrow> address \<Rightarrow> uint64 \<Rightarrow> bytes32) \<Rightarrow>
   uint32 \<Rightarrow> (uint32 \<Rightarrow> bytes32) \<Rightarrow> TxBody \<Rightarrow> int go" where
  "ProvedWork sigToPub workHash headBlockNum getBlockID t =
     (let refNum = BlockRef_Number (txbBlockRef t) in
      if refNum \<ge> headBlockNum then Inr 0
      else if headBlockNum - refNum > MaxTxWorkDelay then Inr 0
      else if NewBlockRefFromID (getBlockID refNum) = txbBlockRef t then UnprovedWork sigToPub workHash t
      else Inr 0)"

definition OverallGasPrice ::
  "(TxBody \<Rightarrow> address option) \<Rightarrow> (TxBody \<Rightarrow> address \<Rightarrow> uint64 \<Rightarrow> bytes32) \<Rightarrow>
   int \<Rightarrow> uint32 \<Rightarrow> (uint32 \<Rightarrow> bytes32) \<Rightarrow> TxBody \<Rightarrow> int go" where
  "OverallGasPrice sigToPub workHash baseGasPrice headBlockNum getBlockID t =
     (let gasPrice = GasPrice baseGasPrice t in
      go_bind (ProvedWork sigToPub workHash headBlockNum getBlockID t) (\<lambda>provedWork.
        if provedWork = 0 then Inr gasPrice
        else
          let wgas = workToGas provedWork (BlockRef_Number (txbBlockRef t)) in
          if wgas = 0 then Inr gasPrice
          else
            let wgas = (if wgas > txbGas t then txbGas t else wgas) in
            if txbGas t = 0 then Inl DivByZero
            else Inr (big_Div (uint wgas * baseGasPrice) (uint (txbGas t)) + gasPrice)))"

section \<open>Properties\<close>

lemma checked_Some: "checked r = Some x \<longleftrightarrow> \<not> snd r \<and> x = fst r"
  by (auto simp: checked_def)

lemma uint_add_small: "uint x + uint y < 2 ^ 64 \<Longrightarrow> uint (x + y :: uint64) = uint x + uint y"
  by (simp add: uint_plus_simple_iff uint_word_ariths(1))

lemma uint_mult_small: "uint x * uint y < 2 ^ 64 \<Longrightarrow> uint (x * y :: uint64) = uint x * uint y"
  by (simp add: uint_word_ariths(3))

lemma uint_of_nat_small: "n < 2 ^ 64 \<Longrightarrow> uint (of_nat n :: uint64) = int n"
  by (simp add: unsigned_of_nat take_bit_nat_eq_self)

text \<open>The price of data and clauses as exact numbers.\<close>

definition data_price :: "bool \<Rightarrow> bytes \<Rightarrow> int" where
  "data_price isEIP2028 data =
     (\<Sum>b\<leftarrow>data. if b = 0 then 4 else if isEIP2028 then 16 else 68)"

definition clause_price :: "bool \<Rightarrow> Clause \<Rightarrow> int" where
  "clause_price isEIP2028 c = data_price isEIP2028 (clData c) + (if IsCreatingContract c then 48000 else 16000)"

lemma data_price_count:
  "data_price f data = 4 * int (length (filter (\<lambda>b. b = 0) data)) +
     (if f then 16 else 68) * int (length (filter (\<lambda>b. b \<noteq> 0) data))"
  by (induction data) (auto simp: data_price_def)

lemma data_price_nonneg: "0 \<le> data_price f data"
  by (simp add: data_price_count)

lemma dataGas_price:
  assumes M: "safe_math M" and len: "length data < 2 ^ 56"
  shows "\<exists>gas. dataGas M data f = Some gas \<and> uint gas = data_price f data \<and> data_price f data < 2 ^ 63"
proof -
  let ?z = "length (filter (\<lambda>b. b = 0) data)" and ?nz = "length (filter (\<lambda>b. b \<noteq> 0) data)"
  define k where "k = (if f then TxDataNonZeroGasEIP2028 else TxDataNonZeroGas)"
  have k: "uint k = (if f then 16 else 68)" by (simp add: k_def TxDataNonZeroGasEIP2028_def TxDataNonZeroGas_def)
  have n: "?z < 2 ^ 56" "?nz < 2 ^ 56" using len length_filter_le [of _ data] by (metis le_less_trans)+
  have z: "uint (of_nat ?z :: uint64) = int ?z" "uint (of_nat ?nz :: uint64) = int ?nz"
    using n by (simp_all add: uint_of_nat_small)
  have b: "4 * int ?z < 2 ^ 58" "uint k * int ?nz < 2 ^ 63" using n by (auto simp: k)
  have zg: "uint (TxDataZeroGas * of_nat ?z) = 4 * int ?z"
    using uint_mult_small [of TxDataZeroGas "of_nat ?z"] b z by (simp add: TxDataZeroGas_def)
  have ng: "uint (k * of_nat ?nz) = uint k * int ?nz"
    using uint_mult_small [of k "of_nat ?nz"] b z by simp
  have tot: "4 * int ?z + uint k * int ?nz < 2 ^ 63"
  proof -
    have "?z + ?nz = length data" by (simp add: sum_length_filter_compl)
    then have "4 * int ?z + uint k * int ?nz \<le> 68 * int (length data)" by (auto simp: k)
    then show ?thesis using len by simp
  qed
  have sum: "uint (TxDataZeroGas * of_nat ?z + k * of_nat ?nz) = 4 * int ?z + uint k * int ?nz"
    using uint_add_small [of "TxDataZeroGas * of_nat ?z" "k * of_nat ?nz"] zg ng tot by simp
  have price: "data_price f data = 4 * int ?z + uint k * int ?nz" by (simp add: data_price_count k)
  have run: "dataGas M data f = Some (TxDataZeroGas * of_nat ?z + k * of_nat ?nz)"
  proof (cases "data = []")
    case False
    have "checked (SafeMul M TxDataZeroGas (of_nat ?z)) = Some (TxDataZeroGas * of_nat ?z)"
      using M b z by (simp add: safe_math_def checked_def TxDataZeroGas_def)
    moreover have "checked (SafeMul M k (of_nat ?nz)) = Some (k * of_nat ?nz)"
      using M b z by (simp add: safe_math_def checked_def)
    moreover have "checked (SafeAdd M (TxDataZeroGas * of_nat ?z) (k * of_nat ?nz)) =
        Some (TxDataZeroGas * of_nat ?z + k * of_nat ?nz)"
      using M zg ng tot by (simp add: safe_math_def checked_def)
    ultimately show ?thesis using False by (simp add: dataGas_def Let_def flip: k_def)
  qed (simp add: dataGas_def)
  then show ?thesis using sum price tot by auto
qed

lemma init_code_fits:
  assumes "uint gas < 2 ^ 63" "n < 2 ^ 56"
  shows "\<not> (MaxUint64 - gas) div InitCodeWordGas < toWordSize (of_nat n)"
proof -
  have mx: "uint MaxUint64 = 2 ^ 64 - 1" by (simp add: MaxUint64_def unsigned_minus_1_eq_mask mask_eq_exp_minus_1)
  have "uint (MaxUint64 - gas) = 2 ^ 64 - 1 - uint gas"
    using mx assms(1) by (simp add: uint_sub_lem [THEN iffD1])
  then have l: "2 ^ 62 - 1 \<le> uint ((MaxUint64 - gas) div InitCodeWordGas)"
    using assms(1) by (simp add: uint_div InitCodeWordGas_def)
  have "uint (of_nat n + 31 :: uint64) = int n + 31"
    using uint_add_small [of "of_nat n" 31] uint_of_nat_small [of n] assms(2) by simp
  then have r: "uint (toWordSize (of_nat n)) \<le> 2 ^ 52"
    using assms(2) uint_of_nat_small [of n] mx by (simp add: toWordSize_def word_less_def uint_sub_lem [THEN iffD1] uint_div)
  show ?thesis using l r by (simp add: word_less_def)
qed

lemma clauses_gas_price:
  assumes M: "safe_math M" and len: "\<forall>c\<in>set cs. length (clData c) < 2 ^ 56"
  shows "clauses_gas M f g cs start =
    (let p = uint start + (\<Sum>c\<leftarrow>cs. clause_price f c) in if p < 2 ^ 64 then Some (word_of_int p) else None)"
  using len
proof (induction cs arbitrary: start)
  case (Cons c cs)
  obtain gas where gas: "dataGas M (clData c) f = Some gas" "uint gas = data_price f (clData c)" "uint gas < 2 ^ 63"
    using dataGas_price [OF M, of "clData c" f] Cons.prems by auto
  have rest: "0 \<le> (\<Sum>c\<leftarrow>cs. clause_price f c)"
    by (auto simp: clause_price_def data_price_nonneg intro!: sum_list_nonneg add_nonneg_nonneg)
  define cgas where "cgas = (if IsCreatingContract c then ClauseGasContractCreation else ClauseGas)"
  have cg: "uint cgas = clause_price f c - uint gas"
    by (simp add: cgas_def clause_price_def gas(2) ClauseGasContractCreation_def ClauseGas_def TxGas_def)
  have fits: "\<not> (MaxUint64 - gas) div InitCodeWordGas < toWordSize (of_nat (length (clData c)))"
    using init_code_fits [OF gas(3)] Cons.prems by simp
  show ?case
  proof (cases "uint start + clause_price f c < 2 ^ 64")
    case True
    have nn: "0 \<le> uint cgas" "0 \<le> uint gas" by simp_all
    have s1: "uint start + uint gas < 2 ^ 64" using True cg nn by linarith
    have u1: "uint (start + gas) = uint start + uint gas" using uint_add_small [OF s1] .
    have s2: "uint (start + gas) + uint cgas < 2 ^ 64" using True u1 cg by simp
    have u2: "uint (start + gas + cgas) = uint start + clause_price f c" using uint_add_small [OF s2] u1 cg by simp
    have "clauses_gas M f g (c # cs) start = clauses_gas M f g cs (start + gas + cgas)"
      using M s1 s2 fits by (simp add: gas(1) checked_def safe_math_def Let_def flip: cgas_def)
    also have "\<dots> = (let p = uint start + (\<Sum>c\<leftarrow>c # cs. clause_price f c) in if p < 2 ^ 64 then Some (word_of_int p) else None)"
      using Cons.IH [of "start + gas + cgas"] Cons.prems u2 by (simp add: add.assoc)
    finally show ?thesis .
  next
    case False
    have "clauses_gas M f g (c # cs) start = None"
    proof (cases "uint start + uint gas < 2 ^ 64")
      case True
      then have "2 ^ 64 \<le> uint (start + gas) + uint cgas" using False uint_add_small [OF True] cg by simp
      then show ?thesis using M by (simp add: gas(1) checked_def safe_math_def Let_def flip: cgas_def)
    next
      case no: False
      then show ?thesis using M by (simp add: gas(1) checked_def safe_math_def)
    qed
    then show ?thesis using False rest by simp
  qed
next
  case Nil
  then show ?case using uint_lt2p [of start] by (simp add: Let_def)
qed

text \<open>
  C26. The intrinsic gas of a transaction is the base price, a price per clause and a price per
  byte of data, or the overflow error exactly when that number does not fit into 64 bits.
  The flag for EIP-3860 plays no part: the price per word of init code, which the code
  adds to the gas of the clause after that has gone into the sum, is never charged.
\<close>

theorem intrinsic_gas:
  assumes "safe_math M" "\<forall>c\<in>set clauses. length (clData c) < 2 ^ 56"
  shows "IntrinsicGas M isEIP2028 isEIP3860 clauses =
    (let p = 5000 + (if clauses = [] then 16000 else \<Sum>c\<leftarrow>clauses. clause_price isEIP2028 c)
     in if p < 2 ^ 64 then Some (word_of_int p) else None)"
  using clauses_gas_price [OF assms, of isEIP2028 isEIP3860 TxGas]
  by (simp add: IntrinsicGas_def TxGas_def ClauseGas_def)

definition ex_math :: math_lib where
  "ex_math = \<lparr>SafeAdd = (\<lambda>x y. (x + y, 2 ^ 64 \<le> uint x + uint y)), SafeMul = (\<lambda>x y. (x * y, 2 ^ 64 \<le> uint x * uint y))\<rparr>"

theorem intrinsic_gas_witness:
  "IntrinsicGas ex_math True True [\<lparr>clTo = None, clValue = 0, clToken = 0, clData = [1, 0]\<rparr>] = Some 53020"
  using intrinsic_gas [of ex_math "[\<lparr>clTo = None, clValue = 0, clToken = 0, clData = [1, 0]\<rparr>]" True True]
  by (simp add: safe_math_def ex_math_def clause_price_def data_price_def IsCreatingContract_def)

text \<open>
  C28. The test for a wrapped Ethereum transaction panics exactly on bodies with three reserved
  fields of which the first or the third is a list, or the third is empty.  Such a body
  decodes from the wire, so the identifier and the signer of a received
  transaction are only defined after its reserved fields have been checked.
\<close>

theorem IsEthTx_panics:
  "(\<exists>p. IsEthTx t = Inl p) \<longleftrightarrow>
   length (txbReserved t) = 3 \<and>
   ((\<exists>xs. txbReserved t ! 0 = RList xs) \<or> (\<exists>xs. txbReserved t ! 2 = RList xs) \<or> txbReserved t ! 2 = RBytes [])"
proof (cases "length (txbReserved t) = 3")
  case True
  show ?thesis
  proof (cases "txbReserved t ! 0")
    case (RBytes prefix)
    then show ?thesis using True
      by (cases "txbReserved t ! 2") (auto simp: IsEthTx_def first_byte_def Let_def split: list.splits)
  qed (use True in \<open>simp add: IsEthTx_def\<close>)
qed (simp add: IsEthTx_def)

text \<open>
  C29. The number of a block comes back from a block reference made of it, and a transaction is
  expired exactly when the block number exceeds the sum of reference and expiration as
  natural numbers: the addition does not wrap.
\<close>

theorem block_ref_expiration:
  "BlockRef_Number (NewBlockRef n) = n \<and>
   (IsExpired b t \<longleftrightarrow> uint (BlockRef_Number (txbBlockRef t)) + uint (txbExpiration t) < uint b)"
proof -
  have "BlockRef_Number (NewBlockRef n) = n"
    by (simp add: BlockRef_Number_def NewBlockRef_def drop_bit_push_bit bit_eq_iff bit_simps)
  moreover have "uint (ucast (x :: uint32) :: uint64) = uint x" for x by (simp add: uint_up_ucast is_up)
  then have "IsExpired b t \<longleftrightarrow> uint (BlockRef_Number (txbBlockRef t)) + uint (txbExpiration t) < uint b"
    using uint_add_small [of "ucast (BlockRef_Number (txbBlockRef t))" "ucast (txbExpiration t)"]
      uint_lt2p [of "BlockRef_Number (txbBlockRef t)"] uint_lt2p [of "txbExpiration t"]
    by (simp add: IsExpired_def word_less_def)
  ultimately show ?thesis by blast
qed

text \<open>
  C27. The gas price lies between the base price and twice the base price.  The bonus for proved
  work raises it by at most the base price once more, whenever the transaction buys gas; a
  transaction that buys no gas and has proved work makes the computation divide by zero.
\<close>

theorem gas_price_bounds:
  assumes "0 \<le> baseGasPrice"
    and "ProvedWork sigToPub workHash headBlockNum getBlockID t = Inr work" "0 \<le> work"
  shows "baseGasPrice \<le> GasPrice baseGasPrice t \<and> GasPrice baseGasPrice t \<le> 2 * baseGasPrice \<and>
    (txbGas t \<noteq> 0 \<longrightarrow> (\<exists>p. OverallGasPrice sigToPub workHash baseGasPrice headBlockNum getBlockID t = Inr p \<and>
       GasPrice baseGasPrice t \<le> p \<and> p \<le> GasPrice baseGasPrice t + baseGasPrice)) \<and>
    (txbGas t = 0 \<and> workToGas work (BlockRef_Number (txbBlockRef t)) \<noteq> 0 \<longrightarrow>
       OverallGasPrice sigToPub workHash baseGasPrice headBlockNum getBlockID t = Inl DivByZero)"
proof -
  have coef: "uint (txbGasPriceCoef t) \<le> 255" using uint_lt2p [of "txbGasPriceCoef t"] by simp
  have price: "0 \<le> big_Div (uint (txbGasPriceCoef t) * baseGasPrice) 255"
      "big_Div (uint (txbGasPriceCoef t) * baseGasPrice) 255 \<le> baseGasPrice"
    using assms(1) mult_right_mono [OF coef assms(1)]
    by (simp_all add: big_Div_nonneg big_Div_le_iff)
  have bonus: "0 \<le> big_Div (uint w * baseGasPrice) (uint g)" "big_Div (uint w * baseGasPrice) (uint g) \<le> baseGasPrice"
    if "w \<le> g" "g \<noteq> 0" for w g :: uint64
  proof -
    have g: "0 < uint g" "uint w \<le> uint g" using that by (simp_all add: word_le_def word_greater_zero_iff)
        (metis less_le uint_0_iff uint_ge_0)
    have "uint w * baseGasPrice < uint g * (baseGasPrice + 1)"
      using mult_right_mono [OF g(2) assms(1)] g(1) by (simp add: algebra_simps)
    then show "0 \<le> big_Div (uint w * baseGasPrice) (uint g)" "big_Div (uint w * baseGasPrice) (uint g) \<le> baseGasPrice"
      using g assms(1) by (simp_all add: big_Div_nonneg big_Div_le_iff)
  qed
  have work: "workToGas 0 n = 0" for n by (simp add: workToGas_def big_Div_def)
  let ?w = "workToGas work (BlockRef_Number (txbBlockRef t))" and ?g = "txbGas t"
  have "\<exists>p. OverallGasPrice sigToPub workHash baseGasPrice headBlockNum getBlockID t = Inr p \<and>
      GasPrice baseGasPrice t \<le> p \<and> p \<le> GasPrice baseGasPrice t + baseGasPrice" if "?g \<noteq> 0"
    using that bonus [of ?w ?g] bonus [of ?g ?g] assms(1) by (auto simp: OverallGasPrice_def assms(2) Let_def not_less)
  moreover have "OverallGasPrice sigToPub workHash baseGasPrice headBlockNum getBlockID t = Inl DivByZero"
    if "?g = 0" "?w \<noteq> 0"
    using that work by (auto simp: OverallGasPrice_def assms(2) Let_def)
  ultimately show ?thesis using price by (auto simp: GasPrice_def)
qed

definition ex_tx :: "uint64 \<Rightarrow> TxBody" where
  "ex_tx gas = \<lparr>txbChainTag = 0, txbBlockRef = NewBlockRef 7, txbExpiration = 32, txbClauses = [], txbGasPriceCoef = 128,
     txbGas = gas, txbDependsOn = None, txbNonce = 0, txbReserved = [], txbSignature = [1]\<rparr>"

theorem gas_price_bounds_witness:
  "OverallGasPrice (\<lambda>_. Some 1) (\<lambda>_ _ _. 1) 1000 9 (\<lambda>_. push_bit 192 (ucast (NewBlockRef 7))) (ex_tx 0) = Inl DivByZero \<and>
   (\<exists>p. OverallGasPrice (\<lambda>_. Some 1) (\<lambda>_ _ _. 1) 1000 9 (\<lambda>_. push_bit 192 (ucast (NewBlockRef 7))) (ex_tx 21000) = Inr p \<and>
      p \<le> GasPrice 1000 (ex_tx 21000) + 1000)"
proof -
  have run: "ProvedWork (\<lambda>_. Some 1) (\<lambda>_ _ _. 1) 9 (\<lambda>_. push_bit 192 (ucast (NewBlockRef 7))) (ex_tx g) = Inr (2 ^ 256 - 1)" for g
    by (simp add: ProvedWork_def ex_tx_def NewBlockRef_def BlockRef_Number_def NewBlockRefFromID_def UnprovedWork_def Signer_def
        IsEthTx_def EvaluateWork_def big_Div_def MaxTxWorkDelay_def)
  have w: "workToGas (2 ^ 256 - 1) (BlockRef_Number (txbBlockRef (ex_tx g))) \<noteq> 0" for g
    by (simp add: workToGas_def ex_tx_def NewBlockRef_def BlockRef_Number_def big_Div_def BlockInterval_def MaxUint64_def)
  have "txbGas (ex_tx 0) = 0" "txbGas (ex_tx 21000) \<noteq> 0" by (simp_all add: ex_tx_def)
  then show ?thesis
    using gas_price_bounds [OF _ run, of 1000 0] gas_price_bounds [OF _ run, of 1000 21000] w [of 0] by auto
qed

end
