(* ===== verification/Auction_Module.thy ===== *)
theory Auction_Module
  imports Emission
begin

text \<open>
  The auction module (\<^verbatim>\<open>script/auction\<close>): an auction is opened and closed by transactions of a
  key block, bids lock MTR in the account of the module, and closing the auction
  mints MTRG to the bidders.  The control block lives in the cache of the script engine, and
  the handlers write through the cached pointer: a bid is in the cache as soon as it is
  added, whatever happens to the rest of the transaction.
\<close>

section \<open>The call\<close>

definition OP_START :: uint32 where "OP_START = 1"
definition OP_STOP :: uint32 where "OP_STOP = 2"
definition OP_BID :: uint32 where "OP_BID = 3"

definition MinimumBidAmount :: int where "MinimumBidAmount = 10 * 10 ^ 18"

definition KeyAuctionReservedPrice :: bytes32 where
  "KeyAuctionReservedPrice = BytesToBytes32 (ascii ''auction-reserved-price'')"

definition TeslaFork3_MainnetAuctionDefectStartNum :: uint32 where
  "TeslaFork3_MainnetAuctionDefectStartNum = 14811495"

record AuctionBody =
  abOpcode :: uint32
  abVersion :: uint32
  abOption :: uint32
  abStartHeight :: uint64
  abStartEpoch :: uint64
  abEndHeight :: uint64
  abEndEpoch :: uint64
  abSequence :: uint64
  abAuctionID :: bytes32
  abBidder :: address
  abAmount :: int
  abReserveAmount :: int
  abToken :: uint8
  abTimestamp :: uint64
  abNonce :: uint64

text \<open>Reading the control block and the summaries fills the cache.\<close>

definition withAuctionCB :: "ScriptEnv \<Rightarrow> (AuctionCB \<Rightarrow> ScriptEnv \<Rightarrow> 'a) \<Rightarrow> 'a" where
  "withAuctionCB e f = (let (cb, s) = GetAuctionCB (envState e) in f cb (e\<lparr>envState := s\<rparr>))"

definition withSummaryList :: "ScriptEnv \<Rightarrow> (AuctionSummaryList \<Rightarrow> ScriptEnv \<Rightarrow> 'a) \<Rightarrow> 'a" where
  "withSummaryList e f = (let (l, s) = GetSummaryList (envState e) in f l (e\<lparr>envState := s\<rparr>))"

section \<open>Opening an auction\<close>

definition StartAuctionCB :: "externals \<Rightarrow> ScriptEnv \<Rightarrow> AuctionBody \<Rightarrow> uint64 \<Rightarrow> handler_result" where
  "StartAuctionCB X e ab gas =
     withAuctionCB e (\<lambda>auctionCB e.
       if IsActive auctionCB then handler_return gas (Some ErrNotStop) e
       else
         let ts = (if isFork TeslaFork7 e then envTime e else abTimestamp ab);
             cb = auctionCB\<lparr>cbStartHeight := abStartHeight ab, cbStartEpoch := abStartEpoch ab,
                    cbEndHeight := abEndHeight ab, cbEndEpoch := abEndEpoch ab, cbSequence := abSequence ab,
                    cbRlsdMTRG := abAmount ab, cbRsvdMTRG := abReserveAmount ab,
                    cbRsvdPrice := Params_Get KeyAuctionReservedPrice (envState e),
                    cbCreateTime := ts, cbRcvdMTR := 0, cbAuctionTxs := []\<rparr>;
             cb = cb\<lparr>cbAuctionID := AuctionCB_ID (xAuctionCBHash X) cb\<rparr>;
             e = (if isFork TeslaFork10 e
                  then AddEvent (NativeAuctionStart (AuctionCB_ID (xAuctionCBHash X) cb) (abStartHeight ab)
                         (abEndHeight ab) (abAmount ab) (cbRsvdPrice cb)) e
                  else e)
         in handler_return gas None (onState (SetAuctionCB cb) e))"

section \<open>Bids\<close>

definition bid_tx :: "externals \<Rightarrow> ScriptEnv \<Rightarrow> AuctionBody \<Rightarrow> AuctionTx" where
  "bid_tx X e ab =
     (let ts = (if isFork TeslaFork7 e then envTime e else abTimestamp ab);
          nonce = (if isFork TeslaFork7 e then txcNonce (envTxCtx e) + ucast (envClauseIndex e) else abNonce ab)
      in NewAuctionTx (xAuctionTxHash X) (abBidder ab) (abAmount ab) (abOption ab) ts nonce)"

definition HandleAuctionTx :: "externals \<Rightarrow> ScriptEnv \<Rightarrow> AuctionBody \<Rightarrow> uint64 \<Rightarrow> handler_result" where
  "HandleAuctionTx X e ab gas =
     withAuctionCB e (\<lambda>auctionCB e.
       if \<not> IsActive auctionCB then handler_return gas (Some ErrNotStart) e
       else if abOption ab = AUTO_BID \<and> GetEnergy ValidatorBenefitAddr (envState e) < abAmount ab
       then handler_return gas (Some ErrNotEnoughMTR) e
       else if abOption ab \<noteq> AUTO_BID \<and> GetEnergy (abBidder ab) (envState e) < abAmount ab
       then handler_return gas (Some ErrNotEnoughMTR) e
       else if abOption ab \<noteq> AUTO_BID \<and> abAmount ab < MinimumBidAmount
       then handler_return gas (Some ErrLessThanBidThreshold) e
       else
         let (failed, cb) = AddAuctionTx (bid_tx X e ab) auctionCB
         in
         if failed then handler_return gas (Some (ErrText ''tx already exist'')) e
         else
           let e = onState (SetAuctionCB cb) e;
               (err, e) = (if abOption ab = AUTO_BID then TransferAutobidMTRToAuction (abBidder ab) (abAmount ab) e
                           else TransferMTRToAuction (abBidder ab) (abAmount ab) e)
           in if err \<noteq> None then handler_return gas (Some ErrNotEnoughMTR) e
              else handler_return gas None (onState (SetAuctionCB cb) e))"

section \<open>Closing an auction\<close>

definition MintMTRGToBidder :: "address \<Rightarrow> int \<Rightarrow> ScriptEnv \<Rightarrow> ScriptEnv" where
  "MintMTRGToBidder addr amount e =
     (if amount = 0 then e
      else
        AddTransfer 0 addr amount MTRG
          (onState (if isFork TeslaFork8 e then MintBalanceAfterFork8 addr amount
                    else MintBalance addr amount) e))"

definition bid_mtrg :: "int \<Rightarrow> AuctionTx \<Rightarrow> int" where
  "bid_mtrg actualPrice tx = big_Div (txAmount tx * 10 ^ 18) actualPrice"

text \<open>The sums per bidder, in the order in which the bidders first appear.\<close>

definition group_bids :: "int \<Rightarrow> AuctionTx list \<Rightarrow> (address \<times> int) list" where
  "group_bids actualPrice txs = fold (\<lambda>tx. add_release (txAddress tx) (bid_mtrg actualPrice tx)) txs []"

definition actual_price :: "AuctionCB \<Rightarrow> int" where
  "actual_price cb =
     (let price = (if cbRlsdMTRG cb > 0 then big_Div (cbRcvdMTR cb * 10 ^ 18) (cbRlsdMTRG cb) else cbRsvdPrice cb)
      in if price < cbRsvdPrice cb then cbRsvdPrice cb else price)"

definition clear_after_fork3 :: "ScriptEnv \<Rightarrow> AuctionCB \<Rightarrow> int \<Rightarrow> int \<times> DistMtrg list \<times> ScriptEnv" where
  "clear_after_fork3 e cb actualPrice =
     (let groupTxMap = group_bids actualPrice (cbAuctionTxs cb);
          sortedAddresses = sort_SliceStable (\<le>) (map fst groupTxMap);
          amount = (\<lambda>addr. the (map_of groupTxMap addr))
      in (sum_list (map amount sortedAddresses),
          map (\<lambda>addr. \<lparr>dmAddr = addr, dmAmount = amount addr\<rparr>) sortedAddresses,
          fold (\<lambda>addr. MintMTRGToBidder addr (amount addr)) sortedAddresses e))"

definition clear_before_fork3 :: "ScriptEnv \<Rightarrow> AuctionCB \<Rightarrow> int \<Rightarrow> int \<times> DistMtrg list \<times> ScriptEnv" where
  "clear_before_fork3 e cb actualPrice =
     (let counted = (IsMainnet (envConfig e) \<and> envNumber e < TeslaFork3_MainnetAuctionDefectStartNum \<or>
                     IsTestnet (envConfig e))
      in (if counted then sum_list (map (bid_mtrg actualPrice) (cbAuctionTxs cb)) else 0,
          map (\<lambda>tx. \<lparr>dmAddr = txAddress tx, dmAmount = bid_mtrg actualPrice tx\<rparr>) (cbAuctionTxs cb),
          fold (\<lambda>tx. MintMTRGToBidder (txAddress tx) (bid_mtrg actualPrice tx)) (cbAuctionTxs cb) e))"

definition ClearAuction ::
  "ScriptEnv \<Rightarrow> AuctionCB \<Rightarrow> int \<Rightarrow> (int \<times> int \<times> DistMtrg list \<times> ScriptEnv) go" where
  "ClearAuction e cb validatorBenefitRatio =
     (let actualPrice = actual_price cb in
      if actualPrice = 0 \<and> cbAuctionTxs cb \<noteq> [] then Inl DivByZero
      else
        let (sumMtrg, distMtrg, e) = (if isFork TeslaFork3 e then clear_after_fork3 e cb actualPrice
                                   else clear_before_fork3 e cb actualPrice);
            leftOver = (if cbRlsdMTRG cb - sumMtrg < 0 then 0 else cbRlsdMTRG cb - sumMtrg);
            e = MintMTRGToBidder AuctionLeftOverAccount (cbRsvdMTRG cb) e;
            e = MintMTRGToBidder AuctionLeftOverAccount leftOver e;
            amount = big_Div (cbRcvdMTR cb * validatorBenefitRatio) (10 ^ 18)
        in Inr (actualPrice, leftOver, distMtrg, snd (TransferMTRToValidatorBenefit amount e)))"

definition auction_summary :: "AuctionCB \<Rightarrow> int \<Rightarrow> int \<Rightarrow> DistMtrg list \<Rightarrow> AuctionSummary" where
  "auction_summary cb actualPrice leftover dist =
     \<lparr>asAuctionID = cbAuctionID cb, asStartHeight = cbStartHeight cb, asStartEpoch = cbStartEpoch cb,
      asEndHeight = cbEndHeight cb, asEndEpoch = cbEndEpoch cb, asSequence = cbSequence cb,
      asRlsdMTRG = cbRlsdMTRG cb, asRsvdMTRG = cbRsvdMTRG cb, asRsvdPrice = cbRsvdPrice cb,
      asCreateTime = cbCreateTime cb, asRcvdMTR = cbRcvdMTR cb, asActualPrice = actualPrice,
      asLeftoverMTRG = leftover, asAuctionTxs = cbAuctionTxs cb, asDistMTRG = dist\<rparr>"

definition add_summary :: "bool \<Rightarrow> AuctionSummary \<Rightarrow> AuctionSummaryList \<Rightarrow> AuctionSummaryList" where
  "add_summary fork6 a l =
     (let kept = (if length l \<ge> AUCTION_MAX_SUMMARIES then drop (length l - AUCTION_MAX_SUMMARIES + 1) l else l)
      in (if fork6 then map (\<lambda>s. s\<lparr>asAuctionTxs := [], asDistMTRG := []\<rparr>) kept else kept) @ [a])"

definition finish_auction ::
  "externals \<Rightarrow> uint64 \<Rightarrow> AuctionSummaryList \<Rightarrow> AuctionCB \<Rightarrow> ScriptEnv \<Rightarrow> handler_result" where
  "finish_auction X gas summaryList auctionCB e =
     go_bind (ClearAuction e auctionCB (Params_Get KeyValidatorBenefitRatio (envState e)))
       (\<lambda>(actualPrice, leftover, dist, e).
          let summaries = add_summary (isFork TeslaFork6 e) (auction_summary auctionCB actualPrice leftover dist)
                            summaryList;
              e = (if isFork TeslaFork10 e
                   then AddEvent (NativeAuctionEnd (AuctionCB_ID (xAuctionCBHash X) auctionCB) (cbRcvdMTR auctionCB)
                          (cbRlsdMTRG auctionCB) actualPrice) e
                   else e)
          in handler_return gas None
               (onState (SetAuctionCB emptyAuctionCB) (onState (SetSummaryList summaries) e)))"

definition CloseAuctionCB :: "externals \<Rightarrow> ScriptEnv \<Rightarrow> AuctionBody \<Rightarrow> uint64 \<Rightarrow> handler_result" where
  "CloseAuctionCB X e ab gas =
     withSummaryList e (\<lambda>summaryList e.
     withAuctionCB e (\<lambda>auctionCB e.
       if \<not> IsActive auctionCB then handler_return gas (Some ErrNotStart) e
       else finish_auction X gas summaryList auctionCB e))"

section \<open>Dispatch\<close>

text \<open>\<open>None\<close> as a body is a payload that does not decode.\<close>

definition Auction_Handle :: "externals \<Rightarrow> ScriptEnv \<Rightarrow> AuctionBody option \<Rightarrow> uint64 \<Rightarrow> handler_result" where
  "Auction_Handle X e payload gas =
     (case payload of
        None \<Rightarrow> Inr (gas, Some (ErrText ''decode''), e)
      | Some ab \<Rightarrow>
          let kblock = Address_IsZero (txcOrigin (envTxCtx e)) in
          if abOpcode ab = OP_START then
            (if \<not> kblock then Inr (gas, Some (ErrText ''not from kblock''), e) else StartAuctionCB X e ab gas)
          else if abOpcode ab = OP_STOP then
            (if \<not> kblock then Inr (gas, Some (ErrText ''not form kblock''), e) else CloseAuctionCB X e ab gas)
          else if abOpcode ab = OP_BID then
            (if abOption ab = AUTO_BID \<and> \<not> kblock then Inr (gas, Some (ErrText ''not from kblock''), e)
             else if abOption ab \<noteq> AUTO_BID \<and> txcOrigin (envTxCtx e) \<noteq> abBidder ab
             then Inr (gas, Some (ErrText ''bidder address is not the same from transaction''), e)
             else HandleAuctionTx X e ab gas)
          else Inr (gas, Some (ErrText ''unknow auction opcode''), e))"

end
