(* ===== verification/Auction_Invariant.thy ===== *)
theory Auction_Invariant
  imports Auction_Module
begin

text \<open>
  What holds of auctions: the MTR that an open auction has received is the sum of its bids and
  lies in the account of the module; closing it mints MTRG to the bidders in
  proportion to their bids.  A last section follows a bid whose transaction is
  reverted.
\<close>

section \<open>Transfers of MTR\<close>

definition moveMTR :: "address \<Rightarrow> address \<Rightarrow> int \<Rightarrow> State \<Rightarrow> State" where
  "moveMTR a b v s =
     (let f = (accounts s)(a := (accounts s a)\<lparr>Energy := Energy (accounts s a) - v\<rparr>)
      in s\<lparr>accounts := f(b := (f b)\<lparr>Energy := Energy (f b) + v\<rparr>)\<rparr>)"

lemma transferMTR_state:
  "envState (snd (transferMTR err a b v e)) =
     (if GetEnergy a (envState e) < v \<and> v \<noteq> 0 then envState e else moveMTR a b v (envState e)) \<and>
   (fst (transferMTR err a b v e) = None \<longleftrightarrow> \<not> (GetEnergy a (envState e) < v \<and> v \<noteq> 0))"
  by (auto simp: transferMTR_def moveMTR_def account_defs AddTransfer_def onState_def Let_def fun_upd_idem)

lemma moveMTR_simps [simp]:
  "sumMTR (moveMTR a b v s) = sumMTR s" "sumMTRG (moveMTR a b v s) = sumMTRG s"
  "GetBalance x (moveMTR a b v s) = GetBalance x s"
  "seAuctionCB (moveMTR a b v s) = seAuctionCB s" "auctionCBSlot (moveMTR a b v s) = auctionCBSlot s"
  "seAuctionSummaryList (moveMTR a b v s) = seAuctionSummaryList s" "summarySlot (moveMTR a b v s) = summarySlot s"
  "checkpoints (moveMTR a b v s) = checkpoints s" "paramSlot (moveMTR a b v s) = paramSlot s"
  by (simp_all add: moveMTR_def Let_def accounting GetBalance_def)

lemma moveMTR_energy:
  "GetEnergy x (moveMTR a b v s) = GetEnergy x s - (if x = a then v else 0) + (if x = b then v else 0)"
  by (simp add: moveMTR_def Let_def GetEnergy_def CalcEnergy_def)

section \<open>The control block\<close>

definition auction_cb :: "State \<Rightarrow> AuctionCB" where
  "auction_cb s = (case seAuctionCB s of None \<Rightarrow> auctionCBSlot s | Some cb \<Rightarrow> cb)"

definition bid_total :: "AuctionCB \<Rightarrow> int" where
  "bid_total cb = (\<Sum>t\<leftarrow>cbAuctionTxs cb. txAmount t)"

lemma withAuctionCB_cb:
  "withAuctionCB e f = f (auction_cb (envState e)) (e\<lparr>envState := (envState e)\<lparr>seAuctionCB := Some (auction_cb (envState e))\<rparr>\<rparr>)"
proof (cases "seAuctionCB (envState e)")
  case (Some cb)
  have "e\<lparr>envState := (envState e)\<lparr>seAuctionCB := Some cb\<rparr>\<rparr> = e" unfolding Some [symmetric] by simp
  moreover have "auction_cb (envState e) = cb" by (simp add: auction_cb_def Some)
  moreover have "withAuctionCB e f = f cb e" by (simp add: withAuctionCB_def GetAuctionCB_def Some)
  ultimately show ?thesis by metis
qed (simp add: withAuctionCB_def GetAuctionCB_def auction_cb_def)

lemma auction_cb_simps [simp]:
  "auction_cb (s\<lparr>seAuctionCB := Some cb\<rparr>) = cb" "auction_cb (SetAuctionCB cb s) = cb"
  "auction_cb (moveMTR a b v s) = auction_cb s"
  by (simp_all add: auction_cb_def SetAuctionCB_def split: option.split)

text \<open>Bids are distinct and not negative, and their sum is held by the module.\<close>

definition auction_inv :: "State \<Rightarrow> bool" where
  "auction_inv s \<longleftrightarrow>
     AuctionTxs_wf (cbAuctionTxs (auction_cb s)) \<and> (\<forall>t\<in>set (cbAuctionTxs (auction_cb s)). 0 \<le> txAmount t) \<and>
     cbRcvdMTR (auction_cb s) = bid_total (auction_cb s) \<and> cbRcvdMTR (auction_cb s) \<le> GetEnergy AuctionModuleAddr s"

lemma AddAuctionTx_ok:
  assumes "AuctionTxs_wf (cbAuctionTxs cb)" "\<forall>t\<in>set (cbAuctionTxs cb). 0 \<le> txAmount t" "0 \<le> txAmount t"
    and "AddAuctionTx t cb = (False, cb')"
  shows "AuctionTxs_wf (cbAuctionTxs cb')" "\<forall>t\<in>set (cbAuctionTxs cb'). 0 \<le> txAmount t"
    "bid_total cb' = bid_total cb + txAmount t" "cbRcvdMTR cb' = cbRcvdMTR cb + txAmount t"
    "cbAuctionID cb' = cbAuctionID cb" "mset (cbAuctionTxs cb') = add_mset t (mset (cbAuctionTxs cb))"
proof -
  have new: "AuctionCB_Get (txTxID t) (cbAuctionTxs cb) = None"
    and cb': "cb' = cb\<lparr>cbRcvdMTR := cbRcvdMTR cb + txAmount t, cbAuctionTxs := AuctionCB_Add t (cbAuctionTxs cb)\<rparr>"
    using assms(4) by (auto simp: AddAuctionTx_def split: if_splits)
  show m: "mset (cbAuctionTxs cb') = add_mset t (mset (cbAuctionTxs cb))"
    using at.mset_add_fresh [OF assms(1) new] cb' by simp
  show "AuctionTxs_wf (cbAuctionTxs cb')" using at.wf_add [OF assms(1)] cb' by simp
  show "\<forall>t\<in>set (cbAuctionTxs cb'). 0 \<le> txAmount t" using arg_cong [OF m, of set_mset] assms(2,3) by simp
  show "bid_total cb' = bid_total cb + txAmount t"
    using arg_cong [OF m, of "\<lambda>M. \<Sum>t\<in>#M. txAmount t"] by (simp add: bid_total_def flip: sum_mset_sum_list)
  show "cbRcvdMTR cb' = cbRcvdMTR cb + txAmount t" "cbAuctionID cb' = cbAuctionID cb" using cb' by simp_all
qed

lemma module_addresses: "ValidatorBenefitAddr \<noteq> AuctionModuleAddr"
  by code_simp

section \<open>Bids keep the books\<close>

lemma SetReturnData_state [simp]: "envState (SetReturnData r e) = envState e"
  by (simp add: SetReturnData_def)

text \<open>A bid that is paid: the control block and the module's balance grow by the same amount.\<close>

lemma paid_bid:
  assumes inv: "auction_inv s" and add: "AddAuctionTx t (auction_cb s) = (False, cb)" and amount: "0 \<le> txAmount t"
    and payer: "a \<noteq> AuctionModuleAddr" and same: "accounts s' = accounts s"
  shows "auction_inv (SetAuctionCB cb (moveMTR a AuctionModuleAddr (txAmount t) s'))"
proof -
  have wf: "AuctionTxs_wf (cbAuctionTxs (auction_cb s))" "\<forall>t\<in>set (cbAuctionTxs (auction_cb s)). 0 \<le> txAmount t"
    using inv by (simp_all add: auction_inv_def)
  have "GetEnergy AuctionModuleAddr (SetAuctionCB cb (moveMTR a AuctionModuleAddr (txAmount t) s')) =
      GetEnergy AuctionModuleAddr s + txAmount t"
    using moveMTR_energy [of AuctionModuleAddr a AuctionModuleAddr "txAmount t" s'] payer same
    by (simp add: SetAuctionCB_def GetEnergy_def)
  then show ?thesis using AddAuctionTx_ok [OF wf amount add] inv by (simp add: auction_inv_def)
qed

lemma auction_inv_cached:
  "auction_inv s \<Longrightarrow> auction_inv (s\<lparr>seAuctionCB := Some (auction_cb s)\<rparr>)"
  by (simp add: auction_inv_def GetEnergy_def)

definition keeps_auction :: "ScriptEnv \<Rightarrow> handler_result \<Rightarrow> bool" where
  "keeps_auction e r \<longleftrightarrow> (\<forall>g err e'. r = Inr (g, err, e') \<longrightarrow> auction_inv (envState e) \<longrightarrow> auction_inv (envState e'))"

lemma HandleAuctionTx_inv:
  assumes inv: "auction_inv (envState e)" and amount: "0 \<le> abAmount ab"
    and bidder: "abOption ab \<noteq> AUTO_BID \<Longrightarrow> abBidder ab \<noteq> AuctionModuleAddr"
    and run: "HandleAuctionTx X e ab gas = Inr (g, err, e')"
  shows "auction_inv (envState e')"
proof -
  define s where "s = (envState e)\<lparr>seAuctionCB := Some (auction_cb (envState e))\<rparr>"
  define payer where "payer = (if abOption ab = AUTO_BID then ValidatorBenefitAddr else abBidder ab)"
  have s: "auction_inv s" "auction_cb s = auction_cb (envState e)" using inv by (simp_all add: s_def auction_inv_cached)
  have payer: "payer \<noteq> AuctionModuleAddr" using bidder module_addresses by (simp add: payer_def)
  define tx where "tx = bid_tx X (e\<lparr>envState := s\<rparr>) ab"
  have tx: "txAmount tx = abAmount ab" by (simp add: tx_def bid_tx_def NewAuctionTx_def Let_def)
  obtain failed cb where add: "AddAuctionTx tx (auction_cb (envState e)) = (failed, cb)" by fastforce
  let ?call = "if abOption ab = AUTO_BID then TransferAutobidMTRToAuction (abBidder ab) (abAmount ab) (e\<lparr>envState := SetAuctionCB cb s\<rparr>)
      else TransferMTRToAuction (abBidder ab) (abAmount ab) (e\<lparr>envState := SetAuctionCB cb s\<rparr>)"
  have call: "fst ?call = None" "envState (snd ?call) = moveMTR payer AuctionModuleAddr (abAmount ab) (SetAuctionCB cb s)"
    if "abAmount ab \<le> GetEnergy payer s"
    using transferMTR_state [of _ payer AuctionModuleAddr "abAmount ab" "e\<lparr>envState := SetAuctionCB cb s\<rparr>"] that
    by (simp_all add: payer_def TransferAutobidMTRToAuction_def TransferMTRToAuction_def SetAuctionCB_def GetEnergy_def
        split: if_splits)
  show ?thesis
  proof (cases "abAmount ab \<le> GetEnergy payer s \<and> \<not> failed \<and> envState e' \<noteq> s")
    case True
    have "envState e' = SetAuctionCB cb (moveMTR payer AuctionModuleAddr (abAmount ab) (SetAuctionCB cb s))"
      using run True call add
      unfolding HandleAuctionTx_def withAuctionCB_cb s_def [symmetric]
      by (auto simp: handler_return_def Let_def tx_def [symmetric] onState_def split_beta split: if_splits)
    then show ?thesis
      using paid_bid [OF s(1), of tx cb payer "SetAuctionCB cb s"] add s(2) tx amount payer True by (simp add: SetAuctionCB_def)
  next
    case False
    then have "envState e' = s"
      using run add unfolding HandleAuctionTx_def withAuctionCB_cb s_def [symmetric]
      by (auto simp: handler_return_def Let_def tx_def [symmetric] onState_def split_beta payer_def split: if_splits)
    then show ?thesis using s by simp
  qed
qed

lemma StartAuctionCB_inv:
  assumes inv: "auction_inv (envState e)" and run: "StartAuctionCB X e ab gas = Inr (g, err, e')"
  shows "auction_inv (envState e')"
proof -
  have "0 \<le> cbRcvdMTR (auction_cb (envState e))"
    using inv by (auto simp: auction_inv_def bid_total_def intro!: sum_list_nonneg)
  then have "0 \<le> GetEnergy AuctionModuleAddr (envState e)" using inv by (simp add: auction_inv_def)
  then show ?thesis
    using run auction_inv_cached [OF inv] unfolding StartAuctionCB_def withAuctionCB_cb
    by (auto simp: handler_return_def Let_def onState_def AddEvent_def auction_inv_def bid_total_def SetAuctionCB_def
        GetEnergy_def at.wf_Nil split: if_splits)
qed

section \<open>Closing\<close>

lemma MintMTRGToBidder_eq: "MintMTRGToBidder = MintMTRG"
  by (simp add: fun_eq_iff MintMTRGToBidder_def MintMTRG_def)

definition released :: "(address \<times> int) list \<Rightarrow> address \<Rightarrow> int" where
  "released m a = (case map_of m a of None \<Rightarrow> 0 | Some v \<Rightarrow> v)"

lemma released_add: "released (add_release k v m) a = released m a + (if k = a then v else 0)"
  by (auto simp: released_def add_release_def update_conv' split: option.split)

lemma keys_add: "set (map fst (add_release k v m)) = insert k (set (map fst m))"
proof (cases "map_of m k")
  case (Some w)
  then have "k \<in> set (map fst m)" by (metis map_of_eq_None_iff option.distinct(1) set_map)
  then show ?thesis using Some by (simp add: add_release_def update_keys insert_absorb del: set_map)
qed (simp add: add_release_def)

lemma group_bids_spec:
  "released (group_bids p txs) a = (\<Sum>t\<leftarrow>txs. if txAddress t = a then bid_mtrg p t else 0)"
  "amounts (group_bids p txs) = (\<Sum>t\<leftarrow>txs. bid_mtrg p t)"
  "distinct (map fst (group_bids p txs))"
  "set (map fst (group_bids p txs)) = txAddress ` set txs"
proof -
  have "released (fold (\<lambda>t. add_release (txAddress t) (bid_mtrg p t)) txs m) a =
      released m a + (\<Sum>t\<leftarrow>txs. if txAddress t = a then bid_mtrg p t else 0)" for m
    by (induction txs arbitrary: m) (simp_all add: released_add)
  then show "released (group_bids p txs) a = (\<Sum>t\<leftarrow>txs. if txAddress t = a then bid_mtrg p t else 0)"
    by (simp add: group_bids_def released_def [of "[]"])
  have "amounts (fold (\<lambda>t. add_release (txAddress t) (bid_mtrg p t)) txs m) = amounts m + (\<Sum>t\<leftarrow>txs. bid_mtrg p t)" for m
    by (induction txs arbitrary: m) simp_all
  then show "amounts (group_bids p txs) = (\<Sum>t\<leftarrow>txs. bid_mtrg p t)" by (simp add: group_bids_def amounts_def [of "[]"])
  have "distinct (map fst m) \<Longrightarrow> distinct (map fst (fold (\<lambda>t. add_release (txAddress t) (bid_mtrg p t)) txs m))" for m
    by (induction txs arbitrary: m) (simp_all add: add_release_distinct)
  then show "distinct (map fst (group_bids p txs))" by (simp add: group_bids_def)
  have "set (map fst (fold (\<lambda>t. add_release (txAddress t) (bid_mtrg p t)) txs m)) = set (map fst m) \<union> txAddress ` set txs" for m
    by (induction txs arbitrary: m) (simp_all add: keys_add del: set_map)
  then show "set (map fst (group_bids p txs)) = txAddress ` set txs" by (simp add: group_bids_def)
qed

lemma MintMTRG_energy: "GetEnergy x (envState (MintMTRG a v e)) = GetEnergy x (envState e)"
  by (simp add: GetEnergy_def CalcEnergy_def MintMTRG_accounts)

lemma MintMTRG_balance: "GetBalance x (envState (MintMTRG a v e)) = GetBalance x (envState e) + (if x = a then v else 0)"
  by (simp add: GetBalance_def MintMTRG_accounts)

lemma mint_all_energy: "GetEnergy x (envState (fold (\<lambda>a. MintMTRG (k a) (f a)) as e)) = GetEnergy x (envState e)"
  by (induction as arbitrary: e) (simp_all add: MintMTRG_energy)

definition bidder_mtrg :: "AuctionCB \<Rightarrow> address \<Rightarrow> int" where
  "bidder_mtrg cb a = (\<Sum>t\<leftarrow>cbAuctionTxs cb. if txAddress t = a then bid_mtrg (actual_price cb) t else 0)"

definition sold_mtrg :: "AuctionCB \<Rightarrow> int" where
  "sold_mtrg cb = (\<Sum>t\<leftarrow>cbAuctionTxs cb. bid_mtrg (actual_price cb) t)"

lemma clear_after_fork3_spec:
  assumes "clear_after_fork3 e cb (actual_price cb) = (n, dist, e')"
  shows "n = sold_mtrg cb" "sumMTRG (envState e') = sumMTRG (envState e) + sold_mtrg cb"
    "sumMTR (envState e') = sumMTR (envState e)" "GetEnergy x (envState e') = GetEnergy x (envState e)"
    "GetBalance x (envState e') = GetBalance x (envState e) + bidder_mtrg cb x"
    "(\<Sum>d\<leftarrow>dist. dmAmount d) = sold_mtrg cb"
proof -
  define m where "m = group_bids (actual_price cb) (cbAuctionTxs cb)"
  define as where "as = sort_SliceStable (\<le>) (map fst m)"
  define f where "f = (\<lambda>a. the (map_of m a))"
  note m = group_bids_spec [of "actual_price cb" "cbAuctionTxs cb", folded m_def]
  have as: "mset as = mset (map fst m)" "set as = set (map fst m)" "distinct as"
    using m(3) mset_eq_imp_distinct_iff [of as "map fst m"] by (simp_all add: as_def)
  have run: "n = (\<Sum>a\<leftarrow>as. f a)" "e' = fold (\<lambda>a. MintMTRG a (f a)) as e"
      "dist = map (\<lambda>a. \<lparr>dmAddr = a, dmAmount = f a\<rparr>) as"
    using assms unfolding clear_after_fork3_def Let_def m_def [symmetric] as_def [symmetric] f_def MintMTRGToBidder_eq
    by auto
  have f: "f a = released m a" if "a \<in> set as" for a
    using that as(2) by (auto simp: f_def released_def map_of_eq_None_iff split: option.split)
  have out: "released m a = 0" if "a \<notin> set as" for a
    using that as(2) map_of_eq_None_iff [of m a] by (simp add: released_def)
  have n: "(\<Sum>a\<leftarrow>as. f a) = sold_mtrg cb"
    using sum_list_map_mset_cong [OF as(1), of f] amounts_keys [OF m(3)] m(2) by (simp add: f_def sold_mtrg_def)
  show "n = sold_mtrg cb" "sumMTRG (envState e') = sumMTRG (envState e) + sold_mtrg cb"
    "sumMTR (envState e') = sumMTR (envState e)" "(\<Sum>d\<leftarrow>dist. dmAmount d) = sold_mtrg cb"
    using run mint_all [of f as e] n by (simp_all add: comp_def)
  show "GetEnergy x (envState e') = GetEnergy x (envState e)"
    using run mint_all_energy [of x "\<lambda>a. a" f as e] by simp
  show "GetBalance x (envState e') = GetBalance x (envState e) + bidder_mtrg cb x"
    using run mint_balance [OF as(3), of x f e] f [of x] out [of x] m(1) by (auto simp: bidder_mtrg_def)
qed

lemma ClearAuction_spec:
  assumes fork: "isFork TeslaFork3 e" and price: "actual_price cb \<noteq> 0 \<or> cbAuctionTxs cb = []"
  obtains dist e' where
    "ClearAuction e cb ratio = Inr (actual_price cb, max 0 (cbRlsdMTRG cb - sold_mtrg cb), dist, e')"
    "sumMTRG (envState e') = sumMTRG (envState e) + cbRsvdMTRG cb + max (cbRlsdMTRG cb) (sold_mtrg cb)"
    "sumMTR (envState e') = sumMTR (envState e)"
    "\<And>x. GetBalance x (envState e') = GetBalance x (envState e) + bidder_mtrg cb x +
       (if x = AuctionLeftOverAccount then cbRsvdMTRG cb + max 0 (cbRlsdMTRG cb - sold_mtrg cb) else 0)"
    "\<And>x. GetEnergy x (envState e') =
       (let v = big_Div (cbRcvdMTR cb * ratio) (10 ^ 18) in
        if GetEnergy AuctionModuleAddr (envState e) < v \<and> v \<noteq> 0 then GetEnergy x (envState e)
        else GetEnergy x (envState e) - (if x = AuctionModuleAddr then v else 0) + (if x = ValidatorBenefitAddr then v else 0))"
proof -
  obtain n dist e1 where run: "clear_after_fork3 e cb (actual_price cb) = (n, dist, e1)" by (cases "clear_after_fork3 e cb (actual_price cb)") auto
  note c = clear_after_fork3_spec [OF run]
  define lo where "lo = max 0 (cbRlsdMTRG cb - sold_mtrg cb)"
  define v where "v = big_Div (cbRcvdMTR cb * ratio) (10 ^ 18)"
  define e2 where "e2 = MintMTRG AuctionLeftOverAccount lo (MintMTRG AuctionLeftOverAccount (cbRsvdMTRG cb) e1)"
  define e' where "e' = snd (TransferMTRToValidatorBenefit v e2)"
  have clear: "ClearAuction e cb ratio = Inr (actual_price cb, lo, dist, e')"
    using fork price by (auto simp: ClearAuction_def Let_def run c(1) lo_def e'_def e2_def v_def MintMTRGToBidder_eq max_def)
  have e': "envState e' = (if GetEnergy AuctionModuleAddr (envState e2) < v \<and> v \<noteq> 0 then envState e2
      else moveMTR AuctionModuleAddr ValidatorBenefitAddr v (envState e2))"
    using transferMTR_state by (simp add: e'_def TransferMTRToValidatorBenefit_def)
  have en: "GetEnergy x (envState e2) = GetEnergy x (envState e)" for x by (simp add: e2_def MintMTRG_energy c(4))
  show thesis
  proof (rule that [OF clear [unfolded lo_def]])
    show "sumMTRG (envState e') = sumMTRG (envState e) + cbRsvdMTRG cb + max (cbRlsdMTRG cb) (sold_mtrg cb)"
      by (simp add: e' e2_def MintMTRG_sums c(2) lo_def max_def)
    show "sumMTR (envState e') = sumMTR (envState e)" by (simp add: e' e2_def MintMTRG_sums c(3))
    show "GetBalance x (envState e') = GetBalance x (envState e) + bidder_mtrg cb x +
       (if x = AuctionLeftOverAccount then cbRsvdMTRG cb + max 0 (cbRlsdMTRG cb - sold_mtrg cb) else 0)" for x
      by (simp add: e' e2_def MintMTRG_balance c(5) lo_def)
    show "GetEnergy x (envState e') =
       (let v = big_Div (cbRcvdMTR cb * ratio) (10 ^ 18) in
        if GetEnergy AuctionModuleAddr (envState e) < v \<and> v \<noteq> 0 then GetEnergy x (envState e)
        else GetEnergy x (envState e) - (if x = AuctionModuleAddr then v else 0) + (if x = ValidatorBenefitAddr then v else 0))" for x
      unfolding v_def [symmetric] Let_def e' by (auto simp: moveMTR_energy en)
  qed
qed

text \<open>At every fork closing leaves a non-negative balance in the module.\<close>

lemma ClearAuction_energy:
  assumes "ClearAuction e cb ratio = Inr (p, l, dist, e')" "0 \<le> GetEnergy AuctionModuleAddr (envState e)"
  shows "0 \<le> GetEnergy AuctionModuleAddr (envState e')"
proof -
  obtain n d e1 where run: "(if isFork TeslaFork3 e then clear_after_fork3 e cb (actual_price cb)
      else clear_before_fork3 e cb (actual_price cb)) = (n, d, e1)"
    by (metis prod_cases3)
  have "GetEnergy x (envState e1) = GetEnergy x (envState e)" for x
    using run clear_after_fork3_spec(4) [of e cb n d e1] mint_all_energy [of x txAddress "bid_mtrg (actual_price cb)" "cbAuctionTxs cb" e]
    by (auto simp: clear_before_fork3_def Let_def MintMTRGToBidder_eq split: if_splits)
  then have en: "GetEnergy x (envState (MintMTRG a v (MintMTRG b w e1))) = GetEnergy x (envState e)" for x a b v w
    by (simp add: MintMTRG_energy)
  define e2 where "e2 = MintMTRG AuctionLeftOverAccount (if cbRlsdMTRG cb - n < 0 then 0 else cbRlsdMTRG cb - n)
      (MintMTRG AuctionLeftOverAccount (cbRsvdMTRG cb) e1)"
  define v where "v = big_Div (cbRcvdMTR cb * ratio) (10 ^ 18)"
  have "e' = snd (TransferMTRToValidatorBenefit v e2)"
    using assms(1) by (auto simp: ClearAuction_def Let_def run e2_def v_def MintMTRGToBidder_eq split: if_splits)
  then show ?thesis
    using assms(2) en module_addresses transferMTR_state [of "ErrText ''not enough meter''" AuctionModuleAddr ValidatorBenefitAddr v e2]
    by (auto simp: TransferMTRToValidatorBenefit_def moveMTR_energy e2_def split: if_splits)
qed

lemma seAuctionSummaryList_keep: "seAuctionSummaryList s = x \<Longrightarrow> s\<lparr>seAuctionSummaryList := x\<rparr> = s"
  by (cases s) simp

lemma envState_keep: "envState e = s \<Longrightarrow> e\<lparr>envState := s\<rparr> = e"
  by (cases e) simp

lemma auction_cb_summary: "auction_cb (s\<lparr>seAuctionSummaryList := l\<rparr>) = auction_cb s"
  by (simp add: auction_cb_def split: option.split)

lemma withSummaryList_e:
  "\<exists>l. withSummaryList e f = f l (e\<lparr>envState := (envState e)\<lparr>seAuctionSummaryList := Some l\<rparr>\<rparr>)"
proof (cases "seAuctionSummaryList (envState e)")
  case (Some l)
  then have "e\<lparr>envState := (envState e)\<lparr>seAuctionSummaryList := Some l\<rparr>\<rparr> = e" by (metis seAuctionSummaryList_keep envState_keep)
  then have "withSummaryList e f = f l (e\<lparr>envState := (envState e)\<lparr>seAuctionSummaryList := Some l\<rparr>\<rparr>)"
    by (simp only:) (simp add: withSummaryList_def GetSummaryList_def Some)
  then show ?thesis ..
qed (rule exI, simp add: withSummaryList_def GetSummaryList_def)

lemma auction_inv_empty:
  "auction_cb s = emptyAuctionCB \<Longrightarrow> 0 \<le> GetEnergy AuctionModuleAddr s \<Longrightarrow> auction_inv s"
  by (simp add: auction_inv_def emptyAuctionCB_def bid_total_def at.wf_Nil)

lemma auction_inv_energy:
  assumes "auction_inv s"
  shows "0 \<le> GetEnergy AuctionModuleAddr s"
proof -
  have "0 \<le> bid_total (auction_cb s)"
    unfolding bid_total_def by (rule sum_list_nonneg) (use assms in \<open>auto simp: auction_inv_def\<close>)
  then show ?thesis using assms by (simp add: auction_inv_def)
qed

text \<open>Closing runs on the state with both caches filled.\<close>

lemma CloseAuctionCB_cached:
  obtains l e1 where
    "CloseAuctionCB X e ab gas =
       (if \<not> IsActive (auction_cb (envState e)) then handler_return gas (Some ErrNotStart) e1
        else finish_auction X gas l (auction_cb (envState e)) e1)"
    "e1 = e\<lparr>envState := (envState e)\<lparr>seAuctionSummaryList := Some l, seAuctionCB := Some (auction_cb (envState e))\<rparr>\<rparr>"
proof -
  define f where "f = (\<lambda>l e. withAuctionCB e (\<lambda>cb e. if \<not> IsActive cb then handler_return gas (Some ErrNotStart) e
      else finish_auction X gas l cb e))"
  have "CloseAuctionCB X e ab gas = withSummaryList e f" by (simp add: CloseAuctionCB_def f_def)
  moreover obtain l where "withSummaryList e f = f l (e\<lparr>envState := (envState e)\<lparr>seAuctionSummaryList := Some l\<rparr>\<rparr>)"
    using withSummaryList_e [of e f] by (elim exE)
  moreover have "f l (e\<lparr>envState := (envState e)\<lparr>seAuctionSummaryList := Some l\<rparr>\<rparr>) = (if \<not> IsActive (auction_cb (envState e))
      then handler_return gas (Some ErrNotStart) (e\<lparr>envState := (envState e)\<lparr>seAuctionSummaryList := Some l, seAuctionCB := Some (auction_cb (envState e))\<rparr>\<rparr>)
      else finish_auction X gas l (auction_cb (envState e))
        (e\<lparr>envState := (envState e)\<lparr>seAuctionSummaryList := Some l, seAuctionCB := Some (auction_cb (envState e))\<rparr>\<rparr>))"
    by (simp add: f_def withAuctionCB_cb auction_cb_summary)
  ultimately show thesis by (intro that) (simp only: , rule refl)
qed

lemma finish_auction_run:
  assumes "ClearAuction e cb (Params_Get KeyValidatorBenefitRatio (envState e)) = Inr (p, lo, dist, e2)"
  obtains e' where "finish_auction X gas l cb e = Inr (leftOver gas, None, e')"
    "accounts (envState e') = accounts (envState e2)" "seAuctionCB (envState e') = Some emptyAuctionCB"
    "seAuctionSummaryList (envState e') = Some (add_summary (isFork TeslaFork6 e2) (auction_summary cb p lo dist) l)"
  using assms that by (auto simp: finish_auction_def handler_return_def Let_def onState_def AddEvent_def SetAuctionCB_def
      SetSummaryList_def)

lemma CloseAuctionCB_inv:
  assumes inv: "auction_inv (envState e)" and run: "CloseAuctionCB X e ab gas = Inr (g, err, e')"
  shows "auction_inv (envState e')"
proof -
  define cb where "cb = auction_cb (envState e)"
  obtain l e1 where l: "CloseAuctionCB X e ab gas =
      (if \<not> IsActive cb then handler_return gas (Some ErrNotStart) e1 else finish_auction X gas l cb e1)"
    and "e1 = e\<lparr>envState := (envState e)\<lparr>seAuctionSummaryList := Some l, seAuctionCB := Some cb\<rparr>\<rparr>"
    unfolding cb_def by (rule CloseAuctionCB_cached)
  then have e1: "auction_inv (envState e1)" "0 \<le> GetEnergy AuctionModuleAddr (envState e1)"
    using inv auction_inv_energy [OF inv] by (simp_all add: cb_def auction_inv_def GetEnergy_def)
  show ?thesis
  proof (cases "IsActive cb")
    case True
    then obtain p lo dist e2 where clear: "ClearAuction e1 cb (Params_Get KeyValidatorBenefitRatio (envState e1)) = Inr (p, lo, dist, e2)"
      using run l by (cases "ClearAuction e1 cb (Params_Get KeyValidatorBenefitRatio (envState e1))") (auto simp: finish_auction_def)
    obtain e'' where "finish_auction X gas l cb e1 = Inr (leftOver gas, None, e'')"
      "accounts (envState e'') = accounts (envState e2)" "seAuctionCB (envState e'') = Some emptyAuctionCB"
      by (rule finish_auction_run [OF clear])
    then have "auction_cb (envState e') = emptyAuctionCB"
      "GetEnergy AuctionModuleAddr (envState e') = GetEnergy AuctionModuleAddr (envState e2)"
      using run l True by (simp_all add: auction_cb_def GetEnergy_def)
    then show ?thesis using ClearAuction_energy [OF clear e1(2)] by (simp add: auction_inv_empty)
  qed (use run l e1(1) in \<open>auto simp: handler_return_def\<close>)
qed

end
