(* ===== verification/Auction_Properties.thy ===== *)
theory Auction_Properties
  imports Auction_Invariant Staking_Chain
begin

text \<open>
  Auctions over time: the books of the auction on every reachable state, the outcome of
  closing an auction, and a bid whose transaction is reverted.
\<close>

section \<open>Automatic bids\<close>

lemma auction_inv_other:
  "auction_inv s \<Longrightarrow> auction_cb s' = auction_cb s \<Longrightarrow>
   GetEnergy AuctionModuleAddr s \<le> GetEnergy AuctionModuleAddr s' \<Longrightarrow> auction_inv s'"
  by (auto simp: auction_inv_def)

text \<open>Paying a validator leaves the control block and does not lower the balance of the module.\<close>

definition spares_auction :: "State \<Rightarrow> State \<Rightarrow> bool" where
  "spares_auction s s' \<longleftrightarrow> auction_cb s' = auction_cb s \<and> GetEnergy AuctionModuleAddr s \<le> GetEnergy AuctionModuleAddr s'"

lemma spares_trans: "spares_auction s t \<Longrightarrow> spares_auction t u \<Longrightarrow> spares_auction s u"
  by (auto simp: spares_auction_def)

lemma spares_reward: "0 \<le> v \<Longrightarrow> spares_auction (envState e) (envState (snd (TransferValidatorReward v a e)))"
  using transferMTR_state [of _ ValidatorBenefitAddr a v e] module_addresses
  by (auto simp: TransferValidatorReward_def spares_auction_def moveMTR_energy)

lemma spares_rewards:
  assumes "\<forall>r\<in>set rs. 0 \<le> riAmount r"
  shows "spares_auction (envState e) (envState (snd (DistValidatorRewards rs e)))"
proof -
  have "spares_auction (envState e) (envState (snd (fold (\<lambda>r (acc, e).
      (acc + riAmount r, snd (TransferValidatorReward (riAmount r) (riAddress r) e))) rs (acc, e))))" for acc
    using assms
  proof (induction rs arbitrary: acc e)
    case (Cons r rs)
    then show ?case using spares_trans [OF spares_reward [of "riAmount r" e "riAddress r"]] by simp
  qed (simp add: spares_auction_def)
  then show ?thesis by (simp add: DistValidatorRewards_def)
qed

lemma spares_SetValidatorRewardList:
  "spares_auction s (SetValidatorRewardList l s)"
  by (simp add: spares_auction_def SetValidatorRewardList_def EncodeStorage_def GetEnergy_def auction_cb_def split: option.split)

lemma spares_record_rewards:
  "\<forall>r\<in>set rs. 0 \<le> riAmount r \<Longrightarrow> spares_auction (envState e) (envState (record_rewards ep rs rl e))"
  unfolding record_rewards_def Let_def split_beta
  by (simp add: onState_def spares_trans [OF spares_rewards spares_SetValidatorRewardList])

lemma moveMTR_SetAuctionCB: "moveMTR a b v (SetAuctionCB cb s) = SetAuctionCB cb (moveMTR a b v s)"
  by (cases s) (simp add: moveMTR_def SetAuctionCB_def Let_def)

lemma autobid_loop_inv:
  assumes "auction_inv (envState e)" "auction_cb (envState e) = cb" "\<forall>a\<in>set as. 0 < riAmount a"
  shows "auction_inv (envState (autobid_loop X i as cb e))"
  using assms
proof (induction "as" arbitrary: i cb e)
  case Nil
  then show ?case by (simp add: onState_def auction_inv_def SetAuctionCB_def GetEnergy_def)
next
  case (Cons a "as")
  define tx where "tx = NewAuctionTx (xAuctionTxHash X) (riAddress a) (riAmount a) AUTO_BID (envTime e) (of_nat i)"
  have tx: "txAmount tx = riAmount a" by (simp add: tx_def NewAuctionTx_def Let_def)
  obtain failed cb' where add: "AddAuctionTx tx cb = (failed, cb')" by fastforce
  define e1 where "e1 = snd (TransferAutobidMTRToAuction (riAddress a) (riAmount a) (onState (SetAuctionCB cb') e))"
  show ?case
  proof (cases "GetEnergy ValidatorBenefitAddr (envState e) < riAmount a \<or> failed")
    case True
    then show ?thesis using Cons.prems add by (auto simp: Let_def tx_def)
  next
    case False
    have st: "envState e1 = moveMTR ValidatorBenefitAddr AuctionModuleAddr (txAmount tx) (SetAuctionCB cb' (envState e))"
      "fst (TransferAutobidMTRToAuction (riAddress a) (riAmount a) (onState (SetAuctionCB cb') e)) = None"
      using False transferMTR_state [of _ ValidatorBenefitAddr AuctionModuleAddr "riAmount a" "onState (SetAuctionCB cb') e"]
      by (simp_all add: e1_def TransferAutobidMTRToAuction_def tx onState_def SetAuctionCB_def GetEnergy_def)
    have "auction_cb (envState e1) = cb'" "auction_inv (envState e1)"
      using paid_bid [of "envState e" tx cb' ValidatorBenefitAddr "envState e"] Cons.prems add False module_addresses tx
      by (simp_all add: st moveMTR_SetAuctionCB)
    then show ?thesis
      using Cons.IH [of e1 cb' "i + 1"] Cons.prems(3) add False st(2)
      by (simp add: Let_def tx_def [symmetric] split_beta e1_def)
  qed
qed

lemma autobid_inv:
  assumes inv: "auction_inv (envState e)"
  shows "auction_inv (envState (distributeAndAutobidAfterTeslaFork6 X e sb))"
proof (cases "xDecodeRewardInfoV2s X (sbExtraData sb)")
  case (Some rs)
  define dist where "dist = map (\<lambda>r. \<lparr>riAddress = riv2Address r, riAmount = riv2DistAmount r\<rparr>) (filter (\<lambda>r. riv2DistAmount r > 0) rs)"
  define bids where "bids = map (\<lambda>r. \<lparr>riAddress = riv2Address r, riAmount = riv2AutobidAmount r\<rparr>) (filter (\<lambda>r. riv2AutobidAmount r > 0) rs)"
  define rl where "rl = GetValidatorRewardList (envState e)"
  define e1 where "e1 = (if length dist > 0 then record_rewards (sbVersion sb) dist rl e else onState (SetValidatorRewardList rl) e)"
  have pos: "\<forall>r\<in>set dist. 0 \<le> riAmount r" "\<forall>a\<in>set bids. 0 < riAmount a" by (auto simp: dist_def bids_def)
  have "spares_auction (envState e) (envState e1)"
    using spares_record_rewards [OF pos(1)] spares_SetValidatorRewardList by (simp add: e1_def onState_def)
  then have e1: "auction_inv (envState e1)" using inv auction_inv_other by (auto simp: spares_auction_def)
  define cb where "cb = auction_cb (envState e1)"
  have "distributeAndAutobidAfterTeslaFork6 X e sb = withAuctionCB e1 (\<lambda>cb e. if \<not> IsActive cb then e else autobid_loop X 0 bids cb e)"
    unfolding distributeAndAutobidAfterTeslaFork6_def Let_def withAuctionCB_def e1_def dist_def bids_def rl_def Some
    by (simp only: option.case split_beta)
  then show ?thesis
    unfolding withAuctionCB_cb using autobid_loop_inv [OF _ _ pos(2)] auction_inv_cached [OF e1] by simp
qed (simp add: distributeAndAutobidAfterTeslaFork6_def inv)

section \<open>Reachable states\<close>

inductive auction_step :: "externals \<Rightarrow> State \<Rightarrow> State \<Rightarrow> bool" for X where
  call: "Auction_Handle X e (Some ab) gas = Inr (g, err, e') \<Longrightarrow> 0 \<le> abAmount ab \<Longrightarrow>
     txcOrigin (envTxCtx e) \<noteq> AuctionModuleAddr \<Longrightarrow> auction_step X (envState e) (envState e')"
| autobid: "auction_step X (envState e) (envState (distributeAndAutobidAfterTeslaFork6 X e sb))"
| other: "spares_auction s s' \<Longrightarrow> auction_step X s s'"

inductive auction_reachable :: "externals \<Rightarrow> State \<Rightarrow> bool" for X where
  init: "auction_cb s = emptyAuctionCB \<Longrightarrow> 0 \<le> GetEnergy AuctionModuleAddr s \<Longrightarrow> auction_reachable X s"
| step: "auction_reachable X s \<Longrightarrow> auction_step X s s' \<Longrightarrow> auction_reachable X s'"

lemma Auction_Handle_inv:
  assumes "auction_inv (envState e)" "Auction_Handle X e (Some ab) gas = Inr (g, err, e')" "0 \<le> abAmount ab"
    and "txcOrigin (envTxCtx e) \<noteq> AuctionModuleAddr"
  shows "auction_inv (envState e')"
  using assms HandleAuctionTx_inv [OF assms(1,3), of X gas g err e']
    StartAuctionCB_inv [OF assms(1)] CloseAuctionCB_inv [OF assms(1)]
  by (auto simp: Auction_Handle_def Let_def split: if_splits)

lemma auction_reachable_inv: "auction_reachable X s \<Longrightarrow> auction_inv s"
proof (induction rule: auction_reachable.induct)
  case (step s s')
  from step(2,3) show ?case
    by (induction rule: auction_step.induct)
      (auto intro: Auction_Handle_inv autobid_inv auction_inv_other simp: spares_auction_def)
qed (rule auction_inv_empty)

section \<open>An example auction\<close>

definition au_X :: externals where
  "au_X = ex_X\<lparr>xAuctionCBHash := (\<lambda>_ _ _ _ _ _ _ _. 1), xAuctionTxHash := (\<lambda>a _ _ _ _. ucast a)\<rparr>"

definition au_s0 :: State where
  "au_s0 = emptyState\<lparr>accounts := (\<lambda>_. emptyAccount\<lparr>Energy := 100 * 10 ^ 18\<rparr>), paramSlot := (\<lambda>_. 10 ^ 17)\<rparr>"

definition au_body :: "uint32 \<Rightarrow> AuctionBody" where
  "au_body op =
     \<lparr>abOpcode = op, abVersion = 0, abOption = USER_BID, abStartHeight = 1, abStartEpoch = 1, abEndHeight = 2,
      abEndEpoch = 2, abSequence = 1, abAuctionID = 0, abBidder = 6, abAmount = 20 * 10 ^ 18,
      abReserveAmount = 5 * 10 ^ 18, abToken = MTR, abTimestamp = 0, abNonce = 0\<rparr>"

definition au_run :: "address \<Rightarrow> uint32 \<Rightarrow> State \<Rightarrow> handler_result" where
  "au_run origin op s = Auction_Handle au_X (ex_env origin 1700000000 s) (Some (au_body op)) 100000"

definition handler_state :: "handler_result \<Rightarrow> State" where
  "handler_state r = (case r of Inr (g, err, e) \<Rightarrow> envState e | Inl p \<Rightarrow> emptyState)"

definition handler_ok :: "handler_result \<Rightarrow> bool" where
  "handler_ok r = (case r of Inr (g, None, e) \<Rightarrow> True | _ \<Rightarrow> False)"

definition au_s1 :: State where "au_s1 = handler_state (au_run 0 OP_START au_s0)"
definition au_s2 :: State where "au_s2 = handler_state (au_run 6 OP_BID au_s1)"

lemma handler_ok_run: "handler_ok r \<Longrightarrow> \<exists>g e. r = Inr (g, None, e) \<and> envState e = handler_state r"
  by (auto simp: handler_ok_def handler_state_def split: sum.splits option.splits)

lemma au_step:
  assumes "auction_reachable au_X s" "handler_ok (au_run origin op s)" "origin \<noteq> AuctionModuleAddr"
  shows "auction_reachable au_X (handler_state (au_run origin op s))"
proof -
  obtain g e where run: "au_run origin op s = Inr (g, None, e)" "envState e = handler_state (au_run origin op s)"
    using handler_ok_run [OF assms(2)] by blast
  have "auction_step au_X s (envState e)"
    using auction_step.call [of au_X "ex_env origin 1700000000 s" "au_body op" 100000 g None e] run(1) assms(3)
    by (simp add: au_run_def ex_env_def au_body_def)
  then show ?thesis using assms(1) run(2) auction_reachable.step by metis
qed

lemma au_reachable1: "auction_reachable au_X au_s1"
proof -
  have "auction_reachable au_X au_s0"
    by (rule auction_reachable.init) (simp_all add: auction_cb_def au_s0_def emptyState_def GetEnergy_def CalcEnergy_def emptyAccount_def)
  moreover have "handler_ok (au_run 0 OP_START au_s0)" "(0 :: address) \<noteq> AuctionModuleAddr" by code_simp+
  ultimately show ?thesis unfolding au_s1_def by (rule au_step)
qed

lemma au_reachable: "auction_reachable au_X au_s2"
proof -
  have "handler_ok (au_run 6 OP_BID au_s1)" "(6 :: address) \<noteq> AuctionModuleAddr" by code_simp+
  then show ?thesis unfolding au_s2_def by (rule au_step [OF au_reachable1])
qed

text \<open>
  C10. On every state reachable by calls of the auction module, automatic bids of a
  governing step and anything that leaves the control block alone and takes no MTR from the module, the bids
  of the control block have distinct IDs in ascending order and are not negative, the received MTR is their sum,
  and the account of the module holds at least that much.
\<close>

theorem auction_books:
  assumes "auction_reachable X s"
  shows "sorted_wrt (<) (map txTxID (cbAuctionTxs (auction_cb s))) \<and>
    (\<forall>t\<in>set (cbAuctionTxs (auction_cb s)). 0 \<le> txAmount t) \<and>
    cbRcvdMTR (auction_cb s) = (\<Sum>t\<leftarrow>cbAuctionTxs (auction_cb s). txAmount t) \<and>
    cbRcvdMTR (auction_cb s) \<le> GetEnergy AuctionModuleAddr s"
  using auction_reachable_inv [OF assms] by (simp add: auction_inv_def bid_total_def AuctionTxs_wf_def key_sorted_def sorted_wrt_map)

theorem auction_books_witness:
  "(\<Sum>t\<leftarrow>cbAuctionTxs (auction_cb au_s2). txAmount t) = 20 * 10 ^ 18 \<and> 20 * 10 ^ 18 \<le> GetEnergy AuctionModuleAddr au_s2"
proof -
  have "cbRcvdMTR (auction_cb au_s2) = 20 * 10 ^ 18" by code_simp
  then show ?thesis using auction_books [OF au_reachable] by simp
qed

section \<open>Closing\<close>

lemma bid_mtrg_le: "0 < p \<Longrightarrow> p * bid_mtrg p t \<le> txAmount t * 10 ^ 18"
  by (simp add: bid_mtrg_def big_Div_def pos_imp_zdiv_nonneg_iff mult.commute [of p])
    (metis div_mult_mod_eq le_add_same_cancel1 pos_mod_sign)

lemma sold_mtrg_le: "0 < actual_price cb \<Longrightarrow> actual_price cb * sold_mtrg cb \<le> bid_total cb * 10 ^ 18"
proof -
  assume p: "0 < actual_price cb"
  have "p * (\<Sum>t\<leftarrow>ts. bid_mtrg p t) \<le> (\<Sum>t\<leftarrow>ts. txAmount t) * 10 ^ 18" if "0 < p" for p ts
    using bid_mtrg_le [OF that] by (induction ts) (simp_all add: distrib_left distrib_right add_mono)
  then show ?thesis using p by (simp add: sold_mtrg_def bid_total_def)
qed

lemma actual_price_ge: "cbRsvdPrice cb \<le> actual_price cb"
  by (simp add: actual_price_def Let_def)

lemma add_summary_spec:
  "length (add_summary f a l) \<le> AUCTION_MAX_SUMMARIES" "last (add_summary f a l) = a"
  by (auto simp: add_summary_def Let_def AUCTION_MAX_SUMMARIES_def)

lemma CloseAuctionCB_run:
  fixes X e ab gas
  defines "cb \<equiv> auction_cb (envState e)" and "ratio \<equiv> Params_Get KeyValidatorBenefitRatio (envState e)"
  assumes "isFork TeslaFork3 e" "IsActive cb" "0 < actual_price cb"
  obtains dist l e2 e' where "CloseAuctionCB X e ab gas = Inr (leftOver gas, None, e')"
    and "accounts (envState e') = accounts (envState e2)" "seAuctionCB (envState e') = Some emptyAuctionCB"
      "seAuctionSummaryList (envState e') = Some (add_summary (isFork TeslaFork6 e2)
         (auction_summary cb (actual_price cb) (max 0 (cbRlsdMTRG cb - sold_mtrg cb)) dist) l)"
    and "sumMTRG (envState e2) = sumMTRG (envState e) + cbRsvdMTRG cb + max (cbRlsdMTRG cb) (sold_mtrg cb)"
      "sumMTR (envState e2) = sumMTR (envState e)"
      "\<forall>x. GetBalance x (envState e2) = GetBalance x (envState e) + bidder_mtrg cb x +
         (if x = AuctionLeftOverAccount then cbRsvdMTRG cb + max 0 (cbRlsdMTRG cb - sold_mtrg cb) else 0)"
      "\<forall>x. GetEnergy x (envState e2) =
         (let v = big_Div (cbRcvdMTR cb * ratio) (10 ^ 18) in
          if GetEnergy AuctionModuleAddr (envState e) < v \<and> v \<noteq> 0 then GetEnergy x (envState e)
          else GetEnergy x (envState e) - (if x = AuctionModuleAddr then v else 0) + (if x = ValidatorBenefitAddr then v else 0))"
proof -
  obtain l e1 where l: "CloseAuctionCB X e ab gas =
      (if \<not> IsActive cb then handler_return gas (Some ErrNotStart) e1 else finish_auction X gas l cb e1)"
    and e1: "e1 = e\<lparr>envState := (envState e)\<lparr>seAuctionSummaryList := Some l, seAuctionCB := Some cb\<rparr>\<rparr>"
    unfolding cb_def by (rule CloseAuctionCB_cached)
  obtain dist e2 where clear: "ClearAuction e1 cb ratio = Inr (actual_price cb, max 0 (cbRlsdMTRG cb - sold_mtrg cb), dist, e2)"
    and spec: "sumMTRG (envState e2) = sumMTRG (envState e1) + cbRsvdMTRG cb + max (cbRlsdMTRG cb) (sold_mtrg cb)"
    "sumMTR (envState e2) = sumMTR (envState e1)"
    "\<forall>x. GetBalance x (envState e2) = GetBalance x (envState e1) + bidder_mtrg cb x +
       (if x = AuctionLeftOverAccount then cbRsvdMTRG cb + max 0 (cbRlsdMTRG cb - sold_mtrg cb) else 0)"
    "\<forall>x. GetEnergy x (envState e2) =
       (let v = big_Div (cbRcvdMTR cb * ratio) (10 ^ 18) in
        if GetEnergy AuctionModuleAddr (envState e1) < v \<and> v \<noteq> 0 then GetEnergy x (envState e1)
        else GetEnergy x (envState e1) - (if x = AuctionModuleAddr then v else 0) + (if x = ValidatorBenefitAddr then v else 0))"
    by (rule ClearAuction_spec [of e1 cb ratio]) (use assms(3-5) in \<open>auto simp: e1 isFork_def\<close>)
  have "Params_Get KeyValidatorBenefitRatio (envState e1) = ratio" by (simp add: ratio_def e1 Params_Get_def)
  note clear' = clear [folded this]
  obtain e' where run: "finish_auction X gas l cb e1 = Inr (leftOver gas, None, e')"
    and e': "accounts (envState e') = accounts (envState e2)" "seAuctionCB (envState e') = Some emptyAuctionCB"
      "seAuctionSummaryList (envState e') = Some (add_summary (isFork TeslaFork6 e2)
         (auction_summary cb (actual_price cb) (max 0 (cbRlsdMTRG cb - sold_mtrg cb)) dist) l)"
    by (rule finish_auction_run [OF clear'])
  show thesis
    by (rule that [OF _ e']) (use l run assms(4) spec in \<open>simp_all add: e1 GetBalance_def GetEnergy_def cong: if_cong\<close>)
qed

text \<open>
  C11. Closing an open auction from fork 3 on, on a state with sound books and a positive
  reserve price, succeeds.  It mints to each bidder the amount that its bids buy at the actual price
  and to the left-over account the reserve and what is not sold, moves the validators' share of the
  received MTR to the benefit account, and creates no MTR.  The amount sold is worth at most the MTR received.
  Afterwards no auction is active and the summary is the last of at most 32.
\<close>

theorem auction_close:
  assumes "isFork TeslaFork3 e" "IsActive (auction_cb (envState e))" "0 < cbRsvdPrice (auction_cb (envState e))"
    and "auction_inv (envState e)"
    and "0 \<le> Params_Get KeyValidatorBenefitRatio (envState e)" "Params_Get KeyValidatorBenefitRatio (envState e) \<le> 10 ^ 18"
  shows "\<exists>e' l. CloseAuctionCB X e ab gas = Inr (leftOver gas, None, e') \<and>
    (let cb = auction_cb (envState e); v = big_Div (cbRcvdMTR cb * Params_Get KeyValidatorBenefitRatio (envState e)) (10 ^ 18);
         unsold = max 0 (cbRlsdMTRG cb - sold_mtrg cb) in
       (\<forall>x. GetBalance x (envState e') = GetBalance x (envState e) + bidder_mtrg cb x +
          (if x = AuctionLeftOverAccount then cbRsvdMTRG cb + unsold else 0)) \<and>
       (\<forall>x. GetEnergy x (envState e') = GetEnergy x (envState e) -
          (if x = AuctionModuleAddr then v else 0) + (if x = ValidatorBenefitAddr then v else 0)) \<and>
       sumMTRG (envState e') = sumMTRG (envState e) + cbRsvdMTRG cb + max (cbRlsdMTRG cb) (sold_mtrg cb) \<and>
       sumMTR (envState e') = sumMTR (envState e) \<and>
       actual_price cb * sold_mtrg cb \<le> cbRcvdMTR cb * 10 ^ 18 \<and>
       \<not> IsActive (auction_cb (envState e')) \<and>
       seAuctionSummaryList (envState e') = Some l \<and> length l \<le> 32 \<and>
       asActualPrice (last l) = actual_price cb \<and> asAuctionTxs (last l) = cbAuctionTxs cb)"
proof -
  define cb where "cb = auction_cb (envState e)"
  define ratio where "ratio = Params_Get KeyValidatorBenefitRatio (envState e)"
  have p: "0 < actual_price cb" using actual_price_ge [of cb] assms(3) by (simp add: cb_def)
  obtain dist l e2 e' where run: "CloseAuctionCB X e ab gas = Inr (leftOver gas, None, e')"
    and e': "accounts (envState e') = accounts (envState e2)" "seAuctionCB (envState e') = Some emptyAuctionCB"
      "seAuctionSummaryList (envState e') = Some (add_summary (isFork TeslaFork6 e2)
         (auction_summary cb (actual_price cb) (max 0 (cbRlsdMTRG cb - sold_mtrg cb)) dist) l)"
    and spec: "sumMTRG (envState e2) = sumMTRG (envState e) + cbRsvdMTRG cb + max (cbRlsdMTRG cb) (sold_mtrg cb)"
      "sumMTR (envState e2) = sumMTR (envState e)"
      "\<forall>x. GetBalance x (envState e2) = GetBalance x (envState e) + bidder_mtrg cb x +
         (if x = AuctionLeftOverAccount then cbRsvdMTRG cb + max 0 (cbRlsdMTRG cb - sold_mtrg cb) else 0)"
      "\<forall>x. GetEnergy x (envState e2) =
         (let v = big_Div (cbRcvdMTR cb * ratio) (10 ^ 18) in
          if GetEnergy AuctionModuleAddr (envState e) < v \<and> v \<noteq> 0 then GetEnergy x (envState e)
          else GetEnergy x (envState e) - (if x = AuctionModuleAddr then v else 0) + (if x = ValidatorBenefitAddr then v else 0))"
    by (rule CloseAuctionCB_run [OF assms(1,2) p [unfolded cb_def], of X ab gas, folded cb_def ratio_def])
  have books: "cbRcvdMTR cb = bid_total cb" "cbRcvdMTR cb \<le> GetEnergy AuctionModuleAddr (envState e)" "0 \<le> cbRcvdMTR cb"
    using assms(4) by (auto simp: auction_inv_def cb_def GetEnergy_def bid_total_def intro!: sum_list_nonneg)
  have "cbRcvdMTR cb * ratio \<le> cbRcvdMTR cb * 10 ^ 18"
    using books(3) assms(6) by (simp add: mult_left_mono ratio_def)
  from zdiv_mono1 [OF this, of "10 ^ 18"] have v: "big_Div (cbRcvdMTR cb * ratio) (10 ^ 18) \<le> cbRcvdMTR cb"
    by (simp add: big_Div_def)
  show ?thesis
    unfolding Let_def cb_def [symmetric] ratio_def [symmetric]
  proof (intro exI conjI)
    show "CloseAuctionCB X e ab gas = Inr (leftOver gas, None, e')" by (rule run)
    show "seAuctionSummaryList (envState e') = Some (add_summary (isFork TeslaFork6 e2)
         (auction_summary cb (actual_price cb) (max 0 (cbRlsdMTRG cb - sold_mtrg cb)) dist) l)" by (rule e'(3))
    show "actual_price cb * sold_mtrg cb \<le> cbRcvdMTR cb * 10 ^ 18" using sold_mtrg_le [OF p] books(1) by simp
    show "\<not> IsActive (auction_cb (envState e'))" by (simp add: auction_cb_def e'(2)) code_simp
    show "sumMTRG (envState e') = sumMTRG (envState e) + cbRsvdMTRG cb + max (cbRlsdMTRG cb) (sold_mtrg cb)"
      "sumMTR (envState e') = sumMTR (envState e)"
      using spec(1,2) by (simp_all add: e'(1))
    show "\<forall>x. GetBalance x (envState e') = GetBalance x (envState e) + bidder_mtrg cb x +
        (if x = AuctionLeftOverAccount then cbRsvdMTRG cb + max 0 (cbRlsdMTRG cb - sold_mtrg cb) else 0)"
      using spec(3) by (simp add: GetBalance_def e'(1))
    show "\<forall>x. GetEnergy x (envState e') = GetEnergy x (envState e) -
          (if x = AuctionModuleAddr then big_Div (cbRcvdMTR cb * ratio) (10 ^ 18) else 0) +
          (if x = ValidatorBenefitAddr then big_Div (cbRcvdMTR cb * ratio) (10 ^ 18) else 0)"
      using spec(4) v books(2) by (simp add: GetEnergy_def e'(1))
  qed (use add_summary_spec in \<open>simp_all add: AUCTION_MAX_SUMMARIES_def auction_summary_def\<close>)
qed

theorem auction_close_witness:
  "\<exists>e'. CloseAuctionCB au_X (ex_env 0 1700000000 au_s2) (au_body OP_STOP) 100000 = Inr (leftOver 100000, None, e') \<and>
     GetBalance 6 (envState e') = 20 * 10 ^ 18"
proof -
  have e: "envState (ex_env 0 1700000000 au_s2) = au_s2" by (simp add: ex_env_def)
  have "isFork TeslaFork3 (ex_env 0 1700000000 au_s2)" "IsActive (auction_cb au_s2)" "0 < cbRsvdPrice (auction_cb au_s2)"
    "0 \<le> Params_Get KeyValidatorBenefitRatio au_s2" "Params_Get KeyValidatorBenefitRatio au_s2 \<le> 10 ^ 18"
    "GetBalance 6 au_s2 + bidder_mtrg (auction_cb au_s2) 6 = 20 * 10 ^ 18" "(6 :: address) \<noteq> AuctionLeftOverAccount"
    by code_simp+
  then show ?thesis
    using auction_close [of "ex_env 0 1700000000 au_s2" au_X "au_body OP_STOP" 100000] auction_reachable_inv [OF au_reachable]
    unfolding e Let_def by force
qed

section \<open>A reverted bid\<close>

lemma RevertTo_NewCheckpoint:
  assumes "checkpoints s' = checkpoints (fst (NewCheckpoint s))"
  shows "RevertTo (snd (NewCheckpoint s)) s' = s\<lparr>seAuctionCB := seAuctionCB s', seAuctionSummaryList := seAuctionSummaryList s', stateErr := stateErr s'\<rparr>"
  using assms by (cases s) (simp add: RevertTo_def NewCheckpoint_def World.defs State.defs nth_append)


lemma transferMTR_slots:
  "s' = envState (snd (transferMTR err a b v e)) \<Longrightarrow> checkpoints s' = checkpoints (envState e) \<and>
   seAuctionSummaryList s' = seAuctionSummaryList (envState e) \<and> stateErr s' = stateErr (envState e)"
  by (simp add: transferMTR_state moveMTR_def Let_def)

text \<open>A bid that is accepted adds one entry to the cached control block.\<close>

lemma HandleAuctionTx_accepts:
  assumes run: "HandleAuctionTx X e ab gas = Inr (g, None, e')"
  obtains cb where "AddAuctionTx (bid_tx X e ab) (auction_cb (envState e)) = (False, cb)"
    "seAuctionCB (envState e') = Some cb" "checkpoints (envState e') = checkpoints (envState e)"
    "seAuctionSummaryList (envState e') = seAuctionSummaryList (envState e)" "stateErr (envState e') = stateErr (envState e)"
proof -
  define s where "s = (envState e)\<lparr>seAuctionCB := Some (auction_cb (envState e))\<rparr>"
  have tx: "bid_tx X (e\<lparr>envState := s\<rparr>) ab = bid_tx X e ab" by (simp add: bid_tx_def isFork_def)
  obtain failed cb where add: "AddAuctionTx (bid_tx X e ab) (auction_cb (envState e)) = (failed, cb)" by fastforce
  define call where "call = (if abOption ab = AUTO_BID
      then TransferAutobidMTRToAuction (abBidder ab) (abAmount ab) (e\<lparr>envState := SetAuctionCB cb s\<rparr>)
      else TransferMTRToAuction (abBidder ab) (abAmount ab) (e\<lparr>envState := SetAuctionCB cb s\<rparr>))"
  have call: "checkpoints (envState (snd call)) = checkpoints (envState e) \<and>
     seAuctionSummaryList (envState (snd call)) = seAuctionSummaryList (envState e) \<and> stateErr (envState (snd call)) = stateErr (envState e)"
    unfolding call_def TransferAutobidMTRToAuction_def TransferMTRToAuction_def
    using transferMTR_slots [OF refl] by (simp add: s_def SetAuctionCB_def)
  have "\<not> failed \<and> envState e' = SetAuctionCB cb (envState (snd call))"
    using run add unfolding HandleAuctionTx_def withAuctionCB_cb s_def [symmetric]
    by (simp add: handler_return_def Let_def tx onState_def split_beta flip: call_def split: if_splits) auto
  then show thesis using that add call by (simp add: SetAuctionCB_def)
qed

text \<open>
  C12. A bid survives the revert of its transaction.  On a state with sound books, after a checkpoint, an accepted bid and
  a revert to the checkpoint, every account is as it was, while the cached control block has the bid and its amount among
  the received MTR; committing the script engine writes that control block to storage.
\<close>

theorem reverted_bid_stays:
  assumes "HandleAuctionTx X (e\<lparr>envState := fst (NewCheckpoint (envState e))\<rparr>) ab gas = Inr (g, None, e')"
    and "auction_inv (envState e)"
  defines "s' \<equiv> RevertTo (snd (NewCheckpoint (envState e))) (envState e')"
  shows "accounts s' = accounts (envState e) \<and> auctionCBSlot s' = auctionCBSlot (envState e) \<and>
    cbRcvdMTR (auction_cb s') = cbRcvdMTR (auction_cb (envState e)) + abAmount ab \<and>
    bid_tx X e ab \<in> set (cbAuctionTxs (auction_cb s')) \<and>
    (rlp_AuctionCB (auction_cb s') \<longrightarrow> auctionCBSlot (CommitScriptEngineChanges s') = auction_cb s')"
proof -
  have cp: "auction_cb (fst (NewCheckpoint s)) = auction_cb s" for s
    by (simp add: NewCheckpoint_def auction_cb_def split: option.split)
  have tx: "bid_tx X (e\<lparr>envState := s\<rparr>) ab = bid_tx X e ab" for s by (simp add: bid_tx_def isFork_def)
  obtain cb where cb: "AddAuctionTx (bid_tx X e ab) (auction_cb (envState e)) = (False, cb)"
    "seAuctionCB (envState e') = Some cb" "checkpoints (envState e') = checkpoints (fst (NewCheckpoint (envState e)))"
    by (rule HandleAuctionTx_accepts [OF assms(1)]) (simp add: cp tx)
  note s' = RevertTo_NewCheckpoint [OF cb(3), folded s'_def]
  have "mset (cbAuctionTxs cb) = add_mset (bid_tx X e ab) (mset (cbAuctionTxs (auction_cb (envState e))))"
    using cb(1) at.mset_add_fresh assms(2) by (auto simp: AddAuctionTx_def auction_inv_def split: if_splits)
  then have "bid_tx X e ab \<in> set (cbAuctionTxs cb)" by (metis set_mset_mset union_single_eq_member)
  moreover have "cbRcvdMTR cb = cbRcvdMTR (auction_cb (envState e)) + abAmount ab"
    using cb(1) by (auto simp: AddAuctionTx_def bid_tx_def NewAuctionTx_def Let_def split: if_splits)
  moreover have "auction_cb s' = cb" "seAuctionCB s' = Some cb" by (simp_all add: s' auction_cb_def cb(2))
  ultimately show ?thesis
    by (simp add: s' CommitScriptEngineChanges_def EncodeStorage_def Let_def split: option.split)
qed

theorem reverted_bid_stays_witness:
  "let s' = RevertTo (snd (NewCheckpoint au_s1)) (handler_state (HandleAuctionTx au_X (ex_env 6 1700000000 (fst (NewCheckpoint au_s1)))
       (au_body OP_BID) 100000))
   in accounts s' = accounts au_s1 \<and> cbRcvdMTR (auction_cb s') = cbRcvdMTR (auction_cb au_s1) + 20 * 10 ^ 18"
proof -
  have "handler_ok (HandleAuctionTx au_X (ex_env 6 1700000000 (fst (NewCheckpoint au_s1))) (au_body OP_BID) 100000)"
    by code_simp
  from handler_ok_run [OF this] obtain g e' where
    "HandleAuctionTx au_X (ex_env 6 1700000000 (fst (NewCheckpoint au_s1))) (au_body OP_BID) 100000 = Inr (g, None, e')" by blast
  then show ?thesis
    using reverted_bid_stays [of au_X "ex_env 6 1700000000 au_s1" "au_body OP_BID" 100000 g e']
      auction_reachable_inv [OF au_reachable1]
    by (simp add: ex_env_def handler_state_def au_body_def)
qed

end
