(* ===== verification/Bit_Array.thy ===== *)
theory Bit_Array
  imports Prelude
begin

text \<open>
  The bit array of \<^verbatim>\<open>libs/common/bit_array.go\<close> that records the voters of a certificate, and its
  reading from the text in a quorum certificate (\<^verbatim>\<open>VoterBitArray\<close> of \<^verbatim>\<open>block/quorum_cert.go\<close>).

  A pointer that may be nil is an option.  The mutex has no counterpart.  Indices are natural numbers:
  all callers pass a loop counter or an unsigned integer.  Strings are lists of characters, each
  one byte.  An array is a list of booleans in the specification (\<open>ba_bits\<close>).
\<close>

unbundle bit_operations_syntax

section \<open>The array\<close>

record BitArray =
  baBits :: uint32
  baElems :: "uint64 list"

definition NewBitArray :: "nat \<Rightarrow> BitArray option" where
  "NewBitArray bits =
     (if bits = 0 then None else Some \<lparr>baBits = of_nat bits, baElems = replicate ((bits + 63) div 64) 0\<rparr>)"

definition BitArray_Size :: "BitArray option \<Rightarrow> nat" where
  "BitArray_Size bA = (case bA of None \<Rightarrow> 0 | Some b \<Rightarrow> unat (baBits b))"

definition ba_getIndex :: "BitArray \<Rightarrow> nat \<Rightarrow> bool go" where
  "ba_getIndex bA i =
     (if i \<ge> unat (baBits bA) then Inr False
      else if i div 64 \<ge> length (baElems bA) then Inl IndexOutOfRange
      else Inr (baElems bA ! (i div 64) AND push_bit (i mod 64) 1 > 0))"

definition GetIndex :: "BitArray option \<Rightarrow> nat \<Rightarrow> bool go" where
  "GetIndex bA i = (case bA of None \<Rightarrow> Inr False | Some b \<Rightarrow> ba_getIndex b i)"

definition ba_setIndex :: "BitArray \<Rightarrow> nat \<Rightarrow> bool \<Rightarrow> (bool \<times> BitArray) go" where
  "ba_setIndex bA i v =
     (if i \<ge> unat (baBits bA) then Inr (False, bA)
      else if i div 64 \<ge> length (baElems bA) then Inl IndexOutOfRange
      else
        let e = baElems bA ! (i div 64);
            e = (if v then e OR push_bit (i mod 64) 1 else e AND NOT (push_bit (i mod 64) 1))
        in Inr (True, bA\<lparr>baElems := (baElems bA)[i div 64 := e]\<rparr>))"

definition SetIndex :: "BitArray option \<Rightarrow> nat \<Rightarrow> bool \<Rightarrow> (bool \<times> BitArray option) go" where
  "SetIndex bA i v =
     (case bA of None \<Rightarrow> Inr (False, None) | Some b \<Rightarrow> go_bind (ba_setIndex b i v) (\<lambda>(ok, b). Inr (ok, Some b)))"

text \<open>\<^verbatim>\<open>copy\<close> into a new slice of a given length cuts off or pads with zeros.\<close>

definition ba_copyBits :: "BitArray \<Rightarrow> nat \<Rightarrow> BitArray" where
  "ba_copyBits bA bits =
     (let n = (bits + 63) div 64
      in \<lparr>baBits = of_nat bits, baElems = take n (baElems bA) @ replicate (n - length (baElems bA)) 0\<rparr>)"

fun zip_elems :: "(uint64 \<Rightarrow> uint64 \<Rightarrow> uint64) \<Rightarrow> uint64 list \<Rightarrow> uint64 list \<Rightarrow> uint64 list go" where
  "zip_elems f [] ys = Inr []"
| "zip_elems f (x # xs) [] = Inl IndexOutOfRange"
| "zip_elems f (x # xs) (y # ys) = go_bind (zip_elems f xs ys) (\<lambda>zs. Inr (f x y # zs))"

definition BitArray_Or :: "BitArray option \<Rightarrow> BitArray option \<Rightarrow> BitArray option go" where
  "BitArray_Or bA o2 =
     (case (bA, o2) of
        (None, None) \<Rightarrow> Inr None
      | (None, Some b) \<Rightarrow> Inr (Some b)
      | (Some a, None) \<Rightarrow> Inr (Some a)
      | (Some a, Some b) \<Rightarrow>
          let c = ba_copyBits a (max (unat (baBits a)) (unat (baBits b)))
          in go_bind (zip_elems (OR) (baElems c) (baElems b)) (\<lambda>es. Inr (Some (c\<lparr>baElems := es\<rparr>))))"

definition ba_and :: "BitArray \<Rightarrow> BitArray \<Rightarrow> BitArray go" where
  "ba_and a b =
     (let c = ba_copyBits a (min (unat (baBits a)) (unat (baBits b)))
      in go_bind (zip_elems (AND) (baElems c) (baElems b)) (\<lambda>es. Inr (c\<lparr>baElems := es\<rparr>)))"

definition BitArray_And :: "BitArray option \<Rightarrow> BitArray option \<Rightarrow> BitArray option go" where
  "BitArray_And bA o2 =
     (case (bA, o2) of (Some a, Some b) \<Rightarrow> go_bind (ba_and a b) (\<lambda>c. Inr (Some c)) | _ \<Rightarrow> Inr None)"

definition ba_not :: "BitArray \<Rightarrow> BitArray" where
  "ba_not a = a\<lparr>baElems := map NOT (baElems a)\<rparr>"

definition BitArray_Not :: "BitArray option \<Rightarrow> BitArray option" where
  "BitArray_Not bA = map_option ba_not bA"

text \<open>
  \<^verbatim>\<open>Sub\<close> of a longer array: the loop over the full words combines each word with its own complement.
\<close>

fun sub_tail :: "BitArray \<Rightarrow> BitArray \<Rightarrow> nat list \<Rightarrow> BitArray go" where
  "sub_tail c b [] = Inr c"
| "sub_tail c b (i # is) =
     go_bind (ba_getIndex c i) (\<lambda>x.
     go_bind (if x then ba_getIndex b i else Inr False) (\<lambda>y.
     go_bind (ba_setIndex c i (x \<and> \<not> y)) (\<lambda>(ok, c). sub_tail c b is)))"

definition BitArray_Sub :: "BitArray option \<Rightarrow> BitArray option \<Rightarrow> BitArray option go" where
  "BitArray_Sub bA o2 =
     (case (bA, o2) of
        (Some a, Some b) \<Rightarrow>
          if baBits a > baBits b then
            let n = length (baElems b);
                c = a\<lparr>baElems := map (\<lambda>e. e AND NOT e) (take (n - 1) (baElems a)) @ drop (n - 1) (baElems a)\<rparr>
            in if n - 1 > length (baElems a) then Inl IndexOutOfRange
               else if n = 0 then Inr (Some c)
               else go_bind (sub_tail c b [(n - 1) * 64..<unat (baBits b)]) (\<lambda>c. Inr (Some c))
          else go_bind (ba_and a (ba_not b)) (\<lambda>c. Inr (Some c))
      | _ \<Rightarrow> Inr None)"

definition BitArray_IsEmpty :: "BitArray option \<Rightarrow> bool" where
  "BitArray_IsEmpty bA = (case bA of None \<Rightarrow> True | Some b \<Rightarrow> \<forall>e\<in>set (baElems b). \<not> e > 0)"

definition BitArray_IsFull :: "BitArray option \<Rightarrow> bool go" where
  "BitArray_IsFull bA =
     (case bA of
        None \<Rightarrow> Inr True
      | Some b \<Rightarrow>
          if baElems b = [] then Inl IndexOutOfRange
          else if \<exists>e\<in>set (butlast (baElems b)). NOT e \<noteq> 0 then Inr False
          else
            let lastElemBits = (baBits b + 63) mod 64 + 1
            in Inr ((last (baElems b) + 1) AND (push_bit (unat lastElemBits) 1 - 1) = 0))"

definition BitArray_Update :: "BitArray option \<Rightarrow> BitArray option \<Rightarrow> BitArray option" where
  "BitArray_Update bA o2 =
     (case (bA, o2) of
        (Some a, Some b) \<Rightarrow>
          Some (a\<lparr>baElems := take (length (baElems a)) (baElems b) @ drop (length (baElems b)) (baElems a)\<rparr>)
      | _ \<Rightarrow> bA)"

text \<open>\<^verbatim>\<open>Count\<close> reads a field of the receiver without a check for nil.\<close>

fun count_loop :: "BitArray \<Rightarrow> nat \<Rightarrow> nat list \<Rightarrow> nat go" where
  "count_loop b n [] = Inr n"
| "count_loop b n (i # is) = go_bind (ba_getIndex b i) (\<lambda>x. count_loop b (if x then n + 1 else n) is)"

definition BitArray_Count :: "BitArray option \<Rightarrow> nat go" where
  "BitArray_Count bA = (case bA of None \<Rightarrow> Inl NilDeref | Some b \<Rightarrow> count_loop b 0 [0..<unat (baBits b)])"

section \<open>Text\<close>

fun dec_digits :: "nat \<Rightarrow> string" where
  "dec_digits n = (if n < 10 then [char_of (48 + n)] else dec_digits (n div 10) @ [char_of (48 + n mod 10)])"

declare dec_digits.simps [simp del]

fun string_loop :: "BitArray \<Rightarrow> string \<Rightarrow> string list \<Rightarrow> string \<Rightarrow> nat list \<Rightarrow> (string list \<times> string) go" where
  "string_loop bA indent ls bits [] = Inr (ls, bits)"
| "string_loop bA indent ls bits (i # is) =
     go_bind (ba_getIndex bA i) (\<lambda>x.
       let bits = bits @ (if x then ''x'' else ''_'');
           (ls, bits) = (if i mod 100 = 99 then (ls @ [bits], '''') else (ls, bits));
           bits = (if i mod 10 = 9 then bits @ indent else bits);
           bits = (if i mod 50 = 49 then bits @ indent else bits)
       in string_loop bA indent ls bits is)"

fun join :: "string \<Rightarrow> string list \<Rightarrow> string" where
  "join sep [] = ''''"
| "join sep [x] = x"
| "join sep (x # y # xs) = x @ sep @ join sep (y # xs)"

definition StringIndented :: "BitArray option \<Rightarrow> string \<Rightarrow> string go" where
  "StringIndented bA indent =
     (case bA of
        None \<Rightarrow> Inr ''nil-BitArray''
      | Some b \<Rightarrow>
          go_bind (string_loop b indent [] '''' [0..<unat (baBits b)]) (\<lambda>(ls, bits).
            let ls = (if bits \<noteq> '''' then ls @ [bits] else ls)
            in Inr (''BA{'' @ dec_digits (unat (baBits b)) @ '':'' @ join indent ls @ ''}'')))"

definition BitArray_String :: "BitArray option \<Rightarrow> string go" where
  "BitArray_String bA = StringIndented bA ''''"

fun json_loop :: "BitArray \<Rightarrow> string \<Rightarrow> nat list \<Rightarrow> string go" where
  "json_loop b acc [] = Inr acc"
| "json_loop b acc (i # is) = go_bind (ba_getIndex b i) (\<lambda>x. json_loop b (acc @ (if x then ''x'' else ''_'')) is)"

definition quote :: string where "quote = [CHR 0x22]"

definition MarshalJSON :: "BitArray option \<Rightarrow> string go" where
  "MarshalJSON bA =
     (case bA of
        None \<Rightarrow> Inr ''null''
      | Some b \<Rightarrow> go_bind (json_loop b quote [0..<unat (baBits b)]) (\<lambda>s. Inr (s @ quote)))"

text \<open>
  The regular expression matches a quoted string of underscores and crosses.  For an empty
  one \<^verbatim>\<open>NewBitArray\<close> returns nil, and the assignment through it panics.  \<open>None\<close> is the error.
\<close>

fun set_marks :: "string \<Rightarrow> nat \<Rightarrow> BitArray option \<Rightarrow> BitArray option go" where
  "set_marks [] i bA = Inr bA"
| "set_marks (c # cs) i bA =
     (if c = CHR ''x'' then go_bind (SetIndex bA i True) (\<lambda>(ok, bA). set_marks cs (i + 1) bA)
      else set_marks cs (i + 1) bA)"

definition json_match :: "string \<Rightarrow> string option" where
  "json_match b =
     (if length b \<ge> 2 \<and> hd b = CHR 0x22 \<and> last b = CHR 0x22 \<and>
         (\<forall>c\<in>set (butlast (tl b)). c = CHR ''_'' \<or> c = CHR ''x'')
      then Some (butlast (tl b)) else None)"

definition UnmarshalJSON :: "string \<Rightarrow> BitArray option go" where
  "UnmarshalJSON b =
     (if b = ''null'' then Inr (Some \<lparr>baBits = 0, baElems = []\<rparr>)
      else
        case json_match b of
          None \<Rightarrow> Inr None
        | Some bits \<Rightarrow>
            go_bind (set_marks bits 0 (NewBitArray (length bits))) (\<lambda>bA2.
              case bA2 of None \<Rightarrow> Inl NilDeref | Some b \<Rightarrow> Inr (Some b)))"

fun split_at_char :: "char \<Rightarrow> string \<Rightarrow> string list" where
  "split_at_char c [] = ['''']"
| "split_at_char c (x # xs) =
     (if x = c then '''' # split_at_char c xs
      else case split_at_char c xs of [] \<Rightarrow> [[x]] | w # ws \<Rightarrow> (x # w) # ws)"

definition VoterBitArray :: "string \<Rightarrow> BitArray option go" where
  "VoterBitArray s =
     (if length s = 0 then Inr None
      else if length s - 1 < 3 then Inl IndexOutOfRange
      else
        let strs = split_at_char CHR '':'' (drop 3 (take (length s - 1) s))
        in if length strs < 2 then Inl IndexOutOfRange
           else UnmarshalJSON (quote @ strs ! 1 @ quote))"

section \<open>The array as a list of booleans\<close>

definition ba_wf :: "BitArray \<Rightarrow> bool" where
  "ba_wf b \<longleftrightarrow> 0 < baBits b \<and> length (baElems b) = (unat (baBits b) + 63) div 64"

definition ba_bits :: "BitArray \<Rightarrow> bool list" where
  "ba_bits b = map (\<lambda>i. bit (baElems b ! (i div 64)) (i mod 64)) [0..<unat (baBits b)]"

text \<open>No bit beyond the length is set; \<^verbatim>\<open>Not\<close> is the only operation that breaks this.\<close>

definition ba_clean :: "BitArray \<Rightarrow> bool" where
  "ba_clean b \<longleftrightarrow> (\<forall>i. unat (baBits b) \<le> i \<longrightarrow> i < 64 * length (baElems b) \<longrightarrow> \<not> bit (baElems b ! (i div 64)) (i mod 64))"

lemma ba_length [simp]: "length (ba_bits b) = unat (baBits b)"
  by (simp add: ba_bits_def)

lemma ba_nth: "i < unat (baBits b) \<Longrightarrow> ba_bits b ! i = bit (baElems b ! (i div 64)) (i mod 64)"
  by (simp add: ba_bits_def)

lemma nth_upd: "j < length xs \<Longrightarrow> xs[i := v] ! j = (if i = j then v else xs ! j)"
  by (cases "i = j") auto

lemma word_of: "ba_wf b \<Longrightarrow> i < unat (baBits b) \<Longrightarrow> i div 64 < length (baElems b)"
  by (simp add: ba_wf_def)

lemma mask_bit: "(x :: uint64) AND 2 ^ k > 0 \<longleftrightarrow> bit x k"
  by (simp add: bit_iff_and_push_bit_not_eq_0 word_gt_0)

lemma getIndex_bits: "ba_wf b \<Longrightarrow> ba_getIndex b i = Inr (i < unat (baBits b) \<and> ba_bits b ! i)"
  using word_of [of b i] by (auto simp: ba_getIndex_def mask_bit ba_nth not_le)

lemma setIndex_bits:
  assumes "ba_wf b"
  obtains b' where "ba_setIndex b i v = Inr (i < unat (baBits b), b')" "ba_wf b'" "baBits b' = baBits b"
    "ba_bits b' = (ba_bits b)[i := v]" "ba_clean b \<longrightarrow> ba_clean b'"
proof (cases "i < unat (baBits b)")
  case True
  define e where "e = baElems b ! (i div 64)"
  define e' where "e' = (if v then e OR push_bit (i mod 64) 1 else e AND NOT (push_bit (i mod 64) 1))"
  define b' where "b' = b\<lparr>baElems := (baElems b)[i div 64 := e']\<rparr>"
  have w: "i div 64 < length (baElems b)" using word_of [OF assms True] .
  have same: "j div 64 = i div 64 \<and> j mod 64 = i mod 64 \<longleftrightarrow> j = i" for j
    by (metis div_mult_mod_eq)
  have b': "baBits b' = baBits b" "length (baElems b') = length (baElems b)" by (simp_all add: b'_def)
  have bits: "bit (baElems b' ! (j div 64)) (j mod 64) = (if j = i then v else bit (baElems b ! (j div 64)) (j mod 64))" for j
  proof (cases "j div 64 = i div 64")
    case True
    have "bit e' (j mod 64) = (if j mod 64 = i mod 64 then v else bit e (j mod 64))"
      by (auto simp: e'_def bit_simps)
    then show ?thesis using True w same [of j] by (simp add: b'_def e_def)
  qed (auto simp: b'_def)
  show thesis
  proof (rule that)
    show "ba_setIndex b i v = Inr (i < unat (baBits b), b')"
      using True w by (simp add: ba_setIndex_def Let_def b'_def e'_def e_def)
    show "ba_bits b' = (ba_bits b)[i := v]"
      by (intro nth_equalityI) (simp_all add: b' ba_nth bits nth_list_update)
    show "ba_wf b'" "baBits b' = baBits b" using assms by (simp_all add: b' ba_wf_def)
    show "ba_clean b \<longrightarrow> ba_clean b'" using True by (simp add: ba_clean_def bits b')
  qed
next
  case False
  then show thesis using that [of b] assms by (simp add: ba_setIndex_def list_update_beyond)
qed

lemma New_bits:
  assumes "0 < n" "n < 2 ^ 32"
  obtains b where "NewBitArray n = Some b" "ba_wf b" "ba_clean b" "unat (baBits b) = n" "ba_bits b = replicate n False"
proof (rule that)
  have n: "unat (of_nat n :: uint32) = n" using assms by (simp add: unat_of_nat)
  let ?b = "\<lparr>baBits = of_nat n, baElems = replicate ((n + 63) div 64) 0\<rparr>"
  show "NewBitArray n = Some ?b" using assms by (simp add: NewBitArray_def)
  show "unat (baBits ?b) = n" by (simp add: n)
  have "(0 :: uint32) < of_nat n" using n assms(1) by (metis unat_0 word_gt_0 less_numeral_extra(3))
  then show wf: "ba_wf ?b" by (simp add: ba_wf_def n)
  show "ba_clean ?b" by (auto simp: ba_clean_def nth_replicate)
  show "ba_bits ?b = replicate n False"
    using word_of [OF wf] by (intro nth_equalityI) (simp_all add: ba_nth n)
qed

lemma count_loop_bits:
  "ba_wf b \<Longrightarrow> count_loop b n is = Inr (n + length (filter (\<lambda>i. i < unat (baBits b) \<and> ba_bits b ! i) is))"
  by (induction "is" arbitrary: n) (auto simp: getIndex_bits)

lemma Count_bits: "ba_wf b \<Longrightarrow> BitArray_Count (Some b) = Inr (length (filter (\<lambda>x. x) (ba_bits b)))"
proof -
  assume "ba_wf b"
  moreover have "length (filter (\<lambda>i. i < length xs \<and> xs ! i) [0..<length xs]) = length (filter (\<lambda>x. x) xs)" for xs :: "bool list"
  proof -
    have "filter (\<lambda>x. x) (map ((!) xs) [0..<length xs]) = map ((!) xs) (filter (\<lambda>i. xs ! i) [0..<length xs])"
      by (simp add: filter_map comp_def)
    then have "length (filter (\<lambda>x. x) xs) = length (filter (\<lambda>i. xs ! i) [0..<length xs])" by (simp add: map_nth)
    also have "filter (\<lambda>i. xs ! i) [0..<length xs] = filter (\<lambda>i. i < length xs \<and> xs ! i) [0..<length xs]"
      by (rule filter_cong) simp_all
    finally show ?thesis by simp
  qed
  from this [of "ba_bits b"] show ?thesis
    using \<open>ba_wf b\<close> by (simp add: BitArray_Count_def count_loop_bits)
qed

text \<open>An array without stray bits is determined by its length and its bits.\<close>

lemma ba_eqI:
  assumes wf: "ba_wf a" "ba_wf b" "ba_clean a" "ba_clean b" and eq: "baBits a = baBits b" "ba_bits a = ba_bits b"
  shows "a = b"
proof -
  have len: "length (baElems a) = length (baElems b)" using wf(1,2) eq(1) by (simp add: ba_wf_def)
  have "baElems a ! k = baElems b ! k" if k: "k < length (baElems a)" for k
  proof (rule bit_word_eqI)
    fix n
    assume "n < LENGTH(64)"
    then have i: "(64 * k + n) div 64 = k" "(64 * k + n) mod 64 = n" "64 * k + n < 64 * length (baElems a)"
      using k by auto
    show "bit (baElems a ! k) n = bit (baElems b ! k) n"
    proof (cases "64 * k + n < unat (baBits a)")
      case True
      then show ?thesis using ba_nth [of "64 * k + n" a] ba_nth [of "64 * k + n" b] eq i by simp
    next
      case False
      then show ?thesis using wf(3,4) eq(1) i len unfolding ba_clean_def by (metis not_le)
    qed
  qed
  then have "baElems a = baElems b" by (intro nth_equalityI) (simp_all add: len)
  then show ?thesis using eq(1) by simp
qed

section \<open>The contract of vote bits\<close>

text \<open>
  What the vote managers and the certificates rely on: a fixed-length vector of bits with lookup,
  update and count, where an index out of range is ignored.
\<close>

fun mark_all :: "('b \<Rightarrow> nat \<Rightarrow> bool \<Rightarrow> (bool \<times> 'b) go) \<Rightarrow> nat list \<Rightarrow> 'b \<Rightarrow> 'b go" where
  "mark_all update [] b = Inr b"
| "mark_all update (i # is) b = go_bind (update b i True) (\<lambda>(ok, b). mark_all update is b)"

locale bit_vector =
  fixes wf :: "'b \<Rightarrow> bool" and bits :: "'b \<Rightarrow> bool list"
    and lookup :: "'b \<Rightarrow> nat \<Rightarrow> bool go" and update :: "'b \<Rightarrow> nat \<Rightarrow> bool \<Rightarrow> (bool \<times> 'b) go" and count_bits :: "'b \<Rightarrow> nat go"
  assumes lookup: "wf b \<Longrightarrow> lookup b i = Inr (i < length (bits b) \<and> bits b ! i)"
    and update: "wf b \<Longrightarrow> \<exists>b'. update b i v = Inr (i < length (bits b), b') \<and> wf b' \<and> bits b' = (bits b)[i := v]"
    and count_bits: "wf b \<Longrightarrow> count_bits b = Inr (length (filter (\<lambda>x. x) (bits b)))"
begin

lemma mark_all_bits:
  assumes "wf b"
  shows "\<exists>b'. mark_all update is b = Inr b' \<and> wf b' \<and> length (bits b') = length (bits b) \<and>
    (\<forall>i<length (bits b). bits b' ! i \<longleftrightarrow> bits b ! i \<or> i \<in> set is)"
  using assms
proof (induction "is" arbitrary: b)
  case (Cons i "is")
  obtain b1 where b1: "update b i True = Inr (i < length (bits b), b1)" "wf b1" "bits b1 = (bits b)[i := True]"
    using update [OF Cons.prems] by blast
  then show ?case using Cons.IH [OF b1(2)] by (auto simp: nth_upd)
qed simp

lemma mark_all_count:
  assumes "wf b" "\<forall>i<length (bits b). \<not> bits b ! i"
  shows "\<exists>b'. mark_all update is b = Inr b' \<and> wf b' \<and> count_bits b' = Inr (card {i \<in> set is. i < length (bits b)}) \<and>
    (\<forall>i. lookup b' i = Inr (i \<in> set is \<and> i < length (bits b)))"
proof -
  obtain b' where b': "mark_all update is b = Inr b'" "wf b'" "length (bits b') = length (bits b)"
    "\<forall>i<length (bits b). bits b' ! i \<longleftrightarrow> bits b ! i \<or> i \<in> set is"
    using mark_all_bits [OF assms(1)] by blast
  have "length (filter (\<lambda>x. x) (bits b')) = card {i. i < length (bits b') \<and> bits b' ! i}"
    by (simp add: length_filter_conv_card)
  also have "{i. i < length (bits b') \<and> bits b' ! i} = {i \<in> set is. i < length (bits b)}"
    using b'(3,4) assms(2) by auto
  finally show ?thesis using b' count_bits [OF b'(2)] lookup [OF b'(2)] assms(2) by auto
qed

end

definition oba_wf :: "BitArray option \<Rightarrow> bool" where
  "oba_wf bA = (case bA of None \<Rightarrow> False | Some b \<Rightarrow> ba_wf b \<and> ba_clean b)"

definition oba_bits :: "BitArray option \<Rightarrow> bool list" where
  "oba_bits bA = (case bA of None \<Rightarrow> [] | Some b \<Rightarrow> ba_bits b)"

interpretation votes: bit_vector oba_wf oba_bits GetIndex SetIndex BitArray_Count
proof
  show "GetIndex b i = Inr (i < length (oba_bits b) \<and> oba_bits b ! i)" if "oba_wf b" for b i
    using that by (cases b) (simp_all add: oba_wf_def oba_bits_def GetIndex_def getIndex_bits)
  show "\<exists>b'. SetIndex b i v = Inr (i < length (oba_bits b), b') \<and> oba_wf b' \<and> oba_bits b' = (oba_bits b)[i := v]"
    if "oba_wf b" for b i v
  proof -
    obtain a where a: "b = Some a" "ba_wf a" "ba_clean a" using \<open>oba_wf b\<close> by (cases b) (auto simp: oba_wf_def)
    obtain a' where "ba_setIndex a i v = Inr (i < unat (baBits a), a')" "ba_wf a'" "ba_bits a' = (ba_bits a)[i := v]"
      "ba_clean a \<longrightarrow> ba_clean a'"
      by (rule setIndex_bits [OF a(2)])
    then show ?thesis using a(1,3) by (simp add: SetIndex_def oba_wf_def oba_bits_def)
  qed
  show "BitArray_Count b = Inr (length (filter (\<lambda>x. x) (oba_bits b)))" if "oba_wf b" for b
    using that by (cases b) (simp_all add: oba_wf_def oba_bits_def Count_bits)
qed

section \<open>Text and back\<close>

definition marks :: "bool list \<Rightarrow> string" where
  "marks xs = map (\<lambda>x. if x then CHR ''x'' else CHR ''_'') xs"

definition marks_at :: "BitArray \<Rightarrow> nat list \<Rightarrow> string" where
  "marks_at b is = marks (map (\<lambda>i. i < unat (baBits b) \<and> ba_bits b ! i) is)"

lemma marks_at_all: "marks_at b [0..<unat (baBits b)] = marks (ba_bits b)"
  by (auto simp: marks_at_def marks_def intro!: nth_equalityI)

lemma json_loop_marks: "ba_wf b \<Longrightarrow> json_loop b acc is = Inr (acc @ marks_at b is)"
  by (induction "is" arbitrary: acc) (auto simp: getIndex_bits marks_at_def marks_def)

lemma string_loop_marks:
  assumes "ba_wf b"
  shows "\<exists>ls' bits'. string_loop b '''' ls bits is = Inr (ls', bits') \<and> concat ls' @ bits' = concat ls @ bits @ marks_at b is"
proof (induction "is" arbitrary: ls bits)
  case (Cons i "is")
  define w where "w = bits @ (if i < unat (baBits b) \<and> ba_bits b ! i then ''x'' else ''_'')"
  have w: "bits @ marks_at b (i # is) = w @ marks_at b is" by (simp add: w_def marks_at_def marks_def)
  have "string_loop b '''' ls bits (i # is) =
      (if i mod 100 = 99 then string_loop b '''' (ls @ [w]) '''' is else string_loop b '''' ls w is)"
    using assms by (simp add: getIndex_bits w_def Let_def)
  then show ?case using Cons.IH [of "ls @ [w]" "''''"] Cons.IH [of ls w] by (auto simp: w)
qed (simp add: marks_at_def marks_def)

lemma join_concat: "join '''' ls = concat ls"
  by (induction "'''' :: string" ls rule: join.induct) simp_all

lemma String_marks:
  assumes "ba_wf b"
  shows "BitArray_String (Some b) = Inr (''BA{'' @ dec_digits (unat (baBits b)) @ '':'' @ marks (ba_bits b) @ ''}'')"
proof -
  obtain ls bits where l: "string_loop b '''' [] '''' [0..<unat (baBits b)] = Inr (ls, bits)"
    "concat ls @ bits = marks_at b [0..<unat (baBits b)]"
    using string_loop_marks [OF assms, of "[]" "''''" "[0..<unat (baBits b)]"] by auto
  then show ?thesis
    by (auto simp: BitArray_String_def StringIndented_def join_concat marks_at_all Let_def split: if_splits)
qed

lemma set_marks_bits:
  assumes "ba_wf b" "ba_clean b" "i + length xs = unat (baBits b)" "\<forall>j<unat (baBits b). i \<le> j \<longrightarrow> \<not> ba_bits b ! j"
  shows "\<exists>b'. set_marks (marks xs) i (Some b) = Inr (Some b') \<and> ba_wf b' \<and> ba_clean b' \<and> baBits b' = baBits b \<and>
    ba_bits b' = take i (ba_bits b) @ xs"
  using assms
proof (induction xs arbitrary: i b)
  case Nil
  then show ?case by (auto simp: marks_def)
next
  case (Cons x xs)
  obtain b1 where b1: "ba_setIndex b i True = Inr (i < unat (baBits b), b1)" "ba_wf b1" "baBits b1 = baBits b"
    "ba_bits b1 = (ba_bits b)[i := True]" "ba_clean b1"
    using setIndex_bits [OF Cons.prems(1), of i True] Cons.prems(2) by blast
  define b2 where "b2 = (if x then b1 else b)"
  have i: "i < unat (baBits b)" using Cons.prems(3) by simp
  have off: "(ba_bits b)[i := False] = ba_bits b" using Cons.prems(4) i list_update_id [of "ba_bits b" i] by simp
  have b2: "ba_wf b2" "ba_clean b2" "baBits b2 = baBits b" "ba_bits b2 = (ba_bits b)[i := x]"
    using b1 Cons.prems(1,2) off by (simp_all add: b2_def)
  have "\<forall>j<unat (baBits b2). i + 1 \<le> j \<longrightarrow> \<not> ba_bits b2 ! j" using Cons.prems(4) by (simp add: b2)
  moreover have "set_marks (marks (x # xs)) i (Some b) = set_marks (marks xs) (i + 1) (Some b2)"
    using b1(1) by (simp add: marks_def b2_def SetIndex_def)
  moreover have "take (i + 1) (ba_bits b2) = take i (ba_bits b) @ [x]"
    using i by (simp add: b2 take_Suc_conv_app_nth)
  ultimately show ?case using Cons.IH [of b2 "i + 1"] b2 Cons.prems(3) by simp
qed

lemma json_match_marks: "json_match (quote @ marks xs @ quote) = Some (marks xs)"
  by (auto simp: json_match_def quote_def butlast_append marks_def)

lemma Unmarshal_marks:
  assumes "ba_wf b" "ba_clean b"
  shows "UnmarshalJSON (quote @ marks (ba_bits b) @ quote) = Inr (Some b)"
proof -
  let ?n = "unat (baBits b)"
  have n: "0 < ?n" "?n < 2 ^ 32" using assms(1) unsigned_less [of "baBits b", where ?'a = nat] by (auto simp: ba_wf_def unat_gt_0)
  obtain b0 where b0: "NewBitArray ?n = Some b0" "ba_wf b0" "ba_clean b0" "unat (baBits b0) = ?n" "ba_bits b0 = replicate ?n False"
    by (rule New_bits [OF n])
  obtain b' where b': "set_marks (marks (ba_bits b)) 0 (Some b0) = Inr (Some b')" "ba_wf b'" "ba_clean b'" "baBits b' = baBits b0"
    "ba_bits b' = ba_bits b"
    using set_marks_bits [OF b0(2,3), of 0 "ba_bits b"] b0(4,5) by auto
  have "b' = b" by (rule ba_eqI [OF b'(2) assms(1) b'(3) assms(2)]) (use b' b0(4) in \<open>auto simp: word_unat_eq_iff\<close>)
  moreover have "length (marks (ba_bits b)) = ?n" by (simp add: marks_def)
  ultimately show ?thesis
    using b' b0(1) unfolding UnmarshalJSON_def json_match_marks by (simp add: quote_def)
qed

lemma digits_no_colon: "CHR '':'' \<notin> set (dec_digits n)"
proof (induction n rule: dec_digits.induct)
  case (1 n)
  have "(char_of (48 + k) :: char) \<noteq> CHR '':''" if "k < 10" for k :: nat
  proof
    assume "(char_of (48 + k) :: char) = CHR '':''"
    from arg_cong [OF this, of "of_char :: char \<Rightarrow> nat"] show False using that by simp
  qed
  from this [of n] this [of "n mod 10"] 1 show ?case by (subst dec_digits.simps) auto
qed

lemma split_two:
  "c \<notin> set xs \<Longrightarrow> c \<notin> set ys \<Longrightarrow> split_at_char c (xs @ c # ys) = [xs, ys]"
proof (induction xs)
  case Nil
  have "c \<notin> set ys \<Longrightarrow> split_at_char c ys = [ys]" for ys by (induction ys) auto
  then show ?case using Nil by simp
qed auto

section \<open>Properties\<close>

text \<open>
  C33. A bit array implements a list of booleans.  A new one has only zeros.  On a well-formed array no
  access panics: lookup and count read the list, update writes it and keeps the array well formed, and an
  index beyond the length reads as zero and is not written.
\<close>

theorem BitArray_refines:
  assumes "0 < n" "n < 2 ^ 32" "ba_wf b"
  shows "(\<exists>a. NewBitArray n = Some a \<and> ba_wf a \<and> ba_clean a \<and> ba_bits a = replicate n False) \<and>
    BitArray_Size (Some b) = length (ba_bits b) \<and>
    GetIndex (Some b) i = Inr (i < length (ba_bits b) \<and> ba_bits b ! i) \<and>
    (\<exists>b'. SetIndex (Some b) i v = Inr (i < length (ba_bits b), Some b') \<and> ba_wf b' \<and> ba_bits b' = (ba_bits b)[i := v] \<and>
       (ba_clean b \<longrightarrow> ba_clean b')) \<and>
    BitArray_Count (Some b) = Inr (card {i. i < length (ba_bits b) \<and> ba_bits b ! i})"
proof -
  obtain a where a: "NewBitArray n = Some a" "ba_wf a" "ba_clean a" "ba_bits a = replicate n False"
    by (rule New_bits [OF assms(1,2)])
  obtain b' where "ba_setIndex b i v = Inr (i < unat (baBits b), b')" "ba_wf b'" "ba_bits b' = (ba_bits b)[i := v]"
    "ba_clean b \<longrightarrow> ba_clean b'"
    by (rule setIndex_bits [OF assms(3)])
  then show ?thesis
    using a assms(3) by (simp add: BitArray_Size_def GetIndex_def getIndex_bits SetIndex_def Count_bits length_filter_conv_card)
qed

theorem BitArray_refines_witness:
  "\<exists>b. NewBitArray 70 = Some b \<and> BitArray_Count (Some b) = Inr 0"
proof -
  obtain b where b: "NewBitArray 70 = Some b" "ba_wf b" "ba_bits b = replicate 70 False" by (rule New_bits [of 70]) simp_all
  have "{i. i < 70 \<and> replicate 70 False ! i} = ({} :: nat set)" by auto
  then show ?thesis using BitArray_refines [of 70 b] b by simp
qed

lemma voter_bits_back:
  assumes "ba_wf b" "ba_clean b"
  shows "VoterBitArray (''BA{'' @ dec_digits (unat (baBits b)) @ '':'' @ marks (ba_bits b) @ ''}'') = Inr (Some b)"
proof -
  let ?d = "dec_digits (unat (baBits b))" and ?m = "marks (ba_bits b)"
  have "CHR '':'' \<notin> set ?m" by (auto simp: marks_def)
  from split_two [OF digits_no_colon this]
  have "split_at_char CHR '':'' (?d @ CHR '':'' # ?m) = [?d, ?m]" .
  then show ?thesis using Unmarshal_marks [OF assms] by (simp add: VoterBitArray_def Let_def)
qed

text \<open>Every list of bits is that of an array.\<close>

lemma array_of_bits:
  assumes "0 < length xs" "length xs < 2 ^ 32"
  obtains b where "ba_wf b" "ba_clean b" "ba_bits b = xs"
proof -
  obtain b where b: "ba_wf b" "ba_clean b" "unat (baBits b) = length xs" "ba_bits b = replicate (length xs) False"
    by (rule New_bits [OF assms])
  then show thesis using set_marks_bits [OF b(1,2), of 0 xs] that by auto
qed

text \<open>
  C34. The voters of a certificate survive their trip as text: the array that \<^verbatim>\<open>VoterBitArray\<close> reads from the
  string of an array is the array itself, and so is the one read from its JSON form.
\<close>

theorem voter_bits_roundtrip:
  assumes "ba_wf b" "ba_clean b"
  shows "go_bind (BitArray_String (Some b)) VoterBitArray = Inr (Some b) \<and>
    go_bind (MarshalJSON (Some b)) UnmarshalJSON = Inr (Some b)"
proof
  show "go_bind (BitArray_String (Some b)) VoterBitArray = Inr (Some b)"
    using voter_bits_back [OF assms] by (simp add: String_marks [OF assms(1)])
  show "go_bind (MarshalJSON (Some b)) UnmarshalJSON = Inr (Some b)"
    using Unmarshal_marks [OF assms] by (simp add: MarshalJSON_def json_loop_marks [OF assms(1)] marks_at_all)
qed

theorem voter_bits_roundtrip_witness:
  "go_bind (BitArray_String (Some \<lparr>baBits = 3, baElems = [5]\<rparr>)) VoterBitArray = Inr (Some \<lparr>baBits = 3, baElems = [5]\<rparr>)"
proof -
  have "ba_wf \<lparr>baBits = 3, baElems = [5]\<rparr>" by (simp add: ba_wf_def)
  moreover have "\<not> bit (5 :: uint64) i" if "3 \<le> i" for i
  proof -
    have "(5 :: uint64) = take_bit 3 5" by simp
    then show ?thesis using that by (metis bit_take_bit_iff not_le)
  qed
  then have "ba_clean \<lparr>baBits = 3, baElems = [5]\<rparr>" by (auto simp: ba_clean_def)
  ultimately show ?thesis using voter_bits_roundtrip by blast
qed

lemma set_marks_total:
  "unat (baBits b) \<le> 64 * length (baElems b) \<Longrightarrow> \<exists>b'. set_marks cs i (Some b) = Inr (Some b')"
proof (induction cs arbitrary: i b)
  case (Cons c cs)
  have "i div 64 < length (baElems b)" if "i < unat (baBits b)" using that Cons.prems by auto
  then show ?case using Cons.IH Cons.prems by (auto simp: SetIndex_def ba_setIndex_def Let_def not_le)
qed simp

lemma Unmarshal_quoted_panics: "(\<exists>p. UnmarshalJSON (quote @ w @ quote) = Inl p) \<longleftrightarrow> w = []"
proof (cases "w = []")
  case True
  then show ?thesis by (simp add: UnmarshalJSON_def quote_def json_match_def NewBitArray_def)
next
  case False
  define b where "b = \<lparr>baBits = of_nat (length w), baElems = replicate ((length w + 63) div 64) (0 :: uint64)\<rparr>"
  have "unat (of_nat (length w) :: uint32) \<le> length w" by (simp add: unat_of_nat)
  then have "unat (baBits b) \<le> 64 * length (baElems b)" by (simp add: b_def)
  then obtain b' where "set_marks w 0 (Some b) = Inr (Some b')" using set_marks_total by blast
  moreover have "NewBitArray (length w) = Some b" using False by (simp add: NewBitArray_def b_def)
  moreover have "json_match (quote @ w @ quote) \<in> {None, Some w}"
    by (simp add: json_match_def quote_def butlast_append)
  moreover have "quote @ w @ quote \<noteq> ''null''" by (simp add: quote_def)
  ultimately show ?thesis using False by (auto simp: UnmarshalJSON_def)
qed

text \<open>
  C35. Reading the voters of a certificate panics on exactly these texts: one that is not empty but shorter
  than four characters, one without a colon between its fourth and its last character, and one with nothing between
  the first such colon and the next colon or the last character.  The text comes from another
  node as part of a block, and nothing checks its form first.
\<close>

theorem VoterBitArray_panics:
  "(\<exists>p. VoterBitArray s = Inl p) \<longleftrightarrow>
   s \<noteq> [] \<and> (length s < 4 \<or> (let strs = split_at_char CHR '':'' (drop 3 (butlast s)) in length strs < 2 \<or> strs ! 1 = []))"
proof -
  have "take (length s - 1) s = butlast s" by (simp add: butlast_conv_take)
  then show ?thesis using Unmarshal_quoted_panics by (auto simp: VoterBitArray_def Let_def)
qed

text \<open>
  \<^verbatim>\<open>Sub\<close> of a longer array clears every full word of the subtrahend, whatever the subtrahend holds.
\<close>

lemma sub_tail_keeps:
  "sub_tail c b is = Inr c' \<Longrightarrow> \<forall>i\<in>set is. 64 * n \<le> i \<Longrightarrow> k < n \<Longrightarrow> baElems c' ! k = baElems c ! k"
proof (induction "is" arbitrary: c)
  case (Cons i "is")
  obtain x y ok c1 where step: "ba_setIndex c i (x \<and> \<not> y) = Inr (ok, c1)" "sub_tail c1 b is = Inr c'"
    using Cons.prems(1) by (auto simp: go_bind_def split: sum.splits)
  have "i div 64 \<noteq> k" using Cons.prems(2,3) by auto
  then have "baElems c1 ! k = baElems c ! k" using step(1) by (auto simp: ba_setIndex_def Let_def split: if_splits)
  then show ?case using Cons.IH [OF step(2)] Cons.prems by simp
qed simp

lemma BitArray_Sub_clears:
  assumes "BitArray_Sub (Some a) (Some b) = Inr (Some c)" "baBits b < baBits a" "k + 1 < length (baElems b)"
  shows "baElems c ! k = 0"
proof -
  let ?n = "length (baElems b) - 1"
  let ?c = "a\<lparr>baElems := map (\<lambda>e. e AND NOT e) (take ?n (baElems a)) @ drop ?n (baElems a)\<rparr>"
  have run: "?n \<le> length (baElems a)" "sub_tail ?c b [?n * 64..<unat (baBits b)] = Inr c"
    using assms by (auto simp: BitArray_Sub_def Let_def go_bind_def split: if_splits sum.splits)
  have "baElems c ! k = baElems ?c ! k" using sub_tail_keeps [OF run(2), of ?n k] assms(3) by auto
  moreover have "k < ?n" using assms(3) by simp
  ultimately show ?thesis using run(1) by (simp add: nth_append)
qed

end
