(* ===== verification/Blocks.thy ===== *)
theory Blocks
  imports Transactions Bit_Array
begin

text \<open>
  Blocks and their certificates: \<^verbatim>\<open>block/header.go\<close>, \<^verbatim>\<open>block/block.go\<close>, \<^verbatim>\<open>block/gas_limit.go\<close>,
  \<^verbatim>\<open>block/quorum_cert.go\<close>, and the header checks of \<^verbatim>\<open>consensus/reactor_validate.go\<close>.

  Hashes, signature recovery and BLS signatures are the parameters in \<open>block_lib\<close>.  The hash behind an
  identifier covers the header without its signature and its proposer, as the code lists the fields.  The caches
  of computed values have no counterpart.
\<close>

section \<open>Headers\<close>

definition KBlockType :: uint32 where "KBlockType = 1"
definition MBlockType :: uint32 where "MBlockType = 2"
definition SBlockType :: uint32 where "SBlockType = 255"

record Header =
  hParentID :: bytes32
  hTimestamp :: uint64
  hGasLimit :: uint64
  hLastKBlockHeight :: uint32
  hBlockType :: uint32
  hBeneficiary :: address
  hProposer :: address
  hGasUsed :: uint64
  hTotalScore :: uint64
  hTxsRoot :: bytes32
  hStateRoot :: bytes32
  hReceiptsRoot :: bytes32
  hEvidenceDataRoot :: bytes32
  hSignature :: bytes

record QuorumCert =
  QCHeight :: uint32
  QCRound :: uint32
  EpochID :: uint64
  VoterBitArrayStr :: string
  VoterMsgHash :: bytes32
  VoterAggSig :: bytes

text \<open>
  \<open>blSigFromBytes\<close> says whether bytes are a signature, \<open>blAggregate\<close> combines signatures and may fail,
  \<open>blVerify\<close> checks a signature of a hash against the combination of the given public keys (\<open>None\<close> where the
  keys do not combine).
\<close>

record block_lib =
  blSigningHash :: "Header \<Rightarrow> bytes32"
  blSigToAddress :: "bytes32 \<Rightarrow> bytes \<Rightarrow> address option"
  blIdHash :: "bytes32 \<Rightarrow> address \<Rightarrow> bytes32"
  blVotingHash :: "uint32 \<Rightarrow> uint32 \<Rightarrow> bytes32 \<Rightarrow> bytes32 \<Rightarrow> bytes32 \<Rightarrow> bytes32"
  blTimeoutHash :: "uint64 \<Rightarrow> uint32 \<Rightarrow> bytes32"
  blSigFromBytes :: "bytes \<Rightarrow> bool"
  blAggregate :: "bytes list \<Rightarrow> bytes option"
  blVerify :: "bytes \<Rightarrow> bytes32 \<Rightarrow> bytes list \<Rightarrow> bool option"

definition Number :: "bytes32 \<Rightarrow> uint32" where
  "Number blockID = ucast (drop_bit 224 blockID)"

definition Header_Number :: "Header \<Rightarrow> uint32" where
  "Header_Number h = Number (hParentID h) + 1"

definition SigningHash :: "block_lib \<Rightarrow> Header \<Rightarrow> bytes32" where
  "SigningHash L h = blSigningHash L (h\<lparr>hProposer := 0, hSignature := []\<rparr>)"

definition Header_Signer :: "block_lib \<Rightarrow> Header \<Rightarrow> address option" where
  "Header_Signer L h =
     (if Header_Number h = 0 then Some 0 else blSigToAddress L (SigningHash L h) (hSignature h))"

definition put_number :: "uint32 \<Rightarrow> bytes32 \<Rightarrow> bytes32" where
  "put_number n i = (push_bit 224 (ucast n)) OR (take_bit 224 i)"

definition Header_ID :: "block_lib \<Rightarrow> Header \<Rightarrow> bytes32" where
  "Header_ID L h =
     put_number (Header_Number h)
       (case Header_Signer L h of None \<Rightarrow> 0 | Some signer \<Rightarrow> blIdHash L (SigningHash L h) signer)"

section \<open>Blocks\<close>

record KBlockData =
  kNonce :: uint64
  kData :: "bytes list"

record CommitteeInfo =
  ciName :: bytes
  ciCSIndex :: uint32
  ciCSPubKey :: bytes
  ciPubKey :: bytes

record Block =
  BlockHeader :: Header
  bTxs :: "TxBody list"
  bQC :: "QuorumCert option"
  bCommitteeEpoch :: uint64
  bCommitteeInfo :: "CommitteeInfo list"
  bKBlockData :: KBlockData
  bMagic :: bytes

definition Block_ID :: "block_lib \<Rightarrow> Block \<Rightarrow> bytes32" where
  "Block_ID L b = Header_ID L (BlockHeader b)"

definition Block_Number :: "Block \<Rightarrow> uint32" where
  "Block_Number b = Header_Number (BlockHeader b)"

definition IsKBlock :: "Block \<Rightarrow> bool" where "IsKBlock b = (hBlockType (BlockHeader b) = KBlockType)"
definition IsSBlock :: "Block \<Rightarrow> bool" where "IsSBlock b = (hBlockType (BlockHeader b) = SBlockType)"
definition IsMBlock :: "Block \<Rightarrow> bool" where "IsMBlock b = (hBlockType (BlockHeader b) = MBlockType)"

text \<open>A block after the genesis block without a certificate makes the reading of its epoch panic.\<close>

definition GetBlockEpoch :: "Block \<Rightarrow> uint64 go" where
  "GetBlockEpoch b =
     (let height = Block_Number b;
          lastKBlockHeight = hLastKBlockHeight (BlockHeader b);
          qcEpoch = (case bQC b of None \<Rightarrow> Inl NilDeref | Some qc \<Rightarrow> Inr (EpochID qc))
      in
      if height = 0 then Inr 0
      else if height > lastKBlockHeight + 1 then qcEpoch
      else if height = lastKBlockHeight + 1 then
        (if IsKBlock b then go_bind qcEpoch (\<lambda>e. Inr (e + 1)) else Inr (bCommitteeEpoch b))
      else Inl Explicit)"

definition VotingHash :: "block_lib \<Rightarrow> Block \<Rightarrow> bytes32" where
  "VotingHash L b =
     blVotingHash L (hBlockType (BlockHeader b)) (Block_Number b) (Block_ID L b)
       (hTxsRoot (BlockHeader b)) (hStateRoot (BlockHeader b))"

section \<open>Quorum certificates\<close>

text \<open>
  The bound is computed in floating point: the quotient of two integers below \<open>2 ^ 34\<close> by 3 is either
  exact or farther from an integer than the rounding error, so the ceiling is that of the rational.
\<close>

definition MajorityTwoThird :: "uint32 \<Rightarrow> uint32 \<Rightarrow> bool" where
  "MajorityTwoThird voterNum committeeSize =
     (if committeeSize < 1 then False else unat voterNum \<ge> (2 * unat committeeSize + 2) div 3)"

fun voted_keys :: "BitArray option \<Rightarrow> nat \<Rightarrow> bytes list \<Rightarrow> bytes list go" where
  "voted_keys bA i [] = Inr []"
| "voted_keys bA i (k # ks) =
     go_bind (GetIndex bA i) (\<lambda>x. go_bind (voted_keys bA (i + 1) ks) (\<lambda>rest. Inr (if x then k # rest else rest)))"

text \<open>\<^verbatim>\<open>ThresholdVerify\<close> fails on an empty list of keys.\<close>

definition ThresholdVerify :: "block_lib \<Rightarrow> bytes \<Rightarrow> bytes32 \<Rightarrow> bytes list \<Rightarrow> bool option" where
  "ThresholdVerify L sig hash pubKeys = (if pubKeys = [] then None else blVerify L sig hash pubKeys)"

text \<open>The result is \<open>None\<close> for an error.  \<open>committee\<close> holds the BLS keys of the members.\<close>

definition VerifyQC :: "block_lib \<Rightarrow> Block \<Rightarrow> QuorumCert \<Rightarrow> bytes list \<Rightarrow> bool option go" where
  "VerifyQC L b escortQC committee =
     (let committeeSize = of_nat (length committee) in
      if Block_Number b = QCHeight escortQC \<and> (Block_Number b = 0 \<or> Block_Number b = 1) then Inr (Some True)
      else if VoterMsgHash escortQC \<noteq> VotingHash L b then Inr None
      else
        go_bind (VoterBitArray (VoterBitArrayStr escortQC)) (\<lambda>bits.
        go_bind (BitArray_Count bits) (\<lambda>voteCount.
          if \<not> MajorityTwoThird (of_nat voteCount) committeeSize then Inr None
          else
            go_bind (voted_keys bits 0 committee) (\<lambda>pubkeys.
              if \<not> blSigFromBytes L (VoterAggSig escortQC) then Inr None
              else Inr (ThresholdVerify L (VoterAggSig escortQC) (VoterMsgHash escortQC) pubkeys)))))"

section \<open>Gas limits\<close>

definition MinGasLimit :: uint64 where "MinGasLimit = 1000 * 1000"
definition GasLimitBoundDivisor :: uint64 where "GasLimitBoundDivisor = 1024"

definition GasLimit_IsValid :: "uint64 \<Rightarrow> uint64 \<Rightarrow> bool" where
  "GasLimit_IsValid gasLimit parentGasLimit =
     (if gasLimit < MinGasLimit then False
      else
        let diff = (if gasLimit > parentGasLimit then gasLimit - parentGasLimit else parentGasLimit - gasLimit)
        in diff \<le> parentGasLimit div GasLimitBoundDivisor)"

definition min64 :: "uint64 \<Rightarrow> uint64 \<Rightarrow> uint64" where
  "min64 a b = (if a > b then b else a)"

text \<open>The argument \<^verbatim>\<open>delta\<close> is a signed 64-bit integer.\<close>

definition GasLimit_Adjust :: "uint64 \<Rightarrow> uint64 \<Rightarrow> uint64" where
  "GasLimit_Adjust gasLimit delta =
     (let maxDiff = gasLimit div GasLimitBoundDivisor in
      if sint delta > 0 then
        let diff = min64 delta maxDiff
        in if - 1 - diff < gasLimit then - 1 else gasLimit + diff
      else
        let diff = min64 (- delta) maxDiff
        in if MinGasLimit + diff > gasLimit then MinGasLimit else gasLimit - diff)"

definition GasLimit_Qualify :: "uint64 \<Rightarrow> uint64 \<Rightarrow> uint64" where
  "GasLimit_Qualify gasLimit parentGasLimit =
     (let maxDiff = parentGasLimit div GasLimitBoundDivisor in
      if gasLimit > parentGasLimit
      then GasLimit_Adjust parentGasLimit (min64 (gasLimit - parentGasLimit) maxDiff)
      else GasLimit_Adjust parentGasLimit (- min64 (parentGasLimit - gasLimit) maxDiff))"

section \<open>Header checks\<close>

definition KBlockEpoch :: uint64 where "KBlockEpoch = 14603"

datatype header_error = ErrTimestampBehind | ErrFutureBlock | ErrGasLimit | ErrGasUsed | ErrTotalScore | ErrLastKBlock | ErrLocalLastKBlock

definition validateBlockHeader ::
  "uint32 \<Rightarrow> Header \<Rightarrow> Header \<Rightarrow> uint64 \<Rightarrow> bool \<Rightarrow> uint64 \<Rightarrow> header_error option" where
  "validateBlockHeader lastKBlockHeight header parent nowTimestamp forceValidate epoch =
     (if hTimestamp header \<le> hTimestamp parent then Some ErrTimestampBehind
      else if hTimestamp header > nowTimestamp + BlockInterval then Some ErrFutureBlock
      else if \<not> GasLimit_IsValid (hGasLimit header) (hGasLimit parent) then Some ErrGasLimit
      else if hGasUsed header > hGasLimit header then Some ErrGasUsed
      else if hTotalScore header \<le> hTotalScore parent then Some ErrTotalScore
      else if epoch \<noteq> KBlockEpoch \<and> hLastKBlockHeight header < hLastKBlockHeight parent then Some ErrLastKBlock
      else if forceValidate \<and> hLastKBlockHeight header \<noteq> lastKBlockHeight then Some ErrLocalLastKBlock
      else None)"

definition validateProposer :: "block_lib \<Rightarrow> Header \<Rightarrow> bool" where
  "validateProposer L header = (Header_Signer L header \<noteq> None)"

section \<open>Properties of blocks\<close>

text \<open>The number of a block is in its identifier, and so a child is numbered after its parent.\<close>

lemma Number_put: "Number (put_number n i) = n"
  by (simp add: Number_def put_number_def bit_eq_iff bit_simps)

lemma Number_ID: "Number (Header_ID L h) = Header_Number h"
  by (simp add: Header_ID_def Number_put)

lemma IsValid_nat:
  "GasLimit_IsValid g p \<longleftrightarrow>
   1000000 \<le> unat g \<and> unat g \<le> unat p + unat p div 1024 \<and> unat p \<le> unat g + unat p div 1024"
proof -
  have "unat (p div GasLimitBoundDivisor) = unat p div 1024" by (simp add: GasLimitBoundDivisor_def unat_div)
  moreover have "unat (g - p) = unat g - unat p" if "p < g" using that by (simp add: unat_sub order_less_imp_le)
  moreover have "unat (p - g) = unat p - unat g" if "\<not> p < g" using that by (simp add: unat_sub not_less)
  ultimately show ?thesis
    by (auto simp: GasLimit_IsValid_def Let_def MinGasLimit_def word_less_nat_alt word_le_nat_alt not_less)
qed

lemma min64_nat: "unat (min64 a b) = min (unat a) (unat b)"
  by (simp add: min64_def word_less_nat_alt)

lemma unat_max64: "unat (- 1 :: uint64) = 2 ^ 64 - 1"
  by (simp add: unsigned_minus_1_eq_mask mask_eq_exp_minus_1)

lemma Adjust_up:
  assumes "0 < sint d"
  shows "unat (GasLimit_Adjust p d) = min (2 ^ 64 - 1) (unat p + min (unat d) (unat p div 1024))"
proof -
  define m where "m = min64 d (p div GasLimitBoundDivisor)"
  have m: "unat m = min (unat d) (unat p div 1024)" by (simp add: m_def min64_nat GasLimitBoundDivisor_def unat_div)
  have top: "unat (- 1 - m) = 2 ^ 64 - 1 - unat m" by (subst unat_sub) (simp_all add: unat_max64)
  show ?thesis
  proof (cases "- 1 - m < p")
    case True
    then have "2 ^ 64 - 1 - unat m < unat p" by (simp add: word_less_nat_alt top)
    then show ?thesis using assms True by (simp add: GasLimit_Adjust_def Let_def m_def [symmetric] m [symmetric] unat_max64)
  next
    case False
    then have "unat p + unat m < 2 ^ 64" using unsigned_less [of m, where ?'a = nat] by (simp add: word_less_nat_alt top)
    then have "unat (p + m) = unat p + unat m" using unat_add_lem [of p m] by simp
    then show ?thesis
      using assms False \<open>unat p + unat m < 2 ^ 64\<close>
      by (simp add: GasLimit_Adjust_def Let_def m_def [symmetric] m [symmetric])
  qed
qed

lemma Adjust_down:
  assumes "\<not> 0 < sint d" "1000000 \<le> unat p"
  shows "unat (GasLimit_Adjust p d) = max 1000000 (unat p - min (unat (- d)) (unat p div 1024))"
proof -
  define m where "m = min64 (- d) (p div GasLimitBoundDivisor)"
  have m: "unat m = min (unat (- d)) (unat p div 1024)" by (simp add: m_def min64_nat GasLimitBoundDivisor_def unat_div)
  have small: "unat m \<le> unat p div 1024" by (simp add: m)
  then have le: "m \<le> p" by (simp add: word_le_nat_alt)
  have "unat p div 1024 < 2 ^ 54" using unsigned_less [of p, where ?'a = nat] by (simp add: div_less_iff_less_mult)
  then have "unat (MinGasLimit + m) = 1000000 + unat m"
    using small by (subst unat_add_lem [THEN iffD1]) (simp_all add: MinGasLimit_def)
  then show ?thesis
    using assms le small
    by (auto simp: GasLimit_Adjust_def Let_def m_def [symmetric] m [symmetric] word_less_nat_alt unat_sub MinGasLimit_def)
qed

lemma sint_nonneg_nat:
  assumes "unat (d :: uint64) < 2 ^ 63"
  shows "sint d = int (unat d)" "sint (- d) = - int (unat d)"
proof -
  have d: "d = word_of_int (int (unat d))" "- d = word_of_int (- int (unat d))" by simp_all
  have sw: "sint (word_of_int i :: uint64) = i" if "- (2 ^ 63) \<le> i" "i < 2 ^ 63" for i
    using that by (simp add: sint_sbintrunc' signed_take_bit_int_eq_self)
  have b: "int (unat d) < 2 ^ 63" using of_nat_less_iff [of "unat d" "2 ^ 63", where ?'a = int] assms by simp
  have "0 \<le> int (unat d)" by (rule of_nat_0_le_iff)
  then have r: "- (2 ^ 63) \<le> int (unat d)" "- (2 ^ 63) \<le> - int (unat d)" "- int (unat d) < 2 ^ 63" using b by linarith+
  show "sint d = int (unat d)" by (subst d(1), rule sw [OF r(1) b])
  show "sint (- d) = - int (unat d)" by (subst d(2), rule sw [OF r(2,3)])
qed

text \<open>
  C36. A gas limit that \<^verbatim>\<open>Adjust\<close> or \<^verbatim>\<open>Qualify\<close> computes from a valid parent limit is valid, whatever the
  wish, also at both ends of the 64-bit range; and a limit that is already valid is kept.
\<close>

theorem gas_limit_adjusted:
  assumes "MinGasLimit \<le> parent"
  shows "GasLimit_IsValid (GasLimit_Adjust parent delta) parent \<and>
    GasLimit_IsValid (GasLimit_Qualify wish parent) parent \<and>
    (GasLimit_IsValid wish parent \<longrightarrow> GasLimit_Qualify wish parent = wish)"
proof -
  have p: "1000000 \<le> unat parent" using assms by (simp add: MinGasLimit_def word_le_nat_alt)
  have m: "unat parent div 1024 < 2 ^ 54" using unsigned_less [of parent, where ?'a = nat] by (simp add: div_less_iff_less_mult)
  have adjust: "GasLimit_IsValid (GasLimit_Adjust parent d) parent" for d
    using p Adjust_up [of d parent] Adjust_down [OF _ p, of d] unsigned_less [of parent, where ?'a = nat]
    by (cases "0 < sint d") (auto simp: IsValid_nat)
  define w where "w = min64 (if wish > parent then wish - parent else parent - wish) (parent div GasLimitBoundDivisor)"
  have w: "unat w = min (if wish > parent then unat wish - unat parent else unat parent - unat wish) (unat parent div 1024)"
    by (simp add: w_def min64_nat GasLimitBoundDivisor_def unat_div unat_sub not_less)
  then have "unat w < 2 ^ 63" using m by simp
  note s = sint_nonneg_nat [OF this]
  have q: "GasLimit_Qualify wish parent = GasLimit_Adjust parent (if wish > parent then w else - w)"
    by (simp add: GasLimit_Qualify_def Let_def w_def)
  have "GasLimit_Qualify wish parent = wish" if "GasLimit_IsValid wish parent"
  proof -
    have v: "1000000 \<le> unat wish" "unat wish \<le> unat parent + unat parent div 1024" "unat parent \<le> unat wish + unat parent div 1024"
      using that by (simp_all add: IsValid_nat)
    show ?thesis
    proof (cases "wish > parent")
      case True
      then have "unat parent < unat wish" by (simp add: word_less_nat_alt)
      then have "0 < unat w" using True w v(2) by simp
      then have "0 < sint w" unfolding s(1) by (simp only: of_nat_0_less_iff)
      from Adjust_up [OF this] have "unat (GasLimit_Adjust parent w) = unat wish"
        using True w v(2) \<open>unat parent < unat wish\<close> unsigned_less [of wish, where ?'a = nat] by simp
      then show ?thesis using True q by (simp add: word_unat_eq_iff)
    next
      case False
      then have "unat wish \<le> unat parent" by (simp add: word_less_nat_alt)
      have "\<not> 0 < sint (- w)" unfolding s(2) by (simp only: neg_0_less_iff_less not_less of_nat_0_le_iff)
      from Adjust_down [OF this p] have "unat (GasLimit_Adjust parent (- w)) = unat wish"
        using False w v \<open>unat wish \<le> unat parent\<close> by simp
      then show ?thesis using False q by (simp add: word_unat_eq_iff)
    qed
  qed
  then show ?thesis using adjust q by auto
qed

theorem gas_limit_adjusted_witness:
  "GasLimit_IsValid (GasLimit_Qualify (- 1) (- 1)) (- 1) \<and> GasLimit_Qualify (- 1) (- 1) = - 1"
  using gas_limit_adjusted [of "- 1" 0 "- 1"] by (simp add: MinGasLimit_def IsValid_nat unat_max64)

section \<open>Quorums\<close>

definition voters :: "BitArray \<Rightarrow> nat set" where
  "voters a = {i. i < length (ba_bits a) \<and> ba_bits a ! i}"

lemma voted_keys_bits:
  "ba_wf a \<Longrightarrow> voted_keys (Some a) i ks = Inr (map fst (filter (\<lambda>(k, j). j \<in> voters a) (zip ks [i..<i + length ks])))"
proof (induction ks arbitrary: i)
  case (Cons k ks)
  have "[i..<i + length (k # ks)] = i # [i + 1..<i + 1 + length ks]" by (simp add: upt_rec)
  then show ?case using Cons by (simp add: GetIndex_def getIndex_bits voters_def)
qed simp

lemma majority_nat: "MajorityTwoThird v n \<longleftrightarrow> 0 < unat n \<and> 2 * unat n \<le> 3 * unat v"
proof -
  have "n < 1 \<longleftrightarrow> unat n = 0" by (simp add: word_less_nat_alt)
  then show ?thesis by (auto simp: MajorityTwoThird_def)
qed

lemma VerifyQC_voters:
  assumes run: "VerifyQC L b qc committee = Inr (Some True)" and b: "1 < Block_Number b"
    and a: "VoterBitArray (VoterBitArrayStr qc) = Inr (Some a)" "ba_wf a" "length (ba_bits a) = length committee"
  shows "2 * length committee \<le> 3 * card (voters a)"
    "blVerify L (VoterAggSig qc) (VotingHash L b) (map fst (filter (\<lambda>(k, j). j \<in> voters a) (zip committee [0..<length committee]))) = Some True"
proof -
  have n: "length committee < 2 ^ 32" using a(3) unsigned_less [of "baBits a", where ?'a = nat] by simp
  have "card (voters a) \<le> card {..<length committee}" by (rule card_mono) (use a(3) in \<open>auto simp: voters_def\<close>)
  then have c: "unat (of_nat (card (voters a)) :: uint32) = card (voters a)" using n by (simp add: unat_of_nat)
  have cnt: "BitArray_Count (Some a) = Inr (card (voters a))"
    using Count_bits [OF a(2)] by (simp add: voters_def length_filter_conv_card)
  have nb: "\<not> (Block_Number b = QCHeight qc \<and> (Block_Number b = 0 \<or> Block_Number b = 1))"
    using b by (auto simp: word_less_nat_alt)
  have run': "VoterMsgHash qc = VotingHash L b" "MajorityTwoThird (of_nat (card (voters a))) (of_nat (length committee))"
    "ThresholdVerify L (VoterAggSig qc) (VoterMsgHash qc)
       (map fst (filter (\<lambda>(k, j). j \<in> voters a) (zip committee [0..<length committee]))) = Some True"
    using run nb cnt by (auto simp: VerifyQC_def a(1) Let_def voted_keys_bits [OF a(2)] split: if_splits)
  show "2 * length committee \<le> 3 * card (voters a)" using run'(2) n c by (simp add: majority_nat unat_of_nat)
  show "blVerify L (VoterAggSig qc) (VotingHash L b) (map fst (filter (\<lambda>(k, j). j \<in> voters a) (zip committee [0..<length committee]))) = Some True"
    using run'(1,3) by (simp add: ThresholdVerify_def split: if_splits)
qed

lemma two_thirds_meet:
  assumes "A \<subseteq> {..<n}" "B \<subseteq> {..<n}" "2 * n \<le> 3 * card A" "2 * n \<le> 3 * card B"
  shows "n \<le> 3 * card (A \<inter> B)"
proof -
  have fin: "finite A" "finite B" using assms(1,2) by (auto intro: finite_subset)
  have "card (A \<union> B) \<le> n" using card_mono [of "{..<n}" "A \<union> B"] assms(1,2) by simp
  then show ?thesis using card_Un_Int [OF fin] assms(3,4) by linarith
qed

text \<open>
  C15. Two certificates that the same committee accepts, each with one bit per member, have a third of the
  committee in common: the voters of each are two thirds of it, and the signature of each verifies against
  exactly the keys of its voters.  With fewer than a third of the members at fault, some
  correct member voted in both.
\<close>

theorem quorum_intersection:
  assumes "VerifyQC L b1 qc1 committee = Inr (Some True)" "VerifyQC L b2 qc2 committee = Inr (Some True)"
    and "1 < Block_Number b1" "1 < Block_Number b2"
    and "VoterBitArray (VoterBitArrayStr qc1) = Inr (Some a1)" "ba_wf a1" "length (ba_bits a1) = length committee"
    and "VoterBitArray (VoterBitArrayStr qc2) = Inr (Some a2)" "ba_wf a2" "length (ba_bits a2) = length committee"
  shows "length committee \<le> 3 * card (voters a1 \<inter> voters a2) \<and>
    blVerify L (VoterAggSig qc1) (VotingHash L b1) (map fst (filter (\<lambda>(k, j). j \<in> voters a1) (zip committee [0..<length committee]))) = Some True"
proof -
  note v1 = VerifyQC_voters [OF assms(1,3,5,6,7)] and v2 = VerifyQC_voters [OF assms(2,4,8,9,10)]
  have "length committee \<le> 3 * card (voters a1 \<inter> voters a2)"
    by (rule two_thirds_meet [OF _ _ v1(1) v2(1)]) (use assms(7,10) in \<open>auto simp: voters_def\<close>)
  then show ?thesis using v1(2) by blast
qed

definition ex_lib :: block_lib where
  "ex_lib = \<lparr>blSigningHash = (\<lambda>h. hTxsRoot h), blSigToAddress = (\<lambda>_ _. Some 1), blIdHash = (\<lambda>h _. h),
     blVotingHash = (\<lambda>_ _ _ t _. t), blTimeoutHash = (\<lambda>_ r. ucast r), blSigFromBytes = (\<lambda>_. True),
     blAggregate = (\<lambda>sigs. Some (concat sigs)), blVerify = (\<lambda>sig _ keys. Some (sig = concat keys))\<rparr>"

definition ex_block :: "bytes32 \<Rightarrow> bytes32 \<Rightarrow> QuorumCert option \<Rightarrow> Block" where
  "ex_block parent txs qc =
     \<lparr>BlockHeader = \<lparr>hParentID = parent, hTimestamp = 1, hGasLimit = 10000000, hLastKBlockHeight = 0, hBlockType = MBlockType,
        hBeneficiary = 0, hProposer = 0, hGasUsed = 0, hTotalScore = 0, hTxsRoot = txs, hStateRoot = 0, hReceiptsRoot = 0,
        hEvidenceDataRoot = 0, hSignature = []\<rparr>,
      bTxs = [], bQC = qc, bCommitteeEpoch = 0, bCommitteeInfo = [], bKBlockData = \<lparr>kNonce = 0, kData = []\<rparr>, bMagic = []\<rparr>"

definition ex_qc :: "string \<Rightarrow> bytes \<Rightarrow> Block \<Rightarrow> QuorumCert" where
  "ex_qc bits sig b =
     \<lparr>QCHeight = Block_Number b, QCRound = 0, EpochID = 0, VoterBitArrayStr = bits, VoterMsgHash = VotingHash ex_lib b,
      VoterAggSig = sig\<rparr>"

definition ex_b2 :: Block where "ex_b2 = ex_block (put_number 1 0) 7 None"

lemma ex_number: "Block_Number (ex_block (put_number n i) t q) = n + 1"
  by (simp add: Block_Number_def Header_Number_def ex_block_def Number_put)

lemma ex_verify:
  "VerifyQC ex_lib ex_b2 (ex_qc bits sig ex_b2) ks =
     go_bind (VoterBitArray bits) (\<lambda>a. go_bind (BitArray_Count a) (\<lambda>c.
       if \<not> MajorityTwoThird (of_nat c) (of_nat (length ks)) then Inr None
       else go_bind (voted_keys a 0 ks) (\<lambda>keys. Inr (if keys = [] then None else Some (sig = concat keys)))))"
  by (simp add: VerifyQC_def ex_qc_def ex_b2_def ex_number ex_lib_def ThresholdVerify_def cong: if_cong)

theorem quorum_intersection_witness:
  "3 \<le> 3 * card (voters \<lparr>baBits = 3, baElems = [3]\<rparr> \<inter> voters \<lparr>baBits = 3, baElems = [6]\<rparr>)"
proof -
  have "VerifyQC ex_lib ex_b2 (ex_qc ''BA{3:xx_}'' [1, 2] ex_b2) [[1], [2], [3]] = Inr (Some True)"
    "VerifyQC ex_lib ex_b2 (ex_qc ''BA{3:_xx}'' [2, 3] ex_b2) [[1], [2], [3]] = Inr (Some True)"
    unfolding ex_verify by code_simp+
  moreover have "1 < Block_Number ex_b2" by (simp add: ex_b2_def ex_number)
  moreover have "VoterBitArray (VoterBitArrayStr (ex_qc ''BA{3:xx_}'' [1, 2] ex_b2)) = Inr (Some \<lparr>baBits = 3, baElems = [3]\<rparr>)"
    "VoterBitArray (VoterBitArrayStr (ex_qc ''BA{3:_xx}'' [2, 3] ex_b2)) = Inr (Some \<lparr>baBits = 3, baElems = [6]\<rparr>)"
    unfolding ex_qc_def QuorumCert.simps by code_simp+
  moreover have "ba_wf \<lparr>baBits = 3, baElems = [3]\<rparr>" "ba_wf \<lparr>baBits = 3, baElems = [6]\<rparr>" by (simp_all add: ba_wf_def)
  ultimately show ?thesis
    using quorum_intersection [of ex_lib ex_b2 "ex_qc ''BA{3:xx_}'' [1, 2] ex_b2" "[[1], [2], [3]]" ex_b2 "ex_qc ''BA{3:_xx}'' [2, 3] ex_b2"
        "\<lparr>baBits = 3, baElems = [3]\<rparr>" "\<lparr>baBits = 3, baElems = [6]\<rparr>"] by simp
qed

text \<open>
  C16. The length of the bit array is not checked against the committee: bits beyond the committee count as votes
  but need no signature.  One member's signature of a block is enough to
  build a certificate for it that every node accepts, for a committee of any size.
\<close>

theorem single_signer_certificate:
  assumes "1 < Block_Number b" "length (k # committee) < 2 ^ 31"
    and "blSigFromBytes L sig" "blVerify L sig (VotingHash L b) [k] = Some True"
  shows "\<exists>qc a. VerifyQC L b qc (k # committee) = Inr (Some True) \<and> VoterAggSig qc = sig \<and>
    VoterBitArray (VoterBitArrayStr qc) = Inr (Some a) \<and> voters a \<inter> {..<length (k # committee)} = {0}"
proof -
  define n where "n = length (k # committee)"
  define xs where "xs = True # replicate (n - 1) False @ replicate n True"
  have n0: "0 < n" by (simp add: n_def)
  have len: "length xs = 2 * n" using n0 by (simp add: xs_def)
  obtain a where a: "ba_wf a" "ba_clean a" "ba_bits a = xs" by (rule array_of_bits [of xs]) (use len assms(2) in \<open>auto simp: n_def\<close>)
  have nth: "xs ! i \<longleftrightarrow> i = 0 \<or> n \<le> i" if "i < 2 * n" for i
    using that n0 by (cases i) (auto simp: xs_def nth_append)
  have V: "voters a = insert 0 {n..<2 * n}" using nth by (auto simp: voters_def a(3) len) (auto simp: n_def)
  have card: "card (voters a) = n + 1" unfolding V by (simp add: n_def)
  define qc where "qc = \<lparr>QCHeight = Block_Number b, QCRound = 0, EpochID = 0,
      VoterBitArrayStr = ''BA{'' @ dec_digits (unat (baBits a)) @ '':'' @ marks (ba_bits a) @ ''}'', VoterMsgHash = VotingHash L b, VoterAggSig = sig\<rparr>"
  have qc: "VoterMsgHash qc = VotingHash L b" "VoterAggSig qc = sig" by (simp_all add: qc_def)
  have bits: "VoterBitArray (VoterBitArrayStr qc) = Inr (Some a)" by (simp only: qc_def QuorumCert.simps voter_bits_back [OF a(1,2)])
  have cnt: "BitArray_Count (Some a) = Inr (n + 1)" using Count_bits [OF a(1)] card by (simp add: voters_def length_filter_conv_card)
  have maj: "MajorityTwoThird (of_nat (n + 1)) (of_nat n)"
    using assms(2) by (simp add: majority_nat unat_of_nat n_def del: of_nat_add of_nat_Suc)
  have "filter (\<lambda>(k, j). j \<in> voters a) (zip committee [1..<n]) = []"
    using n0 by (auto simp: filter_empty_conv V dest!: set_zip_rightD)
  moreover have "zip (k # committee) [0..<0 + length (k # committee)] = (k, 0) # zip committee [1..<n]"
    by (simp add: upt_conv_Cons n_def del: upt_Suc)
  moreover have "0 \<in> voters a" by (simp add: V)
  ultimately have keys: "voted_keys (Some a) 0 (k # committee) = Inr [k]"
    unfolding voted_keys_bits [OF a(1)] by simp
  have nb: "\<not> (Block_Number b = QCHeight qc \<and> (Block_Number b = 0 \<or> Block_Number b = 1))"
    using assms(1) by (auto simp: word_less_nat_alt)
  have "VerifyQC L b qc (k # committee) = Inr (Some True)"
    unfolding VerifyQC_def Let_def n_def [symmetric] bits go_bind_simps cnt keys
    using nb maj assms(3,4) by (simp add: ThresholdVerify_def qc)
  moreover have "voters a \<inter> {..<n} = {0}" unfolding V by (auto simp: n_def)
  ultimately show ?thesis using bits qc(2) unfolding n_def by blast
qed

theorem single_signer_certificate_witness:
  "\<exists>qc a. VerifyQC ex_lib ex_b2 qc [[1], [2], [3], [4]] = Inr (Some True) \<and> VoterAggSig qc = [1] \<and>
     VoterBitArray (VoterBitArrayStr qc) = Inr (Some a) \<and> voters a \<inter> {..<length [[1], [2], [3], [4 :: 8 word]]} = {0}"
proof -
  have "1 < Block_Number ex_b2" by (simp add: ex_b2_def ex_number)
  moreover have "blSigFromBytes ex_lib [1]" "blVerify ex_lib [1] (VotingHash ex_lib ex_b2) [[1]] = Some True"
    by (simp_all add: ex_lib_def)
  moreover have "length ([1] # [[2], [3], [4 :: 8 word]]) < 2 ^ 31" by simp
  ultimately show ?thesis by (intro single_signer_certificate)
qed

end
