(* ===== verification/Vote_Managers.thy ===== *)
theory Vote_Managers
  imports Blocks "HOL-Library.AList"
begin

text \<open>
  How votes become certificates: \<^verbatim>\<open>consensus/qc_vote_manager.go\<close>, \<^verbatim>\<open>consensus/tc_vote_manager.go\<close> and the
  timeout certificate of \<^verbatim>\<open>types/timeout_cert.go\<close>.

  The Go maps are association lists.  \<^verbatim>\<open>Aggregate\<close> ranges over the votes of a key; the list is in
  the order of the visit.  A signature is its bytes.
\<close>

section \<open>Quorum certificates\<close>

record vote =
  vtSignature :: bytes
  vtHash :: bytes32

type_synonym voteKey = "uint32 \<times> bytes32"

record QCVoteManager =
  qmVotes :: "(voteKey \<times> (uint32 \<times> vote) list) list"
  qmSealed :: "voteKey list"
  qmCommitteeSize :: uint32

definition NewQCVoteManager :: "uint32 \<Rightarrow> QCVoteManager" where
  "NewQCVoteManager committeeSize = \<lparr>qmVotes = [], qmSealed = [], qmCommitteeSize = committeeSize\<rparr>"

definition qm_votes :: "voteKey \<Rightarrow> QCVoteManager \<Rightarrow> (uint32 \<times> vote) list" where
  "qm_votes key m = (case map_of (qmVotes m) key of None \<Rightarrow> [] | Some vs \<Rightarrow> vs)"

definition QC_Count :: "uint32 \<Rightarrow> bytes32 \<Rightarrow> QCVoteManager \<Rightarrow> uint32" where
  "QC_Count round blockID m = of_nat (length (qm_votes (round, blockID) m))"

definition QC_seal :: "uint32 \<Rightarrow> bytes32 \<Rightarrow> QCVoteManager \<Rightarrow> QCVoteManager" where
  "QC_seal round blockID m = m\<lparr>qmSealed := List.insert (round, blockID) (qmSealed m)\<rparr>"

definition voted_bits :: "uint32 \<Rightarrow> (uint32 \<times> vote) list \<Rightarrow> BitArray option go" where
  "voted_bits committeeSize vs = mark_all SetIndex (map (\<lambda>v. unat (fst v)) vs) (NewBitArray (unat committeeSize))"

definition last_hash :: "(uint32 \<times> vote) list \<Rightarrow> bytes32" where
  "last_hash vs = (if vs = [] then 0 else vtHash (snd (last vs)))"

definition QC_Aggregate ::
  "block_lib \<Rightarrow> uint32 \<Rightarrow> bytes32 \<Rightarrow> uint64 \<Rightarrow> QCVoteManager \<Rightarrow> (QuorumCert option \<times> QCVoteManager) go" where
  "QC_Aggregate L round blockID epoch m =
     (let m = QC_seal round blockID m;
          vs = qm_votes (round, blockID) m
      in go_bind (voted_bits (qmCommitteeSize m) vs) (\<lambda>bitArray.
           case blAggregate L (map (\<lambda>v. vtSignature (snd v)) vs) of
             None \<Rightarrow> Inr (None, m)
           | Some sigAgg \<Rightarrow>
               go_bind (BitArray_String bitArray) (\<lambda>bitArrayStr.
                 Inr (Some \<lparr>QCHeight = Number blockID, QCRound = round, EpochID = epoch, VoterBitArrayStr = bitArrayStr,
                        VoterMsgHash = last_hash vs, VoterAggSig = sigAgg\<rparr>, m))))"

definition QC_AddVote ::
  "block_lib \<Rightarrow> uint32 \<Rightarrow> uint64 \<Rightarrow> uint32 \<Rightarrow> bytes32 \<Rightarrow> bytes \<Rightarrow> bytes32 \<Rightarrow> QCVoteManager \<Rightarrow>
   (QuorumCert option \<times> QCVoteManager) go" where
  "QC_AddVote L index epoch round blockID sig hash m =
     (let key = (round, blockID);
          m = (if map_of (qmVotes m) key = None then m\<lparr>qmVotes := AList.update key [] (qmVotes m)\<rparr> else m)
      in
      if key \<in> set (qmSealed m) then Inr (None, m)
      else if length sig \<le> 0 then Inr (None, m)
      else if \<not> blSigFromBytes L sig then Inr (None, m)
      else
        let vs = AList.update index \<lparr>vtSignature = sig, vtHash = hash\<rparr> (qm_votes key m);
            m = m\<lparr>qmVotes := AList.update key vs (qmVotes m)\<rparr>
        in if MajorityTwoThird (of_nat (length vs)) (qmCommitteeSize m)
           then QC_Aggregate L round blockID epoch (QC_seal round blockID m)
           else Inr (None, m))"

definition QC_CleanUpTo :: "uint32 \<Rightarrow> QCVoteManager \<Rightarrow> QCVoteManager" where
  "QC_CleanUpTo blockNum m =
     m\<lparr>qmVotes := filter (\<lambda>(key, vs). \<not> Number (snd key) < blockNum) (qmVotes m),
       qmSealed := filter (\<lambda>key. \<not> (Number (snd key) < blockNum \<and> key \<in> set (map fst (qmVotes m)))) (qmSealed m)\<rparr>"

section \<open>Timeout certificates\<close>

record TimeoutCert =
  tcEpoch :: uint64
  tcRound :: uint32
  tcBitArray :: "BitArray option"
  tcMsgHash :: bytes32
  tcAggSig :: bytes

type_synonym timeoutVoteKey = "uint64 \<times> uint32"

record TCVoteManager =
  tmVotes :: "(timeoutVoteKey \<times> (uint32 \<times> vote) list) list"
  tmSealed :: "timeoutVoteKey list"
  tmCommitteeSize :: uint32

definition NewTCVoteManager :: "uint32 \<Rightarrow> TCVoteManager" where
  "NewTCVoteManager committeeSize = \<lparr>tmVotes = [], tmSealed = [], tmCommitteeSize = committeeSize\<rparr>"

definition tm_votes :: "timeoutVoteKey \<Rightarrow> TCVoteManager \<Rightarrow> (uint32 \<times> vote) list" where
  "tm_votes key m = (case map_of (tmVotes m) key of None \<Rightarrow> [] | Some vs \<Rightarrow> vs)"

definition TC_seal :: "uint64 \<Rightarrow> uint32 \<Rightarrow> TCVoteManager \<Rightarrow> TCVoteManager" where
  "TC_seal epoch round m = m\<lparr>tmSealed := List.insert (epoch, round) (tmSealed m)\<rparr>"

definition TC_Aggregate ::
  "block_lib \<Rightarrow> uint64 \<Rightarrow> uint32 \<Rightarrow> TCVoteManager \<Rightarrow> (TimeoutCert option \<times> TCVoteManager) go" where
  "TC_Aggregate L epoch round m =
     (let m = TC_seal epoch round m;
          vs = tm_votes (epoch, round) m
      in go_bind (voted_bits (tmCommitteeSize m) vs) (\<lambda>bitArray.
           case blAggregate L (map (\<lambda>v. vtSignature (snd v)) vs) of
             None \<Rightarrow> Inr (None, m)
           | Some sigAgg \<Rightarrow>
               Inr (Some \<lparr>tcEpoch = epoch, tcRound = round, tcBitArray = bitArray, tcMsgHash = last_hash vs,
                      tcAggSig = sigAgg\<rparr>, m)))"

definition TC_AddVote ::
  "block_lib \<Rightarrow> uint32 \<Rightarrow> uint64 \<Rightarrow> uint32 \<Rightarrow> bytes \<Rightarrow> bytes32 \<Rightarrow> TCVoteManager \<Rightarrow> (TimeoutCert option \<times> TCVoteManager) go" where
  "TC_AddVote L index epoch round sig hash m =
     (let key = (epoch, round);
          m = (if map_of (tmVotes m) key = None then m\<lparr>tmVotes := AList.update key [] (tmVotes m)\<rparr> else m)
      in
      if key \<in> set (tmSealed m) then Inr (None, m)
      else if \<not> blSigFromBytes L sig then Inr (None, m)
      else
        let vs = AList.update index \<lparr>vtSignature = sig, vtHash = hash\<rparr> (tm_votes key m);
            m = m\<lparr>tmVotes := AList.update key vs (tmVotes m)\<rparr>
        in if MajorityTwoThird (of_nat (length vs)) (tmCommitteeSize m)
           then TC_Aggregate L epoch round (TC_seal epoch round m)
           else Inr (None, m))"

definition TC_CleanUpTo :: "uint64 \<Rightarrow> TCVoteManager \<Rightarrow> TCVoteManager" where
  "TC_CleanUpTo epoch m =
     m\<lparr>tmVotes := filter (\<lambda>(key, vs). \<not> fst key < epoch) (tmVotes m),
       tmSealed := filter (\<lambda>key. \<not> (fst key < epoch \<and> key \<in> set (map fst (tmVotes m)))) (tmSealed m)\<rparr>"

text \<open>\<^verbatim>\<open>verifyTC\<close> of \<^verbatim>\<open>consensus/pacemaker_assist.go\<close>; \<open>committee\<close> holds the BLS keys.\<close>

definition verifyTC :: "block_lib \<Rightarrow> uint64 \<Rightarrow> bytes list \<Rightarrow> TimeoutCert option \<Rightarrow> uint32 \<Rightarrow> bool go" where
  "verifyTC L curEpoch committee tc round =
     (case tc of
        None \<Rightarrow> Inr False
      | Some tc \<Rightarrow>
          if tcEpoch tc \<noteq> curEpoch \<or> tcRound tc \<noteq> round then Inr False
          else if tcMsgHash tc \<noteq> blTimeoutHash L (tcEpoch tc) (tcRound tc) then Inr False
          else
            go_bind (BitArray_Count (tcBitArray tc)) (\<lambda>voteCount.
              if \<not> MajorityTwoThird (of_nat voteCount) (of_nat (length committee)) then Inr False
              else
                go_bind (voted_keys (tcBitArray tc) 0 committee) (\<lambda>pubkeys.
                  if \<not> blSigFromBytes L (tcAggSig tc) then Inr False
                  else Inr (ThresholdVerify L (tcAggSig tc) (tcMsgHash tc) pubkeys = Some True))))"

section \<open>Certificates from votes\<close>

text \<open>
  What the BLS library promises: signatures of one hash aggregate, and the aggregate verifies against the
  combination of the signers' keys, in any order.  \<open>valid key hash sig\<close> says that \<open>sig\<close> is a
  signature of the hash by the owner of the key.
\<close>

definition bls_law :: "block_lib \<Rightarrow> (bytes \<Rightarrow> bytes32 \<Rightarrow> bytes \<Rightarrow> bool) \<Rightarrow> bool" where
  "bls_law L valid \<longleftrightarrow>
     (\<forall>h sks. sks \<noteq> [] \<and> (\<forall>(s, k)\<in>set sks. valid k h s) \<longrightarrow>
        (\<exists>a. blAggregate L (map fst sks) = Some a \<and> blSigFromBytes L a \<and>
           (\<forall>ks. mset ks = mset (map snd sks) \<longrightarrow> blVerify L a h ks = Some True)))"

definition votes_valid :: "(bytes \<Rightarrow> bytes32 \<Rightarrow> bytes \<Rightarrow> bool) \<Rightarrow> bytes list \<Rightarrow> bytes32 \<Rightarrow> (uint32 \<times> vote) list \<Rightarrow> bool" where
  "votes_valid valid committee h vs \<longleftrightarrow>
     distinct (map fst vs) \<and>
     (\<forall>(i, v)\<in>set vs. unat i < length committee \<and> vtHash v = h \<and> valid (committee ! unat i) h (vtSignature v))"

lemma votes_valid_vote:
  "votes_valid valid committee h vs \<Longrightarrow> v \<in> set vs \<Longrightarrow> unat (fst v) < length committee \<and> vtHash (snd v) = h"
  by (cases v) (auto simp: votes_valid_def)

lemma votes_valid_indices: "votes_valid valid committee h vs \<Longrightarrow> distinct (map (\<lambda>v. unat (fst v)) vs)"
proof -
  assume "votes_valid valid committee h vs"
  then have "distinct (map unat (map fst vs))"
    by (simp add: votes_valid_def distinct_map inj_on_def word_unat_eq_iff del: map_map)
  then show ?thesis by (simp add: comp_def)
qed

lemma votes_valid_size:
  assumes "votes_valid valid committee h vs"
  shows "length vs \<le> length committee"
proof -
  have "card (set (map (\<lambda>v. unat (fst v)) vs)) \<le> card {..<length committee}"
    using votes_valid_vote [OF assms] by (intro card_mono) auto
  then show ?thesis using distinct_card [OF votes_valid_indices [OF assms]] by simp
qed

lemma voted_bits_voters:
  assumes "votes_valid valid committee h vs" "length committee = unat n" "0 < unat n"
  obtains a where "voted_bits n vs = Inr (Some a)" "ba_wf a" "ba_clean a" "length (ba_bits a) = length committee"
    "voters a = (\<lambda>v. unat (fst v)) ` set vs"
proof -
  have n: "unat n < 2 ^ 32" using unsigned_less [of n, where ?'a = nat] by simp
  obtain b where b: "NewBitArray (unat n) = Some b" "ba_wf b" "ba_clean b" "unat (baBits b) = unat n" "ba_bits b = replicate (unat n) False"
    by (rule New_bits [OF assms(3) n])
  let ?is = "map (\<lambda>v. unat (fst v)) vs"
  have wf: "oba_wf (Some b)" using b by (simp add: oba_wf_def)
  obtain b' where run: "mark_all SetIndex ?is (Some b) = Inr b'" "oba_wf b'" "length (oba_bits b') = length (oba_bits (Some b))"
    "\<forall>i<length (oba_bits (Some b)). oba_bits b' ! i \<longleftrightarrow> oba_bits (Some b) ! i \<or> i \<in> set ?is"
    using votes.mark_all_bits [OF wf] by blast
  then obtain a where a: "b' = Some a" "ba_wf a" "ba_clean a" by (cases b') (auto simp: oba_wf_def)
  have len: "length (ba_bits a) = unat n" using run(3) a(1) b(4) by (simp add: oba_bits_def)
  have idx: "\<forall>i\<in>set ?is. i < unat n" using votes_valid_vote [OF assms(1)] assms(2) by simp
  have bits: "ba_bits a ! i \<longleftrightarrow> i \<in> set ?is" if "i < unat n" for i using run(4) a(1) b(4,5) that by (simp add: oba_bits_def)
  have "i \<in> voters a \<longleftrightarrow> i \<in> set ?is" for i
    using bits [of i] idx len unfolding voters_def mem_Collect_eq by metis
  then have "voters a = set ?is" by (rule set_eqI)
  then show thesis using that [of a] run(1) a b(1) len assms(2) by (simp add: voted_bits_def)
qed

lemma keys_of_voters:
  assumes "votes_valid valid committee h vs" "V = (\<lambda>v. unat (fst v)) ` set vs"
  shows "mset (map fst (filter (\<lambda>(k, j). j \<in> V) (zip committee [0..<length committee]))) =
    mset (map (\<lambda>v. committee ! unat (fst v)) vs)"
proof -
  have "zip xs [0..<length xs] = map (\<lambda>j. (xs ! j, j)) [0..<length xs]" for xs :: "bytes list"
    by (rule nth_equalityI) simp_all
  then have "map fst (filter (\<lambda>(k, j). j \<in> V) (zip committee [0..<length committee])) =
      map ((!) committee) (filter (\<lambda>j. j \<in> V) [0..<length committee])"
    by (simp add: filter_map comp_def)
  moreover have "mset (filter (\<lambda>j. j \<in> V) [0..<length committee]) = mset (map (\<lambda>v. unat (fst v)) vs)"
  proof (rule set_eq_iff_mset_eq_distinct [THEN iffD1])
    show "distinct (filter (\<lambda>j. j \<in> V) [0..<length committee])" by simp
    show "distinct (map (\<lambda>v. unat (fst v)) vs)" by (rule votes_valid_indices [OF assms(1)])
    show "set (filter (\<lambda>j. j \<in> V) [0..<length committee]) = set (map (\<lambda>v. unat (fst v)) vs)"
      using votes_valid_vote [OF assms(1)] assms(2) by auto
  qed
  ultimately show ?thesis by (simp add: multiset.map_comp comp_def)
qed

lemma last_hash_valid: "votes_valid valid committee h vs \<Longrightarrow> vs \<noteq> [] \<Longrightarrow> last_hash vs = h"
  by (simp add: last_hash_def votes_valid_vote)

lemma aggregate_verifies:
  assumes law: "bls_law L valid" and ok: "votes_valid valid committee h vs" and "vs \<noteq> []" and a: "ba_wf a"
    "length (ba_bits a) = length committee" "voters a = (\<lambda>v. unat (fst v)) ` set vs"
  obtains sig where "blAggregate L (map (\<lambda>v. vtSignature (snd v)) vs) = Some sig" "blSigFromBytes L sig"
    "\<exists>ks. voted_keys (Some a) 0 committee = Inr ks \<and> ThresholdVerify L sig h ks = Some True"
    "BitArray_Count (Some a) = Inr (length vs)"
proof -
  let ?sks = "map (\<lambda>v. (vtSignature (snd v), committee ! unat (fst v))) vs"
  let ?ks = "map fst (filter (\<lambda>(k, j). j \<in> voters a) (zip committee [0..<length committee]))"
  have "\<forall>(s, k)\<in>set ?sks. valid k h s" using ok by (auto simp: votes_valid_def)
  then obtain sig where sig: "blAggregate L (map fst ?sks) = Some sig" "blSigFromBytes L sig"
    "\<forall>ks. mset ks = mset (map snd ?sks) \<longrightarrow> blVerify L sig h ks = Some True"
    using law [unfolded bls_law_def, rule_format, of ?sks h] assms(3) by auto
  have ks: "mset ?ks = mset (map (\<lambda>v. committee ! unat (fst v)) vs)" by (rule keys_of_voters [OF ok a(3)])
  then have "?ks \<noteq> []" using assms(3) by (metis length_0_conv length_map mset_eq_length)
  have "card (voters a) = length vs" unfolding a(3) using distinct_card [OF votes_valid_indices [OF ok]] by simp
  then have "BitArray_Count (Some a) = Inr (length vs)" using Count_bits [OF a(1)] by (simp add: voters_def length_filter_conv_card)
  then show thesis
    using that [of sig] sig ks \<open>?ks \<noteq> []\<close> voted_keys_bits [OF a(1), of 0 committee]
    by (simp add: comp_def ThresholdVerify_def)
qed

text \<open>A manager whose votes for a key are all valid, and the one more vote.\<close>

lemma votes_valid_add:
  assumes "votes_valid valid committee h vs" "unat i < length committee" "valid (committee ! unat i) h sig"
  shows "votes_valid valid committee h (AList.update i \<lparr>vtSignature = sig, vtHash = h\<rparr> vs)"
    "card (insert i (set (map fst vs))) = length (AList.update i \<lparr>vtSignature = sig, vtHash = h\<rparr> vs)"
    "AList.update i \<lparr>vtSignature = sig, vtHash = h\<rparr> vs \<noteq> []"
proof -
  let ?vs = "AList.update i \<lparr>vtSignature = sig, vtHash = h\<rparr> vs"
  have d: "distinct (map fst ?vs)" using assms(1) by (simp add: votes_valid_def distinct_update)
  have "\<forall>(j, v)\<in>set ?vs. unat j < length committee \<and> vtHash v = h \<and> valid (committee ! unat j) h (vtSignature v)"
  proof safe
    fix j v
    assume "(j, v) \<in> set ?vs"
    then have "map_of ?vs j = Some v" using d by (simp add: map_of_is_SomeI)
    then have "j = i \<and> v = \<lparr>vtSignature = sig, vtHash = h\<rparr> \<or> (j, v) \<in> set vs"
      by (auto simp: update_conv' split: if_splits dest: map_of_SomeD)
    then show "unat j < length committee" "vtHash v = h" "valid (committee ! unat j) h (vtSignature v)"
      using assms by (auto simp: votes_valid_def)
  qed
  then show "votes_valid valid committee h ?vs" using d by (simp add: votes_valid_def)
  have "set (map fst ?vs) = insert i (set (map fst vs))" by (simp add: update_keys) auto
  then show "card (insert i (set (map fst vs))) = length ?vs" using distinct_card [OF d] by simp
  then show "?vs \<noteq> []" by (metis card_eq_0_iff empty_not_insert finite_insert List.finite_set list.size(3))
qed

lemma QC_AddVote_step:
  assumes "(round, blk) \<notin> set (qmSealed m)" "sig \<noteq> []" "blSigFromBytes L sig"
    and vs: "vs = AList.update index \<lparr>vtSignature = sig, vtHash = h\<rparr> (qm_votes (round, blk) m)"
  obtains m1 where "qm_votes (round, blk) m1 = vs" "qmCommitteeSize m1 = qmCommitteeSize m"
    "QC_AddVote L index epoch round blk sig h m =
       (if MajorityTwoThird (of_nat (length vs)) (qmCommitteeSize m) then QC_Aggregate L round blk epoch (QC_seal round blk m1)
        else Inr (None, m1))"
proof -
  define m0 where "m0 = (if map_of (qmVotes m) (round, blk) = None then m\<lparr>qmVotes := AList.update (round, blk) [] (qmVotes m)\<rparr> else m)"
  define m1 where "m1 = m0\<lparr>qmVotes := AList.update (round, blk) vs (qmVotes m0)\<rparr>"
  have m0: "qm_votes (round, blk) m0 = qm_votes (round, blk) m" "qmSealed m0 = qmSealed m" "qmCommitteeSize m0 = qmCommitteeSize m"
    by (simp_all add: m0_def qm_votes_def update_conv')
  have m1: "qm_votes (round, blk) m1 = vs" "qmCommitteeSize m1 = qmCommitteeSize m"
    by (simp_all add: m1_def m0 qm_votes_def update_conv')
  have "QC_AddVote L index epoch round blk sig h m =
      (if MajorityTwoThird (of_nat (length vs)) (qmCommitteeSize m) then QC_Aggregate L round blk epoch (QC_seal round blk m1)
       else Inr (None, m1))"
    unfolding QC_AddVote_def Let_def m0_def [symmetric] m0 vs [symmetric] m1_def [symmetric] m1(2)
    using assms(1-3) by simp
  with m1 show thesis by (rule that)
qed

text \<open>
  C14. Votes of committee members become a certificate exactly when two thirds of the committee have voted: adding a
  valid vote to valid votes of the same block never panics, returns a certificate if and
  only if the distinct voters with the new one are a quorum, every such certificate passes the
  verification against the committee, and afterwards the key is sealed.
\<close>

theorem votes_form_certificate:
  assumes "bls_law L valid" "length committee = unat (qmCommitteeSize m)" "0 < length committee"
    and "(round, Block_ID L b) \<notin> set (qmSealed m)"
    and "votes_valid valid committee (VotingHash L b) (qm_votes (round, Block_ID L b) m)"
    and "unat index < length committee" "valid (committee ! unat index) (VotingHash L b) sig" "sig \<noteq> []" "blSigFromBytes L sig"
  shows "\<exists>qc m'. QC_AddVote L index epoch round (Block_ID L b) sig (VotingHash L b) m = Inr (qc, m') \<and>
    (qc \<noteq> None \<longleftrightarrow> 2 * length committee \<le> 3 * card (insert index (set (map fst (qm_votes (round, Block_ID L b) m))))) \<and>
    (\<forall>c. qc = Some c \<longrightarrow> VerifyQC L b c committee = Inr (Some True) \<and> QCHeight c = Block_Number b \<and> QCRound c = round \<and>
       (round, Block_ID L b) \<in> set (qmSealed m'))"
proof -
  let ?h = "VotingHash L b" and ?key = "(round, Block_ID L b)"
  define vs where "vs = AList.update index \<lparr>vtSignature = sig, vtHash = ?h\<rparr> (qm_votes ?key m)"
  obtain m1 where m1: "qm_votes ?key m1 = vs" "qmCommitteeSize m1 = qmCommitteeSize m"
    and step: "QC_AddVote L index epoch round (Block_ID L b) sig ?h m =
      (if MajorityTwoThird (of_nat (length vs)) (qmCommitteeSize m)
       then QC_Aggregate L round (Block_ID L b) epoch (QC_seal round (Block_ID L b) m1) else Inr (None, m1))"
    by (rule QC_AddVote_step [OF assms(4,8,9) vs_def])
  note ok = votes_valid_add [OF assms(5-7), folded vs_def]
  have n: "0 < unat (qmCommitteeSize m)" using assms(2,3) by simp
  have lt: "length committee < 2 ^ 32" using assms(2) unsigned_less [of "qmCommitteeSize m", where ?'a = nat] by simp
  have maj: "MajorityTwoThird (of_nat (length vs)) (qmCommitteeSize m) \<longleftrightarrow> 2 * length committee \<le> 3 * length vs"
    using votes_valid_size [OF ok(1)] lt assms(2,3) by (simp add: majority_nat unat_of_nat)
  obtain a where a: "voted_bits (qmCommitteeSize m) vs = Inr (Some a)" "ba_wf a" "ba_clean a" "length (ba_bits a) = length committee"
    "voters a = (\<lambda>v. unat (fst v)) ` set vs"
    by (rule voted_bits_voters [OF ok(1) assms(2) n])
  obtain agg where agg: "blAggregate L (map (\<lambda>v. vtSignature (snd v)) vs) = Some agg" "blSigFromBytes L agg"
    "\<exists>ks. voted_keys (Some a) 0 committee = Inr ks \<and> ThresholdVerify L agg ?h ks = Some True"
    "BitArray_Count (Some a) = Inr (length vs)"
    by (rule aggregate_verifies [OF assms(1) ok(1,3) a(2,4,5)])
  define str where "str = ''BA{'' @ dec_digits (unat (baBits a)) @ '':'' @ marks (ba_bits a) @ ''}''"
  define c where "c = \<lparr>QCHeight = Number (Block_ID L b), QCRound = round, EpochID = epoch, VoterBitArrayStr = str,
      VoterMsgHash = ?h, VoterAggSig = agg\<rparr>"
  define m2 where "m2 = QC_seal round (Block_ID L b) (QC_seal round (Block_ID L b) m1)"
  have m2: "qm_votes ?key m2 = vs" "qmCommitteeSize m2 = qmCommitteeSize m" "?key \<in> set (qmSealed m2)"
    by (simp_all add: m2_def QC_seal_def m1(2)) (simp add: qm_votes_def m1(1) [unfolded qm_votes_def])
  have "QC_Aggregate L round (Block_ID L b) epoch (QC_seal round (Block_ID L b) m1) = Inr (Some c, m2)"
    unfolding QC_Aggregate_def Let_def m2_def [symmetric] m2 a(1) go_bind_simps agg(1) option.case String_marks [OF a(2)]
      str_def [symmetric] last_hash_valid [OF ok(1,3)] c_def [symmetric] ..
  moreover have "VerifyQC L b c committee = Inr (Some True)" if "2 * length committee \<le> 3 * length vs"
  proof -
    have "MajorityTwoThird (of_nat (length vs)) (of_nat (length committee))" using maj that assms(2) by simp
    moreover have "VoterBitArray str = Inr (Some a)" unfolding str_def by (rule voter_bits_back [OF a(2,3)])
    ultimately show ?thesis using agg(2-4) by (auto simp: VerifyQC_def c_def Let_def)
  qed
  moreover have "QCHeight c = Block_Number b" by (simp add: c_def Block_ID_def Number_ID Block_Number_def)
  ultimately show ?thesis using step maj ok(2) m2(3) by (auto simp: c_def)
qed

text \<open>An example of the law: keys and signatures are one byte, and both combine by addition.\<close>

definition sum_lib :: block_lib where
  "sum_lib = ex_lib\<lparr>blAggregate := (\<lambda>sigs. Some [\<Sum>s\<leftarrow>sigs. hd s]), blVerify := (\<lambda>sig _ keys. Some (sig = [\<Sum>k\<leftarrow>keys. hd k]))\<rparr>"

lemma sum_lib_law: "bls_law sum_lib (\<lambda>k h s. s = k)"
  unfolding bls_law_def
proof (intro allI impI)
  fix h and sks :: "(bytes \<times> bytes) list"
  assume "sks \<noteq> [] \<and> (\<forall>(s, k)\<in>set sks. s = k)"
  then have eq: "map fst sks = map snd sks" by auto
  have perm: "(\<Sum>k\<leftarrow>ks. hd k) = (\<Sum>k\<leftarrow>map snd sks. hd k)" if "mset ks = mset (map snd sks)" for ks
    using arg_cong [OF that, of "\<lambda>M. \<Sum>k\<in>#M. hd k"] by (simp only: mset_map [symmetric] sum_mset_sum_list)
  show "\<exists>a. blAggregate sum_lib (map fst sks) = Some a \<and> blSigFromBytes sum_lib a \<and>
      (\<forall>ks. mset ks = mset (map snd sks) \<longrightarrow> blVerify sum_lib a h ks = Some True)"
  proof (intro exI conjI allI impI)
    show "blAggregate sum_lib (map fst sks) = Some [\<Sum>k\<leftarrow>map snd sks. hd k]" unfolding eq by (simp add: sum_lib_def)
    show "blSigFromBytes sum_lib [\<Sum>k\<leftarrow>map snd sks. hd k]" by (simp add: sum_lib_def ex_lib_def)
    show "blVerify sum_lib [\<Sum>k\<leftarrow>map snd sks. hd k] h ks = Some True" if "mset ks = mset (map snd sks)" for ks
      using perm [OF that] by (simp add: sum_lib_def)
  qed
qed

definition ex_manager :: QCVoteManager where
  "ex_manager =
     \<lparr>qmVotes = [((4, Block_ID sum_lib ex_b2), [(0, \<lparr>vtSignature = [1], vtHash = VotingHash sum_lib ex_b2\<rparr>)])], qmSealed = [],
      qmCommitteeSize = 3\<rparr>"

theorem votes_form_certificate_witness:
  "\<exists>qc m'. QC_AddVote sum_lib 1 0 4 (Block_ID sum_lib ex_b2) [2] (VotingHash sum_lib ex_b2) ex_manager = Inr (Some qc, m') \<and>
     VerifyQC sum_lib ex_b2 qc [[1], [2], [3]] = Inr (Some True)"
proof -
  let ?key = "(4, Block_ID sum_lib ex_b2)" and ?h = "VotingHash sum_lib ex_b2"
  have vs: "qm_votes ?key ex_manager = [(0, \<lparr>vtSignature = [1], vtHash = ?h\<rparr>)]" by (simp add: ex_manager_def qm_votes_def)
  have "votes_valid (\<lambda>k h s. s = k) [[1], [2], [3]] ?h (qm_votes ?key ex_manager)" unfolding vs by (simp add: votes_valid_def)
  moreover have "length [[1], [2], [3 :: 8 word]] = unat (qmCommitteeSize ex_manager)" "?key \<notin> set (qmSealed ex_manager)"
    by (simp_all add: ex_manager_def)
  moreover have "blSigFromBytes sum_lib [2]" by (simp add: sum_lib_def ex_lib_def)
  ultimately obtain qc m' where run: "QC_AddVote sum_lib 1 0 4 (Block_ID sum_lib ex_b2) [2] ?h ex_manager = Inr (qc, m')"
    "qc \<noteq> None \<longleftrightarrow> 2 * length [[1], [2], [3 :: 8 word]] \<le> 3 * card (insert 1 (set (map fst (qm_votes ?key ex_manager))))"
    "\<forall>c. qc = Some c \<longrightarrow> VerifyQC sum_lib ex_b2 c [[1], [2], [3]] = Inr (Some True)"
    using votes_form_certificate [OF sum_lib_law, of "[[1], [2], [3]]" ex_manager 4 ex_b2 1 "[2]" 0] by force
  then have "qc \<noteq> None" by (simp add: vs)
  then show ?thesis using run by blast
qed

end
