(* ===== verification/Vm_Data.thy ===== *)
theory Vm_Data
  imports Transactions
begin

text \<open>
  The data of the virtual machine (package \<^verbatim>\<open>vm\<close>): the stack, the memory, the contract of a
  call frame, the analysis of jump destinations, gas constants and gas tables, and the records for the machine
  itself.

  Stack items are \<^verbatim>\<open>*big.Int\<close> and so integers without a bound here; that they stay below \<open>2 ^ 256\<close> is
  a theorem.  The stack is a list with its top in front.  The pool that recycles
  popped integers has no counterpart.  The cache of jump destinations is keyed by the hash of
  the code and has none either: the destinations are computed from the code.
\<close>

unbundle bit_operations_syntax

section \<open>Library functions\<close>

text \<open>
  \<^verbatim>\<open>common\<close> and \<^verbatim>\<open>common/math\<close> of go-ethereum and the hash function are parameters.  \<open>vm_lib_ok\<close> is
  their documented behaviour on the integers of a stack.
\<close>

record vm_lib = math_lib +
  U256 :: "int \<Rightarrow> int"
  S256 :: "int \<Rightarrow> int"
  math_Exp :: "int \<Rightarrow> int \<Rightarrow> int"
  math_Byte :: "int \<Rightarrow> nat \<Rightarrow> nat \<Rightarrow> uint8"
  ReadBits :: "int \<Rightarrow> nat \<Rightarrow> bytes"
  BigMax :: "int \<Rightarrow> int \<Rightarrow> int"
  BigMin :: "int \<Rightarrow> int \<Rightarrow> int"
  RightPadBytes :: "bytes \<Rightarrow> nat \<Rightarrow> bytes"
  BigToAddress :: "int \<Rightarrow> address"
  BigToHash :: "int \<Rightarrow> bytes32"
  Keccak256 :: "bytes \<Rightarrow> bytes32"

text \<open>\<^verbatim>\<open>big.Int.SetBytes\<close> and \<^verbatim>\<open>BitLen\<close>, \<^verbatim>\<open>Int64\<close> of the standard library.\<close>

definition big_SetBytes :: "bytes \<Rightarrow> int" where
  "big_SetBytes bs = foldl (\<lambda>acc b. 256 * acc + uint b) 0 bs"

fun bit_length :: "nat \<Rightarrow> nat" where
  "bit_length n = (if n = 0 then 0 else 1 + bit_length (n div 2))"

declare bit_length.simps [simp del]

definition big_BitLen :: "int \<Rightarrow> nat" where
  "big_BitLen x = bit_length (nat \<bar>x\<bar>)"

definition big_Int64 :: "int \<Rightarrow> int" where
  "big_Int64 x = sint (word_of_int x :: 64 word)"

definition is_word :: "int \<Rightarrow> bool" where
  "is_word x \<longleftrightarrow> 0 \<le> x \<and> x < 2 ^ 256"

definition vm_lib_ok :: "vm_lib \<Rightarrow> bool" where
  "vm_lib_ok L \<longleftrightarrow>
     (\<forall>x y. SafeAdd L x y = (x + y, 2 ^ 64 \<le> uint x + uint y)) \<and>
     (\<forall>x y. SafeMul L x y = (x * y, 2 ^ 64 \<le> uint x * uint y)) \<and>
     (\<forall>x. U256 L x = x mod 2 ^ 256) \<and>
     (\<forall>x. is_word x \<longrightarrow> S256 L x = (if x < 2 ^ 255 then x else x - 2 ^ 256)) \<and>
     (\<forall>x y. is_word x \<and> is_word y \<longrightarrow> math_Exp L x y = x ^ nat y mod 2 ^ 256) \<and>
     (\<forall>x n. is_word x \<and> n < 32 \<longrightarrow> uint (math_Byte L x 32 n) = x div 256 ^ (31 - n) mod 256) \<and>
     (\<forall>x n. length (ReadBits L x n) = n) \<and>
     (\<forall>x n. 0 \<le> x \<and> x < 256 ^ n \<longrightarrow> big_SetBytes (ReadBits L x n) = x) \<and>
     (\<forall>x y. BigMax L x y = max x y) \<and> (\<forall>x y. BigMin L x y = min x y) \<and>
     (\<forall>bs n. RightPadBytes L bs n = bs @ replicate (n - length bs) 0) \<and>
     (\<forall>x. 0 \<le> x \<longrightarrow> BigToAddress L x = word_of_int x) \<and>
     (\<forall>x. 0 \<le> x \<longrightarrow> BigToHash L x = word_of_int x)"

section \<open>Errors\<close>

datatype vm_error = ErrOutOfGas | ErrCodeStoreOutOfGas | ErrDepth | ErrInsufficientBalance | ErrContractAddressCollision
  | errWriteProtection | errReturnDataOutOfBounds | errExecutionReverted | errMaxCodeSizeExceeded | errGasUintOverflow
  | InvalidOpcode uint8 | StackUnderflow | StackLimitReached | InvalidJump int | HookError nat

section \<open>Memory\<close>

record Memory =
  store :: bytes
  lastGasCost :: uint64

definition NewMemory :: Memory where
  "NewMemory = \<lparr>store = [], lastGasCost = 0\<rparr>"

text \<open>
  A slice expression \<^verbatim>\<open>s[a:b]\<close>.  Go checks \<open>b\<close> against the capacity, the model against the length: beyond the length
  the model panics, and the theorems show that no instruction gets there.
\<close>

definition slice :: "int \<Rightarrow> int \<Rightarrow> bytes \<Rightarrow> bytes go" where
  "slice a b s = (if 0 \<le> a \<and> a \<le> b \<and> b \<le> int (length s) then Inr (take (nat (b - a)) (drop (nat a) s)) else Inl IndexOutOfRange)"

definition copy_at :: "nat \<Rightarrow> bytes \<Rightarrow> bytes \<Rightarrow> bytes" where
  "copy_at i v s = (let v = take (length s - i) v in take i s @ v @ drop (i + length v) s)"

definition Memory_Set :: "uint64 \<Rightarrow> uint64 \<Rightarrow> bytes \<Rightarrow> Memory \<Rightarrow> Memory go" where
  "Memory_Set offset size' value m =
     (if size' > 0 then
        if offset + size' > of_nat (length (store m)) then Inl Explicit
        else if unat offset > unat (offset + size') then Inl IndexOutOfRange
        else Inr (m\<lparr>store := copy_at (unat offset) (take (unat size') value) (store m)\<rparr>)
      else Inr m)"

definition Memory_Set32 :: "vm_lib \<Rightarrow> uint64 \<Rightarrow> int \<Rightarrow> Memory \<Rightarrow> Memory go" where
  "Memory_Set32 L offset val m =
     (if offset + 32 > of_nat (length (store m)) then Inl Explicit
      else if unat offset > unat (offset + 32) then Inl IndexOutOfRange
      else Inr (m\<lparr>store := copy_at (unat offset) (ReadBits L val 32) (store m)\<rparr>))"

definition Memory_Resize :: "uint64 \<Rightarrow> Memory \<Rightarrow> Memory" where
  "Memory_Resize size' m =
     (if of_nat (length (store m)) < size'
      then m\<lparr>store := store m @ replicate (unat (size' - of_nat (length (store m)))) 0\<rparr> else m)"

text \<open>\<^verbatim>\<open>Get\<close> copies the slice that \<^verbatim>\<open>GetPtr\<close> returns; both are this function.\<close>

definition Memory_Get :: "int \<Rightarrow> int \<Rightarrow> Memory \<Rightarrow> bytes go" where
  "Memory_Get offset size' m =
     (if size' = 0 then Inr []
      else if int (length (store m)) > offset then slice offset (offset + size') (store m)
      else Inr [])"

definition Memory_Copy :: "uint64 \<Rightarrow> uint64 \<Rightarrow> uint64 \<Rightarrow> Memory \<Rightarrow> Memory go" where
  "Memory_Copy dst src len m =
     (if len = 0 then Inr m
      else if unat dst > length (store m) then Inl IndexOutOfRange
      else go_bind (slice (uint src) (uint (src + len)) (store m)) (\<lambda>v. Inr (m\<lparr>store := copy_at (unat dst) v (store m)\<rparr>)))"

section \<open>Data of a call\<close>

definition calcMemSize :: "int \<Rightarrow> int \<Rightarrow> int" where
  "calcMemSize off l = (if l = 0 then 0 else off + l)"

definition getDataBig :: "vm_lib \<Rightarrow> bytes \<Rightarrow> int \<Rightarrow> int \<Rightarrow> bytes go" where
  "getDataBig L data start size' =
     (let dlen = int (length data);
          s = BigMin L start dlen;
          e = BigMin L (s + size') dlen
      in go_bind (slice (uint (big_Uint64 s)) (uint (big_Uint64 e)) data) (\<lambda>d.
         Inr (RightPadBytes L d (unat (big_Uint64 size')))))"

definition bigUint64 :: "int \<Rightarrow> uint64 \<times> bool" where
  "bigUint64 v = (big_Uint64 v, big_BitLen v > 64)"

definition vm_toWordSize :: "uint64 \<Rightarrow> uint64" where
  "vm_toWordSize n = (if n > MaxUint64 - 31 then MaxUint64 div 32 + 1 else (n + 31) div 32)"

text \<open>
  What a callee reads of its caller: the address alone, or of a contract also its caller and its value.
\<close>

datatype ContractRef = AccountRef address | ContractOf address address "int option"

fun ref_Address :: "ContractRef \<Rightarrow> address" where
  "ref_Address (AccountRef a) = a"
| "ref_Address (ContractOf a c v) = a"

record Contract =
  CallerAddress :: address
  caller :: ContractRef
  self :: address
  Code :: bytes
  CodeHash :: bytes32
  CodeAddr :: "address option"
  Input :: bytes
  Gas :: uint64
  cValue :: "int option"
  isDelegateCall :: bool

definition NewContract :: "ContractRef \<Rightarrow> address \<Rightarrow> int option \<Rightarrow> uint64 \<Rightarrow> Contract" where
  "NewContract caller' object value' gas =
     \<lparr>CallerAddress = ref_Address caller', caller = caller', self = object, Code = [], CodeHash = 0, CodeAddr = None,
      Input = [], Gas = gas, cValue = value', isDelegateCall = False\<rparr>"

definition AsDelegate :: "Contract \<Rightarrow> Contract go" where
  "AsDelegate c =
     (case caller c of
        AccountRef _ \<Rightarrow> Inl TypeAssertion
      | ContractOf a parentCaller parentValue \<Rightarrow>
          Inr (c\<lparr>isDelegateCall := True, CallerAddress := parentCaller, cValue := parentValue\<rparr>))"

definition GetByte :: "uint64 \<Rightarrow> Contract \<Rightarrow> uint8" where
  "GetByte n c = (if n < of_nat (length (Code c)) then Code c ! unat n else 0)"

definition Contract_UseGas :: "uint64 \<Rightarrow> Contract \<Rightarrow> bool \<times> Contract" where
  "Contract_UseGas gas c = (if Gas c < gas then (False, c) else (True, c\<lparr>Gas := Gas c - gas\<rparr>))"

definition SetCallCode :: "address option \<Rightarrow> bytes32 \<Rightarrow> bytes \<Rightarrow> Contract \<Rightarrow> Contract" where
  "SetCallCode addr hash code c = c\<lparr>Code := code, CodeHash := hash, CodeAddr := addr\<rparr>"

definition as_ref :: "Contract \<Rightarrow> ContractRef" where
  "as_ref c = ContractOf (self c) (CallerAddress c) (cValue c)"

end
