(* ===== verification/Vm_Analysis.thy ===== *)
theory Vm_Analysis
  imports Vm_Data
begin

text \<open>
  Jump destinations (\<^verbatim>\<open>vm/analysis.go\<close>): the bitmap that marks the bytes of a code that are arguments of a
  push, and the test whether a number is a jump destination.  The theorem compares the
  test with the instruction boundaries of the code.
\<close>

unbundle bit_operations_syntax

section \<open>The bitmap\<close>

definition bv_set :: "nat \<Rightarrow> uint8 list \<Rightarrow> uint8 list go" where
  "bv_set pos bits =
     (if pos div 8 < length bits then Inr (bits[pos div 8 := bits ! (pos div 8) OR drop_bit (pos mod 8) 0x80])
      else Inl IndexOutOfRange)"

definition bv_set8 :: "nat \<Rightarrow> uint8 list \<Rightarrow> uint8 list go" where
  "bv_set8 pos bits =
     (if pos div 8 + 1 < length bits then
        let bits = bits[pos div 8 := bits ! (pos div 8) OR drop_bit (pos mod 8) 0xff]
        in Inr (bits[pos div 8 + 1 := bits ! (pos div 8 + 1) OR NOT (drop_bit (pos mod 8) 0xff)])
      else Inl IndexOutOfRange)"

definition codeSegment :: "nat \<Rightarrow> uint8 list \<Rightarrow> bool go" where
  "codeSegment pos bits =
     (if pos div 8 < length bits then Inr (bits ! (pos div 8) AND drop_bit (pos mod 8) 0x80 = 0) else Inl IndexOutOfRange)"

text \<open>The two loops over the argument bytes of a push.\<close>

fun mark_data :: "nat \<Rightarrow> nat \<Rightarrow> uint8 list \<Rightarrow> uint8 list go" where
  "mark_data numbits pc bits =
     (if 8 \<le> numbits then go_bind (bv_set8 pc bits) (\<lambda>bits. mark_data (numbits - 8) (pc + 8) bits)
      else if 0 < numbits then go_bind (bv_set pc bits) (\<lambda>bits. mark_data (numbits - 1) (pc + 1) bits)
      else Inr bits)"

declare mark_data.simps [simp del]

definition is_push :: "uint8 \<Rightarrow> bool" where
  "is_push op \<longleftrightarrow> 0x60 \<le> op \<and> op \<le> 0x7f"

definition push_size :: "uint8 \<Rightarrow> nat" where
  "push_size op = (if is_push op then unat (op - 0x60 + 1) else 0)"

function bitmap_loop :: "bytes \<Rightarrow> nat \<Rightarrow> uint8 list \<Rightarrow> uint8 list go" where
  "bitmap_loop code pc bits =
     (if pc < length code then
        let op = code ! pc in
        if is_push op then
          go_bind (mark_data (push_size op) (pc + 1) bits) (\<lambda>bits. bitmap_loop code (pc + 1 + push_size op) bits)
        else bitmap_loop code (pc + 1) bits
      else Inr bits)"
  by pat_completeness auto

termination
  by (relation "measure (\<lambda>(code, pc, bits). length code - pc)") auto

declare bitmap_loop.simps [simp del]

definition codeBitmap :: "bytes \<Rightarrow> uint8 list go" where
  "codeBitmap code = bitmap_loop code 0 (replicate (length code div 8 + 1 + 4) 0)"

definition destinations_has :: "bytes \<Rightarrow> int \<Rightarrow> bool go" where
  "destinations_has code dest =
     (let udest = unat (big_Uint64 dest) in
      if big_BitLen dest \<ge> 63 \<or> udest \<ge> length code then Inr False
      else go_bind (codeBitmap code) (\<lambda>m.
        if code ! udest = 0x5b then codeSegment udest m else Inr False))"

section \<open>Instruction boundaries\<close>

inductive instr_start :: "bytes \<Rightarrow> nat \<Rightarrow> bool" for code where
  start_0: "instr_start code 0"
| start_next: "instr_start code p \<Longrightarrow> p < length code \<Longrightarrow> instr_start code (p + 1 + push_size (code ! p))"

definition bv_bit :: "uint8 list \<Rightarrow> nat \<Rightarrow> bool" where
  "bv_bit bits pos \<longleftrightarrow> bit (bits ! (pos div 8)) (7 - pos mod 8)"

lemma bit_mask_0x80:
  assumes "i < 8" "j < 8"
  shows "bit (drop_bit i (0x80 :: uint8)) j \<longleftrightarrow> i + j = 7"
proof -
  have "bit (push_bit 7 (1 :: uint8)) (i + j) \<longleftrightarrow> i + j = 7"
    by (subst bit_push_bit_iff) (auto simp: bit_1_iff)
  moreover have "push_bit 7 (1 :: uint8) = 0x80" by simp
  ultimately show ?thesis by (simp only: bit_drop_bit_eq o_def)
qed

lemma bit_mask_0xff: "bit (drop_bit i (0xff :: uint8)) j \<longleftrightarrow> i + j < 8"
proof -
  have "bit (mask 8 :: uint8) (i + j) \<longleftrightarrow> i + j < 8" by (subst bit_mask_iff) auto
  moreover have "mask 8 = (0xff :: uint8)" by (simp add: mask_eq_exp_minus_1)
  ultimately show ?thesis by (simp only: bit_drop_bit_eq o_def)
qed

lemma codeSegment_bit:
  assumes "pos div 8 < length bits"
  shows "codeSegment pos bits = Inr (\<not> bv_bit bits pos)"
proof -
  let ?w = "bits ! (pos div 8)" and ?i = "pos mod 8"
  have "?w AND drop_bit ?i 0x80 = 0 \<longleftrightarrow> (\<forall>j < 8. \<not> (bit ?w j \<and> ?i + j = 7))"
    by (auto simp: bit_eq_iff bit_and_iff bit_mask_0x80)
  also have "\<dots> \<longleftrightarrow> \<not> bit ?w (7 - ?i)"
  proof -
    have "?i < 8" by simp
    then have "7 - ?i < 8" "?i + (7 - ?i) = 7" by linarith+
    moreover have "j = 7 - ?i" if "?i + j = 7" for j using that by simp
    ultimately show ?thesis by metis
  qed
  finally show ?thesis using assms by (simp add: codeSegment_def bv_bit_def)
qed

lemma bv_set_bits:
  assumes "pos div 8 < length bits"
  obtains bits' where "bv_set pos bits = Inr bits'" "length bits' = length bits"
    "\<forall>q. q div 8 < length bits \<longrightarrow> (bv_bit bits' q \<longleftrightarrow> bv_bit bits q \<or> q = pos)"
proof (rule that)
  let ?b = "bits[pos div 8 := bits ! (pos div 8) OR drop_bit (pos mod 8) 0x80]"
  show "bv_set pos bits = Inr ?b" using assms by (simp add: bv_set_def)
  show "length ?b = length bits" by simp
  show "\<forall>q. q div 8 < length bits \<longrightarrow> (bv_bit ?b q \<longleftrightarrow> bv_bit bits q \<or> q = pos)"
  proof (intro allI impI)
  fix q assume q: "q div 8 < length bits"
  have e: "q = pos \<longleftrightarrow> q div 8 = pos div 8 \<and> q mod 8 = pos mod 8" by (metis div_mult_mod_eq)
  have "pos mod 8 + (7 - q mod 8) = 7 \<longleftrightarrow> q mod 8 = pos mod 8"
  proof -
    have "q mod 8 < 8" "pos mod 8 < 8" by simp_all
    then show ?thesis by linarith
  qed
  then show "bv_bit ?b q \<longleftrightarrow> bv_bit bits q \<or> q = pos"
    using assms q by (auto simp: bv_bit_def nth_list_update bit_or_iff bit_mask_0x80 e)
  qed
qed

lemma bv_set8_bits:
  assumes "pos div 8 + 1 < length bits"
  obtains bits' where "bv_set8 pos bits = Inr bits'" "length bits' = length bits"
    "\<forall>q. q div 8 < length bits \<longrightarrow> (bv_bit bits' q \<longleftrightarrow> bv_bit bits q \<or> pos \<le> q \<and> q < pos + 8)"
proof (rule that)
  let ?i = "pos div 8" and ?m = "drop_bit (pos mod 8) (0xff :: uint8)"
  let ?b = "bits[?i := bits ! ?i OR ?m, ?i + 1 := bits ! (?i + 1) OR NOT ?m]"
  show "bv_set8 pos bits = Inr ?b" using assms by (simp add: bv_set8_def Let_def)
  show "length ?b = length bits" by simp
  show "\<forall>q. q div 8 < length bits \<longrightarrow> (bv_bit ?b q \<longleftrightarrow> bv_bit bits q \<or> pos \<le> q \<and> q < pos + 8)"
  proof (intro allI impI)
  fix q assume q: "q div 8 < length bits"
  have m: "q mod 8 < 8" "pos mod 8 < 8" by simp_all
  have dm: "q = 8 * (q div 8) + q mod 8" "pos = 8 * (pos div 8) + pos mod 8" by simp_all
  consider "q div 8 = ?i" | "q div 8 = ?i + 1" | "q div 8 < ?i" | "?i + 1 < q div 8" by linarith
  then show "bv_bit ?b q \<longleftrightarrow> bv_bit bits q \<or> pos \<le> q \<and> q < pos + 8"
  proof cases
    case 1
    then have "pos \<le> q \<and> q < pos + 8 \<longleftrightarrow> pos mod 8 + (7 - q mod 8) < 8" using dm m by linarith
    then show ?thesis using assms 1 by (simp add: bv_bit_def nth_list_update bit_or_iff bit_mask_0xff)
  next
    case 2
    then have "pos \<le> q \<and> q < pos + 8 \<longleftrightarrow> \<not> pos mod 8 + (7 - q mod 8) < 8" using dm m by linarith
    then show ?thesis using assms 2 by (auto simp: bv_bit_def nth_list_update bit_or_iff bit_not_iff bit_mask_0xff)
  next
    case 3
    then have "\<not> pos \<le> q" using dm m by linarith
    then show ?thesis using 3 by (simp add: bv_bit_def)
  next
    case 4
    then have "\<not> q < pos + 8" using dm m by linarith
    then show ?thesis using 4 by (simp add: bv_bit_def)
  qed
  qed
qed

lemma mark_data_bits:
  "(\<forall>k < n. (pc + k) div 8 < length bits) \<Longrightarrow> (\<forall>k. 8 * k + 8 \<le> n \<longrightarrow> (pc + 8 * k) div 8 + 1 < length bits) \<Longrightarrow>
   \<exists>bits'. mark_data n pc bits = Inr bits' \<and> length bits' = length bits \<and>
     (\<forall>q. q div 8 < length bits \<longrightarrow> (bv_bit bits' q \<longleftrightarrow> bv_bit bits q \<or> pc \<le> q \<and> q < pc + n))"
proof (induction n arbitrary: pc bits rule: less_induct)
  case (less n)
  consider "8 \<le> n" | "0 < n" "n < 8" | "n = 0" by linarith
  then show ?case
  proof cases
    case 1
    have "pc div 8 + 1 < length bits" using less.prems(2) [rule_format, of 0] 1 by simp
    then obtain b1 where b1: "bv_set8 pc bits = Inr b1" "length b1 = length bits"
      "\<forall>q. q div 8 < length bits \<longrightarrow> (bv_bit b1 q \<longleftrightarrow> bv_bit bits q \<or> pc \<le> q \<and> q < pc + 8)"
      by (rule bv_set8_bits)
    have a: "\<forall>k < n - 8. (pc + 8 + k) div 8 < length b1"
    proof (intro allI impI)
      fix k assume "k < n - 8"
      then have "(pc + (8 + k)) div 8 < length bits" by (intro less.prems(1) [rule_format]) simp
      then show "(pc + 8 + k) div 8 < length b1" by (simp add: b1(2) add.assoc)
    qed
    have b: "\<forall>k. 8 * k + 8 \<le> n - 8 \<longrightarrow> (pc + 8 + 8 * k) div 8 + 1 < length b1"
    proof (intro allI impI)
      fix k assume "8 * k + 8 \<le> n - 8"
      then have "(pc + 8 * (k + 1)) div 8 + 1 < length bits" by (intro less.prems(2) [rule_format]) simp
      then show "(pc + 8 + 8 * k) div 8 + 1 < length b1" by (simp add: b1(2) add.assoc)
    qed
    from less.IH [OF _ a b] 1 obtain b2 where b2: "mark_data (n - 8) (pc + 8) b1 = Inr b2" "length b2 = length b1"
      "\<forall>q. q div 8 < length b1 \<longrightarrow> (bv_bit b2 q \<longleftrightarrow> bv_bit b1 q \<or> pc + 8 \<le> q \<and> q < pc + 8 + (n - 8))"
      by auto
    have "mark_data n pc bits = Inr b2" using 1 b1(1) b2(1) by (simp add: mark_data.simps [of n])
    moreover have "bv_bit b2 q \<longleftrightarrow> bv_bit bits q \<or> pc \<le> q \<and> q < pc + n" if "q div 8 < length bits" for q
      using b2(3) b1(2,3) that 1 by auto
    ultimately show ?thesis using b1(2) b2(2) by auto
  next
    case 2
    have "pc div 8 < length bits" using less.prems(1) [rule_format, of 0] 2 by simp
    then obtain b1 where b1: "bv_set pc bits = Inr b1" "length b1 = length bits"
      "\<forall>q. q div 8 < length bits \<longrightarrow> (bv_bit b1 q \<longleftrightarrow> bv_bit bits q \<or> q = pc)"
      by (rule bv_set_bits)
    have a: "\<forall>k < n - 1. (pc + 1 + k) div 8 < length b1"
    proof (intro allI impI)
      fix k assume "k < n - 1"
      then have "(pc + (1 + k)) div 8 < length bits" by (intro less.prems(1) [rule_format]) simp
      then show "(pc + 1 + k) div 8 < length b1" by (simp add: b1(2) add.assoc)
    qed
    have b: "\<forall>k. 8 * k + 8 \<le> n - 1 \<longrightarrow> (pc + 1 + 8 * k) div 8 + 1 < length b1" using 2 by auto
    from less.IH [OF _ a b] 2 obtain b2 where b2: "mark_data (n - 1) (pc + 1) b1 = Inr b2" "length b2 = length b1"
      "\<forall>q. q div 8 < length b1 \<longrightarrow> (bv_bit b2 q \<longleftrightarrow> bv_bit b1 q \<or> pc + 1 \<le> q \<and> q < pc + 1 + (n - 1))"
      by auto
    have "mark_data n pc bits = Inr b2" using 2 b1(1) b2(1) by (simp add: mark_data.simps [of n])
    moreover have "bv_bit b2 q \<longleftrightarrow> bv_bit bits q \<or> pc \<le> q \<and> q < pc + n" if "q div 8 < length bits" for q
      using b2(3) b1(2,3) that 2 by auto
    ultimately show ?thesis using b1(2) b2(2) by auto
  next
    case 3
    then show ?thesis by (auto simp: mark_data.simps [of 0])
  qed
qed

lemma push_size_le: "push_size op \<le> 32"
proof (cases "is_push op")
  case True
  then have "op - 0x60 \<le> 0x1f" by (auto simp: is_push_def word_le_nat_alt unat_sub)
  then have "unat (op - 0x60) \<le> 31" by (simp add: word_le_nat_alt)
  then have "unat (op - 0x60 + 1) = unat (op - 0x60) + 1" by (subst unat_add_lem [THEN iffD1]) auto
  with \<open>unat (op - 0x60) \<le> 31\<close> show ?thesis by (simp add: push_size_def)
qed (simp add: push_size_def)

text \<open>What the loop has established when it is about to read position \<open>pc\<close>.\<close>

definition bitmap_inv :: "bytes \<Rightarrow> nat \<Rightarrow> uint8 list \<Rightarrow> bool" where
  "bitmap_inv code pc bits \<longleftrightarrow> length bits = length code div 8 + 5 \<and> instr_start code pc \<and>
     (\<forall>q. q div 8 < length bits \<longrightarrow> (bv_bit bits q \<longleftrightarrow> q < pc \<and> \<not> instr_start code q))"

text \<open>Boundaries before a boundary are those of the instructions before it.\<close>

lemma instr_start_step:
  "instr_start code q \<Longrightarrow> instr_start code p \<Longrightarrow> p < q \<Longrightarrow> p < length code \<Longrightarrow> p + 1 + push_size (code ! p) \<le> q"
proof (induction q arbitrary: p rule: less_induct)
  case (less q)
  from less.prems(1) show ?case
  proof cases
    case start_0
    then show ?thesis using less.prems(3) by simp
  next
    case (start_next r)
    consider "p < r" | "p = r" | "r < p" by linarith
    then show ?thesis
    proof cases
      case 1
      then show ?thesis using less.IH [of r p] start_next less.prems by simp
    next
      case 3
      then have "r + 1 + push_size (code ! r) \<le> p" using less.IH [of p r] start_next less.prems by simp
      then show ?thesis using start_next(1) less.prems(3) by simp
    qed (use start_next in simp)
  qed
qed

lemma bitmap_inv_plain:
  assumes "bitmap_inv code pc bits" "pc < length code" "\<not> is_push (code ! pc)"
  shows "bitmap_inv code (pc + 1) bits"
proof -
  have "instr_start code (pc + 1)"
    using start_next [of code pc] assms by (simp add: bitmap_inv_def push_size_def)
  moreover have "q < pc + 1 \<and> \<not> instr_start code q \<longleftrightarrow> q < pc \<and> \<not> instr_start code q" for q
    using assms(1) by (cases "q = pc") (auto simp: bitmap_inv_def)
  ultimately show ?thesis using assms(1) by (simp add: bitmap_inv_def)
qed

lemma bitmap_inv_push:
  assumes inv: "bitmap_inv code pc bits" and pc: "pc < length code" "is_push (code ! pc)"
  shows "\<exists>bits'. mark_data (push_size (code ! pc)) (pc + 1) bits = Inr bits' \<and>
    bitmap_inv code (pc + 1 + push_size (code ! pc)) bits'"
proof -
  define n where "n = push_size (code ! pc)"
  have n: "n \<le> 32" unfolding n_def by (rule push_size_le)
  have len: "length bits = length code div 8 + 5" using inv by (simp add: bitmap_inv_def)
  have in1: "\<forall>k < n. (pc + 1 + k) div 8 < length bits"
  proof (intro allI impI)
    fix k assume "k < n"
    then have "(pc + 1 + k) div 8 \<le> (length code + 4 * 8) div 8" using pc n by (intro div_le_mono) linarith
    then show "(pc + 1 + k) div 8 < length bits" by (simp add: len)
  qed
  have in8: "\<forall>k. 8 * k + 8 \<le> n \<longrightarrow> (pc + 1 + 8 * k) div 8 + 1 < length bits"
  proof (intro allI impI)
    fix k assume "8 * k + 8 \<le> n"
    then have "(pc + 1 + 8 * k) div 8 \<le> (length code + 3 * 8) div 8" using pc n by (intro div_le_mono) linarith
    then show "(pc + 1 + 8 * k) div 8 + 1 < length bits" by (simp add: len)
  qed
  from mark_data_bits [OF in1 in8] obtain b where b: "mark_data n (pc + 1) bits = Inr b" "length b = length bits"
    "\<forall>q. q div 8 < length bits \<longrightarrow> (bv_bit b q \<longleftrightarrow> bv_bit bits q \<or> pc + 1 \<le> q \<and> q < pc + 1 + n)"
    by blast
  have start: "instr_start code pc" using inv by (simp add: bitmap_inv_def)
  have next': "instr_start code (pc + 1 + n)" unfolding n_def by (rule start_next [OF start pc(1)])
  have gap: "\<not> instr_start code q" if "pc + 1 \<le> q" "q < pc + 1 + n" for q
    using instr_start_step [OF _ start, of q] that pc(1) by (auto simp: n_def)
  have "bv_bit b q \<longleftrightarrow> q < pc + 1 + n \<and> \<not> instr_start code q" if "q div 8 < length bits" for q
  proof -
    consider "q < pc" | "q = pc" | "pc + 1 \<le> q" by linarith
    then show ?thesis
    proof cases
      case 3
      then show ?thesis using b(3) that gap [of q] inv by (auto simp: bitmap_inv_def)
    qed (use b(3) that start inv in \<open>auto simp: bitmap_inv_def\<close>)
  qed
  then show ?thesis using b(1,2) next' len by (auto simp: bitmap_inv_def n_def)
qed

lemma bitmap_loop_marks:
  "bitmap_inv code pc bits \<Longrightarrow>
   \<exists>bits' pc'. bitmap_loop code pc bits = Inr bits' \<and> length code \<le> pc' \<and> bitmap_inv code pc' bits'"
proof (induction code pc bits rule: bitmap_loop.induct)
  case (1 code pc bits)
  show ?case
  proof (cases "pc < length code")
    case True
    show ?thesis
    proof (cases "is_push (code ! pc)")
      case push: True
      obtain b where "mark_data (push_size (code ! pc)) (pc + 1) bits = Inr b"
        "bitmap_inv code (pc + 1 + push_size (code ! pc)) b"
        using bitmap_inv_push [OF "1.prems" True push] by blast
      then show ?thesis using "1.IH"(1) [OF True refl push] True push by (simp add: bitmap_loop.simps [of code pc])
    next
      case False
      show ?thesis using "1.IH"(2) [OF True refl False bitmap_inv_plain [OF "1.prems" True False]] True False
        by (simp add: bitmap_loop.simps [of code pc])
    qed
  next
    case False
    then show ?thesis using "1.prems" by (auto simp: bitmap_loop.simps [of code pc] intro!: exI [of _ pc])
  qed
qed

lemma bit_length_le: "bit_length n \<le> k \<longleftrightarrow> n < 2 ^ k"
proof (induction n arbitrary: k rule: bit_length.induct)
  case (1 n)
  show ?case
  proof (cases n)
    case (Suc m)
    have "n div 2 < 2 ^ j \<longleftrightarrow> n < 2 ^ Suc j" for j by (simp add: div_less_iff_less_mult mult.commute)
    then show ?thesis using "1.IH" Suc by (cases k) (simp_all add: bit_length.simps [of "Suc m"])
  qed (simp add: bit_length.simps)
qed

lemma big_BitLen_word: "0 \<le> x \<Longrightarrow> big_BitLen x \<le> k \<longleftrightarrow> x < 2 ^ k"
  by (simp add: big_BitLen_def bit_length_le nat_less_iff)

lemma codeBitmap_starts:
  obtains bits where "codeBitmap code = Inr bits" "length bits = length code div 8 + 5"
    "\<forall>q < length code. bv_bit bits q \<longleftrightarrow> \<not> instr_start code q"
proof -
  let ?b = "replicate (length code div 8 + 1 + 4) (0 :: uint8)"
  have "bitmap_inv code 0 ?b" by (auto simp: bitmap_inv_def start_0 bv_bit_def)
  from bitmap_loop_marks [OF this] obtain bits pc where b: "bitmap_loop code 0 ?b = Inr bits" "length code \<le> pc"
    "bitmap_inv code pc bits" by blast
  have "bv_bit bits q \<longleftrightarrow> \<not> instr_start code q" if "q < length code" for q
  proof -
    have "q div 8 \<le> length code div 8" using that by (intro div_le_mono) simp
    then show ?thesis using b(2,3) that by (simp add: bitmap_inv_def)
  qed
  then show thesis using that [of bits] b by (simp add: codeBitmap_def bitmap_inv_def)
qed

text \<open>
  C37. The bitmap and its bit tricks decide exactly the jump destinations of the yellow paper, for every code and
  every integer that a stack can hold: the test never panics, and accepts a number if and only if it
  is the position of a \<^verbatim>\<open>JUMPDEST\<close> byte at an instruction boundary, so never inside the argument of a push.
\<close>

theorem jump_destinations:
  assumes "0 \<le> dest" "length code < 2 ^ 62"
  shows "destinations_has code dest =
    Inr (dest < int (length code) \<and> code ! nat dest = 0x5b \<and> instr_start code (nat dest))"
proof (cases "dest < int (length code)")
  case True
  then have "dest < 2 ^ 62" using assms(2) by (simp add: less_trans)
  then have l: "\<not> 63 \<le> big_BitLen dest" using big_BitLen_word [OF assms(1), of 62] by simp
  have u: "unat (big_Uint64 dest) = nat dest"
    using assms(1) \<open>dest < 2 ^ 62\<close> by (simp add: big_Uint64_def unat_eq_nat_uint uint_word_of_int)
  have d: "nat dest < length code" using True assms(1) by linarith
  obtain bits where b: "codeBitmap code = Inr bits" "length bits = length code div 8 + 5"
    "\<forall>q < length code. bv_bit bits q \<longleftrightarrow> \<not> instr_start code q"
    by (rule codeBitmap_starts)
  have "nat dest div 8 \<le> length code div 8" using d by (intro div_le_mono) simp
  then have "codeSegment (nat dest) bits = Inr (instr_start code (nat dest))"
    using codeSegment_bit [of "nat dest" bits] b(2,3) d by simp
  then show ?thesis using True d l b(1) u by (simp add: destinations_has_def Let_def)
next
  case False
  show ?thesis
  proof (cases "63 \<le> big_BitLen dest")
    case True
    then show ?thesis using False by (simp add: destinations_has_def)
  next
    case small: False
    then have "dest < 2 ^ 62" using big_BitLen_word [OF assms(1), of 62] by simp
    then have "unat (big_Uint64 dest) = nat dest"
      using assms(1) by (simp add: big_Uint64_def unat_eq_nat_uint uint_word_of_int)
    then show ?thesis using False assms(1) by (simp add: destinations_has_def nat_le_iff le_nat_iff)
  qed
qed

theorem jump_destinations_witness:
  "destinations_has [0x61, 0x5b, 0x5b, 0x5b] 3 = Inr True \<and> destinations_has [0x61, 0x5b, 0x5b, 0x5b] 2 = Inr False"
proof -
  let ?c = "[0x61, 0x5b, 0x5b, 0x5b] :: bytes"
  have "push_size (?c ! 0) = 2" by (simp add: push_size_def is_push_def)
  moreover have "instr_start ?c (0 + 1 + push_size (?c ! 0))" by (rule start_next [OF start_0]) simp
  ultimately have "instr_start ?c (0 + 1 + 2)" by metis
  then have "instr_start ?c 3" by (metis add_0 one_plus_numeral semiring_norm(3))
  moreover have "\<not> instr_start ?c 2"
    using instr_start_step [OF _ start_0, of ?c 2] by (auto simp: push_size_def is_push_def)
  ultimately show ?thesis using jump_destinations [of 3 ?c] jump_destinations [of 2 ?c] by simp
qed

end
