(* ===== verification/Vm_Machine.thy ===== *)
theory Vm_Machine
  imports Vm_Analysis Staking_Data
begin

text \<open>
  The virtual machine as its instructions see it (\<^verbatim>\<open>vm/evm.go\<close>, \<^verbatim>\<open>vm/interface.go\<close>, \<^verbatim>\<open>vm/chain_config.go\<close>,
  \<^verbatim>\<open>params\<close>): the chain configuration and gas table, the \<^verbatim>\<open>StateDB\<close> interface and the \<^verbatim>\<open>Context\<close> of hooks as records of
  functions over a state of any type, the changing part of an \<^verbatim>\<open>EVM\<close>, and the machine state of one call frame.

  The debugging tracer and the flag that cancels a run from another thread are left out.
\<close>

section \<open>Chain configuration\<close>

record EthChainConfig =
  ChainID :: int
  HomesteadBlock :: "int option"
  EIP150Block :: "int option"
  EIP158Block :: "int option"
  ByzantiumBlock :: "int option"
  ConstantinopleBlock :: "int option"
  IstanbulBlock :: "int option"
  LondonBlock :: "int option"
  ParisBlock :: "int option"
  LastPowNonce :: uint64
  BaseFee :: int

definition isForked :: "int option \<Rightarrow> int \<Rightarrow> bool" where
  "isForked s head = (case s of None \<Rightarrow> False | Some b \<Rightarrow> b \<le> head)"

record GasTable =
  gtExtcodeSize :: uint64
  gtExtcodeCopy :: uint64
  gtExtcodeHash :: uint64
  gtBalance :: uint64
  gtSLoad :: uint64
  gtCalls :: uint64
  gtSuicide :: uint64
  gtExpByte :: uint64
  gtCreateBySuicide :: uint64

definition GasTableHomestead :: GasTable where
  "GasTableHomestead = \<lparr>gtExtcodeSize = 20, gtExtcodeCopy = 20, gtExtcodeHash = 0, gtBalance = 20, gtSLoad = 50, gtCalls = 40,
     gtSuicide = 0, gtExpByte = 10, gtCreateBySuicide = 0\<rparr>"

definition GasTableEIP150 :: GasTable where
  "GasTableEIP150 = \<lparr>gtExtcodeSize = 700, gtExtcodeCopy = 700, gtExtcodeHash = 0, gtBalance = 400, gtSLoad = 200, gtCalls = 700,
     gtSuicide = 5000, gtExpByte = 10, gtCreateBySuicide = 25000\<rparr>"

definition GasTableEIP158 :: GasTable where
  "GasTableEIP158 = \<lparr>gtExtcodeSize = 700, gtExtcodeCopy = 700, gtExtcodeHash = 0, gtBalance = 400, gtSLoad = 200, gtCalls = 700,
     gtSuicide = 5000, gtExpByte = 50, gtCreateBySuicide = 25000\<rparr>"

definition GasTableConstantinople :: GasTable where
  "GasTableConstantinople = \<lparr>gtExtcodeSize = 700, gtExtcodeCopy = 700, gtExtcodeHash = 400, gtBalance = 400, gtSLoad = 200,
     gtCalls = 700, gtSuicide = 5000, gtExpByte = 50, gtCreateBySuicide = 25000\<rparr>"

definition cfg_GasTable :: "EthChainConfig \<Rightarrow> int \<Rightarrow> GasTable" where
  "cfg_GasTable c num =
     (if isForked (ConstantinopleBlock c) num then GasTableConstantinople
      else if isForked (EIP158Block c) num then GasTableEIP158
      else if isForked (EIP150Block c) num then GasTableEIP150
      else GasTableHomestead)"

section \<open>State and hooks\<close>

record vm_log =
  lgAddress :: address
  lgTopics :: "bytes32 list"
  lgData :: bytes
  lgBlockNumber :: uint64

record 's StateDB =
  dbCreateAccount :: "address \<Rightarrow> 's \<Rightarrow> 's"
  dbGetBalance :: "address \<Rightarrow> 's \<Rightarrow> int"
  dbGetEnergy :: "address \<Rightarrow> 's \<Rightarrow> int"
  dbGetNonce :: "address \<Rightarrow> 's \<Rightarrow> uint64"
  dbSetNonce :: "address \<Rightarrow> uint64 \<Rightarrow> 's \<Rightarrow> 's"
  dbGetCodeHash :: "address \<Rightarrow> 's \<Rightarrow> bytes32"
  dbGetCode :: "address \<Rightarrow> 's \<Rightarrow> bytes"
  dbSetCode :: "address \<Rightarrow> bytes \<Rightarrow> 's \<Rightarrow> 's"
  dbGetCodeSize :: "address \<Rightarrow> 's \<Rightarrow> nat"
  dbAddRefund :: "uint64 \<Rightarrow> 's \<Rightarrow> 's"
  dbGetState :: "address \<Rightarrow> bytes32 \<Rightarrow> 's \<Rightarrow> bytes32"
  dbSetState :: "address \<Rightarrow> bytes32 \<Rightarrow> bytes32 \<Rightarrow> 's \<Rightarrow> 's"
  dbSuicide :: "address \<Rightarrow> 's \<Rightarrow> 's"
  dbHasSuicided :: "address \<Rightarrow> 's \<Rightarrow> bool"
  dbExist :: "address \<Rightarrow> 's \<Rightarrow> bool"
  dbEmpty :: "address \<Rightarrow> 's \<Rightarrow> bool"
  dbRevertToSnapshot :: "nat \<Rightarrow> 's \<Rightarrow> 's"
  dbSnapshot :: "'s \<Rightarrow> nat \<times> 's"
  dbAddLog :: "vm_log \<Rightarrow> 's \<Rightarrow> 's"
  dbAddPreimage :: "bytes32 \<Rightarrow> bytes \<Rightarrow> 's \<Rightarrow> 's"
  dbGetTransientState :: "address \<Rightarrow> bytes32 \<Rightarrow> 's \<Rightarrow> bytes32"
  dbSetTransientState :: "address \<Rightarrow> bytes32 \<Rightarrow> bytes32 \<Rightarrow> 's \<Rightarrow> 's"

record 's EVM =
  stateDB :: 's
  depth :: nat
  callGasTemp :: uint64
  contractCreationCount :: uint32
  readOnly :: bool
  returnData :: bytes

record 's Context =
  CanTransfer :: "'s \<Rightarrow> address \<Rightarrow> int \<Rightarrow> uint8 \<Rightarrow> bool"
  Transfer :: "address \<Rightarrow> address \<Rightarrow> int \<Rightarrow> uint8 \<Rightarrow> 's \<Rightarrow> 's"
  GetHash :: "uint64 \<Rightarrow> bytes32"
  NewContractAddress :: "address \<Rightarrow> uint32 \<Rightarrow> address"
  InterceptContractCall :: "('s EVM \<Rightarrow> Contract \<Rightarrow> bool \<Rightarrow> (bytes \<times> vm_error option) option \<times> Contract \<times> 's EVM) option"
  OnCreateContract :: "('s EVM \<Rightarrow> address \<Rightarrow> address \<Rightarrow> 's EVM) option"
  OnSuicideContract :: "('s EVM \<Rightarrow> address \<Rightarrow> address \<Rightarrow> 's EVM) option"
  ctxOrigin :: address
  ctxGasPrice :: int
  ctxCoinbase :: address
  ctxGasLimit :: uint64
  ctxBlockNumber :: int
  ctxTime :: int
  ctxDifficulty :: int

record PrecompiledContract =
  RequiredGas :: "bytes \<Rightarrow> uint64"
  pcRun :: "bytes \<Rightarrow> bytes \<times> vm_error option"

text \<open>
  What does not change during a run: library, state interface, context, configuration, the three tables of precompiled
  contracts and two options of \<^verbatim>\<open>vm.Config\<close>.
\<close>

record 's vm_env =
  vLib :: vm_lib
  vDB :: "'s StateDB"
  vCtx :: "'s Context"
  vCfg :: EthChainConfig
  PrecompiledContractsHomestead :: "address \<Rightarrow> PrecompiledContract option"
  PrecompiledContractsByzantium :: "address \<Rightarrow> PrecompiledContract option"
  PrecompiledContractsIstanbul :: "address \<Rightarrow> PrecompiledContract option"
  vNoRecursion :: bool
  vPreimages :: bool

definition chain_at :: "(EthChainConfig \<Rightarrow> int option) \<Rightarrow> 's vm_env \<Rightarrow> bool" where
  "chain_at fork X = isForked (fork (vCfg X)) (ctxBlockNumber (vCtx X))"

definition precompiles :: "'s vm_env \<Rightarrow> address \<Rightarrow> PrecompiledContract option" where
  "precompiles X =
     (if chain_at IstanbulBlock X then PrecompiledContractsIstanbul X
      else if chain_at ByzantiumBlock X then PrecompiledContractsByzantium X
      else PrecompiledContractsHomestead X)"

definition vGasTable :: "'s vm_env \<Rightarrow> GasTable" where
  "vGasTable X = cfg_GasTable (vCfg X) (ctxBlockNumber (vCtx X))"

section \<open>One call frame\<close>

record 's machine =
  mPc :: uint64
  mEvm :: "'s EVM"
  mContract :: Contract
  mMemory :: Memory
  mStack :: "int list"

text \<open>The calls an instruction can make into the machine that runs it.\<close>

record 's subcalls =
  sCall :: "ContractRef \<Rightarrow> address \<Rightarrow> bytes \<Rightarrow> uint64 \<Rightarrow> int \<Rightarrow> uint8 \<Rightarrow> 's EVM \<Rightarrow> (bytes \<times> uint64 \<times> vm_error option \<times> 's EVM) go"
  sCallCode :: "ContractRef \<Rightarrow> address \<Rightarrow> bytes \<Rightarrow> uint64 \<Rightarrow> int \<Rightarrow> uint8 \<Rightarrow> 's EVM \<Rightarrow> (bytes \<times> uint64 \<times> vm_error option \<times> 's EVM) go"
  sDelegateCall :: "ContractRef \<Rightarrow> address \<Rightarrow> bytes \<Rightarrow> uint64 \<Rightarrow> 's EVM \<Rightarrow> (bytes \<times> uint64 \<times> vm_error option \<times> 's EVM) go"
  sStaticCall :: "ContractRef \<Rightarrow> address \<Rightarrow> bytes \<Rightarrow> uint64 \<Rightarrow> 's EVM \<Rightarrow> (bytes \<times> uint64 \<times> vm_error option \<times> 's EVM) go"
  sCreate :: "ContractRef \<Rightarrow> bytes \<Rightarrow> uint64 \<Rightarrow> int \<Rightarrow> uint8 \<Rightarrow> 's EVM \<Rightarrow> (bytes \<times> address \<times> uint64 \<times> vm_error option \<times> 's EVM) go"
  sCreate2 :: "ContractRef \<Rightarrow> bytes \<Rightarrow> uint64 \<Rightarrow> int \<Rightarrow> uint8 \<Rightarrow> int \<Rightarrow> 's EVM \<Rightarrow> (bytes \<times> address \<times> uint64 \<times> vm_error option \<times> 's EVM) go"

type_synonym 's exec = "'s vm_env \<Rightarrow> 's subcalls \<Rightarrow> 's machine \<Rightarrow> (bytes \<times> vm_error option \<times> 's machine) go"

text \<open>\<^verbatim>\<open>vm/stack.go\<close>.  An index beyond the stack panics.\<close>

definition pop :: "'s machine \<Rightarrow> (int \<Rightarrow> 's machine \<Rightarrow> 'b go) \<Rightarrow> 'b go" where
  "pop m k = (case mStack m of [] \<Rightarrow> Inl IndexOutOfRange | x # st \<Rightarrow> k x (m\<lparr>mStack := st\<rparr>))"

definition peek :: "'s machine \<Rightarrow> (int \<Rightarrow> 'b go) \<Rightarrow> 'b go" where
  "peek m k = (case mStack m of [] \<Rightarrow> Inl IndexOutOfRange | x # st \<Rightarrow> k x)"

text \<open>Writing through the pointer that \<^verbatim>\<open>peek\<close> returned.\<close>

definition poke :: "int \<Rightarrow> 's machine \<Rightarrow> 's machine" where
  "poke v m = m\<lparr>mStack := v # tl (mStack m)\<rparr>"

definition push :: "int \<Rightarrow> 's machine \<Rightarrow> 's machine" where
  "push v m = m\<lparr>mStack := v # mStack m\<rparr>"

definition Back :: "nat \<Rightarrow> int list \<Rightarrow> int go" where
  "Back n st = (if n < length st then Inr (st ! n) else Inl IndexOutOfRange)"

definition stack_dup :: "nat \<Rightarrow> 's machine \<Rightarrow> 's machine go" where
  "stack_dup n m =
     (if 1 \<le> n \<and> n \<le> length (mStack m) then Inr (push (mStack m ! (n - 1)) m) else Inl IndexOutOfRange)"

definition stack_swap :: "nat \<Rightarrow> 's machine \<Rightarrow> 's machine go" where
  "stack_swap n m =
     (let st = mStack m in
      if 1 \<le> n \<and> n \<le> length st then Inr (m\<lparr>mStack := st[n - 1 := st ! 0, 0 := st ! (n - 1)]\<rparr>) else Inl IndexOutOfRange)"

definition StackLimit :: nat where "StackLimit = 1024"

definition makeStackFunc :: "nat \<Rightarrow> nat \<Rightarrow> int list \<Rightarrow> vm_error option" where
  "makeStackFunc pops pushes st =
     (if length st < pops then Some StackUnderflow
      else if length st + pushes - pops > StackLimit then Some StackLimitReached
      else None)"

definition makeDupStackFunc :: "nat \<Rightarrow> int list \<Rightarrow> vm_error option" where
  "makeDupStackFunc n = makeStackFunc n (n + 1)"

definition makeSwapStackFunc :: "nat \<Rightarrow> int list \<Rightarrow> vm_error option" where
  "makeSwapStackFunc n = makeStackFunc n n"

definition vm_done :: "'s machine \<Rightarrow> (bytes \<times> vm_error option \<times> 's machine) go" where
  "vm_done m = Inr ([], None, m)"

definition vm_fail :: "vm_error \<Rightarrow> 's machine \<Rightarrow> (bytes \<times> vm_error option \<times> 's machine) go" where
  "vm_fail e m = Inr ([], Some e, m)"

end
