(* ===== verification/Vm_Instructions.thy ===== *)
theory Vm_Instructions
  imports Vm_Machine
begin

text \<open>
  The instructions of \<^verbatim>\<open>vm/instructions.go\<close>, one definition each.  An instruction takes the environment, the calls
  into the machine and the frame, and returns the bytes and the error of the Go function with the frame
  it leaves.  \<^verbatim>\<open>pop\<close> and \<^verbatim>\<open>peek\<close> pass the item on; arithmetic is that of \<^verbatim>\<open>math/big\<close>.
\<close>

unbundle bit_operations_syntax

section \<open>Arithmetic\<close>

definition opAdd :: "'s exec" where
  "opAdd X K m = pop m (\<lambda>x m. peek m (\<lambda>y. vm_done (poke (U256 (vLib X) (x + y)) m)))"

definition opSub :: "'s exec" where
  "opSub X K m = pop m (\<lambda>x m. peek m (\<lambda>y. vm_done (poke (U256 (vLib X) (x - y)) m)))"

definition opMul :: "'s exec" where
  "opMul X K m = pop m (\<lambda>x m. pop m (\<lambda>y m. vm_done (push (U256 (vLib X) (x * y)) m)))"

definition opDiv :: "'s exec" where
  "opDiv X K m = pop m (\<lambda>x m. peek m (\<lambda>y.
     vm_done (poke (if y \<noteq> 0 then U256 (vLib X) (big_Div x y) else 0) m)))"

definition opSdiv :: "'s exec" where
  "opSdiv X K m = pop m (\<lambda>x m. pop m (\<lambda>y m.
     let x = S256 (vLib X) x; y = S256 (vLib X) y in
     if y = 0 \<or> x = 0 then vm_done (push 0 m)
     else
       let res = (if sgn x \<noteq> sgn y then - big_Div \<bar>x\<bar> \<bar>y\<bar> else big_Div \<bar>x\<bar> \<bar>y\<bar>)
       in vm_done (push (U256 (vLib X) res) m)))"

definition opMod :: "'s exec" where
  "opMod X K m = pop m (\<lambda>x m. pop m (\<lambda>y m.
     vm_done (push (if y = 0 then 0 else U256 (vLib X) (x mod \<bar>y\<bar>)) m)))"

definition opSmod :: "'s exec" where
  "opSmod X K m = pop m (\<lambda>x m. pop m (\<lambda>y m.
     let x = S256 (vLib X) x; y = S256 (vLib X) y in
     if y = 0 then vm_done (push 0 m)
     else vm_done (push (U256 (vLib X) (if x < 0 then - (\<bar>x\<bar> mod \<bar>y\<bar>) else \<bar>x\<bar> mod \<bar>y\<bar>)) m)))"

definition opExp :: "'s exec" where
  "opExp X K m = pop m (\<lambda>base m. pop m (\<lambda>exponent m. vm_done (push (math_Exp (vLib X) base exponent) m)))"

definition opSignExtend :: "'s exec" where
  "opSignExtend X K m = pop m (\<lambda>back m.
     if back < 31 then
       let bit' = unat (big_Uint64 back * 8 + 7) in
       pop m (\<lambda>num m.
         let mask' = push_bit bit' 1 - 1;
             num = (if bit num bit' then num OR NOT mask' else num AND mask')
         in vm_done (push (U256 (vLib X) num) m))
     else vm_done m)"

definition opNot :: "'s exec" where
  "opNot X K m = peek m (\<lambda>x. vm_done (poke (U256 (vLib X) (NOT x)) m))"

definition opLt :: "'s exec" where
  "opLt X K m = pop m (\<lambda>x m. peek m (\<lambda>y. vm_done (poke (if x < y then 1 else 0) m)))"

definition opGt :: "'s exec" where
  "opGt X K m = pop m (\<lambda>x m. peek m (\<lambda>y. vm_done (poke (if x > y then 1 else 0) m)))"

definition tt255 :: int where "tt255 = 2 ^ 255"

definition opSlt :: "'s exec" where
  "opSlt X K m = pop m (\<lambda>x m. peek m (\<lambda>y.
     vm_done (poke (if x \<ge> tt255 \<and> y < tt255 then 1 else if x < tt255 \<and> y \<ge> tt255 then 0
                 else if x < y then 1 else 0) m)))"

definition opSgt :: "'s exec" where
  "opSgt X K m = pop m (\<lambda>x m. peek m (\<lambda>y.
     vm_done (poke (if x \<ge> tt255 \<and> y < tt255 then 0 else if x < tt255 \<and> y \<ge> tt255 then 1
                 else if x > y then 1 else 0) m)))"

definition opEq :: "'s exec" where
  "opEq X K m = pop m (\<lambda>x m. peek m (\<lambda>y. vm_done (poke (if x = y then 1 else 0) m)))"

definition opIszero :: "'s exec" where
  "opIszero X K m = peek m (\<lambda>x. vm_done (poke (if x > 0 then 0 else 1) m))"

definition opAnd :: "'s exec" where
  "opAnd X K m = pop m (\<lambda>x m. pop m (\<lambda>y m. vm_done (push (x AND y) m)))"

definition opOr :: "'s exec" where
  "opOr X K m = pop m (\<lambda>x m. peek m (\<lambda>y. vm_done (poke (x OR y) m)))"

definition opXor :: "'s exec" where
  "opXor X K m = pop m (\<lambda>x m. peek m (\<lambda>y. vm_done (poke (x XOR y) m)))"

definition opByte :: "'s exec" where
  "opByte X K m = pop m (\<lambda>th m. peek m (\<lambda>val.
     vm_done (poke (if th < 32 then uint (math_Byte (vLib X) val 32 (nat (big_Int64 th))) else 0) m)))"

definition opAddmod :: "'s exec" where
  "opAddmod X K m = pop m (\<lambda>x m. pop m (\<lambda>y m. pop m (\<lambda>z m.
     vm_done (push (if z > 0 then U256 (vLib X) ((x + y) mod z) else 0) m))))"

definition opMulmod :: "'s exec" where
  "opMulmod X K m = pop m (\<lambda>x m. pop m (\<lambda>y m. pop m (\<lambda>z m.
     vm_done (push (if z > 0 then U256 (vLib X) ((x * y) mod z) else 0) m))))"

definition opSHL :: "'s exec" where
  "opSHL X K m = pop m (\<lambda>shift m. peek m (\<lambda>value.
     let shift = U256 (vLib X) shift; value = U256 (vLib X) value in
     if shift \<ge> 256 then vm_done (poke 0 m)
     else vm_done (poke (U256 (vLib X) (push_bit (unat (big_Uint64 shift)) value)) m)))"

definition opSHR :: "'s exec" where
  "opSHR X K m = pop m (\<lambda>shift m. peek m (\<lambda>value.
     let shift = U256 (vLib X) shift; value = U256 (vLib X) value in
     if shift \<ge> 256 then vm_done (poke 0 m)
     else vm_done (poke (U256 (vLib X) (drop_bit (unat (big_Uint64 shift)) value)) m)))"

definition opSAR :: "'s exec" where
  "opSAR X K m = pop m (\<lambda>shift m. pop m (\<lambda>value m.
     let shift = U256 (vLib X) shift; value = S256 (vLib X) value in
     if shift \<ge> 256 then vm_done (push (U256 (vLib X) (if value > 0 then 0 else - 1)) m)
     else vm_done (push (U256 (vLib X) (drop_bit (unat (big_Uint64 shift)) value)) m)))"

section \<open>Environment\<close>

definition mem_Get :: "int \<Rightarrow> int \<Rightarrow> 's machine \<Rightarrow> (bytes \<Rightarrow> 'b go) \<Rightarrow> 'b go" where
  "mem_Get offset size' m k = go_bind (Memory_Get (big_Int64 offset) (big_Int64 size') (mMemory m)) k"

definition mem_Set :: "int \<Rightarrow> int \<Rightarrow> bytes \<Rightarrow> 's machine \<Rightarrow> ('s machine \<Rightarrow> 'b go) \<Rightarrow> 'b go" where
  "mem_Set offset size' d m k =
     go_bind (Memory_Set (big_Uint64 offset) (big_Uint64 size') d (mMemory m)) (\<lambda>mem. k (m\<lparr>mMemory := mem\<rparr>))"

definition on_db :: "('s \<Rightarrow> 's) \<Rightarrow> 's machine \<Rightarrow> 's machine" where
  "on_db f m = m\<lparr>mEvm := (mEvm m)\<lparr>stateDB := f (stateDB (mEvm m))\<rparr>\<rparr>"

definition db_of :: "'s machine \<Rightarrow> 's" where
  "db_of m = stateDB (mEvm m)"

definition opSha3 :: "'s exec" where
  "opSha3 X K m = pop m (\<lambda>offset m. pop m (\<lambda>size' m. mem_Get offset size' m (\<lambda>data.
     let hash = Keccak256 (vLib X) data;
         m = (if vPreimages X then on_db (dbAddPreimage (vDB X) hash data) m else m)
     in vm_done (push (uint hash) m))))"

definition opAddress :: "'s exec" where
  "opAddress X K m = vm_done (push (uint (self (mContract m))) m)"

definition opBalance :: "'s exec" where
  "opBalance X K m = peek m (\<lambda>slot. vm_done (poke (dbGetEnergy (vDB X) (BigToAddress (vLib X) slot) (db_of m)) m))"

definition opOrigin :: "'s exec" where
  "opOrigin X K m = vm_done (push (uint (ctxOrigin (vCtx X))) m)"

definition opCaller :: "'s exec" where
  "opCaller X K m = vm_done (push (uint (CallerAddress (mContract m))) m)"

definition opCallValue :: "'s exec" where
  "opCallValue X K m = (case cValue (mContract m) of None \<Rightarrow> Inl NilDeref | Some v \<Rightarrow> vm_done (push v m))"

definition opCallDataLoad :: "'s exec" where
  "opCallDataLoad X K m = pop m (\<lambda>off m.
     go_bind (getDataBig (vLib X) (Input (mContract m)) off 32) (\<lambda>d. vm_done (push (big_SetBytes d) m)))"

definition opCallDataSize :: "'s exec" where
  "opCallDataSize X K m = vm_done (push (int (length (Input (mContract m)))) m)"

definition copy_data :: "vm_lib \<Rightarrow> bytes \<Rightarrow> 's machine \<Rightarrow> (bytes \<times> vm_error option \<times> 's machine) go" where
  "copy_data L data m = pop m (\<lambda>memOffset m. pop m (\<lambda>dataOffset m. pop m (\<lambda>length' m.
     go_bind (getDataBig L data dataOffset length') (\<lambda>d. mem_Set memOffset length' d m vm_done))))"

definition opCallDataCopy :: "'s exec" where
  "opCallDataCopy X K m = copy_data (vLib X) (Input (mContract m)) m"

definition opReturnDataSize :: "'s exec" where
  "opReturnDataSize X K m = vm_done (push (int (length (returnData (mEvm m)))) m)"

definition opReturnDataCopy :: "'s exec" where
  "opReturnDataCopy X K m = pop m (\<lambda>memOffset m. pop m (\<lambda>dataOffset m. pop m (\<lambda>length' m.
     let end' = dataOffset + length'; rd = returnData (mEvm m) in
     if big_BitLen end' > 64 \<or> of_nat (length rd) < big_Uint64 end' then vm_fail errReturnDataOutOfBounds m
     else go_bind (slice (uint (big_Uint64 dataOffset)) (uint (big_Uint64 end')) rd) (\<lambda>d. mem_Set memOffset length' d m vm_done))))"

definition opExtCodeSize :: "'s exec" where
  "opExtCodeSize X K m = peek m (\<lambda>slot. vm_done (poke (uint (of_nat (dbGetCodeSize (vDB X) (BigToAddress (vLib X) slot) (db_of m)) :: uint64)) m))"

definition opCodeSize :: "'s exec" where
  "opCodeSize X K m = vm_done (push (int (length (Code (mContract m)))) m)"

definition opCodeCopy :: "'s exec" where
  "opCodeCopy X K m = copy_data (vLib X) (Code (mContract m)) m"

definition opExtCodeCopy :: "'s exec" where
  "opExtCodeCopy X K m = pop m (\<lambda>addr m. copy_data (vLib X) (dbGetCode (vDB X) (BigToAddress (vLib X) addr) (db_of m)) m)"

definition opExtCodeHash :: "'s exec" where
  "opExtCodeHash X K m = peek m (\<lambda>slot.
     let address = BigToAddress (vLib X) slot;
         codeHash = dbGetCodeHash (vDB X) address (db_of m)
     in vm_done (poke (if dbEmpty (vDB X) address (db_of m) then 0
                    else if codeHash = 0 then uint (Keccak256 (vLib X) []) else uint codeHash) m))"

definition opGasprice :: "'s exec" where
  "opGasprice X K m = vm_done (push (ctxGasPrice (vCtx X)) m)"

definition opBlockhash :: "'s exec" where
  "opBlockhash X K m = pop m (\<lambda>num m.
     let n = ctxBlockNumber (vCtx X) - 257 in
     if num > n \<and> num < ctxBlockNumber (vCtx X) then vm_done (push (uint (GetHash (vCtx X) (big_Uint64 num))) m)
     else vm_done (push 0 m))"

definition opCoinbase :: "'s exec" where
  "opCoinbase X K m = vm_done (push (uint (ctxCoinbase (vCtx X))) m)"

definition opTimestamp :: "'s exec" where
  "opTimestamp X K m = vm_done (push (U256 (vLib X) (ctxTime (vCtx X))) m)"

definition opNumber :: "'s exec" where
  "opNumber X K m = vm_done (push (U256 (vLib X) (ctxBlockNumber (vCtx X))) m)"

definition opDifficulty :: "'s exec" where
  "opDifficulty X K m = vm_done (push (U256 (vLib X) (ctxDifficulty (vCtx X))) m)"

definition opGasLimit :: "'s exec" where
  "opGasLimit X K m = vm_done (push (U256 (vLib X) (uint (ctxGasLimit (vCtx X)))) m)"

section \<open>Stack, memory, storage and control flow\<close>

definition opPop :: "'s exec" where
  "opPop X K m = pop m (\<lambda>x m. vm_done m)"

definition opMload :: "'s exec" where
  "opMload X K m = pop m (\<lambda>offset m. mem_Get offset 32 m (\<lambda>d. vm_done (push (big_SetBytes d) m)))"

definition opMstore :: "'s exec" where
  "opMstore X K m = pop m (\<lambda>mStart m. pop m (\<lambda>val m.
     go_bind (Memory_Set32 (vLib X) (big_Uint64 mStart) val (mMemory m)) (\<lambda>mem. vm_done (m\<lparr>mMemory := mem\<rparr>))))"

definition opMstore8 :: "'s exec" where
  "opMstore8 X K m = pop m (\<lambda>off m. pop m (\<lambda>val m.
     let off = big_Int64 off; st = store (mMemory m) in
     if 0 \<le> off \<and> off < int (length st)
     then vm_done (m\<lparr>mMemory := (mMemory m)\<lparr>store := st[nat off := word_of_int (big_Int64 val)]\<rparr>\<rparr>)
     else Inl IndexOutOfRange))"

definition opSload :: "'s exec" where
  "opSload X K m = pop m (\<lambda>loc m.
     vm_done (push (uint (dbGetState (vDB X) (self (mContract m)) (BigToHash (vLib X) loc) (db_of m))) m))"

definition opSstore :: "'s exec" where
  "opSstore X K m = pop m (\<lambda>loc m. pop m (\<lambda>val m.
     vm_done (on_db (dbSetState (vDB X) (self (mContract m)) (BigToHash (vLib X) loc) (BigToHash (vLib X) val)) m)))"

definition jump_to :: "int \<Rightarrow> 's machine \<Rightarrow> (bytes \<times> vm_error option \<times> 's machine) go" where
  "jump_to pos m =
     go_bind (destinations_has (Code (mContract m)) pos) (\<lambda>ok.
       if \<not> ok then vm_fail (InvalidJump pos) m else vm_done (m\<lparr>mPc := big_Uint64 pos\<rparr>))"

definition opJump :: "'s exec" where
  "opJump X K m = pop m (\<lambda>pos m. jump_to pos m)"

definition opJumpi :: "'s exec" where
  "opJumpi X K m = pop m (\<lambda>pos m. pop m (\<lambda>cond m.
     if cond \<noteq> 0 then jump_to pos m else vm_done (m\<lparr>mPc := mPc m + 1\<rparr>)))"

definition opJumpdest :: "'s exec" where
  "opJumpdest X K m = vm_done m"

definition opPc :: "'s exec" where
  "opPc X K m = vm_done (push (uint (mPc m)) m)"

definition opMsize :: "'s exec" where
  "opMsize X K m = vm_done (push (int (length (store (mMemory m)))) m)"

definition opGas :: "'s exec" where
  "opGas X K m = vm_done (push (uint (Gas (mContract m))) m)"

definition opReturn :: "'s exec" where
  "opReturn X K m = pop m (\<lambda>offset m. pop m (\<lambda>size' m. mem_Get offset size' m (\<lambda>ret. Inr (ret, None, m))))"

definition opRevert :: "'s exec" where
  "opRevert X K m = pop m (\<lambda>offset m. pop m (\<lambda>size' m. mem_Get offset size' m (\<lambda>ret. Inr (ret, None, m))))"

definition opStop :: "'s exec" where
  "opStop X K m = vm_done m"

definition opSuicide :: "'s exec" where
  "opSuicide X K m = pop m (\<lambda>receiver m.
     let receiver = BigToAddress (vLib X) receiver;
         m = (case OnSuicideContract (vCtx X) of
                None \<Rightarrow> m
              | Some hook \<Rightarrow> m\<lparr>mEvm := hook (mEvm m) (self (mContract m)) receiver\<rparr>)
     in vm_done (on_db (dbSuicide (vDB X) (self (mContract m))) m))"

definition opChainID :: "'s exec" where
  "opChainID X K m = vm_done (push (ChainID (vCfg X)) m)"

definition opSelfBalance :: "'s exec" where
  "opSelfBalance X K m = vm_done (push (dbGetEnergy (vDB X) (self (mContract m)) (db_of m)) m)"

definition opBaseFee :: "'s exec" where
  "opBaseFee X K m = vm_done (push (500 * 10 ^ 9) m)"

definition opRandom :: "'s exec" where
  "opRandom X K m = vm_done (push (big_NewInt64 (LastPowNonce (vCfg X))) m)"

definition opPush0 :: "'s exec" where
  "opPush0 X K m = vm_done (push 0 m)"

definition opMcopy :: "'s exec" where
  "opMcopy X K m = pop m (\<lambda>dst m. pop m (\<lambda>src m. pop m (\<lambda>length' m.
     go_bind (Memory_Copy (big_Uint64 dst) (big_Uint64 src) (big_Uint64 length') (mMemory m)) (\<lambda>mem.
     vm_done (m\<lparr>mMemory := mem\<rparr>)))))"

definition opTload :: "'s exec" where
  "opTload X K m = peek m (\<lambda>loc.
     vm_done (poke (uint (dbGetTransientState (vDB X) (self (mContract m)) (BigToHash (vLib X) loc) (db_of m))) m))"

definition opTstore :: "'s exec" where
  "opTstore X K m = pop m (\<lambda>loc m. pop m (\<lambda>val m.
     vm_done (on_db (dbSetTransientState (vDB X) (self (mContract m)) (BigToHash (vLib X) loc) (BigToHash (vLib X) val)) m)))"

definition opBaseFeeDynamic :: "'s exec" where
  "opBaseFeeDynamic X K m = vm_done (push (BaseFee (vCfg X)) m)"

fun pop_topics :: "vm_lib \<Rightarrow> nat \<Rightarrow> 's machine \<Rightarrow> (bytes32 list \<Rightarrow> 's machine \<Rightarrow> 'b go) \<Rightarrow> 'b go" where
  "pop_topics L 0 m k = k [] m"
| "pop_topics L (Suc n) m k = pop m (\<lambda>t m. pop_topics L n m (\<lambda>ts m. k (BigToHash L t # ts) m))"

definition makeLog :: "nat \<Rightarrow> 's exec" where
  "makeLog size' X K m = pop m (\<lambda>mStart m. pop m (\<lambda>mSize m. pop_topics (vLib X) size' m (\<lambda>topics m.
     mem_Get mStart mSize m (\<lambda>d.
     vm_done (on_db (dbAddLog (vDB X) \<lparr>lgAddress = self (mContract m), lgTopics = topics, lgData = d,
                    lgBlockNumber = big_Uint64 (ctxBlockNumber (vCtx X))\<rparr>) m)))))"

definition makePush :: "nat \<Rightarrow> nat \<Rightarrow> 's exec" where
  "makePush size' pushByteSize X K m =
     (let code = Code (mContract m);
          codeLen = int (length code);
          startMin = (if sint (mPc m + 1) < codeLen then sint (mPc m + 1) else codeLen);
          endMin = (if startMin + int pushByteSize < codeLen then startMin + int pushByteSize else codeLen)
      in go_bind (slice startMin endMin code) (\<lambda>d.
           vm_done ((push (big_SetBytes (RightPadBytes (vLib X) d pushByteSize)) m)\<lparr>mPc := mPc m + of_nat size'\<rparr>)))"

definition makeDup :: "nat \<Rightarrow> 's exec" where
  "makeDup size' X K m = go_bind (stack_dup size' m) vm_done"

definition makeSwap :: "nat \<Rightarrow> 's exec" where
  "makeSwap size' X K m = go_bind (stack_swap (size' + 1) m) vm_done"

section \<open>Calls and creations\<close>

definition CallStipend :: uint64 where "CallStipend = 2300"

definition add_gas :: "uint64 \<Rightarrow> 's machine \<Rightarrow> 's machine" where
  "add_gas g m = m\<lparr>mContract := (mContract m)\<lparr>Gas := Gas (mContract m) + g\<rparr>\<rparr>"

definition opCreate :: "'s exec" where
  "opCreate X K m = pop m (\<lambda>value m. pop m (\<lambda>offset m. pop m (\<lambda>size' m. mem_Get offset size' m (\<lambda>input.
     let gas = Gas (mContract m);
         gas = (if chain_at EIP150Block X then gas - gas div 64 else gas);
         m = m\<lparr>mContract := snd (Contract_UseGas gas (mContract m))\<rparr>
     in go_bind (sCreate K (as_ref (mContract m)) input gas value MTR (mEvm m)) (\<lambda>(res, addr, returnGas, suberr, evm).
       let m = m\<lparr>mEvm := evm\<rparr>;
           m = (if chain_at HomesteadBlock X \<and> suberr = Some ErrCodeStoreOutOfGas then push 0 m
                else if suberr \<noteq> None \<and> suberr \<noteq> Some ErrCodeStoreOutOfGas then push 0 m
                else push (uint addr) m);
           m = add_gas returnGas m
       in Inr (if suberr = Some errExecutionReverted then res else [], None, m))))))"

definition opCreate2 :: "'s exec" where
  "opCreate2 X K m = pop m (\<lambda>endowment m. pop m (\<lambda>offset m. pop m (\<lambda>size' m. pop m (\<lambda>salt m. mem_Get offset size' m (\<lambda>input.
     let gas = Gas (mContract m);
         gas = gas - gas div 64;
         m = m\<lparr>mContract := snd (Contract_UseGas gas (mContract m))\<rparr>
     in go_bind (sCreate2 K (as_ref (mContract m)) input gas endowment MTR salt (mEvm m)) (\<lambda>(res, addr, returnGas, suberr, evm).
       let m = m\<lparr>mEvm := evm\<rparr>;
           m = (if suberr \<noteq> None then push 0 m else push (uint addr) m);
           m = add_gas returnGas m
       in Inr (if suberr = Some errExecutionReverted then res else [], None, m)))))))"

text \<open>What the four call instructions do with the result of the call.\<close>

definition finish_call ::
  "int \<Rightarrow> int \<Rightarrow> 's machine \<Rightarrow> (bytes \<times> uint64 \<times> vm_error option \<times> 's EVM) \<Rightarrow> (bytes \<times> vm_error option \<times> 's machine) go" where
  "finish_call retOffset retSize m = (\<lambda>(ret, returnGas, err, evm).
     let m = push (if err \<noteq> None then 0 else 1) (m\<lparr>mEvm := evm\<rparr>) in
     if err = None \<or> err = Some errExecutionReverted
     then mem_Set retOffset retSize ret m (\<lambda>m. Inr (ret, None, add_gas returnGas m))
     else Inr (ret, None, add_gas returnGas m))"

definition opCall :: "'s exec" where
  "opCall X K m = pop m (\<lambda>_ m. pop m (\<lambda>addr m. pop m (\<lambda>value m. pop m (\<lambda>inOffset m. pop m (\<lambda>inSize m.
     pop m (\<lambda>retOffset m. pop m (\<lambda>retSize m. mem_Get inOffset inSize m (\<lambda>args.
     let value = U256 (vLib X) value;
         gas = (if value \<noteq> 0 then callGasTemp (mEvm m) + CallStipend else callGasTemp (mEvm m))
     in go_bind (sCall K (as_ref (mContract m)) (BigToAddress (vLib X) addr) args gas value MTR (mEvm m))
          (finish_call retOffset retSize m)))))))))"

definition opCallCode :: "'s exec" where
  "opCallCode X K m = pop m (\<lambda>_ m. pop m (\<lambda>addr m. pop m (\<lambda>value m. pop m (\<lambda>inOffset m. pop m (\<lambda>inSize m.
     pop m (\<lambda>retOffset m. pop m (\<lambda>retSize m. mem_Get inOffset inSize m (\<lambda>args.
     let value = U256 (vLib X) value;
         gas = (if value \<noteq> 0 then callGasTemp (mEvm m) + CallStipend else callGasTemp (mEvm m))
     in go_bind (sCallCode K (as_ref (mContract m)) (BigToAddress (vLib X) addr) args gas value MTR (mEvm m))
          (finish_call retOffset retSize m)))))))))"

definition opDelegateCall :: "'s exec" where
  "opDelegateCall X K m = pop m (\<lambda>_ m. pop m (\<lambda>addr m. pop m (\<lambda>inOffset m. pop m (\<lambda>inSize m.
     pop m (\<lambda>retOffset m. pop m (\<lambda>retSize m. mem_Get inOffset inSize m (\<lambda>args.
     go_bind (sDelegateCall K (as_ref (mContract m)) (BigToAddress (vLib X) addr) args (callGasTemp (mEvm m)) (mEvm m))
       (finish_call retOffset retSize m))))))))"

definition opStaticCall :: "'s exec" where
  "opStaticCall X K m = pop m (\<lambda>_ m. pop m (\<lambda>addr m. pop m (\<lambda>inOffset m. pop m (\<lambda>inSize m.
     pop m (\<lambda>retOffset m. pop m (\<lambda>retSize m. mem_Get inOffset inSize m (\<lambda>args.
     go_bind (sStaticCall K (as_ref (mContract m)) (BigToAddress (vLib X) addr) args (callGasTemp (mEvm m)) (mEvm m))
       (finish_call retOffset retSize m))))))))"

end
