(* ===== verification/Vm_Gas.thy ===== *)
theory Vm_Gas
  imports Vm_Instructions
begin

text \<open>
  The gas functions of \<^verbatim>\<open>vm/gas_table.go\<close> and \<^verbatim>\<open>vm/gas.go\<close> and the memory sizes of \<^verbatim>\<open>vm/memory_table.go\<close>.  A gas function
  returns the price or the error, with the frame: it records the memory fee, the gas of the next call and
  refunds.
\<close>

section \<open>Prices\<close>

definition GasQuickStep :: uint64 where "GasQuickStep = 2"
definition GasFastestStep :: uint64 where "GasFastestStep = 3"
definition GasFastStep :: uint64 where "GasFastStep = 5"
definition GasMidStep :: uint64 where "GasMidStep = 8"
definition GasSlowStep :: uint64 where "GasSlowStep = 10"
definition GasExtStep :: uint64 where "GasExtStep = 20"

definition CallValueTransferGas :: uint64 where "CallValueTransferGas = 9000"
definition CallNewAccountGas :: uint64 where "CallNewAccountGas = 25000"
definition QuadCoeffDiv :: uint64 where "QuadCoeffDiv = 512"
definition vm_LogDataGas :: uint64 where "vm_LogDataGas = 8"
definition Sha3Gas :: uint64 where "Sha3Gas = 30"
definition Sha3WordGas :: uint64 where "Sha3WordGas = 6"
definition vm_SstoreSetGas :: uint64 where "vm_SstoreSetGas = 20000"
definition vm_SstoreResetGas :: uint64 where "vm_SstoreResetGas = 5000"
definition SstoreClearGas :: uint64 where "SstoreClearGas = 5000"
definition SstoreRefundGas :: uint64 where "SstoreRefundGas = 15000"
definition WarmStorageReadCostEIP2929 :: uint64 where "WarmStorageReadCostEIP2929 = 100"
definition JumpdestGas :: uint64 where "JumpdestGas = 1"
definition CreateDataGas :: uint64 where "CreateDataGas = 200"
definition CallCreateDepth :: nat where "CallCreateDepth = 1024"
definition vm_LogGas :: uint64 where "vm_LogGas = 375"
definition CopyGas :: uint64 where "CopyGas = 3"
definition vm_LogTopicGas :: uint64 where "vm_LogTopicGas = 375"
definition CreateGas :: uint64 where "CreateGas = 32000"
definition Create2Gas :: uint64 where "Create2Gas = 32000"
definition SuicideRefundGas :: uint64 where "SuicideRefundGas = 24000"
definition MemoryGas :: uint64 where "MemoryGas = 3"
definition MaxCodeSize :: nat where "MaxCodeSize = 24576"
definition MaxInitCodeSize :: uint64 where "MaxInitCodeSize = 2 * 24576"
definition Keccak256WordGas :: uint64 where "Keccak256WordGas = 6"

lemmas gas_prices = GasQuickStep_def GasFastestStep_def GasFastStep_def GasMidStep_def GasSlowStep_def GasExtStep_def
  CallValueTransferGas_def CallNewAccountGas_def QuadCoeffDiv_def vm_LogDataGas_def Sha3Gas_def Sha3WordGas_def vm_SstoreSetGas_def
  vm_SstoreResetGas_def SstoreClearGas_def SstoreRefundGas_def WarmStorageReadCostEIP2929_def JumpdestGas_def CreateDataGas_def
  vm_LogGas_def CopyGas_def vm_LogTopicGas_def CreateGas_def Create2Gas_def MemoryGas_def MaxInitCodeSize_def Keccak256WordGas_def
  InitCodeWordGas_def CallStipend_def

section \<open>Memory\<close>

definition memoryGasCost :: "Memory \<Rightarrow> uint64 \<Rightarrow> (vm_error + uint64) \<times> Memory" where
  "memoryGasCost mem newMemSize =
     (if newMemSize = 0 then (Inr 0, mem)
      else if newMemSize > 0xffffffffe0 then (Inl errGasUintOverflow, mem)
      else
        let newMemSizeWords = vm_toWordSize newMemSize;
            newMemSize = newMemSizeWords * 32
        in if newMemSize > of_nat (length (store mem)) then
             let square = newMemSizeWords * newMemSizeWords;
                 linCoef = newMemSizeWords * MemoryGas;
                 quadCoef = square div QuadCoeffDiv;
                 newTotalFee = linCoef + quadCoef
             in (Inr (newTotalFee - lastGasCost mem), mem\<lparr>lastGasCost := newTotalFee\<rparr>)
           else (Inr 0, mem))"

type_synonym 's gas_result = "((vm_error + uint64) \<times> 's machine) go"
type_synonym 's gasFunc = "'s vm_env \<Rightarrow> 's machine \<Rightarrow> uint64 \<Rightarrow> 's gas_result"

definition gas_ok :: "uint64 \<Rightarrow> 's machine \<Rightarrow> 's gas_result" where
  "gas_ok gas m = Inr (Inr gas, m)"

definition gas_err :: "vm_error \<Rightarrow> 's machine \<Rightarrow> 's gas_result" where
  "gas_err e m = Inr (Inl e, m)"

definition with_memory :: "'s machine \<Rightarrow> uint64 \<Rightarrow> (uint64 \<Rightarrow> 's machine \<Rightarrow> 's gas_result) \<Rightarrow> 's gas_result" where
  "with_memory m memorySize k =
     (case memoryGasCost (mMemory m) memorySize of
        (Inl e, mem) \<Rightarrow> gas_err e m
      | (Inr gas, mem) \<Rightarrow> k gas (m\<lparr>mMemory := mem\<rparr>))"

definition gas_add :: "vm_lib \<Rightarrow> 's machine \<Rightarrow> uint64 \<Rightarrow> uint64 \<Rightarrow> (uint64 \<Rightarrow> 's gas_result) \<Rightarrow> 's gas_result" where
  "gas_add L m x y k = (case SafeAdd L x y of (r, overflow) \<Rightarrow> if overflow then gas_err errGasUintOverflow m else k r)"

definition gas_mul :: "vm_lib \<Rightarrow> 's machine \<Rightarrow> uint64 \<Rightarrow> uint64 \<Rightarrow> (uint64 \<Rightarrow> 's gas_result) \<Rightarrow> 's gas_result" where
  "gas_mul L m x y k = (case SafeMul L x y of (r, overflow) \<Rightarrow> if overflow then gas_err errGasUintOverflow m else k r)"

definition gas_back :: "nat \<Rightarrow> 's machine \<Rightarrow> (int \<Rightarrow> 's gas_result) \<Rightarrow> 's gas_result" where
  "gas_back n m k = go_bind (Back n (mStack m)) k"

definition gas_uint64 :: "nat \<Rightarrow> 's machine \<Rightarrow> (uint64 \<Rightarrow> 's gas_result) \<Rightarrow> 's gas_result" where
  "gas_uint64 n m k = gas_back n m (\<lambda>v. case bigUint64 v of (w, overflow) \<Rightarrow> if overflow then gas_err errGasUintOverflow m else k w)"

text \<open>A price, the memory and a price per word of a size on the stack.\<close>

definition word_gas :: "uint64 \<Rightarrow> nat \<Rightarrow> uint64 \<Rightarrow> 's gasFunc" where
  "word_gas base n per X m memorySize =
     with_memory m memorySize (\<lambda>gas m. gas_add (vLib X) m gas base (\<lambda>gas. gas_uint64 n m (\<lambda>words.
       gas_mul (vLib X) m (vm_toWordSize words) per (\<lambda>words. gas_add (vLib X) m gas words (\<lambda>gas. gas_ok gas m)))))"

definition memory_gas :: "uint64 \<Rightarrow> 's gasFunc" where
  "memory_gas base X m memorySize =
     with_memory m memorySize (\<lambda>gas m. gas_add (vLib X) m gas base (\<lambda>gas. gas_ok gas m))"

section \<open>Gas functions\<close>

definition constGasFunc :: "uint64 \<Rightarrow> 's gasFunc" where
  "constGasFunc gas X m memorySize = gas_ok gas m"

definition gasCallDataCopy :: "'s gasFunc" where "gasCallDataCopy = word_gas GasFastestStep 2 CopyGas"
definition gasReturnDataCopy :: "'s gasFunc" where "gasReturnDataCopy = word_gas GasFastestStep 2 CopyGas"
definition gasCodeCopy :: "'s gasFunc" where "gasCodeCopy = word_gas GasFastestStep 2 CopyGas"
definition gasSha3 :: "'s gasFunc" where "gasSha3 = word_gas Sha3Gas 1 Sha3WordGas"
definition gasCreate2 :: "'s gasFunc" where "gasCreate2 = word_gas Create2Gas 2 Sha3WordGas"

definition gasExtCodeCopy :: "'s gasFunc" where
  "gasExtCodeCopy X = word_gas (gtExtcodeCopy (vGasTable X)) 3 CopyGas X"

definition gasMLoad :: "'s gasFunc" where "gasMLoad = memory_gas GasFastestStep"
definition gasMStore8 :: "'s gasFunc" where "gasMStore8 = memory_gas GasFastestStep"
definition gasMStore :: "'s gasFunc" where "gasMStore = memory_gas GasFastestStep"
definition gasCreate :: "'s gasFunc" where "gasCreate = memory_gas CreateGas"

definition gasReturn :: "'s gasFunc" where
  "gasReturn X m memorySize = with_memory m memorySize gas_ok"

definition gasRevert :: "'s gasFunc" where
  "gasRevert X m memorySize = with_memory m memorySize gas_ok"

definition gasSStore :: "'s gasFunc" where
  "gasSStore X m memorySize = gas_back 1 m (\<lambda>y. gas_back 0 m (\<lambda>x.
     let val = dbGetState (vDB X) (self (mContract m)) (BigToHash (vLib X) x) (db_of m) in
     if val = 0 \<and> y \<noteq> 0 then gas_ok vm_SstoreSetGas m
     else if val \<noteq> 0 \<and> y = 0 then gas_ok SstoreClearGas (on_db (dbAddRefund (vDB X) SstoreRefundGas) m)
     else gas_ok vm_SstoreResetGas m))"

definition makeGasLog :: "nat \<Rightarrow> 's gasFunc" where
  "makeGasLog n X m memorySize = gas_uint64 1 m (\<lambda>requestedSize. with_memory m memorySize (\<lambda>gas m.
     gas_add (vLib X) m gas vm_LogGas (\<lambda>gas. gas_add (vLib X) m gas (of_nat n * vm_LogTopicGas) (\<lambda>gas.
     gas_mul (vLib X) m requestedSize vm_LogDataGas (\<lambda>memorySizeGas.
     gas_add (vLib X) m gas memorySizeGas (\<lambda>gas. gas_ok gas m))))))"

definition gasExtCodeHash :: "'s gasFunc" where
  "gasExtCodeHash X m memorySize = gas_ok (gtExtcodeHash (vGasTable X)) m"

text \<open>
  From the Paris set on the two creations are priced by these: memory and init code words, without a base price.
\<close>

definition init_code_gas :: "uint64 \<Rightarrow> 's gasFunc" where
  "init_code_gas per X m memorySize = with_memory m memorySize (\<lambda>gas m.
     gas_back 2 m (\<lambda>v. case bigUint64 v of (size', overflow) \<Rightarrow>
       if overflow \<or> size' > MaxInitCodeSize then gas_err errGasUintOverflow m
       else gas_add (vLib X) m gas (per * ((size' + 31) div 32)) (\<lambda>gas. gas_ok gas m)))"

definition gasCreateEip3860 :: "'s gasFunc" where "gasCreateEip3860 = init_code_gas InitCodeWordGas"
definition gasCreate2Eip3860 :: "'s gasFunc" where "gasCreate2Eip3860 = init_code_gas (InitCodeWordGas + Keccak256WordGas)"

definition gasBalance :: "'s gasFunc" where
  "gasBalance X m memorySize = gas_ok (gtBalance (vGasTable X)) m"

definition gasExtCodeSize :: "'s gasFunc" where
  "gasExtCodeSize X m memorySize = gas_ok (gtExtcodeSize (vGasTable X)) m"

definition gasSLoad :: "'s gasFunc" where
  "gasSLoad X m memorySize = gas_ok (gtSLoad (vGasTable X)) m"

definition gasExp :: "'s gasFunc" where
  "gasExp X m memorySize = gas_back 1 m (\<lambda>e.
     let expByteLen = of_nat ((big_BitLen e + 7) div 8)
     in gas_add (vLib X) m (expByteLen * gtExpByte (vGasTable X)) GasSlowStep (\<lambda>gas. gas_ok gas m))"

definition callGas :: "GasTable \<Rightarrow> uint64 \<Rightarrow> uint64 \<Rightarrow> int \<Rightarrow> vm_error + uint64" where
  "callGas gasTable availableGas base callCost =
     (let availableGas = availableGas - base;
          gas = availableGas - availableGas div 64
      in if gtCreateBySuicide gasTable > 0 \<and> (big_BitLen callCost > 64 \<or> gas < big_Uint64 callCost) then Inr gas
         else if big_BitLen callCost > 64 then Inl errGasUintOverflow
         else Inr (big_Uint64 callCost))"

text \<open>The end of the four call prices: the gas for the callee is kept for the instruction and added.\<close>

definition charge_call :: "'s vm_env \<Rightarrow> uint64 \<Rightarrow> 's machine \<Rightarrow> 's gas_result" where
  "charge_call X gas m = gas_back 0 m (\<lambda>callCost.
     case callGas (vGasTable X) (Gas (mContract m)) gas callCost of
       Inl e \<Rightarrow> gas_err e m
     | Inr temp \<Rightarrow>
         let m = m\<lparr>mEvm := (mEvm m)\<lparr>callGasTemp := temp\<rparr>\<rparr>
         in gas_add (vLib X) m gas temp (\<lambda>gas. gas_ok gas m))"

definition gasCall :: "'s gasFunc" where
  "gasCall X m memorySize = gas_back 2 m (\<lambda>value. gas_back 1 m (\<lambda>addr.
     let gas = gtCalls (vGasTable X);
         transfersValue = (value \<noteq> 0);
         address = BigToAddress (vLib X) addr;
         gas = (if chain_at EIP158Block X
                then (if transfersValue \<and> dbEmpty (vDB X) address (db_of m) then gas + CallNewAccountGas else gas)
                else if \<not> dbExist (vDB X) address (db_of m) then gas + CallNewAccountGas else gas);
         gas = (if transfersValue then gas + CallValueTransferGas else gas)
     in with_memory m memorySize (\<lambda>memoryGas m. gas_add (vLib X) m gas memoryGas (\<lambda>gas. charge_call X gas m))))"

definition gasCallCode :: "'s gasFunc" where
  "gasCallCode X m memorySize = gas_back 2 m (\<lambda>value.
     let gas = (if value \<noteq> 0 then gtCalls (vGasTable X) + CallValueTransferGas else gtCalls (vGasTable X))
     in with_memory m memorySize (\<lambda>memoryGas m. gas_add (vLib X) m gas memoryGas (\<lambda>gas. charge_call X gas m)))"

definition gasDelegateCall :: "'s gasFunc" where
  "gasDelegateCall X m memorySize = with_memory m memorySize (\<lambda>gas m.
     gas_add (vLib X) m gas (gtCalls (vGasTable X)) (\<lambda>gas. charge_call X gas m))"

definition gasStaticCall :: "'s gasFunc" where
  "gasStaticCall X m memorySize = with_memory m memorySize (\<lambda>gas m.
     gas_add (vLib X) m gas (gtCalls (vGasTable X)) (\<lambda>gas. charge_call X gas m))"

definition suicide_gas :: "'s vm_env \<Rightarrow> 's machine \<Rightarrow> (uint64 \<Rightarrow> 's gas_result) \<Rightarrow> 's gas_result" where
  "suicide_gas X m k =
     (if chain_at EIP150Block X then
        gas_back 0 m (\<lambda>addr.
          let gas = gtSuicide (vGasTable X);
              address = BigToAddress (vLib X) addr
          in if chain_at EIP158Block X then
               (if dbEmpty (vDB X) address (db_of m) \<and> dbGetBalance (vDB X) (self (mContract m)) (db_of m) \<noteq> 0
                then k (gas + gtCreateBySuicide (vGasTable X)) else k gas)
             else if \<not> dbExist (vDB X) address (db_of m) then k (gas + gtCreateBySuicide (vGasTable X))
             else k gas)
      else k 0)"

definition gasSuicide :: "'s gasFunc" where
  "gasSuicide X m memorySize = suicide_gas X m (\<lambda>gas.
     gas_ok gas (if \<not> dbHasSuicided (vDB X) (self (mContract m)) (db_of m)
                 then on_db (dbAddRefund (vDB X) SuicideRefundGas) m else m))"

definition gasSuicideEIP3529 :: "'s gasFunc" where
  "gasSuicideEIP3529 X m memorySize = suicide_gas X m (\<lambda>gas. gas_ok gas m)"

definition gasPush :: "'s gasFunc" where "gasPush X m memorySize = gas_ok GasFastestStep m"
definition gasSwap :: "'s gasFunc" where "gasSwap X m memorySize = gas_ok GasFastestStep m"
definition gasDup :: "'s gasFunc" where "gasDup X m memorySize = gas_ok GasFastestStep m"

section \<open>Memory sizes\<close>

definition mem_size :: "nat \<Rightarrow> nat \<Rightarrow> int list \<Rightarrow> int go" where
  "mem_size i j st = go_bind (Back i st) (\<lambda>off. go_bind (Back j st) (\<lambda>l. Inr (calcMemSize off l)))"

definition mem_size_const :: "nat \<Rightarrow> int \<Rightarrow> int list \<Rightarrow> int go" where
  "mem_size_const i l st = go_bind (Back i st) (\<lambda>off. Inr (calcMemSize off l))"

definition memorySha3 :: "vm_lib \<Rightarrow> int list \<Rightarrow> int go" where "memorySha3 L = mem_size 0 1"
definition memoryCallDataCopy :: "vm_lib \<Rightarrow> int list \<Rightarrow> int go" where "memoryCallDataCopy L = mem_size 0 2"
definition memoryReturnDataCopy :: "vm_lib \<Rightarrow> int list \<Rightarrow> int go" where "memoryReturnDataCopy L = mem_size 0 2"
definition memoryCodeCopy :: "vm_lib \<Rightarrow> int list \<Rightarrow> int go" where "memoryCodeCopy L = mem_size 0 2"
definition memoryExtCodeCopy :: "vm_lib \<Rightarrow> int list \<Rightarrow> int go" where "memoryExtCodeCopy L = mem_size 1 3"
definition memoryMLoad :: "vm_lib \<Rightarrow> int list \<Rightarrow> int go" where "memoryMLoad L = mem_size_const 0 32"
definition memoryMStore8 :: "vm_lib \<Rightarrow> int list \<Rightarrow> int go" where "memoryMStore8 L = mem_size_const 0 1"
definition memoryMStore :: "vm_lib \<Rightarrow> int list \<Rightarrow> int go" where "memoryMStore L = mem_size_const 0 32"
definition memoryCreate :: "vm_lib \<Rightarrow> int list \<Rightarrow> int go" where "memoryCreate L = mem_size 1 2"
definition memoryCreate2 :: "vm_lib \<Rightarrow> int list \<Rightarrow> int go" where "memoryCreate2 L = mem_size 1 2"
definition memoryReturn :: "vm_lib \<Rightarrow> int list \<Rightarrow> int go" where "memoryReturn L = mem_size 0 1"
definition memoryRevert :: "vm_lib \<Rightarrow> int list \<Rightarrow> int go" where "memoryRevert L = mem_size 0 1"
definition memoryLog :: "vm_lib \<Rightarrow> int list \<Rightarrow> int go" where "memoryLog L = mem_size 0 1"

definition mem_size_max :: "vm_lib \<Rightarrow> nat \<Rightarrow> nat \<Rightarrow> nat \<Rightarrow> nat \<Rightarrow> int list \<Rightarrow> int go" where
  "mem_size_max L i j i' j' st = go_bind (mem_size i j st) (\<lambda>x. go_bind (mem_size i' j' st) (\<lambda>y. Inr (BigMax L x y)))"

definition memoryCall :: "vm_lib \<Rightarrow> int list \<Rightarrow> int go" where "memoryCall L = mem_size_max L 5 6 3 4"
definition memoryDelegateCall :: "vm_lib \<Rightarrow> int list \<Rightarrow> int go" where "memoryDelegateCall L = mem_size_max L 4 5 2 3"
definition memoryStaticCall :: "vm_lib \<Rightarrow> int list \<Rightarrow> int go" where "memoryStaticCall L = mem_size_max L 4 5 2 3"

end
