(* ===== verification/Vm_Jump_Table.thy ===== *)
theory Vm_Jump_Table
  imports Vm_Gas
begin

text \<open>
  The instruction sets of \<^verbatim>\<open>vm/jump_table.go\<close>.  The array of 256 operations with keyed elements is a list of
  opcodes (the constants of \<^verbatim>\<open>vm/opcodes.go\<close>, written as numbers) with their operations; an opcode without an entry is the zero
  operation, which is not valid.  An assignment to an element puts a new entry in front.
\<close>

record 's operation =
  execute :: "'s exec"
  gasCost :: "'s gasFunc"
  validateStack :: "int list \<Rightarrow> vm_error option"
  memorySize :: "(vm_lib \<Rightarrow> int list \<Rightarrow> int go) option"
  op_halts :: bool
  op_jumps :: bool
  op_writes :: bool
  op_reverts :: bool
  op_returns :: bool

definition mk_op ::
  "'s exec \<Rightarrow> 's gasFunc \<Rightarrow> (int list \<Rightarrow> vm_error option) \<Rightarrow> (vm_lib \<Rightarrow> int list \<Rightarrow> int go) option \<Rightarrow> 's operation" where
  "mk_op ex gas validate size' =
     \<lparr>execute = ex, gasCost = gas, validateStack = validate, memorySize = size',
      op_halts = False, op_jumps = False, op_writes = False, op_reverts = False, op_returns = False\<rparr>"

type_synonym 's instruction_set = "(uint8 \<times> 's operation) list"

definition set_gasCost :: "uint8 \<Rightarrow> 's gasFunc \<Rightarrow> 's instruction_set \<Rightarrow> 's instruction_set" where
  "set_gasCost op gas set' = map (\<lambda>(k, oper). (k, if k = op then oper\<lparr>gasCost := gas\<rparr> else oper)) set'"

definition set_execute :: "uint8 \<Rightarrow> 's exec \<Rightarrow> 's instruction_set \<Rightarrow> 's instruction_set" where
  "set_execute op ex set' = map (\<lambda>(k, oper). (k, if k = op then oper\<lparr>execute := ex\<rparr> else oper)) set'"

section \<open>Frontier\<close>

definition arithmetic_ops :: "'s instruction_set" where
  "arithmetic_ops =
     [(0x00, (mk_op opStop (constGasFunc 0) (makeStackFunc 0 0) None)\<lparr>op_halts := True\<rparr>),
      (0x01, mk_op opAdd (constGasFunc GasFastestStep) (makeStackFunc 2 1) None),
      (0x02, mk_op opMul (constGasFunc GasFastStep) (makeStackFunc 2 1) None),
      (0x03, mk_op opSub (constGasFunc GasFastestStep) (makeStackFunc 2 1) None),
      (0x04, mk_op opDiv (constGasFunc GasFastStep) (makeStackFunc 2 1) None),
      (0x05, mk_op opSdiv (constGasFunc GasFastStep) (makeStackFunc 2 1) None),
      (0x06, mk_op opMod (constGasFunc GasFastStep) (makeStackFunc 2 1) None),
      (0x07, mk_op opSmod (constGasFunc GasFastStep) (makeStackFunc 2 1) None),
      (0x08, mk_op opAddmod (constGasFunc GasMidStep) (makeStackFunc 3 1) None),
      (0x09, mk_op opMulmod (constGasFunc GasMidStep) (makeStackFunc 3 1) None),
      (0x0a, mk_op opExp gasExp (makeStackFunc 2 1) None),
      (0x0b, mk_op opSignExtend (constGasFunc GasFastStep) (makeStackFunc 2 1) None),
      (0x10, mk_op opLt (constGasFunc GasFastestStep) (makeStackFunc 2 1) None),
      (0x11, mk_op opGt (constGasFunc GasFastestStep) (makeStackFunc 2 1) None),
      (0x12, mk_op opSlt (constGasFunc GasFastestStep) (makeStackFunc 2 1) None),
      (0x13, mk_op opSgt (constGasFunc GasFastestStep) (makeStackFunc 2 1) None),
      (0x14, mk_op opEq (constGasFunc GasFastestStep) (makeStackFunc 2 1) None),
      (0x15, mk_op opIszero (constGasFunc GasFastestStep) (makeStackFunc 1 1) None),
      (0x16, mk_op opAnd (constGasFunc GasFastestStep) (makeStackFunc 2 1) None),
      (0x18, mk_op opXor (constGasFunc GasFastestStep) (makeStackFunc 2 1) None),
      (0x17, mk_op opOr (constGasFunc GasFastestStep) (makeStackFunc 2 1) None),
      (0x19, mk_op opNot (constGasFunc GasFastestStep) (makeStackFunc 1 1) None),
      (0x1a, mk_op opByte (constGasFunc GasFastestStep) (makeStackFunc 2 1) None)]"

definition environment_ops :: "'s instruction_set" where
  "environment_ops =
     [(0x20, mk_op opSha3 gasSha3 (makeStackFunc 2 1) (Some memorySha3)),
      (0x30, mk_op opAddress (constGasFunc GasQuickStep) (makeStackFunc 0 1) None),
      (0x31, mk_op opBalance gasBalance (makeStackFunc 1 1) None),
      (0x32, mk_op opOrigin (constGasFunc GasQuickStep) (makeStackFunc 0 1) None),
      (0x33, mk_op opCaller (constGasFunc GasQuickStep) (makeStackFunc 0 1) None),
      (0x34, mk_op opCallValue (constGasFunc GasQuickStep) (makeStackFunc 0 1) None),
      (0x35, mk_op opCallDataLoad (constGasFunc GasFastestStep) (makeStackFunc 1 1) None),
      (0x36, mk_op opCallDataSize (constGasFunc GasQuickStep) (makeStackFunc 0 1) None),
      (0x37, mk_op opCallDataCopy gasCallDataCopy (makeStackFunc 3 0) (Some memoryCallDataCopy)),
      (0x38, mk_op opCodeSize (constGasFunc GasQuickStep) (makeStackFunc 0 1) None),
      (0x39, mk_op opCodeCopy gasCodeCopy (makeStackFunc 3 0) (Some memoryCodeCopy)),
      (0x3a, mk_op opGasprice (constGasFunc GasQuickStep) (makeStackFunc 0 1) None),
      (0x3b, mk_op opExtCodeSize gasExtCodeSize (makeStackFunc 1 1) None),
      (0x3c, mk_op opExtCodeCopy gasExtCodeCopy (makeStackFunc 4 0) (Some memoryExtCodeCopy)),
      (0x40, mk_op opBlockhash (constGasFunc GasExtStep) (makeStackFunc 1 1) None),
      (0x41, mk_op opCoinbase (constGasFunc GasQuickStep) (makeStackFunc 0 1) None),
      (0x42, mk_op opTimestamp (constGasFunc GasQuickStep) (makeStackFunc 0 1) None),
      (0x43, mk_op opNumber (constGasFunc GasQuickStep) (makeStackFunc 0 1) None),
      (0x44, mk_op opDifficulty (constGasFunc GasQuickStep) (makeStackFunc 0 1) None),
      (0x45, mk_op opGasLimit (constGasFunc GasQuickStep) (makeStackFunc 0 1) None)]"

definition control_ops :: "'s instruction_set" where
  "control_ops =
     [(0x50, mk_op opPop (constGasFunc GasQuickStep) (makeStackFunc 1 0) None),
      (0x51, mk_op opMload gasMLoad (makeStackFunc 1 1) (Some memoryMLoad)),
      (0x52, mk_op opMstore gasMStore (makeStackFunc 2 0) (Some memoryMStore)),
      (0x53, mk_op opMstore8 gasMStore8 (makeStackFunc 2 0) (Some memoryMStore8)),
      (0x54, mk_op opSload gasSLoad (makeStackFunc 1 1) None),
      (0x55, (mk_op opSstore gasSStore (makeStackFunc 2 0) None)\<lparr>op_writes := True\<rparr>),
      (0x56, (mk_op opJump (constGasFunc GasMidStep) (makeStackFunc 1 0) None)\<lparr>op_jumps := True\<rparr>),
      (0x57, (mk_op opJumpi (constGasFunc GasSlowStep) (makeStackFunc 2 0) None)\<lparr>op_jumps := True\<rparr>),
      (0x58, mk_op opPc (constGasFunc GasQuickStep) (makeStackFunc 0 1) None),
      (0x59, mk_op opMsize (constGasFunc GasQuickStep) (makeStackFunc 0 1) None),
      (0x5a, mk_op opGas (constGasFunc GasQuickStep) (makeStackFunc 0 1) None),
      (0x5b, mk_op opJumpdest (constGasFunc JumpdestGas) (makeStackFunc 0 0) None)]"

definition push_ops :: "'s instruction_set" where
  "push_ops = map (\<lambda>n. (of_nat (0x5f + n), mk_op (makePush n n) gasPush (makeStackFunc 0 1) None)) [1..<33]"

definition dup_ops :: "'s instruction_set" where
  "dup_ops = map (\<lambda>n. (of_nat (0x7f + n), mk_op (makeDup n) gasDup (makeDupStackFunc n) None)) [1..<17]"

definition swap_ops :: "'s instruction_set" where
  "swap_ops = map (\<lambda>n. (of_nat (0x8f + n), mk_op (makeSwap n) gasSwap (makeSwapStackFunc (n + 1)) None)) [1..<17]"

definition log_ops :: "'s instruction_set" where
  "log_ops = map (\<lambda>n. (of_nat (0xa0 + n),
     (mk_op (makeLog n) (makeGasLog n) (makeStackFunc (n + 2) 0) (Some memoryLog))\<lparr>op_writes := True\<rparr>)) [0..<5]"

definition system_ops :: "'s instruction_set" where
  "system_ops =
     [(0xf0, (mk_op opCreate gasCreate (makeStackFunc 3 1) (Some memoryCreate))\<lparr>op_writes := True, op_returns := True\<rparr>),
      (0xf1, (mk_op opCall gasCall (makeStackFunc 7 1) (Some memoryCall))\<lparr>op_returns := True\<rparr>),
      (0xf2, (mk_op opCallCode gasCallCode (makeStackFunc 7 1) (Some memoryCall))\<lparr>op_returns := True\<rparr>),
      (0xf3, (mk_op opReturn gasReturn (makeStackFunc 2 0) (Some memoryReturn))\<lparr>op_halts := True\<rparr>),
      (0xff, (mk_op opSuicide gasSuicide (makeStackFunc 1 0) None)\<lparr>op_halts := True, op_writes := True\<rparr>)]"

definition NewFrontierInstructionSet :: "'s instruction_set" where
  "NewFrontierInstructionSet =
     arithmetic_ops @ environment_ops @ control_ops @ push_ops @ dup_ops @ swap_ops @ log_ops @ system_ops"

section \<open>Later forks\<close>

definition NewHomesteadInstructionSet :: "'s instruction_set" where
  "NewHomesteadInstructionSet =
     (0xf4, (mk_op opDelegateCall gasDelegateCall (makeStackFunc 6 1) (Some memoryDelegateCall))\<lparr>op_returns := True\<rparr>)
     # NewFrontierInstructionSet"

definition NewByzantiumInstructionSet :: "'s instruction_set" where
  "NewByzantiumInstructionSet =
     [(0xfa, (mk_op opStaticCall gasStaticCall (makeStackFunc 6 1) (Some memoryStaticCall))\<lparr>op_returns := True\<rparr>),
      (0x3d, mk_op opReturnDataSize (constGasFunc GasQuickStep) (makeStackFunc 0 1) None),
      (0x3e, mk_op opReturnDataCopy gasReturnDataCopy (makeStackFunc 3 0) (Some memoryReturnDataCopy)),
      (0xfd, (mk_op opRevert gasRevert (makeStackFunc 2 0) (Some memoryRevert))\<lparr>op_reverts := True, op_returns := True\<rparr>)]
     @ NewHomesteadInstructionSet"

definition NewConstantinopleInstructionSet :: "'s instruction_set" where
  "NewConstantinopleInstructionSet =
     [(0x1b, mk_op opSHL (constGasFunc GasFastestStep) (makeStackFunc 2 1) None),
      (0x1c, mk_op opSHR (constGasFunc GasFastestStep) (makeStackFunc 2 1) None),
      (0x1d, mk_op opSAR (constGasFunc GasFastestStep) (makeStackFunc 2 1) None),
      (0x3f, mk_op opExtCodeHash gasExtCodeHash (makeStackFunc 1 1) None),
      (0xf5, (mk_op opCreate2 gasCreate2 (makeStackFunc 4 1) (Some memoryCreate2))\<lparr>op_writes := True, op_returns := True\<rparr>)]
     @ NewByzantiumInstructionSet"

definition NewIstanbulInstructionSet :: "'s instruction_set" where
  "NewIstanbulInstructionSet =
     [(0x46, mk_op opChainID (constGasFunc GasQuickStep) (makeStackFunc 0 1) None),
      (0x47, mk_op opSelfBalance (constGasFunc GasFastStep) (makeStackFunc 0 1) None)]
     @ NewConstantinopleInstructionSet"

definition NewLondonInstructionSet :: "'s instruction_set" where
  "NewLondonInstructionSet =
     (0x48, mk_op opBaseFee (constGasFunc GasFastStep) (makeStackFunc 0 1) None) # NewIstanbulInstructionSet"

definition newParisInstructionSet :: "'s instruction_set" where
  "newParisInstructionSet =
     (let set' = set_gasCost 0xff gasSuicideEIP3529 NewLondonInstructionSet;
          set' = (0x44, mk_op opRandom (constGasFunc GasFastStep) (makeStackFunc 0 1) None) # set';
          set' = (0x5f, mk_op opPush0 (constGasFunc GasQuickStep) (makeStackFunc 0 1) None) # set';
          set' = set_gasCost 0xf0 gasCreateEip3860 set';
          set' = set_gasCost 0xf5 gasCreate2Eip3860 set'
      in set_execute 0x48 opBaseFeeDynamic set')"

text \<open>No code of the repository uses this set.\<close>

definition newCancunInstructionSet :: "'s instruction_set" where
  "newCancunInstructionSet =
     [(0x5e, mk_op opMcopy (constGasFunc GasFastestStep) (makeStackFunc 3 0) None),
      (0x5c, mk_op opTload (constGasFunc WarmStorageReadCostEIP2929) (makeStackFunc 1 1) None),
      (0x5d, mk_op opTstore (constGasFunc WarmStorageReadCostEIP2929) (makeStackFunc 2 0) None)]
     @ newParisInstructionSet"

text \<open>The choice in \<^verbatim>\<open>NewInterpreter\<close>.\<close>

definition JumpTable :: "'s vm_env \<Rightarrow> 's instruction_set" where
  "JumpTable X =
     (if chain_at ParisBlock X then newParisInstructionSet
      else if chain_at LondonBlock X then NewLondonInstructionSet
      else if chain_at IstanbulBlock X then NewIstanbulInstructionSet
      else if chain_at ConstantinopleBlock X then NewConstantinopleInstructionSet
      else if chain_at ByzantiumBlock X then NewByzantiumInstructionSet
      else if chain_at HomesteadBlock X then NewHomesteadInstructionSet
      else NewFrontierInstructionSet)"

end
