(* ===== verification/Vm_Interpreter.thy ===== *)
theory Vm_Interpreter
  imports Vm_Jump_Table
begin

text \<open>
  The interpreter loop (\<^verbatim>\<open>vm/interpreter.go\<close>) and the calls and creations of the machine (\<^verbatim>\<open>vm/evm.go\<close>).  One pass
  through the loop is \<open>vm_step\<close>.  \<open>vm_loop\<close> repeats it on fuel; an instruction that calls or creates runs the new
  frame with one unit less.  Running out of fuel is the panic \<open>NoReturn\<close>.

  The configuration names no jump table of its own and no tracer, as in the runtime of the node.
\<close>

section \<open>One step\<close>

datatype 's step_result = Continue "'s machine" | Finish bytes "vm_error option" "'s machine"

definition enforceRestrictions :: "'s vm_env \<Rightarrow> 's EVM \<Rightarrow> uint8 \<Rightarrow> 's operation \<Rightarrow> int list \<Rightarrow> vm_error option go" where
  "enforceRestrictions X evm op operation st =
     (if chain_at ByzantiumBlock X \<and> readOnly evm then
        if op = 0x5d \<or> op_writes operation then Inr (Some errWriteProtection)
        else if op = 0xf1 then go_bind (Back 2 st) (\<lambda>v. Inr (if big_BitLen v > 0 then Some errWriteProtection else None))
        else Inr None
      else Inr None)"

text \<open>The memory an operation asks for, in bytes and rounded up to words.\<close>

definition requested_memory :: "'s vm_env \<Rightarrow> 's operation \<Rightarrow> int list \<Rightarrow> (vm_error + uint64) go" where
  "requested_memory X operation st =
     (case memorySize operation of
        None \<Rightarrow> Inr (Inr 0)
      | Some size' \<Rightarrow> go_bind (size' (vLib X) st) (\<lambda>v.
          case bigUint64 v of (memSize, overflow) \<Rightarrow>
            if overflow then Inr (Inl errGasUintOverflow)
            else case SafeMul (vLib X) (vm_toWordSize memSize) 32 of (rounded, overflow) \<Rightarrow>
              if overflow then Inr (Inl errGasUintOverflow) else Inr (Inr rounded)))"

text \<open>After the instruction: its return data, and whether the loop goes on.\<close>

definition after_execute ::
  "'s operation \<Rightarrow> (bytes \<times> vm_error option \<times> 's machine) \<Rightarrow> 's step_result" where
  "after_execute operation = (\<lambda>(res, err, m).
     let m = (if op_returns operation then m\<lparr>mEvm := (mEvm m)\<lparr>returnData := res\<rparr>\<rparr> else m) in
     if err \<noteq> None then Finish [] err m
     else if op_reverts operation then Finish res (Some errExecutionReverted) m
     else if op_halts operation then Finish res None m
     else Continue (if op_jumps operation then m else m\<lparr>mPc := mPc m + 1\<rparr>))"

definition grow :: "uint64 \<Rightarrow> 's machine \<Rightarrow> 's machine" where
  "grow requested m =
     (if requested > 0 then m\<lparr>mMemory := Memory_Resize requested (mMemory m)\<rparr> else m)"

text \<open>An operation whose stack is valid and that the mode permits.\<close>

definition perform :: "'s vm_env \<Rightarrow> 's subcalls \<Rightarrow> 's operation \<Rightarrow> 's machine \<Rightarrow> 's step_result go" where
  "perform X K operation m =
     go_bind (requested_memory X operation (mStack m)) (\<lambda>req. case req of
       Inl e \<Rightarrow> Inr (Finish [] (Some e) m)
     | Inr requested \<Rightarrow>
         go_bind (gasCost operation X m requested) (\<lambda>(price, m). case price of
           Inl e \<Rightarrow> Inr (Finish [] (Some ErrOutOfGas) m)
         | Inr cost \<Rightarrow>
             (case Contract_UseGas cost (mContract m) of (ok, c) \<Rightarrow>
                if \<not> ok then Inr (Finish [] (Some ErrOutOfGas) m)
                else go_bind (execute operation X K (grow requested (m\<lparr>mContract := c\<rparr>)))
                       (\<lambda>r. Inr (after_execute operation r)))))"

definition vm_step :: "'s vm_env \<Rightarrow> 's subcalls \<Rightarrow> 's machine \<Rightarrow> 's step_result go" where
  "vm_step X K m =
     (let op = GetByte (mPc m) (mContract m) in
      case map_of (JumpTable X) op of
        None \<Rightarrow> Inr (Finish [] (Some (InvalidOpcode op)) m)
      | Some operation \<Rightarrow>
          (case validateStack operation (mStack m) of
             Some e \<Rightarrow> Inr (Finish [] (Some e) m)
           | None \<Rightarrow>
               go_bind (enforceRestrictions X (mEvm m) op operation (mStack m)) (\<lambda>err. case err of
                 Some e \<Rightarrow> Inr (Finish [] (Some e) m)
               | None \<Rightarrow> perform X K operation m)))"

section \<open>Running a contract\<close>

text \<open>The loop of \<^verbatim>\<open>Run\<close>, as an argument here.\<close>

type_synonym 's runner = "'s machine \<Rightarrow> (bytes \<times> vm_error option \<times> 's machine) go"

type_synonym 's run_result = "(bytes \<times> vm_error option \<times> Contract \<times> 's EVM) go"

definition run_code :: "'s runner \<Rightarrow> Contract \<Rightarrow> bytes \<Rightarrow> 's EVM \<Rightarrow> 's run_result" where
  "run_code R contract input evm =
     (if Code contract = [] then Inr ([], None, contract, evm)
      else go_bind (R \<lparr>mPc = 0, mEvm = evm, mContract = contract\<lparr>Input := input\<rparr>, mMemory = NewMemory, mStack = []\<rparr>)
             (\<lambda>(ret, err, m). Inr (ret, err, mContract m, mEvm m)))"

definition Run_body :: "'s runner \<Rightarrow> 's vm_env \<Rightarrow> Contract \<Rightarrow> bytes \<Rightarrow> 's EVM \<Rightarrow> 's run_result" where
  "Run_body R X contract input evm =
     (case InterceptContractCall (vCtx X) of
        Some hook \<Rightarrow>
          if CodeAddr contract = Some (self contract) then
            (case hook evm (contract\<lparr>Input := input\<rparr>) (readOnly evm) of
               (Some (out, err), contract, evm) \<Rightarrow> Inr (out, err, contract, evm)
             | (None, contract, evm) \<Rightarrow> run_code R contract input evm)
          else run_code R contract input evm
      | None \<Rightarrow> run_code R contract input evm)"

definition Interpreter_Run :: "'s runner \<Rightarrow> 's vm_env \<Rightarrow> Contract \<Rightarrow> bytes \<Rightarrow> 's EVM \<Rightarrow> 's run_result" where
  "Interpreter_Run R X contract input evm =
     go_bind (Run_body R X contract input (evm\<lparr>depth := depth evm + 1, returnData := []\<rparr>))
       (\<lambda>(ret, err, c, evm). Inr (ret, err, c, evm\<lparr>depth := depth evm - 1\<rparr>))"

definition RunPrecompiledContract :: "PrecompiledContract \<Rightarrow> bytes \<Rightarrow> Contract \<Rightarrow> bytes \<times> vm_error option \<times> Contract" where
  "RunPrecompiledContract p input contract =
     (case Contract_UseGas (RequiredGas p input) contract of (ok, c) \<Rightarrow>
        if ok then (fst (pcRun p input), snd (pcRun p input), c) else ([], Some ErrOutOfGas, c))"

definition vm_run :: "'s runner \<Rightarrow> 's vm_env \<Rightarrow> Contract \<Rightarrow> bytes \<Rightarrow> 's EVM \<Rightarrow> 's run_result" where
  "vm_run R X contract input evm =
     (case CodeAddr contract of
        Some a \<Rightarrow>
          (case precompiles X a of
             Some p \<Rightarrow> (case RunPrecompiledContract p input contract of (ret, err, c) \<Rightarrow> Inr (ret, err, c, evm))
           | None \<Rightarrow> Interpreter_Run R X contract input evm)
      | None \<Rightarrow> Interpreter_Run R X contract input evm)"

section \<open>Calls\<close>

definition evm_db :: "('s \<Rightarrow> 's) \<Rightarrow> 's EVM \<Rightarrow> 's EVM" where
  "evm_db f evm = evm\<lparr>stateDB := f (stateDB evm)\<rparr>"

definition snapshot :: "'s vm_env \<Rightarrow> 's EVM \<Rightarrow> nat \<times> 's EVM" where
  "snapshot X evm = (case dbSnapshot (vDB X) (stateDB evm) of (i, s) \<Rightarrow> (i, evm\<lparr>stateDB := s\<rparr>))"

type_synonym 's call_result = "(bytes \<times> uint64 \<times> vm_error option \<times> 's EVM) go"

text \<open>The end of the four calls: an error reverts the state and, unless the callee reverted, takes the gas.\<close>

definition settle_call :: "'s vm_env \<Rightarrow> nat \<Rightarrow> (bytes \<times> vm_error option \<times> Contract \<times> 's EVM) \<Rightarrow> 's call_result" where
  "settle_call X snap = (\<lambda>(ret, err, c, evm).
     if err \<noteq> None
     then Inr (ret, if err \<noteq> Some errExecutionReverted then 0 else Gas c, err, evm_db (dbRevertToSnapshot (vDB X) snap) evm)
     else Inr (ret, Gas c, err, evm))"

definition call_code :: "'s vm_env \<Rightarrow> address \<Rightarrow> 's EVM \<Rightarrow> Contract \<Rightarrow> Contract" where
  "call_code X addr evm =
     SetCallCode (Some addr) (dbGetCodeHash (vDB X) addr (stateDB evm)) (dbGetCode (vDB X) addr (stateDB evm))"

definition vm_call ::
  "'s runner \<Rightarrow> 's vm_env \<Rightarrow> ContractRef \<Rightarrow> address \<Rightarrow> bytes \<Rightarrow> uint64 \<Rightarrow> int \<Rightarrow> uint8 \<Rightarrow> 's EVM \<Rightarrow> 's call_result" where
  "vm_call R X caller' addr input gas value token evm =
     (if vNoRecursion X \<and> depth evm > 0 then Inr ([], gas, None, evm)
      else if depth evm > CallCreateDepth then Inr ([], gas, Some ErrDepth, evm)
      else if \<not> CanTransfer (vCtx X) (stateDB evm) (ref_Address caller') value token
      then Inr ([], gas, Some ErrInsufficientBalance, evm)
      else (case snapshot X evm of (snap, evm) \<Rightarrow>
        if \<not> dbExist (vDB X) addr (stateDB evm) \<and> precompiles X addr = None \<and> chain_at EIP158Block X \<and> value = 0
        then Inr ([], gas, None, evm)
        else
          let evm = (if \<not> dbExist (vDB X) addr (stateDB evm) then evm_db (dbCreateAccount (vDB X) addr) evm else evm);
              evm = evm_db (Transfer (vCtx X) (ref_Address caller') addr value token) evm;
              contract = call_code X addr evm (NewContract caller' addr (Some value) gas)
          in go_bind (vm_run R X contract input evm) (settle_call X snap)))"

definition CallCode ::
  "'s runner \<Rightarrow> 's vm_env \<Rightarrow> ContractRef \<Rightarrow> address \<Rightarrow> bytes \<Rightarrow> uint64 \<Rightarrow> int \<Rightarrow> uint8 \<Rightarrow> 's EVM \<Rightarrow> 's call_result" where
  "CallCode R X caller' addr input gas value token evm =
     (if vNoRecursion X \<and> depth evm > 0 then Inr ([], gas, None, evm)
      else if depth evm > CallCreateDepth then Inr ([], gas, Some ErrDepth, evm)
      else if \<not> CanTransfer (vCtx X) (stateDB evm) (ref_Address caller') value token
      then Inr ([], gas, Some ErrInsufficientBalance, evm)
      else (case snapshot X evm of (snap, evm) \<Rightarrow>
        let contract = call_code X addr evm (NewContract caller' (ref_Address caller') (Some value) gas)
        in go_bind (vm_run R X contract input evm) (settle_call X snap)))"

definition DelegateCall ::
  "'s runner \<Rightarrow> 's vm_env \<Rightarrow> ContractRef \<Rightarrow> address \<Rightarrow> bytes \<Rightarrow> uint64 \<Rightarrow> 's EVM \<Rightarrow> 's call_result" where
  "DelegateCall R X caller' addr input gas evm =
     (if vNoRecursion X \<and> depth evm > 0 then Inr ([], gas, None, evm)
      else if depth evm > CallCreateDepth then Inr ([], gas, Some ErrDepth, evm)
      else (case snapshot X evm of (snap, evm) \<Rightarrow>
        go_bind (AsDelegate (NewContract caller' (ref_Address caller') None gas)) (\<lambda>contract.
        go_bind (vm_run R X (call_code X addr evm contract) input evm) (settle_call X snap))))"

definition static_body ::
  "'s runner \<Rightarrow> 's vm_env \<Rightarrow> ContractRef \<Rightarrow> address \<Rightarrow> bytes \<Rightarrow> uint64 \<Rightarrow> 's EVM \<Rightarrow> 's call_result" where
  "static_body R X caller' addr input gas evm =
     (case snapshot X evm of (snap, evm) \<Rightarrow>
        let contract = call_code X addr evm (NewContract caller' addr (Some 0) gas)
        in go_bind (vm_run R X contract input evm) (settle_call X snap))"

definition StaticCall ::
  "'s runner \<Rightarrow> 's vm_env \<Rightarrow> ContractRef \<Rightarrow> address \<Rightarrow> bytes \<Rightarrow> uint64 \<Rightarrow> 's EVM \<Rightarrow> 's call_result" where
  "StaticCall R X caller' addr input gas evm =
     (if vNoRecursion X \<and> depth evm > 0 then Inr ([], gas, None, evm)
      else if depth evm > CallCreateDepth then Inr ([], gas, Some ErrDepth, evm)
      else if \<not> readOnly evm
      then go_bind (static_body R X caller' addr input gas (evm\<lparr>readOnly := True\<rparr>))
             (\<lambda>(ret, left, err, evm). Inr (ret, left, err, evm\<lparr>readOnly := False\<rparr>))
      else static_body R X caller' addr input gas evm)"

section \<open>Creations\<close>

type_synonym 's create_result = "(bytes \<times> address \<times> uint64 \<times> vm_error option \<times> 's EVM) go"

text \<open>The code is stored if the rest of the gas pays for it; an error reverts the state.\<close>

definition settle_create ::
  "'s vm_env \<Rightarrow> nat \<Rightarrow> address \<Rightarrow> (bytes \<times> vm_error option \<times> Contract \<times> 's EVM) \<Rightarrow> 's create_result" where
  "settle_create X snap contractAddr = (\<lambda>(ret, err, c, evm).
     let maxCodeSizeExceeded = (chain_at EIP158Block X \<and> length ret > MaxCodeSize);
         (err, c, evm) =
           (if err = None \<and> \<not> maxCodeSizeExceeded then
              (case Contract_UseGas (of_nat (length ret) * CreateDataGas) c of (ok, c) \<Rightarrow>
                 if ok then (None, c, evm_db (dbSetCode (vDB X) contractAddr ret) evm)
                 else (Some ErrCodeStoreOutOfGas, c, evm))
            else (err, c, evm));
         fails = (maxCodeSizeExceeded \<or> (err \<noteq> None \<and> (chain_at HomesteadBlock X \<or> err \<noteq> Some ErrCodeStoreOutOfGas)));
         evm = (if fails then evm_db (dbRevertToSnapshot (vDB X) snap) evm else evm);
         left = (if fails \<and> err \<noteq> Some errExecutionReverted then 0 else Gas c)
     in Inr (ret, contractAddr, left, if maxCodeSizeExceeded \<and> err = None then Some errMaxCodeSizeExceeded else err, evm))"

definition prepare_create ::
  "'s vm_env \<Rightarrow> ContractRef \<Rightarrow> bytes \<Rightarrow> int \<Rightarrow> uint8 \<Rightarrow> address \<Rightarrow> 's EVM \<Rightarrow> 's EVM" where
  "prepare_create X caller' code value token contractAddr evm =
     (let evm = evm_db (dbCreateAccount (vDB X) contractAddr) evm;
          evm = (if chain_at EIP158Block X then evm_db (dbSetNonce (vDB X) contractAddr 1) evm else evm);
          evm = (case OnCreateContract (vCtx X) of
                   Some hook \<Rightarrow> if code \<noteq> [] then hook evm contractAddr (ref_Address caller') else evm
                 | None \<Rightarrow> evm)
      in evm_db (Transfer (vCtx X) (ref_Address caller') contractAddr value token) evm)"

definition vm_create ::
  "'s runner \<Rightarrow> 's vm_env \<Rightarrow> ContractRef \<Rightarrow> bytes \<Rightarrow> uint64 \<Rightarrow> int \<Rightarrow> uint8 \<Rightarrow> address \<Rightarrow> 's EVM \<Rightarrow> 's create_result" where
  "vm_create R X caller' code gas value token contractAddr evm =
     (if depth evm > CallCreateDepth then Inr ([], 0, gas, Some ErrDepth, evm)
      else if \<not> CanTransfer (vCtx X) (stateDB evm) (ref_Address caller') value token
      then Inr ([], 0, gas, Some ErrInsufficientBalance, evm)
      else
        let nonce = dbGetNonce (vDB X) (ref_Address caller') (stateDB evm);
            evm = evm_db (dbSetNonce (vDB X) (ref_Address caller') (nonce + 1)) evm;
            evm = evm\<lparr>contractCreationCount := contractCreationCount evm + 1\<rparr>;
            contractHash = dbGetCodeHash (vDB X) contractAddr (stateDB evm)
        in if dbGetNonce (vDB X) contractAddr (stateDB evm) \<noteq> 0
              \<or> (contractHash \<noteq> 0 \<and> contractHash \<noteq> Keccak256 (vLib X) [])
           then Inr ([], 0, 0, Some ErrContractAddressCollision, evm)
           else (case snapshot X evm of (snap, evm) \<Rightarrow>
             let evm = prepare_create X caller' code value token contractAddr evm;
                 contract = SetCallCode (Some contractAddr) (Keccak256 (vLib X) code) code
                              (NewContract caller' contractAddr (Some value) gas)
             in if vNoRecursion X \<and> depth evm > 0 then Inr ([], contractAddr, gas, None, evm)
                else go_bind (vm_run R X contract [] evm) (settle_create X snap contractAddr)))"

definition Create ::
  "'s runner \<Rightarrow> 's vm_env \<Rightarrow> ContractRef \<Rightarrow> bytes \<Rightarrow> uint64 \<Rightarrow> int \<Rightarrow> uint8 \<Rightarrow> 's EVM \<Rightarrow> 's create_result" where
  "Create R X caller' code gas value token evm =
     vm_create R X caller' code gas value token
       (NewContractAddress (vCtx X) (ref_Address caller') (contractCreationCount evm)) evm"

definition be_bytes :: "nat \<Rightarrow> 'a::len word \<Rightarrow> bytes" where
  "be_bytes n w = map (\<lambda>i. ucast (drop_bit (8 * (n - 1 - i)) w)) [0..<n]"

definition CreateAddress2 :: "vm_lib \<Rightarrow> address \<Rightarrow> bytes32 \<Rightarrow> bytes32 \<Rightarrow> address" where
  "CreateAddress2 L b salt inithash = ucast (Keccak256 L (0xff # be_bytes 20 b @ be_bytes 32 salt @ be_bytes 32 inithash))"

definition Create2 ::
  "'s runner \<Rightarrow> 's vm_env \<Rightarrow> ContractRef \<Rightarrow> bytes \<Rightarrow> uint64 \<Rightarrow> int \<Rightarrow> uint8 \<Rightarrow> int \<Rightarrow> 's EVM \<Rightarrow> 's create_result" where
  "Create2 R X caller' code gas endowment token salt evm =
     vm_create R X caller' code gas endowment token
       (CreateAddress2 (vLib X) (ref_Address caller') (BigToHash (vLib X) salt) (Keccak256 (vLib X) code)) evm"

section \<open>The loop\<close>

definition subcalls_of :: "'s runner \<Rightarrow> 's vm_env \<Rightarrow> 's subcalls" where
  "subcalls_of R X =
     \<lparr>sCall = vm_call R X, sCallCode = CallCode R X, sDelegateCall = DelegateCall R X, sStaticCall = StaticCall R X,
      sCreate = Create R X, sCreate2 = Create2 R X\<rparr>"

primrec vm_loop :: "nat \<Rightarrow> 's vm_env \<Rightarrow> 's runner" where
  "vm_loop 0 X m = Inl NoReturn"
| "vm_loop (Suc fuel) X m =
     go_bind (vm_step X (subcalls_of (vm_loop fuel X) X) m) (\<lambda>r. case r of
       Continue m \<Rightarrow> vm_loop fuel X m
     | Finish ret err m \<Rightarrow> Inr (ret, err, m))"

text \<open>\<^verbatim>\<open>Call\<close> is \<^verbatim>\<open>call\<close> without the tracer; the same for \<^verbatim>\<open>Create\<close>.\<close>

definition EVM_Call ::
  "nat \<Rightarrow> 's vm_env \<Rightarrow> ContractRef \<Rightarrow> address \<Rightarrow> bytes \<Rightarrow> uint64 \<Rightarrow> int \<Rightarrow> uint8 \<Rightarrow> 's EVM \<Rightarrow> 's call_result" where
  "EVM_Call fuel X = vm_call (vm_loop fuel X) X"

definition EVM_Create ::
  "nat \<Rightarrow> 's vm_env \<Rightarrow> ContractRef \<Rightarrow> bytes \<Rightarrow> uint64 \<Rightarrow> int \<Rightarrow> uint8 \<Rightarrow> 's EVM \<Rightarrow> 's create_result" where
  "EVM_Create fuel X = Create (vm_loop fuel X) X"

end
