(* ===== verification/Vm_Typing.thy ===== *)
theory Vm_Typing
  imports Vm_Interpreter
begin

text \<open>
  Well-typed frames of the virtual machine and what each instruction does to one.  A frame is well typed if its stack holds
  at most 1024 integers below \<open>2 ^ 256\<close> and its buffers have lengths that the machine integers of the
  code can count.  \<open>plain\<close> says of an instruction without calls that, on a well-typed frame with
  enough items and memory, it does not panic, moves the stack as its entry in the jump table declares
  and leaves the contract and the mode alone.
\<close>

unbundle bit_operations_syntax

section \<open>Frames\<close>

definition small :: "'a list \<Rightarrow> bool" where
  "small xs \<longleftrightarrow> length xs < 2 ^ 62"

definition words :: "int list \<Rightarrow> bool" where
  "words st \<longleftrightarrow> (\<forall>x \<in> set st. is_word x)"

definition MaxMemory :: nat where "MaxMemory = 0xffffffffe0"

definition frame_ok :: "'s machine \<Rightarrow> bool" where
  "frame_ok m \<longleftrightarrow>
     words (mStack m) \<and> length (mStack m) \<le> StackLimit \<and> length (store (mMemory m)) \<le> MaxMemory \<and>
     small (Code (mContract m)) \<and> small (Input (mContract m)) \<and> small (returnData (mEvm m)) \<and>
     (\<exists>v. cValue (mContract m) = Some v \<and> is_word v)"

text \<open>
  What the machine needs of its environment: the library as documented, amounts and configuration values below \<open>2 ^ 256\<close>,
  code and results that fit in memory, forks in their order, and hooks that keep the mode of the machine.
\<close>

definition same_mode :: "'s EVM \<Rightarrow> 's EVM \<Rightarrow> bool" where
  "same_mode evm evm' \<longleftrightarrow> depth evm' = depth evm \<and> readOnly evm' = readOnly evm"

definition env_ok :: "'s vm_env \<Rightarrow> bool" where
  "env_ok X \<longleftrightarrow>
     vm_lib_ok (vLib X) \<and>
     is_word (ctxGasPrice (vCtx X)) \<and> is_word (ChainID (vCfg X)) \<and> is_word (BaseFee (vCfg X)) \<and>
     LastPowNonce (vCfg X) < 2 ^ 63 \<and>
     (\<forall>a s. is_word (dbGetEnergy (vDB X) a s)) \<and> (\<forall>a s. small (dbGetCode (vDB X) a s)) \<and>
     (\<forall>a p i. precompiles X a = Some p \<longrightarrow> small (fst (pcRun p i))) \<and>
     (chain_at ParisBlock X \<or> chain_at LondonBlock X \<or> chain_at IstanbulBlock X \<longrightarrow> chain_at ConstantinopleBlock X)"

definition intercept_ok :: "'s vm_env \<Rightarrow> bool" where
  "intercept_ok X \<longleftrightarrow>
     (\<forall>hook evm c r c' evm'.
        InterceptContractCall (vCtx X) = Some hook \<and> hook evm c (readOnly evm) = (r, c', evm') \<and> small (returnData evm) \<longrightarrow>
          same_mode evm evm' \<and> small (returnData evm') \<and> Code c' = Code c \<and> cValue c' = cValue c \<and>
          (\<forall>out err. r = Some (out, err) \<longrightarrow> small out))"

definition keeps_mode :: "('s EVM \<Rightarrow> address \<Rightarrow> address \<Rightarrow> 's EVM) option \<Rightarrow> bool" where
  "keeps_mode h \<longleftrightarrow>
     (case h of None \<Rightarrow> True
      | Some hook \<Rightarrow> \<forall>evm a b. same_mode evm (hook evm a b) \<and> returnData (hook evm a b) = returnData evm)"

definition hook_ok :: "'s vm_env \<Rightarrow> bool" where
  "hook_ok X \<longleftrightarrow> intercept_ok X \<and> keeps_mode (OnCreateContract (vCtx X)) \<and> keeps_mode (OnSuicideContract (vCtx X))"

section \<open>Plain instructions\<close>

text \<open>The memory that the instruction asked for is there.\<close>

definition ready :: "'s vm_env \<Rightarrow> (vm_lib \<Rightarrow> int list \<Rightarrow> int go) option \<Rightarrow> 's machine \<Rightarrow> bool" where
  "ready X f m \<longleftrightarrow>
     (case f of None \<Rightarrow> True | Some size' \<Rightarrow> \<forall>v. size' (vLib X) (mStack m) = Inr v \<longrightarrow> v \<le> int (length (store (mMemory m))))"

definition in_code :: "'s machine \<Rightarrow> bool" where
  "in_code m \<longleftrightarrow> unat (mPc m) < length (Code (mContract m))"

text \<open>State changes allowed in an instruction that does not write.\<close>

definition silent :: "'s vm_env \<Rightarrow> 's \<Rightarrow> 's \<Rightarrow> bool" where
  "silent X s s' \<longleftrightarrow> s' = s \<or> (\<exists>h d. s' = dbAddPreimage (vDB X) h d s)"

definition exec_post ::
  "'s vm_env \<Rightarrow> bool \<Rightarrow> nat \<Rightarrow> nat \<Rightarrow> 's machine \<Rightarrow> bytes \<Rightarrow> vm_error option \<Rightarrow> 's machine \<Rightarrow> bool" where
  "exec_post X writes pops pushes m res err m' \<longleftrightarrow>
     small res \<and> words (mStack m') \<and>
     (err = None \<longrightarrow> length (mStack m') + pops = length (mStack m) + pushes) \<and>
     mContract m' = mContract m \<and> length (store (mMemory m')) = length (store (mMemory m)) \<and>
     same_mode (mEvm m) (mEvm m') \<and> returnData (mEvm m') = returnData (mEvm m) \<and>
     (\<not> writes \<longrightarrow> silent X (db_of m) (db_of m'))"

definition plain ::
  "'s vm_env \<Rightarrow> bool \<Rightarrow> nat \<Rightarrow> nat \<Rightarrow> (vm_lib \<Rightarrow> int list \<Rightarrow> int go) option \<Rightarrow> 's exec \<Rightarrow> bool" where
  "plain X writes pops pushes f ex \<longleftrightarrow>
     (\<forall>K m. frame_ok m \<longrightarrow> pops \<le> length (mStack m) \<longrightarrow> ready X f m \<longrightarrow> in_code m \<longrightarrow>
        (case ex X K m of Inl p \<Rightarrow> False | Inr (res, err, m') \<Rightarrow> exec_post X writes pops pushes m res err m'))"

lemma words_Cons [simp]: "words (x # xs) \<longleftrightarrow> is_word x \<and> words xs"
  by (simp add: words_def)

lemma words_Nil [simp]: "words []"
  by (simp add: words_def)

lemma words_append [simp]: "words (xs @ ys) \<longleftrightarrow> words xs \<and> words ys"
  by (auto simp: words_def)

lemma words_drop: "words xs \<Longrightarrow> words (drop n xs)"
  by (auto simp: words_def dest: in_set_dropD)

lemma words_nth: "words xs \<Longrightarrow> i < length xs \<Longrightarrow> is_word (xs ! i)"
  by (simp add: words_def)

lemma small_Nil [simp]: "small []"
  by (simp add: small_def)

lemma same_mode_refl [simp]: "same_mode evm evm"
  by (simp add: same_mode_def)

lemma same_mode_trans: "same_mode a b \<Longrightarrow> same_mode b c \<Longrightarrow> same_mode a c"
  by (simp add: same_mode_def)

lemma silent_refl [simp]: "silent X s s"
  by (simp add: silent_def)

lemma silent_preimage [simp]: "silent X s (dbAddPreimage (vDB X) h d s)"
  by (auto simp: silent_def)

lemma same_mode_db [simp]: "same_mode evm (evm'\<lparr>stateDB := s\<rparr>) \<longleftrightarrow> same_mode evm evm'"
  by (simp add: same_mode_def)

lemma ready_None [simp]: "ready X None m"
  by (simp add: ready_def)

lemma plainI:
  assumes "\<And>K m. frame_ok m \<Longrightarrow> words (mStack m) \<Longrightarrow> pops \<le> length (mStack m) \<Longrightarrow> ready X f m \<Longrightarrow> in_code m \<Longrightarrow>
             (case ex X K m of Inl p \<Rightarrow> False | Inr (res, err, m') \<Rightarrow> exec_post X w pops pushes m res err m')"
  shows "plain X w pops pushes f ex"
  using assms by (simp add: plain_def frame_ok_def)

lemma stack_items:
  "Suc 0 \<le> length xs \<longleftrightarrow> (\<exists>a ys. xs = a # ys)"
  "2 \<le> length xs \<longleftrightarrow> (\<exists>a b ys. xs = a # b # ys)"
  "3 \<le> length xs \<longleftrightarrow> (\<exists>a b c ys. xs = a # b # c # ys)"
  "4 \<le> length xs \<longleftrightarrow> (\<exists>a b c d ys. xs = a # b # c # d # ys)"
  "6 \<le> length xs \<longleftrightarrow> (\<exists>a b c d e f ys. xs = a # b # c # d # e # f # ys)"
  "7 \<le> length xs \<longleftrightarrow> (\<exists>a b c d e f g ys. xs = a # b # c # d # e # f # g # ys)"
  by (auto simp: Suc_le_length_iff eval_nat_numeral)

lemmas stack_ops = pop_def peek_def poke_def push_def vm_done_def exec_post_def db_of_def

section \<open>Arithmetic\<close>

lemma is_word_take_bit: "is_word x \<longleftrightarrow> take_bit 256 x = x"
  by (auto simp: is_word_def take_bit_int_eq_self_iff)

lemma is_word_simps [simp]: "is_word 0" "is_word 1" "is_word (x mod 2 ^ 256)" "is_word (uint (w :: bytes32))"
  using uint_lt2p[of w] by (simp_all add: is_word_def)

lemma is_word_uint: "LENGTH('a) \<le> 256 \<Longrightarrow> is_word (uint (w :: 'a::len word))"
  using order.strict_trans2[OF uint_lt2p[of w] power_increasing[of "LENGTH('a)" 256 "2 :: int"]] by (simp add: is_word_def)

lemma is_word_bits: "is_word x \<Longrightarrow> is_word y \<Longrightarrow> is_word (x AND y)"
  "is_word x \<Longrightarrow> is_word y \<Longrightarrow> is_word (x OR y)" "is_word x \<Longrightarrow> is_word y \<Longrightarrow> is_word (x XOR y)"
  by (simp_all add: is_word_take_bit)

lemma is_word_small: "small xs \<Longrightarrow> is_word (int (length xs))"
  by (simp add: small_def is_word_def)

lemma lib_U256: "env_ok X \<Longrightarrow> U256 (vLib X) x = x mod 2 ^ 256"
  by (simp add: env_ok_def vm_lib_ok_def)

lemma lib_U256_word: "env_ok X \<Longrightarrow> is_word (U256 (vLib X) x)"
  by (simp add: lib_U256 is_word_def)

lemma lib_Exp: "env_ok X \<Longrightarrow> is_word x \<Longrightarrow> is_word y \<Longrightarrow> is_word (math_Exp (vLib X) x y)"
  by (simp add: env_ok_def vm_lib_ok_def) (simp add: is_word_def)

lemma is_word_big_SetBytes: "length bs \<le> 32 \<Longrightarrow> is_word (big_SetBytes bs)"
proof -
  have "0 \<le> foldl (\<lambda>acc b. 256 * acc + uint b) 0 xs \<and> foldl (\<lambda>acc b. 256 * acc + uint b) 0 xs < 256 ^ length xs" for xs :: bytes
  proof (induction xs rule: rev_induct)
    case (snoc b xs)
    then show ?case using uint_lt2p[of b] by simp
  qed simp
  then have "0 \<le> big_SetBytes bs" "big_SetBytes bs < 256 ^ length bs"
    by (simp_all add: big_SetBytes_def)
  moreover assume "length bs \<le> 32"
  then have "(256 :: int) ^ length bs \<le> 256 ^ 32" by (intro power_increasing) simp_all
  moreover have "(256 :: int) ^ 32 = 2 ^ 256" by simp
  ultimately show ?thesis unfolding is_word_def by linarith
qed

named_theorems plain_intros

lemmas compute = stack_ops lib_U256_word is_word_uint is_word_bits is_word_small

lemma plain_arith [plain_intros]:
  assumes "env_ok X"
  shows "plain X w 2 1 None opAdd" "plain X w 2 1 None opSub" "plain X w 2 1 None opMul" "plain X w 2 1 None opDiv"
    "plain X w 2 1 None opSdiv" "plain X w 2 1 None opMod" "plain X w 2 1 None opSmod" "plain X w 2 1 None opExp"
    "plain X w 3 1 None opAddmod" "plain X w 3 1 None opMulmod"
  by - (rule plainI; auto simp: assms stack_items opAdd_def opSub_def opMul_def opDiv_def opSdiv_def opMod_def
    opSmod_def opExp_def opAddmod_def opMulmod_def compute Let_def lib_Exp)+


lemma lib_Byte: "env_ok X \<Longrightarrow> is_word (uint (math_Byte (vLib X) x n k))"
  by (simp add: is_word_uint)

lemma plain_compare [plain_intros]:
  assumes "env_ok X"
  shows "plain X w 2 1 None opLt" "plain X w 2 1 None opGt" "plain X w 2 1 None opSlt" "plain X w 2 1 None opSgt"
    "plain X w 2 1 None opEq" "plain X w 1 1 None opIszero"
  by - (rule plainI; auto simp: assms stack_items opLt_def opGt_def opSlt_def opSgt_def opEq_def opIszero_def compute)+

lemma plain_bits [plain_intros]:
  assumes "env_ok X"
  shows "plain X w 2 1 None opAnd" "plain X w 2 1 None opOr" "plain X w 2 1 None opXor" "plain X w 1 1 None opNot"
    "plain X w 2 1 None opByte" "plain X w 2 1 None opSHL" "plain X w 2 1 None opSHR" "plain X w 2 1 None opSAR"
    "plain X w 2 1 None opSignExtend"
  by - (rule plainI; auto simp: assms stack_items opAnd_def opOr_def opXor_def opNot_def opByte_def opSHL_def opSHR_def
    opSAR_def opSignExtend_def compute Let_def)+

section \<open>Environment\<close>

lemma env_words:
  assumes "env_ok X"
  shows "is_word (ctxGasPrice (vCtx X))" "is_word (ChainID (vCfg X))" "is_word (BaseFee (vCfg X))"
    "is_word (dbGetEnergy (vDB X) a s)" "small (dbGetCode (vDB X) a s)" "is_word (big_NewInt64 (LastPowNonce (vCfg X)))"
proof -
  have "LastPowNonce (vCfg X) < 2 ^ 63" using assms by (simp add: env_ok_def)
  then have "sint (LastPowNonce (vCfg X)) = uint (LastPowNonce (vCfg X))"
    by (intro sint_small) (simp add: word_less_def)
  then show "is_word (big_NewInt64 (LastPowNonce (vCfg X)))"
    by (simp add: big_NewInt64_def is_word_uint)
qed (use assms in \<open>simp_all add: env_ok_def\<close>)

lemma plain_environment [plain_intros]:
  assumes "env_ok X"
  shows "plain X w 0 1 None opAddress" "plain X w 1 1 None opBalance" "plain X w 0 1 None opOrigin"
    "plain X w 0 1 None opCaller" "plain X w 0 1 None opCallValue" "plain X w 0 1 None opCallDataSize"
    "plain X w 0 1 None opCodeSize" "plain X w 0 1 None opGasprice" "plain X w 1 1 None opExtCodeSize"
    "plain X w 1 1 None opExtCodeHash" "plain X w 0 1 None opReturnDataSize"
  by - (rule plainI; auto simp: assms stack_items opAddress_def opBalance_def opOrigin_def opCaller_def opCallValue_def
    opCallDataSize_def opCodeSize_def opGasprice_def opExtCodeSize_def opExtCodeHash_def opReturnDataSize_def compute
    env_words frame_ok_def Let_def)+

lemma plain_block [plain_intros]:
  assumes "env_ok X"
  shows "plain X w 1 1 None opBlockhash" "plain X w 0 1 None opCoinbase" "plain X w 0 1 None opTimestamp"
    "plain X w 0 1 None opNumber" "plain X w 0 1 None opDifficulty" "plain X w 0 1 None opGasLimit"
    "plain X w 0 1 None opChainID" "plain X w 0 1 None opSelfBalance" "plain X w 0 1 None opBaseFee"
    "plain X w 0 1 None opRandom" "plain X w 0 1 None opPush0" "plain X w 0 1 None opBaseFeeDynamic"
  by - (rule plainI; auto simp: assms stack_items opBlockhash_def opCoinbase_def opTimestamp_def opNumber_def
    opDifficulty_def opGasLimit_def opChainID_def opSelfBalance_def opBaseFee_def opRandom_def opPush0_def
    opBaseFeeDynamic_def compute env_words Let_def is_word_def[of 500000000000])+


section \<open>Memory and data\<close>

lemma big_Uint64_uint: "0 \<le> x \<Longrightarrow> x < 2 ^ 64 \<Longrightarrow> uint (big_Uint64 x) = x"
  by (simp add: big_Uint64_def uint_word_of_int take_bit_int_eq_self)

lemma big_Uint64_unat: "0 \<le> x \<Longrightarrow> x < 2 ^ 64 \<Longrightarrow> unat (big_Uint64 x) = nat x"
  by (simp flip: nat_uint_eq add: big_Uint64_uint)

lemma big_Int64_small: "0 \<le> x \<Longrightarrow> x < 2 ^ 63 \<Longrightarrow> big_Int64 x = x"
  using sint_small[of "word_of_int x"] by (simp add: big_Int64_def uint_word_of_int take_bit_int_eq_self)

text \<open>A region of the memory that an instruction may use; an empty one may start anywhere.\<close>

definition region :: "int \<Rightarrow> int \<Rightarrow> 's machine \<Rightarrow> bool" where
  "region offset size' m \<longleftrightarrow>
     0 \<le> offset \<and> 0 \<le> size' \<and> calcMemSize offset size' \<le> int (length (store (mMemory m))) \<and> length (store (mMemory m)) \<le> MaxMemory"

lemma mem_Get_eq:
  assumes "region offset size' m"
  shows "mem_Get offset size' m k = k (if size' = 0 then [] else take (nat size') (drop (nat offset) (store (mMemory m))))"
proof (cases "size' = 0")
  case True
  then show ?thesis by (simp add: mem_Get_def Memory_Get_def big_Int64_small)
next
  case False
  have b: "offset + size' \<le> int (length (store (mMemory m)))" "int (length (store (mMemory m))) \<le> 0xffffffffe0"
    "0 \<le> offset" "0 < size'"
    using assms False by (simp_all add: region_def calcMemSize_def MaxMemory_def)
  then have "big_Int64 offset = offset" "big_Int64 size' = size'"
    by - (rule big_Int64_small; simp)+
  with b show ?thesis
    by (simp add: mem_Get_def Memory_Get_def slice_def)
qed

lemma length_copy_at: "i \<le> length s \<Longrightarrow> length (copy_at i v s) = length s"
  by (simp add: copy_at_def Let_def)

lemma region_words:
  assumes "region offset size' m" "size' \<noteq> 0"
  shows "offset + size' \<le> int (length (store (mMemory m)))" "length (store (mMemory m)) \<le> 0xffffffffe0"
    "unat (big_Uint64 offset) = nat offset" "unat (big_Uint64 size') = nat size'"
    "unat (big_Uint64 offset + big_Uint64 size') = nat offset + nat size'" "0 \<le> offset" "0 < size'"
proof -
  show b: "offset + size' \<le> int (length (store (mMemory m)))" "length (store (mMemory m)) \<le> 0xffffffffe0"
    "0 \<le> offset" "0 < size'"
    using assms by (simp_all add: region_def calcMemSize_def MaxMemory_def)
  then have "offset < 2 ^ 64" "size' < 2 ^ 64" by simp_all
  with b show o: "unat (big_Uint64 offset) = nat offset" "unat (big_Uint64 size') = nat size'"
    by (simp_all add: big_Uint64_unat)
  then show "unat (big_Uint64 offset + big_Uint64 size') = nat offset + nat size'"
    using b by (subst unat_plus_simple[THEN iffD1]) (simp_all add: no_olen_add_nat)
qed

lemma mem_Set_eq:
  assumes "region offset size' m"
  shows "\<exists>mem. mem_Set offset size' d m k = k (m\<lparr>mMemory := mem\<rparr>) \<and> length (store mem) = length (store (mMemory m))"
proof (cases "size' = 0")
  case True
  then show ?thesis
    by (intro exI[of _ "mMemory m"]) (simp add: mem_Set_def Memory_Set_def big_Uint64_def)
next
  case False
  note r = region_words[OF assms this]
  have l: "unat (of_nat (length (store (mMemory m))) :: uint64) = length (store (mMemory m))"
    using r(2) by (simp add: unat_of_nat take_bit_nat_eq_self)
  have "big_Uint64 size' > 0" using r by (simp add: word_less_nat_alt)
  moreover have "\<not> big_Uint64 offset + big_Uint64 size' > of_nat (length (store (mMemory m)))"
    using r(1,6,7) by (simp add: word_less_nat_alt r(3-5) l)
  ultimately show ?thesis
    using r by (intro exI[of _ "(mMemory m)\<lparr>store := copy_at (nat offset) (take (nat size') d) (store (mMemory m))\<rparr>"])
      (simp add: mem_Set_def Memory_Set_def length_copy_at)
qed


lemma small_unat: "small xs \<Longrightarrow> unat (of_nat (length xs) :: uint64) = length xs"
  by (simp add: small_def unat_of_nat take_bit_nat_eq_self)

lemma getDataBig_ok:
  assumes "env_ok X" "small data" "0 \<le> start" "0 \<le> size'"
  shows "\<exists>d. getDataBig (vLib X) data start size' = Inr d \<and> (size' < 2 ^ 64 \<longrightarrow> length d = nat size')"
proof -
  define s where "s = min start (int (length data))"
  define e where "e = min (s + size') (int (length data))"
  have L: "BigMin (vLib X) x y = min x y" "RightPadBytes (vLib X) bs n = bs @ replicate (n - length bs) 0" for x y bs n
    using assms(1) by (simp_all add: env_ok_def vm_lib_ok_def)
  have b: "0 \<le> s" "s \<le> e" "e \<le> int (length data)" "e - s \<le> size'" "int (length data) < 2 ^ 62"
    using assms(2-4) by (auto simp: s_def e_def small_def)
  then have u: "uint (big_Uint64 s) = s" "uint (big_Uint64 e) = e"
    by (simp_all add: big_Uint64_uint)
  have "getDataBig (vLib X) data start size' =
      Inr (take (nat (e - s)) (drop (nat s) data) @ replicate (unat (big_Uint64 size') - nat (e - s)) 0)"
    using b by (simp add: getDataBig_def L Let_def u slice_def flip: s_def e_def)
  moreover have "unat (big_Uint64 size') = nat size'" if "size' < 2 ^ 64"
    using that assms(4) by (simp add: big_Uint64_unat)
  moreover have "nat (e - s) \<le> nat size'" "nat (e - s) + nat s \<le> length data"
    using b by linarith+
  ultimately show ?thesis by simp
qed

lemma region_of:
  assumes "frame_ok m" "ready X (Some f) m" "f (vLib X) (mStack m) = Inr (calcMemSize a b)" "is_word a" "is_word b"
    "mMemory m' = mMemory m"
  shows "region a b m'"
  using assms by (auto simp: region_def frame_ok_def ready_def is_word_def)

lemma copy_data_ok:
  assumes "env_ok X" "small data" "mStack m = a # b # c # st" "words (mStack m)" "region a c m"
  shows "case copy_data (vLib X) data m of Inl p \<Rightarrow> False
         | Inr (res, err, m') \<Rightarrow> res = [] \<and> err = None \<and> (\<exists>mem. m' = m\<lparr>mStack := st, mMemory := mem\<rparr> \<and>
             length (store mem) = length (store (mMemory m)))"
proof -
  obtain d where d: "getDataBig (vLib X) data b c = Inr d"
    using getDataBig_ok[OF assms(1,2), of b c] assms(3,4) by (auto simp: is_word_def)
  have "region a c (m\<lparr>mStack := st\<rparr>)"
    using assms(5) by (simp add: region_def)
  from mem_Set_eq[OF this, of d vm_done] show ?thesis
    by (auto simp: copy_data_def assms(3) pop_def d vm_done_def)
qed

lemmas memory_sizes = memorySha3_def memoryCallDataCopy_def memoryReturnDataCopy_def memoryCodeCopy_def memoryExtCodeCopy_def
  memoryMLoad_def memoryMStore8_def memoryMStore_def memoryCreate_def memoryCreate2_def memoryReturn_def memoryRevert_def
  memoryLog_def mem_size_def mem_size_const_def Back_def

lemma copy_data_post:
  assumes "env_ok X" "mStack m' = a # b # c # st" "words (mStack m')" "region a c m'" "small data"
    "length (mStack m) = n + length st" "mContract m' = mContract m" "mMemory m' = mMemory m" "mEvm m' = mEvm m"
  shows "case copy_data (vLib X) data m' of Inl p \<Rightarrow> False
         | Inr (res, err, m'') \<Rightarrow> exec_post X w n 0 m res err m''"
  using copy_data_ok[OF assms(1,5,2,3,4)] assms by (auto simp: exec_post_def db_of_def split: sum.splits)

lemma plain_copy:
  assumes "env_ok X" "\<And>K m. ex X K m = copy_data (vLib X) (source m) m" "\<And>m. frame_ok m \<Longrightarrow> small (source m)"
    and "f (vLib X) = mem_size 0 2"
  shows "plain X w 3 0 (Some f) ex"
proof (rule plainI)
  fix K and m :: "'a machine"
  assume m: "frame_ok m" "words (mStack m)" "3 \<le> length (mStack m)" "ready X (Some f) m"
  then obtain a b c st where st: "mStack m = a # b # c # st" by (auto simp: stack_items)
  have "region a c m" using m st by (intro region_of[of m X f]) (simp_all add: memory_sizes assms(4))
  then show "case ex X K m of Inl p \<Rightarrow> False | Inr (res, err, m') \<Rightarrow> exec_post X w 3 0 m res err m'"
    using m st unfolding assms(2) by (intro copy_data_post[OF assms(1), of _ a b c st]) (simp_all add: assms(3))
qed

lemma plain_copies [plain_intros]:
  assumes "env_ok X"
  shows "plain X w 3 0 (Some memoryCallDataCopy) opCallDataCopy" "plain X w 3 0 (Some memoryCodeCopy) opCodeCopy"
    "plain X w 4 0 (Some memoryExtCodeCopy) opExtCodeCopy"
proof -
  show "plain X w 3 0 (Some memoryCallDataCopy) opCallDataCopy"
    by (rule plain_copy[OF assms]) (auto simp: opCallDataCopy_def memoryCallDataCopy_def frame_ok_def)
  show "plain X w 3 0 (Some memoryCodeCopy) opCodeCopy"
    by (rule plain_copy[OF assms]) (auto simp: opCodeCopy_def memoryCodeCopy_def frame_ok_def)
  show "plain X w 4 0 (Some memoryExtCodeCopy) opExtCodeCopy"
  proof (rule plainI)
    fix K and m :: "'a machine"
    assume m: "frame_ok m" "words (mStack m)" "4 \<le> length (mStack m)" "ready X (Some memoryExtCodeCopy) m"
    then obtain e a b c st where st: "mStack m = e # a # b # c # st" by (auto simp: stack_items)
    have "region a c (m\<lparr>mStack := a # b # c # st\<rparr>)"
      using m st by (intro region_of[of m X memoryExtCodeCopy]) (simp_all add: memory_sizes)
    then show "case opExtCodeCopy X K m of Inl p \<Rightarrow> False | Inr (res, err, m') \<Rightarrow> exec_post X w 4 0 m res err m'"
      using m st unfolding opExtCodeCopy_def
      by (simp add: pop_def) (intro copy_data_post[OF assms, of _ a b c st], simp_all add: env_words[OF assms])
  qed
qed

lemma plain_return_data_copy [plain_intros]:
  assumes "env_ok X"
  shows "plain X w 3 0 (Some memoryReturnDataCopy) opReturnDataCopy"
proof (rule plainI)
  fix K and m :: "'a machine"
  assume m: "frame_ok m" "words (mStack m)" "3 \<le> length (mStack m)" "ready X (Some memoryReturnDataCopy) m"
  then obtain a b c st where st: "mStack m = a # b # c # st" by (auto simp: stack_items)
  let ?m = "m\<lparr>mStack := st\<rparr>" and ?rd = "returnData (mEvm m)"
  have r: "region a c ?m" using m st by (intro region_of[of m X memoryReturnDataCopy]) (simp_all add: memory_sizes)
  have w: "0 \<le> b" "0 \<le> c" using m st by (simp_all add: is_word_def)
  show "case opReturnDataCopy X K m of Inl p \<Rightarrow> False | Inr (res, err, m') \<Rightarrow> exec_post X w 3 0 m res err m'"
  proof (cases "big_BitLen (b + c) > 64 \<or> of_nat (length ?rd) < big_Uint64 (b + c)")
    case True
    then show ?thesis
      using m st by (simp add: opReturnDataCopy_def pop_def Let_def vm_fail_def exec_post_def db_of_def)
  next
    case False
    then have l: "b + c < 2 ^ 64" using w by (simp add: big_BitLen_word not_less)
    then have u: "uint (big_Uint64 (b + c)) = b + c" "uint (big_Uint64 b) = b"
      using w by (simp_all add: big_Uint64_uint)
    have "small ?rd" using m by (simp add: frame_ok_def)
    moreover have "unat (big_Uint64 (b + c)) \<le> unat (of_nat (length ?rd) :: uint64)"
      using False by (simp add: word_le_nat_alt not_less)
    moreover have "unat (big_Uint64 (b + c)) = nat (b + c)" using u(1) by (metis nat_uint_eq)
    ultimately have "b + c \<le> int (length ?rd)" by (simp add: small_unat)
    with w obtain d where "slice b (b + c) ?rd = Inr d" by (simp add: slice_def)
    moreover obtain mem where "mem_Set a c d ?m vm_done = vm_done (?m\<lparr>mMemory := mem\<rparr>)"
      "length (store mem) = length (store (mMemory m))"
      using mem_Set_eq[OF r] by fastforce
    ultimately show ?thesis
      using m st False by (auto simp: opReturnDataCopy_def pop_def Let_def u vm_done_def exec_post_def db_of_def)
  qed
qed


lemma small_take: "small s \<Longrightarrow> small (take n (drop k s))"
  by (auto simp: small_def min_def)

lemma small_store: "frame_ok m \<Longrightarrow> small (store (mMemory m))"
  by (simp add: frame_ok_def small_def MaxMemory_def)

lemma region_const:
  assumes "frame_ok m" "ready X (Some f) m" "f (vLib X) = mem_size_const 0 l" "mStack m = a # st" "is_word a" "0 < l" "mMemory m' = mMemory m"
  shows "region a l m'"
  using assms by (auto simp: region_def frame_ok_def ready_def is_word_def mem_size_const_def Back_def)

lemma plain_reads [plain_intros]:
  assumes "env_ok X"
  shows "plain X w 2 1 (Some memorySha3) opSha3" "plain X w 2 0 (Some memoryReturn) opReturn"
    "plain X w 2 0 (Some memoryRevert) opRevert"
proof -
  have r: "region a b (m\<lparr>mStack := st\<rparr>)" if "frame_ok m" "ready X (Some f) m" "f (vLib X) = mem_size 0 1"
    "mStack m = a # b # st" for m :: "'a machine" and a b st f
    using that by (intro region_of[OF that(1,2)]) (simp_all add: memory_sizes frame_ok_def)
  show "plain X w 2 1 (Some memorySha3) opSha3"
    by (rule plainI) (auto simp: stack_items opSha3_def stack_ops on_db_def Let_def memorySha3_def mem_Get_eq[OF r])
  show "plain X w 2 0 (Some memoryReturn) opReturn"
    by (rule plainI) (auto simp: stack_items opReturn_def stack_ops memoryReturn_def mem_Get_eq[OF r] small_take small_store)
  show "plain X w 2 0 (Some memoryRevert) opRevert"
    by (rule plainI) (auto simp: stack_items opRevert_def stack_ops memoryRevert_def mem_Get_eq[OF r] small_take small_store)
qed

lemma plain_loads [plain_intros]:
  assumes "env_ok X"
  shows "plain X w 1 1 None opCallDataLoad" "plain X w 1 1 (Some memoryMLoad) opMload"
    "plain X w 1 1 None opSload"
proof -
  show "plain X w 1 1 None opCallDataLoad"
  proof (rule plainI)
    fix K and m :: "'a machine"
    assume m: "frame_ok m" "words (mStack m)" "1 \<le> length (mStack m)"
    then obtain a st where st: "mStack m = a # st" by (auto simp: stack_items)
    obtain d where "getDataBig (vLib X) (Input (mContract m)) a 32 = Inr d" "length d = 32"
      using getDataBig_ok[OF assms, of "Input (mContract m)" a 32] m st by (auto simp: frame_ok_def is_word_def)
    then show "case opCallDataLoad X K m of Inl p \<Rightarrow> False | Inr (res, err, m') \<Rightarrow> exec_post X w 1 1 m res err m'"
      using m st by (simp add: opCallDataLoad_def stack_ops is_word_big_SetBytes)
  qed
  have r: "region a 32 (m\<lparr>mStack := st\<rparr>)" if "frame_ok m" "ready X (Some memoryMLoad) m" "mStack m = a # st" for m :: "'a machine" and a st
    using that by (intro region_const[OF that(1,2)]) (simp_all add: memoryMLoad_def frame_ok_def)
  show "plain X w 1 1 (Some memoryMLoad) opMload"
    by (rule plainI) (auto simp: stack_items opMload_def stack_ops mem_Get_eq[OF r] is_word_big_SetBytes)
  show "plain X w 1 1 None opSload"
    by (rule plainI) (auto simp: stack_items opSload_def stack_ops)
qed

lemma plain_stores [plain_intros]:
  assumes "env_ok X"
  shows "plain X w 2 0 (Some memoryMStore) opMstore" "plain X w 2 0 (Some memoryMStore8) opMstore8"
proof -
  show "plain X w 2 0 (Some memoryMStore) opMstore"
  proof (rule plainI)
    fix K and m :: "'a machine"
    assume m: "frame_ok m" "words (mStack m)" "2 \<le> length (mStack m)" "ready X (Some memoryMStore) m"
    then obtain a v st where st: "mStack m = a # v # st" by (auto simp: stack_items)
    have "region a 32 m" using m st by (intro region_const[OF m(1,4)]) (simp_all add: memoryMStore_def)
    note r = region_words[OF this]
    have "unat (32 :: uint64) = 32" by simp
    then have "\<not> big_Uint64 a + 32 > of_nat (length (store (mMemory m)))" "unat (big_Uint64 a) \<le> unat (big_Uint64 a + 32)"
      using r by (simp_all add: word_less_nat_alt big_Uint64_def unat_of_nat take_bit_nat_eq_self)
    then show "case opMstore X K m of Inl p \<Rightarrow> False | Inr (res, err, m') \<Rightarrow> exec_post X w 2 0 m res err m'"
      using m st r by (simp add: opMstore_def stack_ops Memory_Set32_def length_copy_at)
  qed
  show "plain X w 2 0 (Some memoryMStore8) opMstore8"
  proof (rule plainI)
    fix K and m :: "'a machine"
    assume m: "frame_ok m" "words (mStack m)" "2 \<le> length (mStack m)" "ready X (Some memoryMStore8) m"
    then obtain a v st where st: "mStack m = a # v # st" by (auto simp: stack_items)
    have "region a 1 m" using m st by (intro region_const[OF m(1,4)]) (simp_all add: memoryMStore8_def)
    note r = region_words[OF this]
    have "big_Int64 a = a" using r by (intro big_Int64_small) simp_all
    then show "case opMstore8 X K m of Inl p \<Rightarrow> False | Inr (res, err, m') \<Rightarrow> exec_post X w 2 0 m res err m'"
      using m st r by (simp add: opMstore8_def stack_ops Let_def)
  qed
qed


section \<open>Control flow and stack\<close>

lemma destinations_has_returns: "\<exists>ok. destinations_has code dest = Inr ok"
proof -
  obtain bits where b: "codeBitmap code = Inr bits" "length bits = length code div 8 + 5"
    by (rule codeBitmap_starts)
  have "\<exists>ok. codeSegment u bits = Inr ok" if "u < length code" for u
  proof -
    have "u div 8 \<le> length code div 8" using that by (intro div_le_mono) simp
    then show ?thesis using b(2) by (simp add: codeSegment_def)
  qed
  then show ?thesis by (auto simp: destinations_has_def Let_def b(1))
qed

lemma jump_to_cases: "jump_to pos m = vm_fail (InvalidJump pos) m \<or> jump_to pos m = vm_done (m\<lparr>mPc := big_Uint64 pos\<rparr>)"
  using destinations_has_returns[of "Code (mContract m)" pos] by (auto simp: jump_to_def)

lemma plain_jumps [plain_intros]:
  shows "plain X w 1 0 None opJump" "plain X w 2 0 None opJumpi" "plain X w 0 0 None opJumpdest"
    "plain X w 1 0 None opPop"
proof -
  have j: "case jump_to pos m' of Inl p \<Rightarrow> False | Inr (res, err, m'') \<Rightarrow> exec_post X w n 0 m res err m''"
    if "words (mStack m')" "length (mStack m) = length (mStack m') + n" "mContract m' = mContract m" "mMemory m' = mMemory m"
      "mEvm m' = mEvm m" for pos n and m m' :: "'a machine"
    using jump_to_cases[of pos m'] that by (auto simp: vm_fail_def stack_ops)
  show "plain X w 1 0 None opJump"
    by (rule plainI) (auto simp: stack_items opJump_def pop_def intro!: j)
  show "plain X w 2 0 None opJumpi"
  proof (rule plainI)
    fix K and m :: "'a machine"
    assume m: "words (mStack m)" "2 \<le> length (mStack m)"
    then obtain a b st where st: "mStack m = a # b # st" by (auto simp: stack_items)
    show "case opJumpi X K m of Inl p \<Rightarrow> False | Inr (res, err, m') \<Rightarrow> exec_post X w 2 0 m res err m'"
    proof (cases "b = 0")
      case True
      then show ?thesis using m st by (simp add: opJumpi_def stack_ops)
    next
      case False
      then show ?thesis using m st by (simp add: opJumpi_def pop_def j)
    qed
  qed
  show "plain X w 0 0 None opJumpdest"
    by (rule plainI) (auto simp: opJumpdest_def stack_ops)
  show "plain X w 1 0 None opPop"
    by (rule plainI) (auto simp: stack_items opPop_def stack_ops)
qed

lemma plain_counters [plain_intros]:
  shows "plain X w 0 1 None opPc" "plain X w 0 1 None opMsize" "plain X w 0 1 None opGas"
proof -
  show "plain X w 0 1 None opPc"
    by (rule plainI) (auto simp: opPc_def stack_ops is_word_uint)
  show "plain X w 0 1 None opMsize"
    by (rule plainI) (auto simp: opMsize_def stack_ops is_word_small small_store)
  show "plain X w 0 1 None opGas"
    by (rule plainI) (auto simp: opGas_def stack_ops is_word_uint)
qed

lemma plain_push [plain_intros]:
  assumes "env_ok X" "n \<le> 32"
  shows "plain X w 0 1 None (makePush k n)"
proof (rule plainI)
  fix K and m :: "'a machine"
  assume m: "frame_ok m" "words (mStack m)" "in_code m"
  let ?c = "Code (mContract m)"
  have l: "unat (mPc m) < length ?c" "length ?c < 2 ^ 62" using m by (simp_all add: in_code_def frame_ok_def small_def)
  then have "unat (mPc m + 1) = unat (mPc m) + 1"
    by (subst unat_plus_simple[THEN iffD1]) (simp_all add: no_olen_add_nat)
  then have "uint (mPc m + 1) = int (unat (mPc m) + 1)" by (simp only: uint_nat)
  moreover have "int (unat (mPc m) + 1) < int (2 ^ 63)" using l by (intro of_nat_less_iff[THEN iffD2]) simp
  then have "int (unat (mPc m) + 1) < 2 ^ 63" by (simp only: of_nat_power of_nat_numeral)
  ultimately have s: "0 \<le> sint (mPc m + 1)" by (metis sint_small of_nat_0_le_iff)
  have L: "RightPadBytes (vLib X) bs j = bs @ replicate (j - length bs) 0" for bs j
    using assms(1) by (simp add: env_ok_def vm_lib_ok_def)
  define a where "a = (if sint (mPc m + 1) < int (length ?c) then sint (mPc m + 1) else int (length ?c))"
  define e where "e = (if a + int n < int (length ?c) then a + int n else int (length ?c))"
  have "0 \<le> a" "a \<le> e" "e \<le> int (length ?c)" "e - a \<le> int n" using s by (simp_all add: a_def e_def)
  then have "slice a e ?c = Inr (take (nat (e - a)) (drop (nat a) ?c))" "nat (e - a) \<le> n" by (simp_all add: slice_def)
  moreover have "makePush k n X K m = go_bind (slice a e ?c) (\<lambda>d.
      vm_done ((push (big_SetBytes (RightPadBytes (vLib X) d n)) m)\<lparr>mPc := mPc m + of_nat k\<rparr>))"
    unfolding makePush_def Let_def a_def e_def by (rule refl)
  ultimately show "case makePush k n X K m of Inl p \<Rightarrow> False | Inr (res, err, m') \<Rightarrow> exec_post X w 0 1 m res err m'"
    using m(2) assms(2)
    by (simp add: L stack_ops is_word_big_SetBytes min_def)
qed

lemma plain_dup [plain_intros]:
  assumes "1 \<le> n"
  shows "plain X w n (n + 1) None (makeDup n)"
  by (rule plainI) (use assms in \<open>auto simp: makeDup_def stack_dup_def stack_ops words_nth\<close>)

lemma plain_swap [plain_intros]: "plain X w (n + 1) (n + 1) None (makeSwap n)"
proof (rule plainI)
  fix K and m :: "'a machine"
  assume m: "words (mStack m)" "n + 1 \<le> length (mStack m)"
  have "words (xs[i := v])" if "words xs" "is_word v" for xs i v
    using that set_update_subset_insert[of xs i v] by (auto simp: words_def)
  moreover have "is_word (mStack m ! 0)" "is_word (mStack m ! n)"
    using m by (auto intro: words_nth)
  ultimately have "words ((mStack m)[n := mStack m ! 0, 0 := mStack m ! n])"
    using m(1) by blast
  then show "case makeSwap n X K m of Inl p \<Rightarrow> False | Inr (res, err, m') \<Rightarrow> exec_post X w (n + 1) (n + 1) m res err m'"
    using m by (simp add: makeSwap_def stack_swap_def stack_ops Let_def)
qed

section \<open>State changes\<close>

lemma pop_topics_eq:
  "n \<le> length (mStack m) \<Longrightarrow>
   pop_topics L n m k = k (map (BigToHash L) (take n (mStack m))) (m\<lparr>mStack := drop n (mStack m)\<rparr>)"
proof (induction n arbitrary: m k)
  case (Suc n)
  then obtain a st where "mStack m = a # st" by (auto simp: Suc_le_length_iff)
  then show ?case using Suc by (simp add: pop_def)
qed simp

lemma plain_log [plain_intros]: "plain X True (n + 2) 0 (Some memoryLog) (makeLog n)"
proof (rule plainI)
  fix K and m :: "'a machine"
  assume m: "frame_ok m" "words (mStack m)" "n + 2 \<le> length (mStack m)" "ready X (Some memoryLog) m"
  then obtain a b st where st: "mStack m = a # b # st" "n \<le> length st" by (auto simp: Suc_le_length_iff eval_nat_numeral)
  have "region a b (m\<lparr>mStack := drop n st\<rparr>)"
    using m st by (intro region_of[OF m(1,4)]) (simp_all add: memory_sizes)
  note g = mem_Get_eq[OF this]
  show "case makeLog n X K m of Inl p \<Rightarrow> False | Inr (res, err, m') \<Rightarrow> exec_post X True (n + 2) 0 m res err m'"
    using m st by (simp add: makeLog_def pop_topics_eq g stack_ops on_db_def words_drop)
qed

lemma plain_writes [plain_intros]:
  assumes "hook_ok X"
  shows "plain X True 2 0 None opSstore" "plain X True 1 0 None opSuicide"
proof -
  show "plain X True 2 0 None opSstore"
    by (rule plainI) (auto simp: stack_items opSstore_def stack_ops on_db_def)
  have "keeps_mode (OnSuicideContract (vCtx X))"
    using assms by (simp add: hook_ok_def)
  then show "plain X True 1 0 None opSuicide"
    by (cases "OnSuicideContract (vCtx X)")
      (rule plainI; simp add: stack_items opSuicide_def Let_def; elim exE; simp add: stack_ops on_db_def keeps_mode_def)+
qed

end
