(* ===== verification/Vm_Pricing.thy ===== *)
theory Vm_Pricing
  imports Vm_Typing
begin

text \<open>
  What the gas functions do on a well-typed frame: they do not panic, keep stack, contract and memory contents, charge at least a
  minimum, and refuse a memory beyond \<open>MaxMemory\<close> bytes.  A call is charged its base price and the gas it
  passes on.
\<close>

definition gas_wp :: "(vm_error + uint64 \<Rightarrow> 's machine \<Rightarrow> bool) \<Rightarrow> 's gas_result \<Rightarrow> bool" where
  "gas_wp P r = (case r of Inl p \<Rightarrow> False | Inr (price, m) \<Rightarrow> P price m)"

lemma gas_wp_simps [simp]: "gas_wp P (gas_ok g m) = P (Inr g) m" "gas_wp P (gas_err e m) = P (Inl e) m"
  by (simp_all add: gas_wp_def gas_ok_def gas_err_def)

lemma unat_add_small: "uint (x :: uint64) + uint y < 2 ^ 64 \<Longrightarrow> unat (x + y) = unat x + unat y"
  by (rule unat_plus_simple[THEN iffD1]) (simp add: no_olen_add)

lemma memoryGasCost_cases:
  assumes "memoryGasCost mem r = (p, mem')"
  shows "store mem' = store mem" "p = Inr g \<Longrightarrow> unat r \<le> MaxMemory"
  using assms by (auto simp: memoryGasCost_def Let_def MaxMemory_def word_less_nat_alt split: if_splits)

lemma gas_wp_memory:
  assumes "\<And>e. P (Inl e) m"
    and "\<And>g mem. store mem = store (mMemory m) \<Longrightarrow> unat r \<le> MaxMemory \<Longrightarrow> gas_wp P (k g (m\<lparr>mMemory := mem\<rparr>))"
  shows "gas_wp P (with_memory m r k)"
proof -
  obtain p mem where e: "memoryGasCost (mMemory m) r = (p, mem)" by (cases "memoryGasCost (mMemory m) r")
  note c = memoryGasCost_cases[OF e]
  show ?thesis
  proof (cases p)
    case (Inl a)
    then show ?thesis using assms(1) by (simp add: with_memory_def e)
  next
    case (Inr g)
    then show ?thesis using assms(2)[OF c(1) c(2)[OF Inr]] by (simp add: with_memory_def e)
  qed
qed

lemma gas_wp_add:
  assumes "env_ok X" "P (Inl errGasUintOverflow) m"
    and "unat (x + y) = unat x + unat y \<Longrightarrow> gas_wp P (k (x + y))"
  shows "gas_wp P (gas_add (vLib X) m x y k)"
proof -
  have "SafeAdd (vLib X) x y = (x + y, 2 ^ 64 \<le> uint x + uint y)"
    using assms(1) by (simp add: env_ok_def vm_lib_ok_def)
  then show ?thesis using assms(2,3) unat_add_small[of x y] by (simp add: gas_add_def)
qed

lemma gas_wp_mul:
  assumes "env_ok X" "P (Inl errGasUintOverflow) m" "gas_wp P (k (x * y))"
  shows "gas_wp P (gas_mul (vLib X) m x y k)"
proof -
  have "SafeMul (vLib X) x y = (x * y, 2 ^ 64 \<le> uint x * uint y)"
    using assms(1) by (simp add: env_ok_def vm_lib_ok_def)
  then show ?thesis using assms(2,3) by (simp add: gas_mul_def)
qed

lemma gas_wp_back:
  assumes "n < length (mStack m)" "gas_wp P (k (mStack m ! n))"
  shows "gas_wp P (gas_back n m k)"
  using assms by (simp add: gas_back_def Back_def)

lemma gas_wp_uint64:
  assumes "n < length (mStack m)" "P (Inl errGasUintOverflow) m" "\<And>w. gas_wp P (k w)"
  shows "gas_wp P (gas_uint64 n m k)"
  unfolding gas_uint64_def by (rule gas_wp_back) (use assms in \<open>auto simp: bigUint64_def\<close>)

lemmas gas_wps = gas_wp_memory gas_wp_add gas_wp_mul gas_wp_back gas_wp_uint64

section \<open>Prices\<close>

definition gas_post ::
  "bool \<Rightarrow> nat \<Rightarrow> bool \<Rightarrow> 's machine \<Rightarrow> uint64 \<Rightarrow> vm_error + uint64 \<Rightarrow> 's machine \<Rightarrow> bool" where
  "gas_post writes low mem m r price m' \<longleftrightarrow>
     mStack m' = mStack m \<and> mContract m' = mContract m \<and> mPc m' = mPc m \<and> store (mMemory m') = store (mMemory m) \<and>
     same_mode (mEvm m) (mEvm m') \<and> returnData (mEvm m') = returnData (mEvm m) \<and> (\<not> writes \<longrightarrow> db_of m' = db_of m) \<and>
     (\<forall>c. price = Inr c \<longrightarrow> low \<le> unat c \<and> (mem \<longrightarrow> unat r \<le> MaxMemory))"

definition priced :: "'s vm_env \<Rightarrow> bool \<Rightarrow> nat \<Rightarrow> bool \<Rightarrow> nat \<Rightarrow> 's gasFunc \<Rightarrow> bool" where
  "priced X writes low mem n gf \<longleftrightarrow>
     (\<forall>m r. n \<le> length (mStack m) \<longrightarrow> gas_wp (gas_post writes low mem m r) (gf X m r))"

named_theorems priced_intros

lemma gas_table_prices:
  "20 \<le> unat (gtExtcodeSize (vGasTable X))" "20 \<le> unat (gtExtcodeCopy (vGasTable X))" "20 \<le> unat (gtBalance (vGasTable X))"
  "50 \<le> unat (gtSLoad (vGasTable X))" "40 \<le> unat (gtCalls (vGasTable X))" "unat (gtCalls (vGasTable X)) \<le> 700"
  "unat (gtExpByte (vGasTable X)) \<le> 50"
  by (simp_all add: vGasTable_def cfg_GasTable_def GasTableConstantinople_def GasTableEIP158_def GasTableEIP150_def
      GasTableHomestead_def)

lemma extcodehash_price: "chain_at ConstantinopleBlock X \<Longrightarrow> 400 \<le> unat (gtExtcodeHash (vGasTable X))"
  by (simp add: vGasTable_def cfg_GasTable_def chain_at_def GasTableConstantinople_def)

lemma priced_const [priced_intros]: "low \<le> unat g \<Longrightarrow> priced X w low False n (constGasFunc g)"
  by (simp add: priced_def constGasFunc_def gas_post_def)

lemma priced_word:
  assumes "env_ok X" "n < k" "low \<le> unat base"
  shows "priced X w low True k (word_gas base n per)"
  unfolding priced_def word_gas_def
  by (intro allI impI gas_wps assms(1)) (use assms(2,3) in \<open>auto simp: gas_post_def db_of_def\<close>)

lemma priced_memory:
  assumes "env_ok X" "low \<le> unat base"
  shows "priced X w low True k (memory_gas base)"
  unfolding priced_def memory_gas_def
  by (intro allI impI gas_wps assms(1)) (use assms(2) in \<open>auto simp: gas_post_def db_of_def\<close>)


lemma priced_words [priced_intros]:
  assumes "env_ok X"
  shows "priced X w 1 True 3 gasCallDataCopy" "priced X w 1 True 3 gasReturnDataCopy" "priced X w 1 True 3 gasCodeCopy"
    "priced X w 1 True 2 gasSha3" "priced X w 1 True 4 gasCreate2" "priced X w 1 True 4 gasExtCodeCopy"
proof -
  show "priced X w 1 True 4 gasExtCodeCopy"
    using priced_word[OF assms, of 3 4 1 "gtExtcodeCopy (vGasTable X)" w CopyGas] gas_table_prices(2)[of X]
    by (simp add: priced_def gasExtCodeCopy_def)
qed (simp_all add: priced_word[OF assms] gasCallDataCopy_def gasReturnDataCopy_def gasCodeCopy_def gasSha3_def gasCreate2_def
  gas_prices)

lemma priced_memories [priced_intros]:
  assumes "env_ok X"
  shows "priced X w 1 True n gasMLoad" "priced X w 1 True n gasMStore8" "priced X w 1 True n gasMStore"
    "priced X w 1 True n gasCreate" "priced X w 0 True n gasReturn" "priced X w 0 True n gasRevert"
proof -
  show "priced X w 0 True n gasReturn" "priced X w 0 True n gasRevert"
    unfolding priced_def gasReturn_def gasRevert_def
    by (intro allI impI gas_wps; auto simp: gas_post_def db_of_def)+
qed (simp_all add: priced_memory[OF assms] gasMLoad_def gasMStore8_def gasMStore_def gasCreate_def gas_prices)

lemma priced_table [priced_intros]:
  shows "priced X w 1 False n gasBalance" "priced X w 1 False n gasExtCodeSize" "priced X w 1 False n gasSLoad"
    "priced X w 1 False n gasPush" "priced X w 1 False n gasSwap" "priced X w 1 False n gasDup"
    "chain_at ConstantinopleBlock X \<Longrightarrow> priced X w 1 False n gasExtCodeHash"
  using gas_table_prices[of X] extcodehash_price[of X]
  by (simp_all add: priced_def gasBalance_def gasExtCodeSize_def gasSLoad_def gasPush_def gasSwap_def gasDup_def
      gasExtCodeHash_def gas_post_def gas_prices)

lemma priced_sstore [priced_intros]: "priced X True 1 False 2 gasSStore"
  unfolding priced_def gasSStore_def Let_def
  by (intro allI impI gas_wps) (auto simp: gas_post_def on_db_def gas_prices)

lemma priced_log [priced_intros]:
  assumes "env_ok X"
  shows "priced X True 1 True (n + 2) (makeGasLog n)"
  unfolding priced_def makeGasLog_def
  by (intro allI impI gas_wps assms) (auto simp: gas_post_def vm_LogGas_def db_of_def)

lemma priced_exp [priced_intros]:
  assumes "env_ok X"
  shows "priced X w 1 False 2 gasExp"
  unfolding priced_def gasExp_def Let_def
  by (intro allI impI gas_wps assms) (auto simp: gas_post_def gas_prices)

lemma priced_init_code [priced_intros]:
  assumes "env_ok X"
  shows "priced X w 0 True 3 gasCreateEip3860" "priced X w 0 True 4 gasCreate2Eip3860"
proof -
  have "priced X w 0 True n (init_code_gas per)" if "3 \<le> n" for n per
    unfolding priced_def init_code_gas_def
    by (intro allI impI gas_wp_memory gas_wp_back)
      (use that assms in \<open>auto simp: gas_post_def db_of_def bigUint64_def intro!: gas_wp_add\<close>)
  then show "priced X w 0 True 3 gasCreateEip3860" "priced X w 0 True 4 gasCreate2Eip3860"
    by (simp_all add: gasCreateEip3860_def gasCreate2Eip3860_def)
qed

lemma gas_wp_suicide:
  assumes "Suc 0 \<le> length (mStack m)" "\<And>g. gas_wp P (k g)"
  shows "gas_wp P (suicide_gas X m k)"
proof (cases "chain_at EIP150Block X")
  case True
  have "gas_wp P (gas_back 0 m k')" if "\<And>v. gas_wp P (k' v)" for k'
    using assms(1) that by (intro gas_wp_back) auto
  then show ?thesis using True assms(2) by (simp add: suicide_gas_def Let_def)
next
  case False
  then show ?thesis using assms(2) by (simp add: suicide_gas_def)
qed

lemma priced_suicide [priced_intros]:
  "priced X True 0 False 1 gasSuicide" "priced X True 0 False 1 gasSuicideEIP3529"
  unfolding priced_def gasSuicide_def gasSuicideEIP3529_def
  by (intro allI impI gas_wp_suicide; auto simp: gas_post_def on_db_def)+


section \<open>Calls\<close>

definition call_post :: "int \<Rightarrow> 's machine \<Rightarrow> uint64 \<Rightarrow> vm_error + uint64 \<Rightarrow> 's machine \<Rightarrow> bool" where
  "call_post value m r price m' \<longleftrightarrow>
     gas_post False 1 True m r price m' \<and>
     (\<forall>c. price = Inr c \<longrightarrow> unat (callGasTemp (mEvm m')) + (if value \<noteq> 0 then 9000 else 40) \<le> unat c)"

definition call_priced :: "'s vm_env \<Rightarrow> (int list \<Rightarrow> int) \<Rightarrow> nat \<Rightarrow> 's gasFunc \<Rightarrow> bool" where
  "call_priced X val n gf \<longleftrightarrow>
     (\<forall>m r. n \<le> length (mStack m) \<longrightarrow> gas_wp (call_post (val (mStack m)) m r) (gf X m r))"

lemma gas_wp_charge:
  assumes "env_ok X" "0 < length (mStack m)"
    and "\<And>e temp. P (Inl e) m \<and> P (Inl e) (m\<lparr>mEvm := (mEvm m)\<lparr>callGasTemp := temp\<rparr>\<rparr>)"
    and "\<And>temp. unat (gas + temp) = unat gas + unat temp \<Longrightarrow>
           P (Inr (gas + temp)) (m\<lparr>mEvm := (mEvm m)\<lparr>callGasTemp := temp\<rparr>\<rparr>)"
  shows "gas_wp P (charge_call X gas m)"
  unfolding charge_call_def Let_def
proof (rule gas_wp_back[OF assms(2)])
  let ?r = "callGas (vGasTable X) (Gas (mContract m)) gas (mStack m ! 0)"
  show "gas_wp P (case ?r of Inl e \<Rightarrow> gas_err e m
      | Inr temp \<Rightarrow> gas_add (vLib X) (m\<lparr>mEvm := mEvm m\<lparr>callGasTemp := temp\<rparr>\<rparr>) gas temp
          (\<lambda>gas. gas_ok gas (m\<lparr>mEvm := mEvm m\<lparr>callGasTemp := temp\<rparr>\<rparr>)))"
  proof (cases ?r)
    case (Inl e)
    then show ?thesis using assms(3) by simp
  next
    case (Inr temp)
    have "gas_wp P (gas_add (vLib X) (m\<lparr>mEvm := mEvm m\<lparr>callGasTemp := temp\<rparr>\<rparr>) gas temp
          (\<lambda>gas. gas_ok gas (m\<lparr>mEvm := mEvm m\<lparr>callGasTemp := temp\<rparr>\<rparr>)))"
      by (rule gas_wp_add[OF assms(1)]) (simp_all add: assms(3,4))
    then show ?thesis by (simp add: Inr)
  qed
qed

lemma gas_wp_call:
  assumes "env_ok X" "0 < length (mStack m)" "(if value \<noteq> 0 then 9000 else 40) \<le> unat base"
  shows "gas_wp (call_post value m r)
      (with_memory m r (\<lambda>memoryGas m. gas_add (vLib X) m base memoryGas (\<lambda>gas. charge_call X gas m)))"
    and "gas_wp (call_post value m r)
      (with_memory m r (\<lambda>memoryGas m. gas_add (vLib X) m memoryGas base (\<lambda>gas. charge_call X gas m)))"
proof -
  have low: "1 \<le> unat base" using assms(3) by (auto split: if_splits)
  show "gas_wp (call_post value m r)
      (with_memory m r (\<lambda>memoryGas m. gas_add (vLib X) m base memoryGas (\<lambda>gas. charge_call X gas m)))"
    "gas_wp (call_post value m r)
      (with_memory m r (\<lambda>memoryGas m. gas_add (vLib X) m memoryGas base (\<lambda>gas. charge_call X gas m)))"
    by (intro gas_wp_memory gas_wp_add[OF assms(1)] gas_wp_charge[OF assms(1)];
        use assms(2,3) low in \<open>auto simp: call_post_def gas_post_def same_mode_def db_of_def\<close>)+
qed

lemma unat_sum_prices:
  assumes "unat (g :: uint64) \<le> 700"
  shows "unat (g + CallValueTransferGas) = unat g + 9000" "unat (g + CallNewAccountGas) = unat g + 25000"
    "unat (g + CallNewAccountGas + CallValueTransferGas) = unat g + 34000"
proof -
  have a: "unat (x + y) = unat x + unat y" if "unat x + unat y < 2 ^ 64" for x y :: uint64
    using that by (intro unat_plus_simple[THEN iffD1]) (simp add: no_olen_add_nat)
  show "unat (g + CallValueTransferGas) = unat g + 9000"
    using a[of g CallValueTransferGas] assms by (simp add: gas_prices)
  show n: "unat (g + CallNewAccountGas) = unat g + 25000"
    using a[of g CallNewAccountGas] assms by (simp add: gas_prices)
  show "unat (g + CallNewAccountGas + CallValueTransferGas) = unat g + 34000"
    using a[of "g + CallNewAccountGas" CallValueTransferGas] assms n by (simp add: CallValueTransferGas_def)
qed

lemma call_prices:
  assumes "env_ok X"
  shows "call_priced X (\<lambda>st. st ! 2) 7 gasCall" "call_priced X (\<lambda>st. st ! 2) 7 gasCallCode"
    "call_priced X (\<lambda>st. 0) 6 gasDelegateCall" "call_priced X (\<lambda>st. 0) 6 gasStaticCall"
proof -
  note p = gas_table_prices(5,6)[of X] unat_sum_prices[OF gas_table_prices(6)[of X]]
  show "call_priced X (\<lambda>st. st ! 2) 7 gasCall"
    unfolding call_priced_def gasCall_def Let_def
    by (intro allI impI gas_wp_back gas_wp_call(1)[OF assms]) (use p in auto)
  show "call_priced X (\<lambda>st. st ! 2) 7 gasCallCode"
    unfolding call_priced_def gasCallCode_def Let_def
    by (intro allI impI gas_wp_back gas_wp_call(1)[OF assms]) (use p in auto)
  show "call_priced X (\<lambda>st. 0) 6 gasDelegateCall" "call_priced X (\<lambda>st. 0) 6 gasStaticCall"
    unfolding call_priced_def gasDelegateCall_def gasStaticCall_def
    by (intro allI impI gas_wp_call(2)[OF assms]; use p in auto)+
qed

end
