(* ===== verification/Vm_Stepping.thy ===== *)
theory Vm_Stepping
  imports Vm_Pricing
begin

text \<open>
  One pass through the interpreter loop on a well-typed frame.  The statements have three parameters.  \<open>B\<close> asks in addition that the gas
  falls and that nothing runs out of fuel; without it a call may.  \<open>S\<close> is a relation between states that the
  operations permitted in a static call respect.  \<open>N\<close> bounds the gas for which the calls into the machine are known to
  be well behaved.
\<close>

fun go_ok :: "bool \<Rightarrow> ('a \<Rightarrow> bool) \<Rightarrow> 'a go \<Rightarrow> bool" where
  "go_ok B P (Inl p) = (\<not> B \<and> p = NoReturn)"
| "go_ok B P (Inr x) = P x"

lemma go_ok_bind [simp]: "go_ok B P (go_bind r f) = go_ok B (\<lambda>x. go_ok B P (f x)) r"
  by (cases r) simp_all

lemma go_ok_mono: "go_ok B P r \<Longrightarrow> (\<And>x. P x \<Longrightarrow> Q x) \<Longrightarrow> go_ok B Q r"
  by (cases r) simp_all

text \<open>A static context: no instruction may write.\<close>

definition static :: "'s vm_env \<Rightarrow> 's EVM \<Rightarrow> bool" where
  "static X evm \<longleftrightarrow> chain_at ByzantiumBlock X \<and> readOnly evm"

lemma static_same: "same_mode a b \<Longrightarrow> static X b = static X a"
  by (simp add: static_def same_mode_def)

definition static_ok :: "'s vm_env \<Rightarrow> ('s \<Rightarrow> 's \<Rightarrow> bool) \<Rightarrow> bool" where
  "static_ok X S \<longleftrightarrow>
     (\<forall>s. S s s) \<and> (\<forall>s t u. S s t \<longrightarrow> S t u \<longrightarrow> S s u) \<and>
     (\<forall>h d s. S s (dbAddPreimage (vDB X) h d s)) \<and>
     (\<forall>a s. S s (dbCreateAccount (vDB X) a s)) \<and>
     (\<forall>a b tok s. S s (Transfer (vCtx X) a b 0 tok s)) \<and>
     (\<forall>s. S s (snd (dbSnapshot (vDB X) s))) \<and>
     (\<forall>s t. S (snd (dbSnapshot (vDB X) s)) t \<longrightarrow> S s (dbRevertToSnapshot (vDB X) (fst (dbSnapshot (vDB X) s)) t)) \<and>
     (\<forall>hook evm c. InterceptContractCall (vCtx X) = Some hook \<longrightarrow> S (stateDB evm) (stateDB (snd (snd (hook evm c True)))))"

text \<open>When a hook handles a call, it leaves at most the gas it was given.\<close>

definition hook_keeps_gas :: "'s vm_env \<Rightarrow> bool" where
  "hook_keeps_gas X \<longleftrightarrow>
     (\<forall>hook evm c ro. InterceptContractCall (vCtx X) = Some hook \<longrightarrow> Gas (fst (snd (hook evm c ro))) \<le> Gas c)"

definition ctx_ok :: "bool \<Rightarrow> ('s \<Rightarrow> 's \<Rightarrow> bool) \<Rightarrow> 's vm_env \<Rightarrow> bool" where
  "ctx_ok B S X \<longleftrightarrow> env_ok X \<and> hook_ok X \<and> static_ok X S \<and> (B \<longrightarrow> hook_keeps_gas X)"

lemma ctx_okD: assumes "ctx_ok B S X" shows "env_ok X" "hook_ok X" "static_ok X S" "B \<Longrightarrow> hook_keeps_gas X"
  using assms by (simp_all add: ctx_ok_def)

lemma static_okD:
  assumes "static_ok X S"
  shows "S s s" "S s t \<Longrightarrow> S t u \<Longrightarrow> S s u" "S s (dbAddPreimage (vDB X) h d s)" "S s (dbCreateAccount (vDB X) a s)"
    "S s (Transfer (vCtx X) a b 0 tok s)" "S s (snd (dbSnapshot (vDB X) s))"
    "S (snd (dbSnapshot (vDB X) s)) t \<Longrightarrow> S s (dbRevertToSnapshot (vDB X) (fst (dbSnapshot (vDB X) s)) t)"
    "InterceptContractCall (vCtx X) = Some hook \<Longrightarrow> S (stateDB evm) (stateDB (snd (snd (hook evm c True))))"
  using assms unfolding static_ok_def by blast+

lemma static_ok_silent: "static_ok X S \<Longrightarrow> silent X s t \<Longrightarrow> S s t"
  by (auto simp: silent_def dest: static_okD(1,3))

section \<open>Outcomes\<close>

definition returned :: "bool \<Rightarrow> ('s \<Rightarrow> 's \<Rightarrow> bool) \<Rightarrow> 's vm_env \<Rightarrow> uint64 \<Rightarrow> 's EVM \<Rightarrow> bytes \<Rightarrow> uint64 \<Rightarrow> 's EVM \<Rightarrow> bool" where
  "returned B S X gas evm ret left evm' \<longleftrightarrow>
     small ret \<and> small (returnData evm') \<and> same_mode evm evm' \<and> (B \<longrightarrow> unat left \<le> unat gas) \<and>
     (static X evm \<longrightarrow> S (stateDB evm) (stateDB evm'))"

definition contract_ref :: "ContractRef \<Rightarrow> bool" where
  "contract_ref r \<longleftrightarrow> (\<exists>a c v. r = ContractOf a c (Some v) \<and> is_word v)"

definition call_pre :: "bool \<Rightarrow> nat \<Rightarrow> bytes \<Rightarrow> uint64 \<Rightarrow> 's EVM \<Rightarrow> bool" where
  "call_pre B N input gas evm \<longleftrightarrow> small input \<and> small (returnData evm) \<and> (B \<longrightarrow> 2 * unat gas < N)"

definition calls_ok :: "bool \<Rightarrow> ('s \<Rightarrow> 's \<Rightarrow> bool) \<Rightarrow> nat \<Rightarrow> 's vm_env \<Rightarrow> 's subcalls \<Rightarrow> bool" where
  "calls_ok B S N X K \<longleftrightarrow>
     (\<forall>ref addr input gas value tok evm. call_pre B N input gas evm \<and> is_word value \<and> (static X evm \<longrightarrow> value = 0) \<longrightarrow>
        go_ok B (\<lambda>(ret, left, err, evm'). returned B S X gas evm ret left evm') (sCall K ref addr input gas value tok evm)) \<and>
     (\<forall>ref addr input gas value tok evm. call_pre B N input gas evm \<and> is_word value \<longrightarrow>
        go_ok B (\<lambda>(ret, left, err, evm'). returned B S X gas evm ret left evm') (sCallCode K ref addr input gas value tok evm)) \<and>
     (\<forall>ref addr input gas evm. call_pre B N input gas evm \<and> contract_ref ref \<longrightarrow>
        go_ok B (\<lambda>(ret, left, err, evm'). returned B S X gas evm ret left evm') (sDelegateCall K ref addr input gas evm)) \<and>
     (\<forall>ref addr input gas evm. call_pre B N input gas evm \<longrightarrow>
        go_ok B (\<lambda>(ret, left, err, evm'). returned B S X gas evm ret left evm') (sStaticCall K ref addr input gas evm)) \<and>
     (\<forall>ref input gas value tok evm. call_pre B N input gas evm \<and> is_word value \<and> \<not> static X evm \<longrightarrow>
        go_ok B (\<lambda>(ret, addr, left, err, evm'). returned B S X gas evm ret left evm') (sCreate K ref input gas value tok evm)) \<and>
     (\<forall>ref input gas value tok salt evm. call_pre B N input gas evm \<and> is_word value \<and> \<not> static X evm \<longrightarrow>
        go_ok B (\<lambda>(ret, addr, left, err, evm'). returned B S X gas evm ret left evm') (sCreate2 K ref input gas value tok salt evm))"

lemma calls_okD:
  assumes "calls_ok B S N X K" "call_pre B N input gas evm"
  shows "is_word value \<Longrightarrow> (static X evm \<Longrightarrow> value = 0) \<Longrightarrow>
      go_ok B (\<lambda>(ret, left, err, evm'). returned B S X gas evm ret left evm') (sCall K ref addr input gas value tok evm)"
    "is_word value \<Longrightarrow>
      go_ok B (\<lambda>(ret, left, err, evm'). returned B S X gas evm ret left evm') (sCallCode K ref addr input gas value tok evm)"
    "contract_ref ref \<Longrightarrow>
      go_ok B (\<lambda>(ret, left, err, evm'). returned B S X gas evm ret left evm') (sDelegateCall K ref addr input gas evm)"
    "go_ok B (\<lambda>(ret, left, err, evm'). returned B S X gas evm ret left evm') (sStaticCall K ref addr input gas evm)"
    "is_word value \<Longrightarrow> \<not> static X evm \<Longrightarrow>
      go_ok B (\<lambda>(ret, addr, left, err, evm'). returned B S X gas evm ret left evm') (sCreate K ref input gas value tok evm)"
    "is_word value \<Longrightarrow> \<not> static X evm \<Longrightarrow>
      go_ok B (\<lambda>(ret, addr, left, err, evm'). returned B S X gas evm ret left evm') (sCreate2 K ref input gas value tok salt evm)"
  using assms by (simp_all add: calls_ok_def)

text \<open>What decreases in a run.\<close>

definition load :: "'s machine \<Rightarrow> nat" where
  "load m = 2 * unat (Gas (mContract m)) + length (mStack m)"

fun step_post :: "bool \<Rightarrow> ('s \<Rightarrow> 's \<Rightarrow> bool) \<Rightarrow> 's vm_env \<Rightarrow> 's machine \<Rightarrow> 's step_result \<Rightarrow> bool" where
  "step_post B S X m (Continue m') \<longleftrightarrow>
     frame_ok m' \<and> same_mode (mEvm m) (mEvm m') \<and> (B \<longrightarrow> load m' < load m \<and> Gas (mContract m') \<le> Gas (mContract m)) \<and>
     (static X (mEvm m) \<longrightarrow> S (db_of m) (db_of m'))"
| "step_post B S X m (Finish ret err m') \<longleftrightarrow>
     small ret \<and> small (returnData (mEvm m')) \<and> same_mode (mEvm m) (mEvm m') \<and>
     (B \<longrightarrow> Gas (mContract m') \<le> Gas (mContract m)) \<and> (static X (mEvm m) \<longrightarrow> S (db_of m) (db_of m'))"


section \<open>Performing an operation\<close>

definition exec_fine :: "bool \<Rightarrow> ('s \<Rightarrow> 's \<Rightarrow> bool) \<Rightarrow> 's vm_env \<Rightarrow> 's operation \<Rightarrow> 's machine \<Rightarrow> 's machine \<Rightarrow>
    bytes \<times> vm_error option \<times> 's machine \<Rightarrow> bool" where
  "exec_fine B S X oper m m1 = (\<lambda>(res, err, m2).
     small res \<and> words (mStack m2) \<and> small (returnData (mEvm m2)) \<and> same_mode (mEvm m1) (mEvm m2) \<and>
     (\<exists>g. mContract m2 = (mContract m1)\<lparr>Gas := g\<rparr>) \<and>
     length (store (mMemory m2)) = length (store (mMemory m1)) \<and> (static X (mEvm m1) \<longrightarrow> S (db_of m1) (db_of m2)) \<and>
     (B \<longrightarrow> Gas (mContract m2) \<le> Gas (mContract m)) \<and>
     (err = None \<longrightarrow> length (mStack m2) \<le> StackLimit) \<and>
     (err = None \<and> B \<and> \<not> op_halts oper \<and> \<not> op_reverts oper \<longrightarrow> load m2 < load m))"

text \<open>The memory size of an operation is defined on a stack with enough items.\<close>

definition sized :: "'s vm_env \<Rightarrow> nat \<Rightarrow> (vm_lib \<Rightarrow> int list \<Rightarrow> int go) option \<Rightarrow> bool" where
  "sized X n f \<longleftrightarrow> (\<forall>size' st. f = Some size' \<longrightarrow> n \<le> length st \<longrightarrow> words st \<longrightarrow> (\<exists>v \<ge> 0. size' (vLib X) st = Inr v))"

lemma word_size_covers:
  assumes "n \<le> MaxUint64 - 31"
  shows "unat n \<le> unat (vm_toWordSize n * 32)" "uint (vm_toWordSize n) * 32 < 2 ^ 64"
proof -
  have "unat (MaxUint64 - 31) = 2 ^ 64 - 32" by (simp add: MaxUint64_def)
  then have n: "unat n \<le> 2 ^ 64 - 32" using assms by (simp only: word_le_nat_alt)
  then have s: "unat (n + 31) = unat n + 31"
    by (subst unat_plus_simple[THEN iffD1]) (simp_all add: no_olen_add_nat)
  have w: "unat (vm_toWordSize n) = (unat n + 31) div 32"
    using assms by (simp add: vm_toWordSize_def not_less[symmetric] unat_div s)
  have d: "(unat n + 31) div 32 * 32 \<le> unat n + 31" "unat n \<le> (unat n + 31) div 32 * 32"
    using div_mult_mod_eq[of "unat n + 31" 32] mod_less_divisor[of 32 "unat n + 31"] by linarith+
  have "unat n + 31 < 2 ^ 64" using n by simp
  then have b: "unat (vm_toWordSize n) * 32 < 2 ^ 64" unfolding w using d(1) by (rule le_less_trans[rotated])
  then have "unat (vm_toWordSize n * 32) = unat (vm_toWordSize n) * 32" by (simp add: unat_word_ariths)
  then show "unat n \<le> unat (vm_toWordSize n * 32)" using d(2) by (simp only: w)
  have "int (unat (vm_toWordSize n) * 32) < int (2 ^ 64)" using b by (rule of_nat_less_iff[THEN iffD2])
  then show "uint (vm_toWordSize n) * 32 < 2 ^ 64" by (simp only: uint_nat of_nat_mult of_nat_power of_nat_numeral)
qed

lemma requested_memory_ok:
  assumes "env_ok X" "sized X n (memorySize oper)" "n \<le> length st" "words st"
  shows "\<exists>req. requested_memory X oper st = Inr req \<and>
    (\<forall>r. req = Inr r \<longrightarrow> (memorySize oper = None \<longrightarrow> r = 0) \<and>
       (\<forall>size' v. memorySize oper = Some size' \<and> size' (vLib X) st = Inr v \<longrightarrow> v \<le> int (unat r)))"
proof (cases "memorySize oper")
  case None
  then show ?thesis by (simp add: requested_memory_def)
next
  case (Some size')
  then obtain v where v: "0 \<le> v" "size' (vLib X) st = Inr v" using assms(2-4) by (auto simp: sized_def)
  have L: "SafeMul (vLib X) x y = (x * y, 2 ^ 64 \<le> uint x * uint y)" for x y
    using assms(1) by (simp add: env_ok_def vm_lib_ok_def)
  let ?n = "big_Uint64 v"
  show ?thesis
  proof (cases "big_BitLen v > 64 \<or> 2 ^ 64 \<le> uint (vm_toWordSize ?n) * uint (32 :: uint64)")
    case True
    then show ?thesis by (auto simp: requested_memory_def Some v bigUint64_def L)
  next
    case False
    then have "v < 2 ^ 64" using big_BitLen_word[OF v(1), of 64] by (simp add: not_less)
    then have u: "unat ?n = nat v" using v(1) by (simp add: big_Uint64_unat)
    have "?n \<le> MaxUint64 - 31"
    proof (rule ccontr)
      assume "\<not> ?n \<le> MaxUint64 - 31"
      then have "vm_toWordSize ?n = MaxUint64 div 32 + 1" by (simp add: vm_toWordSize_def not_le)
      then show False using False by (simp add: MaxUint64_def)
    qed
    from word_size_covers(1)[OF this] have "v \<le> int (unat (vm_toWordSize ?n * 32))" using u v(1) by linarith
    moreover have "requested_memory X oper st = Inr (Inr (vm_toWordSize ?n * 32))"
      using False by (simp add: requested_memory_def Some v bigUint64_def L)
    ultimately show ?thesis using Some v by auto
  qed
qed

lemma length_grow:
  assumes "length (store (mMemory m)) \<le> MaxMemory" "unat r \<le> MaxMemory"
  shows "length (store (mMemory (grow r m))) = max (length (store (mMemory m))) (unat r)"
proof -
  let ?l = "length (store (mMemory m))"
  have l: "unat (of_nat ?l :: uint64) = ?l" using assms(1) by (simp add: MaxMemory_def unat_of_nat take_bit_nat_eq_self)
  show ?thesis
  proof (cases "(of_nat ?l :: uint64) < r")
    case True
    then have "unat (r - of_nat ?l) = unat r - ?l" "?l < unat r"
      using unat_sub[of "of_nat ?l" r] l by (simp_all add: word_less_nat_alt word_le_nat_alt)
    moreover have "0 < r" using True by (simp add: word_less_nat_alt)
    ultimately show ?thesis using True by (simp add: grow_def Memory_Resize_def)
  next
    case False
    then have "unat r \<le> ?l" using l by (simp add: word_less_nat_alt not_less)
    then show ?thesis using False by (simp add: grow_def Memory_Resize_def)
  qed
qed


lemma after_execute_ok:
  assumes "exec_fine B S X oper m m1 r" "frame_ok m1" "same_mode (mEvm m) (mEvm m1)"
    and "static X (mEvm m) \<Longrightarrow> S (db_of m) (db_of m1)" "static_ok X S"
  shows "step_post B S X m (after_execute oper r)"
proof -
  obtain res err m2 where r: "r = (res, err, m2)" by (cases r)
  note f = assms(1)[unfolded r exec_fine_def prod.case]
  obtain g where g: "mContract m2 = (mContract m1)\<lparr>Gas := g\<rparr>" using f by blast
  define m3 where "m3 = (if op_returns oper then m2\<lparr>mEvm := (mEvm m2)\<lparr>returnData := res\<rparr>\<rparr> else m2)"
  have m3: "mStack m3 = mStack m2" "mContract m3 = mContract m2" "mMemory m3 = mMemory m2" "db_of m3 = db_of m2"
    "same_mode (mEvm m) (mEvm m3)" "small (returnData (mEvm m3))"
    using f assms(3) by (auto simp: m3_def db_of_def same_mode_def)
  have S: "S (db_of m) (db_of m3)" if "static X (mEvm m)"
    using that assms(4) f static_same[OF assms(3), of X] static_okD(2)[OF assms(5)] m3(4) by metis
  have "frame_ok (m3\<lparr>mPc := p\<rparr>)" "frame_ok m3" if "err = None" for p
    using f assms(2) that m3 by (auto simp: frame_ok_def g)
  then show ?thesis
    using f m3 S by (auto simp: r after_execute_def Let_def load_def db_of_def simp flip: m3_def)
qed

text \<open>The frame in which the instruction runs: the price is paid and the memory is there.\<close>

lemma charged_frame:
  assumes "frame_ok m" "gas_post w 0 (memorySize oper \<noteq> None) m r (Inr c) m'"
    and "m1 = grow r (m'\<lparr>mContract := (mContract m)\<lparr>Gas := Gas (mContract m) - c\<rparr>\<rparr>)"
    and "memorySize oper = None \<longrightarrow> r = 0"
    and "\<forall>size' v. memorySize oper = Some size' \<and> size' (vLib X) (mStack m) = Inr v \<longrightarrow> v \<le> int (unat r)"
  shows "frame_ok m1" "ready X (memorySize oper) m1" "mEvm m1 = mEvm m'"
proof -
  have p: "mStack m' = mStack m" "store (mMemory m') = store (mMemory m)" "returnData (mEvm m') = returnData (mEvm m)"
    using assms(2) by (auto simp: gas_post_def)
  have r: "unat r \<le> MaxMemory"
    using assms(2,4) by (cases "memorySize oper") (auto simp: gas_post_def)
  have l: "length (store (mMemory m1)) = max (length (store (mMemory m))) (unat r)"
    using assms(1) r p(2) unfolding assms(3) by (subst length_grow) (simp_all add: frame_ok_def)
  have m1: "mStack m1 = mStack m" "mContract m1 = (mContract m)\<lparr>Gas := Gas (mContract m) - c\<rparr>" "mEvm m1 = mEvm m'"
    by (simp_all add: assms(3) grow_def p)
  show "frame_ok m1" using assms(1) r p(3) by (simp add: frame_ok_def m1 l)
  show "ready X (memorySize oper) m1"
    using assms(5) by (auto simp: ready_def m1 l of_nat_max le_max_iff_disj split: option.splits)
  show "mEvm m1 = mEvm m'" by (rule m1(3))
qed

definition charged :: "'s machine \<Rightarrow> uint64 \<Rightarrow> 's machine \<Rightarrow> bool" where
  "charged m c m1 \<longleftrightarrow>
     c \<le> Gas (mContract m) \<and> mStack m1 = mStack m \<and> mContract m1 = (mContract m)\<lparr>Gas := Gas (mContract m) - c\<rparr> \<and>
     mPc m1 = mPc m \<and> same_mode (mEvm m) (mEvm m1)"

lemma perform_ok:
  assumes ctx: "ctx_ok B S X" and m: "frame_ok m" and n: "n \<le> length (mStack m)" and sized: "sized X n (memorySize oper)"
    and static: "static X (mEvm m) \<Longrightarrow> \<not> op_writes oper"
    and gas: "\<And>r. gas_wp (\<lambda>price m'. gas_post (op_writes oper) 0 (memorySize oper \<noteq> None) m r price m' \<and>
        (\<forall>c. price = Inr c \<longrightarrow> Q c (callGasTemp (mEvm m')))) (gasCost oper X m r)"
    and exec: "\<And>c m1. charged m c m1 \<Longrightarrow> Q c (callGasTemp (mEvm m1)) \<Longrightarrow> frame_ok m1 \<Longrightarrow> ready X (memorySize oper) m1 \<Longrightarrow>
        go_ok B (exec_fine B S X oper m m1) (execute oper X K m1)"
  shows "go_ok B (step_post B S X m) (perform X K oper m)"
proof -
  note env = ctx_okD(1)[OF ctx] and S = ctx_okD(3)[OF ctx]
  have w: "words (mStack m)" and rd: "small (returnData (mEvm m))" using m by (simp_all add: frame_ok_def)
  obtain req where req: "requested_memory X oper (mStack m) = Inr req"
    "\<And>r. req = Inr r \<Longrightarrow> (memorySize oper = None \<longrightarrow> r = 0) \<and>
       (\<forall>size' v. memorySize oper = Some size' \<and> size' (vLib X) (mStack m) = Inr v \<longrightarrow> v \<le> int (unat r))"
    using requested_memory_ok[OF env sized n w] by blast
  show ?thesis
  proof (cases req)
    case (Inl e)
    then show ?thesis using rd static_okD(1)[OF S] by (simp add: perform_def req(1))
  next
    case (Inr r)
    obtain price m' where g: "gasCost oper X m r = Inr (price, m')"
      and post: "gas_post (op_writes oper) 0 (memorySize oper \<noteq> None) m r price m'"
      and Q: "\<And>c. price = Inr c \<Longrightarrow> Q c (callGasTemp (mEvm m'))"
      using gas[of r] by (auto simp: gas_wp_def split: sum.splits)
    have p: "mStack m' = mStack m" "mContract m' = mContract m" "store (mMemory m') = store (mMemory m)"
      "same_mode (mEvm m) (mEvm m')" "returnData (mEvm m') = returnData (mEvm m)"
      "static X (mEvm m) \<Longrightarrow> db_of m' = db_of m"
      using post static by (auto simp: gas_post_def)
    show ?thesis
    proof (cases "\<exists>c. price = Inr c \<and> c \<le> Gas (mContract m)")
      case True
      then obtain c where c: "price = Inr c" "c \<le> Gas (mContract m)" by blast
      define m1 where "m1 = grow r (m'\<lparr>mContract := (mContract m)\<lparr>Gas := Gas (mContract m) - c\<rparr>\<rparr>)"
      note r = req(2)[OF Inr]
      note m1 = charged_frame[OF m post[unfolded c(1)] m1_def conjunct1[OF r] conjunct2[OF r]]
      have "charged m c m1"
        using post c by (simp add: charged_def m1_def grow_def gas_post_def)
      then have "go_ok B (exec_fine B S X oper m m1) (execute oper X K m1)"
        using exec[of c m1] m1 Q[OF c(1)] by simp
      then have "go_ok B (\<lambda>x. step_post B S X m (after_execute oper x)) (execute oper X K m1)"
        by (rule go_ok_mono)
          (rule after_execute_ok[OF _ m1(1)], use p(4,6) m1(3) S static_okD(1)[OF S] in \<open>auto simp: db_of_def\<close>)
      then show ?thesis
        using c(1) p(2) leD[OF c(2)] by (simp add: perform_def req(1) Inr g Contract_UseGas_def flip: m1_def)
    next
      case False
      then have "perform X K oper m = Inr (Finish [] (Some ErrOutOfGas) m')"
        using p(2) by (auto simp: perform_def req(1) Inr g Contract_UseGas_def not_le split: sum.splits)
      then show ?thesis using p rd static_okD(1)[OF S] by simp
    qed
  qed
qed


lemma gas_wp_mono: "gas_wp P r \<Longrightarrow> (\<And>p m. P p m \<Longrightarrow> Q p m) \<Longrightarrow> gas_wp Q r"
  by (auto simp: gas_wp_def split: sum.splits)

lemma charged_gas: "charged m c m1 \<Longrightarrow> unat (Gas (mContract m1)) + unat c = unat (Gas (mContract m))"
  by (auto simp: charged_def unat_sub word_le_nat_alt)

lemma exec_post_fine:
  assumes ctx: "ctx_ok B S X" and m1: "charged m c m1" "low \<le> unat c"
    and e: "exec_post X (op_writes oper) pops pushes m1 res err m2"
    and st: "pops \<le> length (mStack m)" "length (mStack m) + pushes \<le> pops + StackLimit"
    and static: "static X (mEvm m) \<Longrightarrow> \<not> op_writes oper"
    and low: "op_halts oper \<or> op_reverts oper \<or> 1 \<le> low \<and> pushes \<le> pops + 1"
    and m1_ok: "frame_ok m1"
  shows "exec_fine B S X oper m m1 (res, err, m2)"
proof -
  have "S (db_of m1) (db_of m2)" if "static X (mEvm m1)"
  proof -
    have "static X (mEvm m)" using that m1(1) static_same[of "mEvm m" "mEvm m1" X] by (simp add: charged_def)
    then show ?thesis using e static static_ok_silent[OF ctx_okD(3)[OF ctx]] by (auto simp: exec_post_def)
  qed
  moreover have "\<exists>g. mContract m2 = (mContract m1)\<lparr>Gas := g\<rparr>"
    using e by (intro exI[of _ "Gas (mContract m1)"]) (simp add: exec_post_def)
  moreover have "mStack m1 = mStack m" "mContract m2 = mContract m1"
    "err = None \<Longrightarrow> length (mStack m2) + pops = length (mStack m1) + pushes"
    using m1(1) e by (auto simp: charged_def exec_post_def)
  ultimately show ?thesis
    using e charged_gas[OF m1(1)] m1(2) low st m1_ok unfolding exec_fine_def
    by (auto simp: exec_post_def frame_ok_def load_def word_le_nat_alt)
qed

lemma perform_plain:
  assumes ctx: "ctx_ok B S X" and m: "frame_ok m" "in_code m"
    and ex: "plain X (op_writes oper) pops pushes (memorySize oper) (execute oper)"
    and price: "priced X (op_writes oper) low (memorySize oper \<noteq> None) pops (gasCost oper)"
    and sized: "sized X pops (memorySize oper)"
    and st: "pops \<le> length (mStack m)" "length (mStack m) + pushes \<le> pops + StackLimit"
    and static: "static X (mEvm m) \<Longrightarrow> \<not> op_writes oper"
    and low: "op_halts oper \<or> op_reverts oper \<or> 1 \<le> low \<and> pushes \<le> pops + 1"
  shows "go_ok B (step_post B S X m) (perform X K oper m)"
proof (rule perform_ok[OF ctx m(1) st(1) sized static, where Q = "\<lambda>c temp. low \<le> unat c"])
  fix r
  have "gas_wp (gas_post (op_writes oper) low (memorySize oper \<noteq> None) m r) (gasCost oper X m r)"
    using price st(1) by (simp add: priced_def)
  then show "gas_wp (\<lambda>price m'. gas_post (op_writes oper) 0 (memorySize oper \<noteq> None) m r price m' \<and>
      (\<forall>c. price = Inr c \<longrightarrow> low \<le> unat c)) (gasCost oper X m r)"
    by (rule gas_wp_mono) (simp add: gas_post_def)
next
  fix c m1
  assume m1: "charged m c m1" "low \<le> unat c" "frame_ok m1" "ready X (memorySize oper) m1"
  have "in_code m1" "pops \<le> length (mStack m1)" using m(2) m1(1) st(1) by (auto simp: in_code_def charged_def)
  then have "case execute oper X K m1 of Inl p \<Rightarrow> False
      | Inr (res, err, m2) \<Rightarrow> exec_post X (op_writes oper) pops pushes m1 res err m2"
    using ex m1(3,4) by (simp add: plain_def)
  then show "go_ok B (exec_fine B S X oper m m1) (execute oper X K m1)"
    using exec_post_fine[OF ctx m1(1,2) _ st static low m1(3)] by (auto split: sum.splits)
qed


section \<open>Creations and calls\<close>

definition caller_ok :: "Contract \<Rightarrow> bool" where
  "caller_ok c \<longleftrightarrow> (\<exists>v. cValue c = Some v \<and> is_word v)"

lemma contract_ref_as_ref: "frame_ok m \<Longrightarrow> contract_ref (as_ref (mContract m))"
  by (auto simp: frame_ok_def contract_ref_def as_ref_def)

lemma unat_le_add: "unat (a :: uint64) + unat b < 2 ^ 64 \<Longrightarrow> unat (a + b) = unat a + unat b"
  by (rule unat_plus_simple[THEN iffD1]) (simp add: no_olen_add_nat)

text \<open>A frame \<open>m2\<close> after a call with \<open>gas\<close> from the frame \<open>m1\<close>: \<open>kept\<close> is what the caller kept.\<close>

lemma call_fine:
  assumes m1: "charged m c m1" "frame_ok m1" and n: "0 < n" "n \<le> length (mStack m1)"
    and ret: "returned B S X gas evm ret left (mEvm m2)" and evm: "evm = mEvm m1"
    and m2: "mStack m2 = v # drop n (mStack m1)" "is_word v" "mContract m2 = (mContract m1)\<lparr>Gas := kept + left\<rparr>"
      "length (store (mMemory m2)) = length (store (mMemory m1))"
    and budget: "B \<Longrightarrow> unat kept + unat gas \<le> unat (Gas (mContract m))"
    and falls: "B \<Longrightarrow> 2 * (unat kept + unat gas) + 1 < 2 * unat (Gas (mContract m)) + n"
    and res: "res = ret \<or> res = []"
  shows "exec_fine B S X oper m m1 (res, None, m2)"
proof -
  have g: "unat (kept + left) \<le> unat kept + unat gas" if B
  proof -
    have "unat left \<le> unat gas" using ret that by (simp add: returned_def)
    moreover have "unat (Gas (mContract m)) < 2 ^ 64" using unsigned_less[of "Gas (mContract m)", where ?'a = nat] by simp
    ultimately have "unat (kept + left) = unat kept + unat left" using budget[OF that] by (intro unat_le_add) linarith
    with \<open>unat left \<le> unat gas\<close> show ?thesis by simp
  qed
  have st: "mStack m1 = mStack m" using m1(1) by (simp add: charged_def)
  have "load m2 < load m" if B
    using g[OF that] falls[OF that] n by (simp add: load_def m2 st)
  moreover have "Gas (mContract m2) \<le> Gas (mContract m)" if B
    using g[OF that] budget[OF that] by (simp add: m2 word_le_nat_alt)
  moreover have "words (mStack m2)" "length (mStack m2) \<le> StackLimit"
    using m1(2) m2(1,2) n by (auto simp: frame_ok_def words_drop)
  ultimately show ?thesis
    using ret m2(3,4) res unfolding exec_fine_def evm returned_def db_of_def by auto
qed

lemma sixty_fourth: "(g :: uint64) - g div 64 \<le> g"
proof -
  have "g div 64 \<le> g" by (simp add: word_le_nat_alt unat_div)
  then show ?thesis by (simp add: unat_sub word_le_nat_alt)
qed

lemma Contract_UseGas_part: "g \<le> Gas c \<Longrightarrow> snd (Contract_UseGas g c) = c\<lparr>Gas := Gas c - g\<rparr>"
  by (simp add: Contract_UseGas_def leD)

text \<open>The end of both creations: the address or zero is pushed and the gas that is left comes back.\<close>

lemma created_fine:
  assumes m1: "charged m c m1" "frame_ok m1" and n: "2 < n" "n \<le> length (mStack m1)" and st: "st = drop n (mStack m1)"
    and gas: "gas \<le> Gas (mContract m1)" and ret: "returned B S X gas (mEvm m1) ret left evm'" and v: "is_word v"
    and res: "res = ret \<or> res = []"
  shows "exec_fine B S X oper m m1 (res, None, add_gas left (push v
    (m1\<lparr>mStack := st, mContract := (mContract m1)\<lparr>Gas := Gas (mContract m1) - gas\<rparr>, mEvm := evm'\<rparr>)))"
proof -
  have k: "unat (Gas (mContract m1) - gas) + unat gas \<le> unat (Gas (mContract m))"
    using gas charged_gas[OF m1(1)] by (simp add: unat_sub word_le_nat_alt)
  show ?thesis
    by (rule call_fine[OF m1 _ n(2), where kept = "Gas (mContract m1) - gas" and gas = gas and v = v])
      (use n(1) k ret v res in \<open>auto simp: st add_gas_def push_def\<close>)
qed

lemma opCreate_eq:
  assumes "mStack m1 = v # off # sz # st" "region off sz (m1\<lparr>mStack := st\<rparr>)"
    "input = (if sz = 0 then [] else take (nat sz) (drop (nat off) (store (mMemory m1))))"
    "gas = (if chain_at EIP150Block X then Gas (mContract m1) - Gas (mContract m1) div 64 else Gas (mContract m1))"
    "gas \<le> Gas (mContract m1)" "c1 = (mContract m1)\<lparr>Gas := Gas (mContract m1) - gas\<rparr>"
  shows "opCreate X K m1 = go_bind (sCreate K (as_ref c1) input gas v MTR (mEvm m1)) (\<lambda>(res, addr, left, suberr, evm).
     Inr (if suberr = Some errExecutionReverted then res else [], None, add_gas left
       (if chain_at HomesteadBlock X \<and> suberr = Some ErrCodeStoreOutOfGas
        then push 0 (m1\<lparr>mStack := st, mContract := c1, mEvm := evm\<rparr>)
        else if suberr \<noteq> None \<and> suberr \<noteq> Some ErrCodeStoreOutOfGas
        then push 0 (m1\<lparr>mStack := st, mContract := c1, mEvm := evm\<rparr>)
        else push (uint addr) (m1\<lparr>mStack := st, mContract := c1, mEvm := evm\<rparr>))))"
proof -
  have g: "mem_Get off sz (m1\<lparr>mStack := st\<rparr>) k = k input" for k :: "bytes \<Rightarrow> (bytes \<times> vm_error option \<times> 'a machine) go"
    unfolding mem_Get_eq[OF assms(2)] assms(3) by simp
  show ?thesis
    by (cases "chain_at EIP150Block X")
      (simp_all add: opCreate_def pop_def assms(1) g Let_def Contract_UseGas_part sixty_fourth assms(4,6) cong: if_cong)
qed

lemma opCreate_ok:
  assumes ctx: "ctx_ok B S X" and K: "calls_ok B S N X K" and N: "B \<Longrightarrow> load m \<le> N"
    and m1: "charged m c m1" "frame_ok m1" "ready X (Some memoryCreate) m1" "3 \<le> length (mStack m1)" "\<not> static X (mEvm m1)"
  shows "go_ok B (exec_fine B S X oper m m1) (opCreate X K m1)"
proof -
  obtain v off sz st where st: "mStack m1 = v # off # sz # st" using m1(4) by (auto simp: stack_items)
  have w: "is_word v" "is_word off" "is_word sz" using m1(2) by (simp_all add: frame_ok_def st)
  have r: "region off sz (m1\<lparr>mStack := st\<rparr>)"
    using w by (intro region_of[OF m1(2,3)]) (simp_all add: memory_sizes st)
  define input where "input = (if sz = 0 then [] else take (nat sz) (drop (nat off) (store (mMemory m1))))"
  define gas where "gas = (if chain_at EIP150Block X then Gas (mContract m1) - Gas (mContract m1) div 64 else Gas (mContract m1))"
  have le: "gas \<le> Gas (mContract m1)"
    by (simp add: gas_def sixty_fourth)
  have "mStack m = v # off # sz # st" using m1(1) st by (simp add: charged_def)
  then have "call_pre B N input gas (mEvm m1)"
    using m1(2) le N charged_gas[OF m1(1)]
    by (auto simp: call_pre_def input_def load_def frame_ok_def small_take small_store word_le_nat_alt)
  from calls_okD(5)[OF K this w(1) m1(5)] show ?thesis
    unfolding opCreate_eq[OF st r input_def gas_def le refl] go_ok_bind
    by (rule go_ok_mono)
      (auto intro!: created_fine[OF m1(1,2) _ _ _ le, where n = 3] simp: st is_word_uint)
qed


lemma opCreate2_eq:
  assumes "mStack m1 = v # off # sz # salt # st" "region off sz (m1\<lparr>mStack := st\<rparr>)"
    "input = (if sz = 0 then [] else take (nat sz) (drop (nat off) (store (mMemory m1))))"
    "gas = Gas (mContract m1) - Gas (mContract m1) div 64" "c1 = (mContract m1)\<lparr>Gas := Gas (mContract m1) - gas\<rparr>"
  shows "opCreate2 X K m1 = go_bind (sCreate2 K (as_ref c1) input gas v MTR salt (mEvm m1)) (\<lambda>(res, addr, left, suberr, evm).
     Inr (if suberr = Some errExecutionReverted then res else [], None, add_gas left
       (if suberr \<noteq> None then push 0 (m1\<lparr>mStack := st, mContract := c1, mEvm := evm\<rparr>)
        else push (uint addr) (m1\<lparr>mStack := st, mContract := c1, mEvm := evm\<rparr>))))"
proof -
  have g: "mem_Get off sz (m1\<lparr>mStack := st\<rparr>) k = k input" for k :: "bytes \<Rightarrow> (bytes \<times> vm_error option \<times> 'a machine) go"
    unfolding mem_Get_eq[OF assms(2)] assms(3) by simp
  show ?thesis
    by (simp add: opCreate2_def pop_def assms(1) g Let_def Contract_UseGas_part sixty_fourth assms(4,5) cong: if_cong)
qed

lemma opCreate2_ok:
  assumes ctx: "ctx_ok B S X" and K: "calls_ok B S N X K" and N: "B \<Longrightarrow> load m \<le> N"
    and m1: "charged m c m1" "frame_ok m1" "ready X (Some memoryCreate2) m1" "4 \<le> length (mStack m1)" "\<not> static X (mEvm m1)"
  shows "go_ok B (exec_fine B S X oper m m1) (opCreate2 X K m1)"
proof -
  obtain v off sz salt st where st: "mStack m1 = v # off # sz # salt # st" using m1(4) by (auto simp: stack_items)
  have w: "is_word v" "is_word off" "is_word sz" using m1(2) by (simp_all add: frame_ok_def st)
  have r: "region off sz (m1\<lparr>mStack := st\<rparr>)"
    using w by (intro region_of[OF m1(2,3)]) (simp_all add: memory_sizes st)
  define input where "input = (if sz = 0 then [] else take (nat sz) (drop (nat off) (store (mMemory m1))))"
  define gas where "gas = Gas (mContract m1) - Gas (mContract m1) div 64"
  have le: "gas \<le> Gas (mContract m1)"
    by (simp add: gas_def sixty_fourth)
  have "mStack m = v # off # sz # salt # st" using m1(1) st by (simp add: charged_def)
  then have "call_pre B N input gas (mEvm m1)"
    using m1(2) le N charged_gas[OF m1(1)]
    by (auto simp: call_pre_def input_def load_def frame_ok_def small_take small_store word_le_nat_alt)
  from calls_okD(6)[OF K this w(1) m1(5)] show ?thesis
    unfolding opCreate2_eq[OF st r input_def gas_def refl] go_ok_bind
    by (rule go_ok_mono)
      (auto intro!: created_fine[OF m1(1,2) _ _ _ le, where n = 4] simp: st is_word_uint)
qed

text \<open>The gas of a call: at most what the caller paid above the base price, with the stipend where value is sent.\<close>

definition affordable :: "'s machine \<Rightarrow> 's machine \<Rightarrow> uint64 \<Rightarrow> bool" where
  "affordable m m1 gas \<longleftrightarrow> unat (Gas (mContract m1)) + unat gas < unat (Gas (mContract m))"

lemma affordable_call:
  assumes "charged m c m1" "unat (callGasTemp (mEvm m1)) + (if value \<noteq> 0 then 9000 else 40) \<le> unat c"
  shows "affordable m m1 (if value \<noteq> (0 :: int) then callGasTemp (mEvm m1) + CallStipend else callGasTemp (mEvm m1))"
proof (cases "value = 0")
  case True
  then show ?thesis using assms charged_gas[OF assms(1)] by (simp add: affordable_def)
next
  case False
  have "unat c < 2 ^ 64" using unsigned_less[of c, where ?'a = nat] by simp
  moreover have s: "unat CallStipend = 2300" by (simp add: CallStipend_def)
  moreover have t: "unat (callGasTemp (mEvm m1)) + 9000 \<le> unat c" using assms(2) False by simp
  ultimately have "unat (callGasTemp (mEvm m1) + CallStipend) = unat (callGasTemp (mEvm m1)) + 2300"
    using unat_le_add[of "callGasTemp (mEvm m1)" CallStipend] by simp
  then show ?thesis using t False charged_gas[OF assms(1)] by (simp add: affordable_def)
qed

lemma finish_call_fine:
  assumes m1: "charged m c m1" "frame_ok m1" and n: "0 < n" "n \<le> length (mStack m1)" and st: "st = drop n (mStack m1)"
    and ret: "returned B S X gas (mEvm m1) ret left evm'" and gas: "affordable m m1 gas"
    and region: "region ro rs (m1\<lparr>mStack := st\<rparr>)"
  shows "go_ok B (exec_fine B S X oper m m1) (finish_call ro rs (m1\<lparr>mStack := st\<rparr>) (ret, left, err, evm'))"
proof -
  define v :: int where "v = (if err \<noteq> None then 0 else 1)"
  define m0 where "m0 = push v (m1\<lparr>mStack := st, mEvm := evm'\<rparr>)"
  have m0: "mStack m0 = v # st" "mContract m0 = mContract m1" "mEvm m0 = evm'" "mMemory m0 = mMemory m1"
    by (simp_all add: m0_def push_def)
  have fine: "exec_fine B S X oper m m1 (ret, None, add_gas left m2)"
    if "mStack m2 = v # st" "mContract m2 = mContract m1" "mEvm m2 = evm'"
      "length (store (mMemory m2)) = length (store (mMemory m1))" for m2
    by (rule call_fine[OF m1 n, where kept = "Gas (mContract m1)" and gas = gas and v = v])
      (use that ret gas n(1) st in \<open>auto simp: affordable_def add_gas_def v_def\<close>)
  have "region ro rs m0" using region by (simp add: region_def m0)
  from mem_Set_eq[OF this, of ret "\<lambda>m. Inr (ret, None :: vm_error option, add_gas left m)"] obtain mem where
    "mem_Set ro rs ret m0 (\<lambda>m. Inr (ret, None :: vm_error option, add_gas left m)) = Inr (ret, None, add_gas left (m0\<lparr>mMemory := mem\<rparr>))"
    "length (store mem) = length (store (mMemory m1))"
    by (auto simp: m0)
  moreover have "finish_call ro rs (m1\<lparr>mStack := st\<rparr>) (ret, left, err, evm') =
      (if err = None \<or> err = Some errExecutionReverted
       then mem_Set ro rs ret m0 (\<lambda>m. Inr (ret, None, add_gas left m)) else Inr (ret, None, add_gas left m0))"
    by (simp add: finish_call_def Let_def m0_def v_def)
  ultimately show ?thesis
    using fine[of m0] fine[of "m0\<lparr>mMemory := mem\<rparr>"] by (simp add: m0)
qed


lemma regions_of:
  assumes "frame_ok m" "ready X (Some f) m" "f (vLib X) (mStack m) = Inr (max (calcMemSize a b) (calcMemSize c d))"
    "is_word a" "is_word b" "is_word c" "is_word d" "mMemory m' = mMemory m"
  shows "region a b m'" "region c d m'"
  using assms by (auto simp: region_def frame_ok_def ready_def is_word_def)

lemma memoryCall_eq:
  assumes "env_ok X" "st = g # a # v # io # is # ro # rs # st'"
  shows "memoryCall (vLib X) st = Inr (max (calcMemSize ro rs) (calcMemSize io is))"
  using assms by (simp add: memoryCall_def mem_size_max_def mem_size_def Back_def env_ok_def vm_lib_ok_def)

lemma memoryDelegateCall_eq:
  assumes "env_ok X" "st = g # a # io # is # ro # rs # st'"
  shows "memoryDelegateCall (vLib X) st = Inr (max (calcMemSize ro rs) (calcMemSize io is))"
    "memoryStaticCall (vLib X) st = Inr (max (calcMemSize ro rs) (calcMemSize io is))"
  using assms by (simp_all add: memoryDelegateCall_def memoryStaticCall_def mem_size_max_def mem_size_def Back_def env_ok_def vm_lib_ok_def)

text \<open>The common part of the four calls: what is read from memory is small and the gas is within the bound.\<close>

lemma call_pre_of:
  assumes "charged m c m1" "frame_ok m1" "affordable m m1 gas" "B \<Longrightarrow> load m \<le> N"
  shows "call_pre B N (if sz = 0 then [] else take (nat sz) (drop (nat off) (store (mMemory m1)))) gas (mEvm m1)"
  using assms by (auto simp: call_pre_def frame_ok_def small_take small_store affordable_def load_def)

lemma finish_bind:
  assumes call: "go_ok B (\<lambda>(ret, left, err, evm'). returned B S X gas (mEvm m1) ret left evm') r"
    and m1: "charged m c m1" "frame_ok m1" and n: "0 < n" "n \<le> length (mStack m1)" and st: "st = drop n (mStack m1)"
    and gas: "affordable m m1 gas" and region: "region ro rs (m1\<lparr>mStack := st\<rparr>)"
  shows "go_ok B (exec_fine B S X oper m m1) (go_bind r (finish_call ro rs (m1\<lparr>mStack := st\<rparr>)))"
  unfolding go_ok_bind
  by (rule go_ok_mono[OF call]) (auto intro!: finish_call_fine[OF m1 n st _ gas region])

lemma opCall_ok:
  assumes ctx: "ctx_ok B S X" and K: "calls_ok B S N X K" and N: "B \<Longrightarrow> load m \<le> N"
    and m1: "charged m c m1" "frame_ok m1" "ready X (Some memoryCall) m1" "7 \<le> length (mStack m1)"
    and price: "unat (callGasTemp (mEvm m1)) + (if mStack m1 ! 2 \<noteq> 0 then 9000 else 40) \<le> unat c"
  shows "(static X (mEvm m1) \<Longrightarrow> mStack m1 ! 2 = 0) \<Longrightarrow> go_ok B (exec_fine B S X oper m m1) (opCall X K m1)"
    and "go_ok B (exec_fine B S X oper m m1) (opCallCode X K m1)"
proof -
  note env = ctx_okD(1)[OF ctx]
  obtain g a v io "is" ro rs st where st: "mStack m1 = g # a # v # io # is # ro # rs # st"
    using m1(4) by (auto simp: stack_items)
  have w: "is_word v" "is_word io" "is_word is" "is_word ro" "is_word rs" using m1(2) by (simp_all add: frame_ok_def st)
  let ?m = "m1\<lparr>mStack := st\<rparr>"
  let ?args = "if is = 0 then [] else take (nat is) (drop (nat io) (store (mMemory m1)))"
  let ?gas = "if v \<noteq> 0 then callGasTemp (mEvm m1) + CallStipend else callGasTemp (mEvm m1)"
  have r: "region ro rs ?m" "region io is ?m"
    by (rule regions_of[OF m1(2,3) memoryCall_eq[OF env st]]; use w in simp)+
  have get: "mem_Get io is ?m k = k ?args" for k :: "bytes \<Rightarrow> (bytes \<times> vm_error option \<times> 'a machine) go"
    unfolding mem_Get_eq[OF r(2)] by simp
  have U: "U256 (vLib X) v = v" using w(1) by (simp add: lib_U256[OF env] is_word_def)
  have afford: "affordable m m1 ?gas" using affordable_call[OF m1(1), of v] price by (simp add: st)
  note pre = call_pre_of[OF m1(1,2) afford N]
  have eqs: "opCall X K m1 = go_bind (sCall K (as_ref (mContract m1)) (BigToAddress (vLib X) a) ?args ?gas v MTR (mEvm m1))
      (finish_call ro rs ?m)"
    "opCallCode X K m1 = go_bind (sCallCode K (as_ref (mContract m1)) (BigToAddress (vLib X) a) ?args ?gas v MTR (mEvm m1))
      (finish_call ro rs ?m)"
    by (simp_all add: opCall_def opCallCode_def pop_def st get U Let_def)
  show "go_ok B (exec_fine B S X oper m m1) (opCallCode X K m1)"
    unfolding eqs by (rule finish_bind[OF calls_okD(2)[OF K pre w(1)] m1(1,2) _ _ _ afford r(1), where n = 7])
      (simp_all add: st)
  assume s: "static X (mEvm m1) \<Longrightarrow> mStack m1 ! 2 = 0"
  then have z: "static X (mEvm m1) \<Longrightarrow> v = 0" by (simp add: st)
  show "go_ok B (exec_fine B S X oper m m1) (opCall X K m1)"
    unfolding eqs by (rule finish_bind[OF calls_okD(1)[OF K pre w(1) z] m1(1,2) _ _ _ afford r(1), where n = 7])
      (simp_all add: st)
qed

lemma opDelegateCall_ok:
  assumes ctx: "ctx_ok B S X" and K: "calls_ok B S N X K" and N: "B \<Longrightarrow> load m \<le> N"
    and m1: "charged m c m1" "frame_ok m1" "6 \<le> length (mStack m1)"
    and price: "unat (callGasTemp (mEvm m1)) + 40 \<le> unat c"
  shows "ready X (Some memoryDelegateCall) m1 \<Longrightarrow> go_ok B (exec_fine B S X oper m m1) (opDelegateCall X K m1)"
    and "ready X (Some memoryStaticCall) m1 \<Longrightarrow> go_ok B (exec_fine B S X oper m m1) (opStaticCall X K m1)"
proof -
  note env = ctx_okD(1)[OF ctx]
  obtain g a io "is" ro rs st where st: "mStack m1 = g # a # io # is # ro # rs # st"
    using m1(3) by (auto simp: stack_items)
  have w: "is_word io" "is_word is" "is_word ro" "is_word rs" using m1(2) by (simp_all add: frame_ok_def st)
  let ?m = "m1\<lparr>mStack := st\<rparr>"
  let ?args = "if is = 0 then [] else take (nat is) (drop (nat io) (store (mMemory m1)))"
  let ?gas = "callGasTemp (mEvm m1)"
  have afford: "affordable m m1 ?gas" using affordable_call[OF m1(1), of 0] price by simp
  note pre = call_pre_of[OF m1(1,2) afford N]
  have get: "region io is ?m \<Longrightarrow> mem_Get io is ?m k = k ?args" for k :: "bytes \<Rightarrow> (bytes \<times> vm_error option \<times> 'a machine) go"
    using mem_Get_eq[of io "is" ?m k] by simp
  have eqs: "region io is ?m \<Longrightarrow> opDelegateCall X K m1 =
      go_bind (sDelegateCall K (as_ref (mContract m1)) (BigToAddress (vLib X) a) ?args ?gas (mEvm m1)) (finish_call ro rs ?m)"
    "region io is ?m \<Longrightarrow> opStaticCall X K m1 =
      go_bind (sStaticCall K (as_ref (mContract m1)) (BigToAddress (vLib X) a) ?args ?gas (mEvm m1)) (finish_call ro rs ?m)"
    by (simp_all add: opDelegateCall_def opStaticCall_def pop_def st get)
  { assume ready: "ready X (Some memoryDelegateCall) m1"
    have r: "region ro rs ?m" "region io is ?m"
      by (rule regions_of[OF m1(2) ready memoryDelegateCall_eq(1)[OF env st]]; use w in simp)+
    show "go_ok B (exec_fine B S X oper m m1) (opDelegateCall X K m1)"
      unfolding eqs(1)[OF r(2)]
      by (rule finish_bind[OF calls_okD(3)[OF K pre contract_ref_as_ref[OF m1(2)]] m1(1,2) _ _ _ afford r(1), where n = 6])
        (simp_all add: st) }
  { assume ready: "ready X (Some memoryStaticCall) m1"
    have r: "region ro rs ?m" "region io is ?m"
      by (rule regions_of[OF m1(2) ready memoryDelegateCall_eq(2)[OF env st]]; use w in simp)+
    show "go_ok B (exec_fine B S X oper m m1) (opStaticCall X K m1)"
      unfolding eqs(2)[OF r(2)]
      by (rule finish_bind[OF calls_okD(4)[OF K pre] m1(1,2) _ _ _ afford r(1), where n = 6])
        (simp_all add: st) }
qed

end
