(* ===== verification/Vm_Tables.thy ===== *)
theory Vm_Tables
  imports Vm_Stepping
begin

text \<open>
  Every operation of every instruction set in use is well behaved, and so is one pass through the interpreter loop: the entries of the
  jump tables agree with the instructions, the gas functions and the memory sizes they name.
\<close>

definition op_fine :: "bool \<Rightarrow> ('s \<Rightarrow> 's \<Rightarrow> bool) \<Rightarrow> nat \<Rightarrow> 's vm_env \<Rightarrow> uint8 \<Rightarrow> 's operation \<Rightarrow> bool" where
  "op_fine B S N X k oper \<longleftrightarrow>
     (\<forall>K m. calls_ok B S N X K \<longrightarrow> frame_ok m \<longrightarrow> validateStack oper (mStack m) = None \<longrightarrow> (k \<noteq> 0 \<longrightarrow> in_code m) \<longrightarrow>
        (static X (mEvm m) \<longrightarrow> \<not> op_writes oper \<and> (k = 0xf1 \<longrightarrow> mStack m ! 2 = 0)) \<longrightarrow> (B \<longrightarrow> load m \<le> N) \<longrightarrow>
        go_ok B (step_post B S X m) (perform X K oper m))"

lemma makeStackFunc_None:
  "makeStackFunc pops pushes st = None \<longleftrightarrow> pops \<le> length st \<and> length st + pushes \<le> pops + StackLimit"
  by (auto simp: makeStackFunc_def)

section \<open>Rules\<close>

lemma op_fine_plain:
  assumes "ctx_ok B S X" "k \<noteq> 0" "validateStack oper = makeStackFunc pops pushes"
    and "plain X (op_writes oper) pops pushes (memorySize oper) (execute oper)"
    and "priced X (op_writes oper) low (memorySize oper \<noteq> None) pops (gasCost oper)" "sized X pops (memorySize oper)"
    and "op_halts oper \<or> op_reverts oper \<or> 1 \<le> low \<and> pushes \<le> pops + 1"
  shows "op_fine B S N X k oper"
  unfolding op_fine_def
  by (intro allI impI perform_plain[OF assms(1) _ _ assms(4-6) _ _ _ assms(7)])
    (use assms(2,3) in \<open>auto simp: makeStackFunc_None\<close>)

lemma mk_op_sel [simp]:
  "execute (mk_op ex gf vs f) = ex" "gasCost (mk_op ex gf vs f) = gf" "validateStack (mk_op ex gf vs f) = vs"
  "memorySize (mk_op ex gf vs f) = f" "op_writes (mk_op ex gf vs f) = False" "op_halts (mk_op ex gf vs f) = False"
  "op_reverts (mk_op ex gf vs f) = False"
  by (simp_all add: mk_op_def)

lemma sized_None [simp]: "sized X n None"
  by (simp add: sized_def)

lemma sized_Some:
  assumes "\<And>st. n \<le> length st \<Longrightarrow> words st \<Longrightarrow> \<exists>v \<ge> 0. f (vLib X) st = Inr v"
  shows "sized X n (Some f)"
  using assms by (simp add: sized_def)

lemma sized_memory:
  "sized X 2 (Some memorySha3)" "sized X 3 (Some memoryCallDataCopy)" "sized X 3 (Some memoryReturnDataCopy)"
  "sized X 3 (Some memoryCodeCopy)" "sized X 4 (Some memoryExtCodeCopy)" "sized X 1 (Some memoryMLoad)"
  "sized X 2 (Some memoryMStore8)" "sized X 2 (Some memoryMStore)" "sized X 3 (Some memoryCreate)"
  "sized X 4 (Some memoryCreate2)" "sized X 2 (Some memoryReturn)" "sized X 2 (Some memoryRevert)"
  "sized X (n + 2) (Some memoryLog)"
  by (rule sized_Some; use words_nth in \<open>fastforce simp: memory_sizes calcMemSize_def is_word_def\<close>)+

lemma sized_calls:
  assumes "env_ok X"
  shows "sized X 7 (Some memoryCall)" "sized X 6 (Some memoryDelegateCall)" "sized X 6 (Some memoryStaticCall)"
  by (rule sized_Some; auto simp: stack_items memoryCall_eq[OF assms] memoryDelegateCall_eq[OF assms] calcMemSize_def
      is_word_def max_def)+

lemmas sized_intros = sized_None sized_memory

text \<open>The shapes of entries: without memory, with memory, and with the flags the tables set.\<close>

lemma op_fine_basic:
  assumes "ctx_ok B S X" "plain X False pops pushes None ex" "priced X False 1 False pops gf" "k \<noteq> 0" "pushes \<le> pops + 1"
  shows "op_fine B S N X k (mk_op ex gf (makeStackFunc pops pushes) None)"
    "op_fine B S N X k ((mk_op ex gf (makeStackFunc pops pushes) None)\<lparr>op_jumps := True\<rparr>)"
  by (rule op_fine_plain[OF assms(1,4), where low = 1 and pops = pops and pushes = pushes]; use assms in simp)+

lemma op_fine_memory:
  assumes "ctx_ok B S X" "plain X False pops pushes (Some f) ex" "priced X False 1 True pops gf" "sized X pops (Some f)" "k \<noteq> 0"
    "pushes \<le> pops + 1"
  shows "op_fine B S N X k (mk_op ex gf (makeStackFunc pops pushes) (Some f))"
  by (rule op_fine_plain[OF assms(1,5), where low = 1 and pops = pops and pushes = pushes]) (use assms in simp_all)

lemma op_fine_writes:
  assumes "ctx_ok B S X" "plain X True pops pushes f ex" "priced X True 1 (f \<noteq> None) pops gf" "sized X pops f" "k \<noteq> 0"
    "pushes \<le> pops + 1"
  shows "op_fine B S N X k ((mk_op ex gf (makeStackFunc pops pushes) f)\<lparr>op_writes := True\<rparr>)"
  by (rule op_fine_plain[OF assms(1,5), where low = 1 and pops = pops and pushes = pushes]) (use assms in simp_all)

lemma op_fine_halts:
  assumes "ctx_ok B S X" "sized X pops f" "k \<noteq> 0"
  shows "plain X False pops pushes f ex \<Longrightarrow> priced X False 0 (f \<noteq> None) pops gf \<Longrightarrow>
      op_fine B S N X k ((mk_op ex gf (makeStackFunc pops pushes) f)\<lparr>op_halts := True\<rparr>)"
    "plain X False pops pushes f ex \<Longrightarrow> priced X False 0 (f \<noteq> None) pops gf \<Longrightarrow>
      op_fine B S N X k ((mk_op ex gf (makeStackFunc pops pushes) f)\<lparr>op_reverts := True, op_returns := True\<rparr>)"
    "plain X True pops pushes f ex \<Longrightarrow> priced X True 0 (f \<noteq> None) pops gf \<Longrightarrow>
      op_fine B S N X k ((mk_op ex gf (makeStackFunc pops pushes) f)\<lparr>op_halts := True, op_writes := True\<rparr>)"
  by (rule op_fine_plain[OF assms(1,3), where low = 0 and pops = pops and pushes = pushes]; use assms in simp)+

lemma op_fine_stop:
  assumes "ctx_ok B S X"
  shows "op_fine B S N X 0 ((mk_op opStop (constGasFunc 0) (makeStackFunc 0 0) None)\<lparr>op_halts := True\<rparr>)"
  unfolding op_fine_def
  by (auto simp: perform_def requested_memory_def constGasFunc_def gas_ok_def Contract_UseGas_def grow_def opStop_def vm_done_def
      after_execute_def frame_ok_def db_of_def same_mode_def static_okD(1)[OF ctx_okD(3)[OF assms]])


lemma op_fine_create:
  assumes ctx: "ctx_ok B S X" and oper: "validateStack oper = makeStackFunc n 1" "op_writes oper" "n \<ge> 3"
    and size': "memorySize oper = Some f" "sized X n (Some f)" and gas: "priced X True low True n (gasCost oper)"
    and exec: "\<And>N K m c m1. calls_ok B S N X K \<Longrightarrow> (B \<Longrightarrow> load m \<le> N) \<Longrightarrow> charged m c m1 \<Longrightarrow> frame_ok m1 \<Longrightarrow> ready X (Some f) m1 \<Longrightarrow>
      n \<le> length (mStack m1) \<Longrightarrow> \<not> static X (mEvm m1) \<Longrightarrow> go_ok B (exec_fine B S X oper m m1) (execute oper X K m1)"
  shows "op_fine B S N X k oper"
  unfolding op_fine_def
proof (intro allI impI)
  fix K m
  assume K: "calls_ok B S N X K" and m: "frame_ok m" "validateStack oper (mStack m) = None"
    and static: "static X (mEvm m) \<longrightarrow> \<not> op_writes oper \<and> (k = 0xf1 \<longrightarrow> mStack m ! 2 = 0)" and N: "B \<longrightarrow> load m \<le> N"
  have n: "n \<le> length (mStack m)" using m(2) by (simp add: oper(1) makeStackFunc_None)
  show "go_ok B (step_post B S X m) (perform X K oper m)"
  proof (rule perform_ok[OF ctx m(1) n, where Q = "\<lambda>c temp. True"])
    fix r
    have "gas_wp (gas_post True low True m r) (gasCost oper X m r)" using gas n by (simp add: priced_def)
    then show "gas_wp (\<lambda>price m'. gas_post (op_writes oper) 0 (memorySize oper \<noteq> None) m r price m' \<and>
        (\<forall>c. price = Inr c \<longrightarrow> True)) (gasCost oper X m r)"
      by (rule gas_wp_mono) (simp add: gas_post_def oper size')
  next
    fix c m1
    assume m1: "charged m c m1" "frame_ok m1" "ready X (memorySize oper) m1"
    then have "\<not> static X (mEvm m1)" using static oper(2) static_same[of "mEvm m" "mEvm m1" X] by (simp add: charged_def)
    then show "go_ok B (exec_fine B S X oper m m1) (execute oper X K m1)"
      using exec[OF K _ m1(1,2)] m1 n N by (simp add: charged_def size')
  qed (use size' static oper in simp_all)
qed

lemma op_fine_call:
  assumes ctx: "ctx_ok B S X" and oper: "validateStack oper = makeStackFunc n 1" "\<not> op_writes oper"
    and size': "memorySize oper = Some f" "sized X n (Some f)" and gas: "call_priced X val n (gasCost oper)"
    and exec: "\<And>N K m c m1. calls_ok B S N X K \<Longrightarrow> (B \<Longrightarrow> load m \<le> N) \<Longrightarrow> charged m c m1 \<Longrightarrow> frame_ok m1 \<Longrightarrow> ready X (Some f) m1 \<Longrightarrow>
      n \<le> length (mStack m1) \<Longrightarrow> unat (callGasTemp (mEvm m1)) + (if val (mStack m1) \<noteq> 0 then 9000 else 40) \<le> unat c \<Longrightarrow>
      (static X (mEvm m1) \<Longrightarrow> k = 0xf1 \<Longrightarrow> mStack m1 ! 2 = 0) \<Longrightarrow>
      go_ok B (exec_fine B S X oper m m1) (execute oper X K m1)"
  shows "op_fine B S N X k oper"
  unfolding op_fine_def
proof (intro allI impI)
  fix K m
  assume K: "calls_ok B S N X K" and m: "frame_ok m" "validateStack oper (mStack m) = None"
    and static: "static X (mEvm m) \<longrightarrow> \<not> op_writes oper \<and> (k = 0xf1 \<longrightarrow> mStack m ! 2 = 0)" and N: "B \<longrightarrow> load m \<le> N"
  have n: "n \<le> length (mStack m)" using m(2) by (simp add: oper(1) makeStackFunc_None)
  let ?Q = "\<lambda>c temp. unat (temp :: uint64) + (if val (mStack m) \<noteq> 0 then 9000 else 40) \<le> unat (c :: uint64)"
  show "go_ok B (step_post B S X m) (perform X K oper m)"
  proof (rule perform_ok[OF ctx m(1) n, where Q = ?Q])
    fix r
    have "gas_wp (call_post (val (mStack m)) m r) (gasCost oper X m r)" using gas n by (simp add: call_priced_def)
    then show "gas_wp (\<lambda>price m'. gas_post (op_writes oper) 0 (memorySize oper \<noteq> None) m r price m' \<and>
        (\<forall>c. price = Inr c \<longrightarrow> ?Q c (callGasTemp (mEvm m')))) (gasCost oper X m r)"
      by (rule gas_wp_mono) (use oper(2) size' in \<open>auto simp: gas_post_def call_post_def\<close>)
  next
    fix c m1
    assume m1: "charged m c m1" "?Q c (callGasTemp (mEvm m1))" "frame_ok m1" "ready X (memorySize oper) m1"
    have "mStack m1 = mStack m" "static X (mEvm m1) = static X (mEvm m)"
      using m1(1) static_same[of "mEvm m" "mEvm m1" X] by (simp_all add: charged_def)
    then show "go_ok B (exec_fine B S X oper m m1) (execute oper X K m1)"
      using exec[OF K _ m1(1,3)] m1(2,4) n N static size'(1) by simp
  qed (use size' static oper in simp_all)
qed

lemma op_fine_calls:
  assumes ctx: "ctx_ok B S X"
  shows "op_fine B S N X 0xf1 ((mk_op opCall gasCall (makeStackFunc 7 1) (Some memoryCall))\<lparr>op_returns := True\<rparr>)"
    "op_fine B S N X 0xf2 ((mk_op opCallCode gasCallCode (makeStackFunc 7 1) (Some memoryCall))\<lparr>op_returns := True\<rparr>)"
    "op_fine B S N X 0xf4 ((mk_op opDelegateCall gasDelegateCall (makeStackFunc 6 1) (Some memoryDelegateCall))\<lparr>op_returns := True\<rparr>)"
    "op_fine B S N X 0xfa ((mk_op opStaticCall gasStaticCall (makeStackFunc 6 1) (Some memoryStaticCall))\<lparr>op_returns := True\<rparr>)"
proof -
  note pr = call_prices[OF ctx_okD(1)[OF ctx]] and sz = sized_calls[OF ctx_okD(1)[OF ctx]]
  show "op_fine B S N X 0xf1 ((mk_op opCall gasCall (makeStackFunc 7 1) (Some memoryCall))\<lparr>op_returns := True\<rparr>)"
    by (rule op_fine_call[OF ctx _ _ _ sz(1), where val = "\<lambda>st. st ! 2"]) (simp_all add: pr, rule opCall_ok(1)[OF ctx], assumption+)
  show "op_fine B S N X 0xf2 ((mk_op opCallCode gasCallCode (makeStackFunc 7 1) (Some memoryCall))\<lparr>op_returns := True\<rparr>)"
    by (rule op_fine_call[OF ctx _ _ _ sz(1), where val = "\<lambda>st. st ! 2"]) (simp_all add: pr, rule opCall_ok(2)[OF ctx], assumption+)
  show "op_fine B S N X 0xf4 ((mk_op opDelegateCall gasDelegateCall (makeStackFunc 6 1) (Some memoryDelegateCall))\<lparr>op_returns := True\<rparr>)"
    by (rule op_fine_call[OF ctx _ _ _ sz(2), where val = "\<lambda>st. 0"]) (simp_all add: pr, rule opDelegateCall_ok(1)[OF ctx], assumption+)
  show "op_fine B S N X 0xfa ((mk_op opStaticCall gasStaticCall (makeStackFunc 6 1) (Some memoryStaticCall))\<lparr>op_returns := True\<rparr>)"
    by (rule op_fine_call[OF ctx _ _ _ sz(3), where val = "\<lambda>st. 0"]) (simp_all add: pr, rule opDelegateCall_ok(2)[OF ctx], assumption+)
qed


lemma op_fine_creates:
  assumes ctx: "ctx_ok B S X"
  shows "op_fine B S N X k ((mk_op opCreate gasCreate (makeStackFunc 3 1) (Some memoryCreate))\<lparr>op_writes := True, op_returns := True\<rparr>)"
    "op_fine B S N X k ((mk_op opCreate gasCreateEip3860 (makeStackFunc 3 1) (Some memoryCreate))\<lparr>op_writes := True, op_returns := True\<rparr>)"
    "op_fine B S N X k ((mk_op opCreate2 gasCreate2 (makeStackFunc 4 1) (Some memoryCreate2))\<lparr>op_writes := True, op_returns := True\<rparr>)"
    "op_fine B S N X k ((mk_op opCreate2 gasCreate2Eip3860 (makeStackFunc 4 1) (Some memoryCreate2))\<lparr>op_writes := True, op_returns := True\<rparr>)"
proof -
  note env = ctx_okD(1)[OF ctx]
  note sz = sized_memory(9,10)
  note pr = priced_memories(4)[OF env] priced_init_code[OF env] priced_words(5)[OF env]
  show "op_fine B S N X k ((mk_op opCreate gasCreate (makeStackFunc 3 1) (Some memoryCreate))\<lparr>op_writes := True, op_returns := True\<rparr>)"
    by (rule op_fine_create[OF ctx _ _ _ _ sz(1), where low = 1]) (simp_all add: pr[simplified], rule opCreate_ok[OF ctx], assumption+)
  show "op_fine B S N X k ((mk_op opCreate gasCreateEip3860 (makeStackFunc 3 1) (Some memoryCreate))\<lparr>op_writes := True, op_returns := True\<rparr>)"
    by (rule op_fine_create[OF ctx _ _ _ _ sz(1), where low = 0]) (simp_all add: pr, rule opCreate_ok[OF ctx], assumption+)
  show "op_fine B S N X k ((mk_op opCreate2 gasCreate2 (makeStackFunc 4 1) (Some memoryCreate2))\<lparr>op_writes := True, op_returns := True\<rparr>)"
    by (rule op_fine_create[OF ctx _ _ _ _ sz(2), where low = 1]) (simp_all add: pr[simplified], rule opCreate2_ok[OF ctx], assumption+)
  show "op_fine B S N X k ((mk_op opCreate2 gasCreate2Eip3860 (makeStackFunc 4 1) (Some memoryCreate2))\<lparr>op_writes := True, op_returns := True\<rparr>)"
    by (rule op_fine_create[OF ctx _ _ _ _ sz(2), where low = 0]) (simp_all add: pr, rule opCreate2_ok[OF ctx], assumption+)
qed

section \<open>Tables\<close>

definition table_fine :: "bool \<Rightarrow> ('s \<Rightarrow> 's \<Rightarrow> bool) \<Rightarrow> nat \<Rightarrow> 's vm_env \<Rightarrow> 's instruction_set \<Rightarrow> bool" where
  "table_fine B S N X t \<longleftrightarrow> (\<forall>k oper. map_of t k = Some oper \<longrightarrow> op_fine B S N X k oper)"

lemma table_fine_Nil: "table_fine B S N X []"
  by (simp add: table_fine_def)

lemma table_fine_Cons: "op_fine B S N X k oper \<Longrightarrow> table_fine B S N X t \<Longrightarrow> table_fine B S N X ((k, oper) # t)"
  by (simp add: table_fine_def)

lemma table_fine_append: "table_fine B S N X t \<Longrightarrow> table_fine B S N X u \<Longrightarrow> table_fine B S N X (t @ u)"
  by (auto simp: table_fine_def map_add_Some_iff)

lemma table_fine_map:
  assumes "\<And>n. n \<in> set ns \<Longrightarrow> op_fine B S N X (f n) (g n)"
  shows "table_fine B S N X (map (\<lambda>n. (f n, g n)) ns)"
  using assms by (induction ns) (auto intro: table_fine_Nil table_fine_Cons)

lemma map_of_set_gasCost:
  "map_of (set_gasCost op gas t) k = (if k = op then map_option (gasCost_update (\<lambda>_. gas)) (map_of t k) else map_of t k)"
  by (induction t) (auto simp: set_gasCost_def)

lemma map_of_set_execute:
  "map_of (set_execute op ex t) k = (if k = op then map_option (execute_update (\<lambda>_. ex)) (map_of t k) else map_of t k)"
  by (induction t) (auto simp: set_execute_def)

lemmas table_intros = table_fine_Nil table_fine_Cons table_fine_append

lemma price_steps: "1 \<le> unat GasQuickStep" "1 \<le> unat GasFastestStep" "1 \<le> unat GasFastStep" "1 \<le> unat GasMidStep"
  "1 \<le> unat GasSlowStep" "1 \<le> unat GasExtStep" "1 \<le> unat JumpdestGas"
  by (simp_all add: gas_prices)

lemma table_fine_arithmetic:
  assumes ctx: "ctx_ok B S X"
  shows "table_fine B S N X arithmetic_ops"
  unfolding arithmetic_ops_def
  by (intro table_intros op_fine_stop op_fine_basic plain_intros priced_intros price_steps ctx ctx_okD(1)[OF ctx]) simp_all


lemma table_fine_environment:
  assumes ctx: "ctx_ok B S X"
  shows "table_fine B S N X environment_ops"
  unfolding environment_ops_def
  by (intro table_intros op_fine_basic op_fine_memory plain_intros priced_intros price_steps sized_intros ctx ctx_okD(1)[OF ctx])
    simp_all

lemma table_fine_control:
  assumes ctx: "ctx_ok B S X"
  shows "table_fine B S N X control_ops"
proof -
  have "op_fine B S N X 0x55 ((mk_op opSstore gasSStore (makeStackFunc 2 0) None)\<lparr>op_writes := True\<rparr>)"
    by (rule op_fine_writes[OF ctx plain_writes(1)[OF ctx_okD(2)[OF ctx]]]) (simp_all add: priced_sstore[simplified])
  then show ?thesis
    unfolding control_ops_def
    by (intro table_intros op_fine_basic op_fine_memory plain_intros priced_intros price_steps sized_intros ctx ctx_okD(1)[OF ctx])
      simp_all
qed

lemma of_nat_opcode: "0 < n \<Longrightarrow> n < 256 \<Longrightarrow> (of_nat n :: uint8) \<noteq> 0"
  by (simp add: word_unat_eq_iff unat_of_nat)

lemma table_fine_stack:
  assumes ctx: "ctx_ok B S X"
  shows "table_fine B S N X push_ops" "table_fine B S N X dup_ops" "table_fine B S N X swap_ops" "table_fine B S N X log_ops"
proof -
  note env = ctx_okD(1)[OF ctx]
  show "table_fine B S N X push_ops"
    unfolding push_ops_def
    by (intro table_fine_map op_fine_basic ctx plain_push priced_table env of_nat_opcode) auto
  show "table_fine B S N X dup_ops"
    unfolding dup_ops_def makeDupStackFunc_def
    by (intro table_fine_map op_fine_basic ctx plain_dup priced_table env of_nat_opcode) auto
  show "table_fine B S N X swap_ops"
    unfolding swap_ops_def makeSwapStackFunc_def
    by (intro table_fine_map op_fine_basic ctx plain_swap priced_table env of_nat_opcode) auto
  show "table_fine B S N X log_ops"
    unfolding log_ops_def
    by (intro table_fine_map op_fine_writes[OF ctx plain_log] sized_memory of_nat_opcode)
      (use priced_log[OF env] in auto)
qed

lemma table_fine_system:
  assumes ctx: "ctx_ok B S X"
  shows "table_fine B S N X system_ops"
    and "op_fine B S N X 0xff ((mk_op opSuicide gasSuicideEIP3529 (makeStackFunc 1 0) None)\<lparr>op_halts := True, op_writes := True\<rparr>)"
proof -
  note env = ctx_okD(1)[OF ctx] and pw = plain_writes(2)[OF ctx_okD(2)[OF ctx]]
  have "op_fine B S N X 0xff ((mk_op opSuicide gasSuicide (makeStackFunc 1 0) None)\<lparr>op_halts := True, op_writes := True\<rparr>)"
    by (rule op_fine_halts(3)[OF ctx _ _ pw]) (use priced_suicide in simp_all)
  moreover have "op_fine B S N X 0xf3 ((mk_op opReturn gasReturn (makeStackFunc 2 0) (Some memoryReturn))\<lparr>op_halts := True\<rparr>)"
    by (rule op_fine_halts(1)[OF ctx _ _ plain_reads(2)[OF env]]) (use priced_memories(5)[OF env] sized_memory(11) in simp_all)
  ultimately show "table_fine B S N X system_ops"
    unfolding system_ops_def by (intro table_intros op_fine_creates op_fine_calls ctx)
  show "op_fine B S N X 0xff ((mk_op opSuicide gasSuicideEIP3529 (makeStackFunc 1 0) None)\<lparr>op_halts := True, op_writes := True\<rparr>)"
    by (rule op_fine_halts(3)[OF ctx _ _ pw]) (use priced_suicide in simp_all)
qed

lemma table_fine_frontier:
  assumes "ctx_ok B S X"
  shows "table_fine B S N X NewFrontierInstructionSet"
  unfolding NewFrontierInstructionSet_def
  by (intro table_fine_append table_fine_arithmetic table_fine_environment table_fine_control table_fine_stack table_fine_system assms)

lemma table_fine_byzantium:
  assumes ctx: "ctx_ok B S X"
  shows "table_fine B S N X NewHomesteadInstructionSet" "table_fine B S N X NewByzantiumInstructionSet"
proof -
  note env = ctx_okD(1)[OF ctx]
  show h: "table_fine B S N X NewHomesteadInstructionSet"
    unfolding NewHomesteadInstructionSet_def by (intro table_intros op_fine_calls table_fine_frontier ctx)
  have "op_fine B S N X 0xfd ((mk_op opRevert gasRevert (makeStackFunc 2 0) (Some memoryRevert))\<lparr>op_reverts := True, op_returns := True\<rparr>)"
    by (rule op_fine_halts(2)[OF ctx _ _ plain_reads(3)[OF env]]) (use priced_memories(6)[OF env] sized_memory(12) in simp_all)
  with h show "table_fine B S N X NewByzantiumInstructionSet"
    unfolding NewByzantiumInstructionSet_def
    by (intro table_intros op_fine_calls op_fine_basic op_fine_memory plain_intros priced_intros price_steps sized_intros ctx env)
      simp_all
qed


lemma table_fine_london:
  assumes ctx: "ctx_ok B S X" and fork: "chain_at ConstantinopleBlock X"
  shows "table_fine B S N X NewConstantinopleInstructionSet" "table_fine B S N X NewIstanbulInstructionSet"
    "table_fine B S N X NewLondonInstructionSet"
proof -
  note env = ctx_okD(1)[OF ctx]
  show c: "table_fine B S N X NewConstantinopleInstructionSet"
    unfolding NewConstantinopleInstructionSet_def
    by (intro table_intros op_fine_creates table_fine_byzantium op_fine_basic plain_intros priced_intros price_steps ctx env fork)
      simp_all
  then show i: "table_fine B S N X NewIstanbulInstructionSet"
    unfolding NewIstanbulInstructionSet_def
    by (intro table_intros op_fine_basic plain_intros priced_intros price_steps ctx env) simp_all
  then show "table_fine B S N X NewLondonInstructionSet"
    unfolding NewLondonInstructionSet_def
    by (intro table_intros op_fine_basic plain_intros priced_intros price_steps ctx env) simp_all
qed

lemma table_fine_set_gasCost:
  assumes "table_fine B S N X t" "\<And>oper. map_of t op = Some oper \<Longrightarrow> op_fine B S N X op (oper\<lparr>gasCost := gas\<rparr>)"
  shows "table_fine B S N X (set_gasCost op gas t)"
  using assms by (auto simp: table_fine_def map_of_set_gasCost split: if_splits)

lemma table_fine_set_execute:
  assumes "table_fine B S N X t" "\<And>oper. map_of t op = Some oper \<Longrightarrow> op_fine B S N X op (oper\<lparr>execute := ex\<rparr>)"
  shows "table_fine B S N X (set_execute op ex t)"
  using assms by (auto simp: table_fine_def map_of_set_execute split: if_splits)

text \<open>The entries that the Paris set changes.\<close>

lemma unat_opcode: "n < 256 \<Longrightarrow> unat (of_nat n :: uint8) = n"
  by (simp add: unat_of_nat)

lemma stack_ops_range:
  "map_of push_ops k = None \<or> 0x60 \<le> k \<and> k \<le> 0x7f" "map_of dup_ops k = None \<or> 0x80 \<le> k \<and> k \<le> 0x8f"
  "map_of swap_ops k = None \<or> 0x90 \<le> k \<and> k \<le> 0x9f" "map_of log_ops k = None \<or> 0xa0 \<le> k \<and> k \<le> 0xa4"
  by (auto simp: push_ops_def dup_ops_def swap_ops_def log_ops_def map_of_eq_None_iff word_le_nat_alt unat_opcode
      simp del: of_nat_add)

lemma no_stack_op:
  assumes "0xa5 \<le> k"
  shows "map_of push_ops k = None" "map_of dup_ops k = None" "map_of swap_ops k = None" "map_of log_ops k = None"
  using stack_ops_range[of k] order.trans[OF assms] by fastforce+

lemma frontier_entries:
  "map_of NewFrontierInstructionSet 0xff = Some ((mk_op opSuicide gasSuicide (makeStackFunc 1 0) None)\<lparr>op_halts := True, op_writes := True\<rparr>)"
  "map_of NewFrontierInstructionSet 0xf0 = Some ((mk_op opCreate gasCreate (makeStackFunc 3 1) (Some memoryCreate))\<lparr>op_writes := True, op_returns := True\<rparr>)"
  "map_of NewFrontierInstructionSet 0xf1 = Some ((mk_op opCall gasCall (makeStackFunc 7 1) (Some memoryCall))\<lparr>op_returns := True\<rparr>)"
  by (simp_all add: NewFrontierInstructionSet_def map_add_def no_stack_op arithmetic_ops_def environment_ops_def
      control_ops_def system_ops_def)

lemmas later_sets = NewLondonInstructionSet_def NewIstanbulInstructionSet_def NewConstantinopleInstructionSet_def
  NewByzantiumInstructionSet_def NewHomesteadInstructionSet_def

lemma london_entries:
  "map_of NewLondonInstructionSet 0xff = Some ((mk_op opSuicide gasSuicide (makeStackFunc 1 0) None)\<lparr>op_halts := True, op_writes := True\<rparr>)"
  "map_of NewLondonInstructionSet 0xf0 = Some ((mk_op opCreate gasCreate (makeStackFunc 3 1) (Some memoryCreate))\<lparr>op_writes := True, op_returns := True\<rparr>)"
  "map_of NewLondonInstructionSet 0xf5 = Some ((mk_op opCreate2 gasCreate2 (makeStackFunc 4 1) (Some memoryCreate2))\<lparr>op_writes := True, op_returns := True\<rparr>)"
  "map_of NewLondonInstructionSet 0x48 = Some (mk_op opBaseFee (constGasFunc GasFastStep) (makeStackFunc 0 1) None)"
  by (simp_all add: later_sets frontier_entries)

lemma call_entry:
  "map_of (JumpTable X) 0xf1 = Some ((mk_op opCall gasCall (makeStackFunc 7 1) (Some memoryCall))\<lparr>op_returns := True\<rparr>)"
  by (simp add: JumpTable_def newParisInstructionSet_def Let_def map_of_set_gasCost map_of_set_execute later_sets frontier_entries)

lemma table_fine_paris:
  assumes ctx: "ctx_ok B S X" and fork: "chain_at ConstantinopleBlock X"
  shows "table_fine B S N X newParisInstructionSet"
proof -
  note env = ctx_okD(1)[OF ctx]
  have b: "op_fine B S N X 0x48 (mk_op opBaseFeeDynamic (constGasFunc GasFastStep) (makeStackFunc 0 1) None)"
    "op_fine B S N X 0x44 (mk_op opRandom (constGasFunc GasFastStep) (makeStackFunc 0 1) None)"
    "op_fine B S N X 0x5f (mk_op opPush0 (constGasFunc GasQuickStep) (makeStackFunc 0 1) None)"
    by (intro op_fine_basic plain_intros priced_intros price_steps ctx env; simp)+
  show ?thesis
    unfolding newParisInstructionSet_def Let_def
    by (intro table_fine_set_execute table_fine_set_gasCost table_fine_Cons b table_fine_london(3)[OF ctx fork])
      (use b(1) op_fine_creates[OF ctx, of N] table_fine_system(2)[OF ctx, of N] in
        \<open>auto simp: london_entries map_of_set_gasCost mk_op_def\<close>)
qed

lemma JumpTable_fine:
  assumes "ctx_ok B S X"
  shows "table_fine B S N X (JumpTable X)"
proof -
  have "chain_at ParisBlock X \<or> chain_at LondonBlock X \<or> chain_at IstanbulBlock X \<Longrightarrow> chain_at ConstantinopleBlock X"
    using ctx_okD(1)[OF assms] by (simp add: env_ok_def)
  then show ?thesis
    unfolding JumpTable_def
    using table_fine_paris[OF assms] table_fine_london[OF assms] table_fine_byzantium[OF assms] table_fine_frontier[OF assms]
    by auto
qed

section \<open>A step\<close>

lemma GetByte_in_code: "small (Code c) \<Longrightarrow> GetByte p c \<noteq> 0 \<Longrightarrow> unat p < length (Code c)"
  by (auto simp: GetByte_def word_less_nat_alt small_unat split: if_splits)

lemma vm_step_fine:
  assumes ctx: "ctx_ok B S X" and K: "calls_ok B S N X K" and N: "B \<Longrightarrow> load m \<le> N" and m: "frame_ok m"
  shows "go_ok B (step_post B S X m) (vm_step X K m)"
proof -
  define op where "op = GetByte (mPc m) (mContract m)"
  have fin: "step_post B S X m (Finish [] e m)" for e
    using m static_okD(1)[OF ctx_okD(3)[OF ctx]] by (simp add: frame_ok_def)
  show ?thesis
  proof (cases "map_of (JumpTable X) op")
    case None
    then show ?thesis using fin by (simp add: vm_step_def Let_def flip: op_def)
  next
    case (Some oper)
    have fine: "op_fine B S N X op oper" using JumpTable_fine[OF ctx, of N] Some by (simp add: table_fine_def)
    have code: "op \<noteq> 0 \<longrightarrow> in_code m" using m GetByte_in_code by (auto simp: op_def in_code_def frame_ok_def)
    show ?thesis
    proof (cases "validateStack oper (mStack m)")
      case (Some e)
      then show ?thesis using fin \<open>map_of (JumpTable X) op = Some oper\<close> by (simp add: vm_step_def Let_def flip: op_def)
    next
      case valid: None
      have p: "go_ok B (step_post B S X m) (perform X K oper m)"
        if "static X (mEvm m) \<longrightarrow> \<not> op_writes oper \<and> (op = 0xf1 \<longrightarrow> mStack m ! 2 = 0)"
        using fine K m valid code that N by (simp add: op_fine_def)
      have call: "2 < length (mStack m)" if "op = 0xf1"
        using valid Some call_entry[of X] that by (auto simp: makeStackFunc_None)
      have "enforceRestrictions X (mEvm m) op oper (mStack m) = Inr (Some errWriteProtection) \<or>
          enforceRestrictions X (mEvm m) op oper (mStack m) = Inr None \<and>
            (static X (mEvm m) \<longrightarrow> \<not> op_writes oper \<and> (op = 0xf1 \<longrightarrow> mStack m ! 2 = 0))"
        using call words_nth[of "mStack m" 2] m big_BitLen_word[of "mStack m ! 2" 0]
        by (auto simp: enforceRestrictions_def static_def Back_def frame_ok_def is_word_def)
      then show ?thesis
        using fin p Some valid by (auto simp: vm_step_def Let_def simp flip: op_def)
    qed
  qed
qed

end
