(* ===== verification/Vm_Safety.thy ===== *)
theory Vm_Safety
  imports Vm_Tables
begin

text \<open>
  Runs of the virtual machine.  The calls and creations are well behaved if the loop they run is, and by induction on the fuel the loop
  is.  Three properties follow: well-typed frames stay well typed and never panic, a call returns when its fuel
  exceeds twice its gas, and a static call does not write.
\<close>

section \<open>Running a contract\<close>

definition runner_ok :: "bool \<Rightarrow> ('s \<Rightarrow> 's \<Rightarrow> bool) \<Rightarrow> nat \<Rightarrow> 's vm_env \<Rightarrow> 's runner \<Rightarrow> bool" where
  "runner_ok B S N X R \<longleftrightarrow>
     (\<forall>m. frame_ok m \<longrightarrow> (B \<longrightarrow> load m < N) \<longrightarrow> go_ok B (\<lambda>(ret, err, m'). step_post B S X m (Finish ret err m')) (R m))"

definition ran :: "bool \<Rightarrow> ('s \<Rightarrow> 's \<Rightarrow> bool) \<Rightarrow> 's vm_env \<Rightarrow> uint64 \<Rightarrow> 's EVM \<Rightarrow> bytes \<times> vm_error option \<times> Contract \<times> 's EVM \<Rightarrow> bool" where
  "ran B S X gas evm = (\<lambda>(ret, err, c, evm'). returned B S X gas evm ret (Gas c) evm')"

definition contract_ok :: "Contract \<Rightarrow> bool" where
  "contract_ok c \<longleftrightarrow> small (Code c) \<and> (\<exists>v. cValue c = Some v \<and> is_word v)"

lemma run_code_ok:
  assumes "ctx_ok B S X" "runner_ok B S N X R" "contract_ok c" "call_pre B N input (Gas c) evm"
  shows "go_ok B (ran B S X (Gas c) evm) (run_code R c input evm)"
proof (cases "Code c = []")
  case True
  then show ?thesis
    using assms(4) static_okD(1)[OF ctx_okD(3)[OF assms(1)]] by (simp add: run_code_def ran_def returned_def call_pre_def)
next
  case False
  let ?m = "\<lparr>mPc = 0, mEvm = evm, mContract = c\<lparr>Input := input\<rparr>, mMemory = NewMemory, mStack = []\<rparr>"
  have f: "frame_ok ?m" using assms(3,4) by (simp add: frame_ok_def contract_ok_def call_pre_def NewMemory_def)
  have l: "B \<Longrightarrow> load ?m < N" using assms(4) by (simp add: load_def call_pre_def)
  have "go_ok B (\<lambda>(ret, err, m'). step_post B S X ?m (Finish ret err m')) (R ?m)"
    by (rule assms(2)[unfolded runner_ok_def, rule_format, OF f l])
  then show ?thesis
    using False by (simp add: run_code_def) (erule go_ok_mono, auto simp: ran_def returned_def db_of_def word_le_nat_alt)
qed

text \<open>What the hook for native calls may do.\<close>

lemma hook_effect:
  assumes ctx: "ctx_ok B S X" and hook: "InterceptContractCall (vCtx X) = Some hook"
    and e: "hook evm c (readOnly evm) = (r, c', evm')" and rd: "small (returnData evm)"
  shows "same_mode evm evm'" "small (returnData evm')" "Code c' = Code c" "cValue c' = cValue c"
    "r = Some (out, err) \<Longrightarrow> small out" "B \<Longrightarrow> Gas c' \<le> Gas c" "static X evm \<Longrightarrow> S (stateDB evm) (stateDB evm')"
proof -
  have "intercept_ok X" using ctx_okD(2)[OF ctx] by (simp add: hook_ok_def)
  then have "same_mode evm evm' \<and> small (returnData evm') \<and> Code c' = Code c \<and> cValue c' = cValue c \<and>
      (\<forall>out err. r = Some (out, err) \<longrightarrow> small out)"
    using hook e rd unfolding intercept_ok_def by blast
  then show "same_mode evm evm'" "small (returnData evm')" "Code c' = Code c" "cValue c' = cValue c"
    "r = Some (out, err) \<Longrightarrow> small out"
    by blast+
  have "B \<Longrightarrow> Gas (fst (snd (hook evm c (readOnly evm)))) \<le> Gas c"
    using ctx_okD(4)[OF ctx] hook unfolding hook_keeps_gas_def by blast
  then show "B \<Longrightarrow> Gas c' \<le> Gas c" by (simp add: e)
  have "S (stateDB evm) (stateDB (snd (snd (hook evm c True))))"
    by (rule static_okD(8)[OF ctx_okD(3)[OF ctx] hook])
  then show "static X evm \<Longrightarrow> S (stateDB evm) (stateDB evm')" using e by (simp add: static_def)
qed

lemma Run_body_ok:
  assumes ctx: "ctx_ok B S X" and R: "runner_ok B S N X R" and c: "contract_ok c" "call_pre B N input (Gas c) evm"
  shows "go_ok B (ran B S X (Gas c) evm) (Run_body R X c input evm)"
proof (cases "\<exists>hook. InterceptContractCall (vCtx X) = Some hook \<and> CodeAddr c = Some (self c)")
  case True
  then obtain hook where h: "InterceptContractCall (vCtx X) = Some hook" and a: "CodeAddr c = Some (self c)" by blast
  obtain r c' evm' where e: "hook evm (c\<lparr>Input := input\<rparr>) (readOnly evm) = (r, c', evm')" by (metis prod_cases3)
  have "small (returnData evm)" using c(2) by (simp add: call_pre_def)
  note i = hook_effect[OF ctx h e this]
  show ?thesis
  proof (cases r)
    case None
    have "go_ok B (ran B S X (Gas c') evm') (run_code R c' input evm')"
      by (rule run_code_ok[OF ctx R]) (use c i(2,3,4,6) in \<open>auto simp: contract_ok_def call_pre_def word_le_nat_alt\<close>)
    then have "go_ok B (ran B S X (Gas c) evm) (run_code R c' input evm')"
      by (rule go_ok_mono) (use i(1,6,7) static_same[OF i(1), of X] static_okD(2)[OF ctx_okD(3)[OF ctx]] in
        \<open>auto simp: ran_def returned_def word_le_nat_alt dest: same_mode_trans\<close>)
    then show ?thesis by (simp add: Run_body_def h a e None)
  next
    case (Some p)
    then show ?thesis
      using i(1,2,5,6,7) by (cases p) (auto simp: Run_body_def h a e ran_def returned_def word_le_nat_alt)
  qed
next
  case False
  then show ?thesis using run_code_ok[OF ctx R c] by (auto simp: Run_body_def split: option.splits)
qed

lemma Interpreter_Run_ok:
  assumes ctx: "ctx_ok B S X" and R: "runner_ok B S N X R" and c: "contract_ok c" "call_pre B N input (Gas c) evm"
  shows "go_ok B (ran B S X (Gas c) evm) (Interpreter_Run R X c input evm)"
proof -
  let ?evm = "evm\<lparr>depth := depth evm + 1, returnData := []\<rparr>"
  have "go_ok B (ran B S X (Gas c) ?evm) (Run_body R X c input ?evm)"
    by (rule Run_body_ok[OF ctx R c(1)]) (use c(2) in \<open>simp add: call_pre_def\<close>)
  then show ?thesis
    unfolding Interpreter_Run_def go_ok_bind
    by (rule go_ok_mono) (auto simp: ran_def returned_def same_mode_def static_def)
qed

lemma vm_run_ok:
  assumes ctx: "ctx_ok B S X" and R: "runner_ok B S N X R" and c: "contract_ok c" "call_pre B N input (Gas c) evm"
  shows "go_ok B (ran B S X (Gas c) evm) (vm_run R X c input evm)"
proof (cases "\<exists>a p. CodeAddr c = Some a \<and> precompiles X a = Some p")
  case True
  then obtain a p where p: "CodeAddr c = Some a" "precompiles X a = Some p" by blast
  then have "small (fst (pcRun p input))" using ctx_okD(1)[OF ctx] by (simp add: env_ok_def)
  moreover have "unat (Gas c - g) \<le> unat (Gas c)" if "\<not> Gas c < g" for g
    using that by (simp add: unat_sub not_less)
  ultimately show ?thesis
    using c(2) static_okD(1)[OF ctx_okD(3)[OF ctx]]
    by (simp add: vm_run_def p RunPrecompiledContract_def Contract_UseGas_def ran_def returned_def call_pre_def)
next
  case False
  then show ?thesis using Interpreter_Run_ok[OF ctx R c] by (auto simp: vm_run_def split: option.splits)
qed


section \<open>Calls and creations\<close>

abbreviation call_post' ::
  "bool \<Rightarrow> ('s \<Rightarrow> 's \<Rightarrow> bool) \<Rightarrow> 's vm_env \<Rightarrow> uint64 \<Rightarrow> 's EVM \<Rightarrow> bytes \<times> uint64 \<times> vm_error option \<times> 's EVM \<Rightarrow> bool" where
  "call_post' B S X gas evm \<equiv> \<lambda>(ret, left, err, evm'). returned B S X gas evm ret left evm'"

lemma snapshot_effect:
  assumes "snapshot X evm = (snap, evm1)"
  shows "evm1 = evm\<lparr>stateDB := snd (dbSnapshot (vDB X) (stateDB evm))\<rparr>" "snap = fst (dbSnapshot (vDB X) (stateDB evm))"
  using assms by (auto simp: snapshot_def split: prod.splits)

lemma settle_call_ok:
  assumes ctx: "ctx_ok B S X" and snap: "snapshot X evm = (snap, evm1)"
    and mode: "same_mode evm evm2" and S: "static X evm \<Longrightarrow> S (stateDB evm1) (stateDB evm2)" and r: "ran B S X gas evm2 r"
  shows "go_ok B (call_post' B S X gas evm) (settle_call X snap r)"
proof -
  obtain ret err c evm' where e: "r = (ret, err, c, evm')" by (cases r)
  note f = r[unfolded e ran_def prod.case returned_def]
  note ok = ctx_okD(3)[OF ctx]
  have s1: "S (stateDB evm1) (stateDB evm')" if "static X evm"
    using S[OF that] f static_same[OF mode, of X] that static_okD(2)[OF ok] by blast
  have s: "S (stateDB evm) (stateDB evm')" "S (stateDB evm) (dbRevertToSnapshot (vDB X) snap (stateDB evm'))" if "static X evm"
  proof -
    have e1: "stateDB evm1 = snd (dbSnapshot (vDB X) (stateDB evm))" using snapshot_effect[OF snap] by simp
    show "S (stateDB evm) (stateDB evm')"
      using static_okD(2)[OF ok static_okD(6)[OF ok]] s1[OF that] unfolding e1 by blast
    show "S (stateDB evm) (dbRevertToSnapshot (vDB X) snap (stateDB evm'))"
      using static_okD(7)[OF ok] s1[OF that] unfolding e1 snapshot_effect(2)[OF snap] by blast
  qed
  have "same_mode evm evm'" using mode f same_mode_trans by blast
  then show ?thesis
    using f s by (auto simp: e settle_call_def returned_def evm_db_def same_mode_def)
qed

lemma contract_ok_call:
  assumes "env_ok X" "\<exists>v. cValue c = Some v \<and> is_word v"
  shows "contract_ok (call_code X addr evm c)" "Gas (call_code X addr evm c) = Gas c"
  using assms by (auto simp: contract_ok_def call_code_def SetCallCode_def env_words)

lemma run_settled:
  assumes ctx: "ctx_ok B S X" and R: "runner_ok B S N X R" and snap: "snapshot X evm = (snap, evm1)"
    and mode: "same_mode evm evm2" and S: "static X evm \<Longrightarrow> S (stateDB evm1) (stateDB evm2)"
    and c: "contract_ok c" "Gas c = gas" "call_pre B N input gas evm2"
  shows "go_ok B (call_post' B S X gas evm) (go_bind (vm_run R X c input evm2) (settle_call X snap))"
proof -
  have "go_ok B (ran B S X gas evm2) (vm_run R X c input evm2)"
    using vm_run_ok[OF ctx R c(1), of input evm2] c(2,3) by simp
  then show ?thesis
    unfolding go_ok_bind by (rule go_ok_mono) (rule settle_call_ok[OF ctx snap mode S])
qed

lemma unchanged:
  assumes "ctx_ok B S X" "call_pre B N input gas evm"
  shows "returned B S X gas evm [] gas evm" "snapshot X evm = (snap, evm1) \<Longrightarrow> returned B S X gas evm [] gas evm1"
proof -
  note ok = ctx_okD(3)[OF assms(1)]
  show "returned B S X gas evm [] gas evm"
    using assms(2) static_okD(1)[OF ok] by (simp add: returned_def call_pre_def)
  assume "snapshot X evm = (snap, evm1)"
  from snapshot_effect(1)[OF this] show "returned B S X gas evm [] gas evm1"
    using assms(2) static_okD(6)[OF ok] by (simp add: returned_def call_pre_def)
qed

lemma vm_call_ok:
  assumes ctx: "ctx_ok B S X" and R: "runner_ok B S N X R" and pre: "call_pre B N input gas evm" "is_word value"
    and static: "static X evm \<Longrightarrow> value = 0"
  shows "go_ok B (call_post' B S X gas evm) (vm_call R X ref addr input gas value tok evm)"
proof -
  note ok = ctx_okD(3)[OF ctx] and env = ctx_okD(1)[OF ctx]
  obtain snap evm1 where snap: "snapshot X evm = (snap, evm1)" by (cases "snapshot X evm")
  define evm2 where "evm2 = (if \<not> dbExist (vDB X) addr (stateDB evm1) then evm_db (dbCreateAccount (vDB X) addr) evm1 else evm1)"
  define evm3 where "evm3 = evm_db (Transfer (vCtx X) (ref_Address ref) addr value tok) evm2"
  have m: "same_mode evm evm3" "returnData evm3 = returnData evm"
    using snapshot_effect(1)[OF snap] by (simp_all add: evm3_def evm2_def evm_db_def same_mode_def)
  have "S (stateDB evm1) (stateDB evm3)" if "static X evm"
  proof -
    have "S (stateDB evm1) (stateDB evm2)" using static_okD(1,4)[OF ok] by (simp add: evm2_def evm_db_def)
    moreover have "S (stateDB evm2) (stateDB evm3)" using static_okD(5)[OF ok] static[OF that] by (simp add: evm3_def evm_db_def)
    ultimately show ?thesis by (rule static_okD(2)[OF ok])
  qed
  note settled = run_settled[OF ctx R snap m(1) this contract_ok_call(1)[OF env]]
  have "go_ok B (call_post' B S X gas evm)
      (go_bind (vm_run R X (call_code X addr evm3 (NewContract ref addr (Some value) gas)) input evm3) (settle_call X snap))"
    by (rule settled) (use pre m(2) in \<open>auto simp: NewContract_def call_pre_def contract_ok_call[OF env]\<close>)
  then show ?thesis
    using unchanged(1)[OF ctx pre(1)] unchanged(2)[OF ctx pre(1) snap]
    by (simp add: vm_call_def snap Let_def flip: evm2_def evm3_def)
qed


text \<open>The calls that run code of another account without moving tokens.\<close>

lemma snapshot_run_ok:
  assumes ctx: "ctx_ok B S X" and R: "runner_ok B S N X R" and snap: "snapshot X evm = (snap, evm1)"
    and pre: "call_pre B N input gas evm" and c: "\<exists>v. cValue c = Some v \<and> is_word v" "Gas c = gas"
  shows "go_ok B (call_post' B S X gas evm) (go_bind (vm_run R X (call_code X addr evm1 c) input evm1) (settle_call X snap))"
  by (rule run_settled[OF ctx R snap])
    (use snapshot_effect[OF snap] pre c contract_ok_call[OF ctx_okD(1)[OF ctx]] static_okD(1)[OF ctx_okD(3)[OF ctx]] in
      \<open>auto simp: call_pre_def\<close>)

lemma CallCode_ok:
  assumes ctx: "ctx_ok B S X" and R: "runner_ok B S N X R" and pre: "call_pre B N input gas evm" "is_word value"
  shows "go_ok B (call_post' B S X gas evm) (CallCode R X ref addr input gas value tok evm)"
proof -
  obtain snap evm1 where snap: "snapshot X evm = (snap, evm1)" by (cases "snapshot X evm")
  show ?thesis
    using unchanged(1)[OF ctx pre(1)] snapshot_run_ok[OF ctx R snap pre(1), of "NewContract ref (ref_Address ref) (Some value) gas"] pre(2)
    by (simp add: CallCode_def snap Let_def NewContract_def)
qed

lemma DelegateCall_ok:
  assumes ctx: "ctx_ok B S X" and R: "runner_ok B S N X R" and pre: "call_pre B N input gas evm" "contract_ref ref"
  shows "go_ok B (call_post' B S X gas evm) (DelegateCall R X ref addr input gas evm)"
proof -
  obtain snap evm1 where snap: "snapshot X evm = (snap, evm1)" by (cases "snapshot X evm")
  obtain a p v where r: "ref = ContractOf a p (Some v)" "is_word v" using pre(2) by (auto simp: contract_ref_def)
  obtain c where c: "AsDelegate (NewContract ref (ref_Address ref) None gas) = Inr c" "cValue c = Some v" "Gas c = gas"
    by (simp add: AsDelegate_def NewContract_def r)
  show ?thesis
    using unchanged(1)[OF ctx pre(1)] snapshot_run_ok[OF ctx R snap pre(1), of c] c r(2)
    by (simp add: DelegateCall_def snap)
qed

lemma static_body_ok:
  assumes ctx: "ctx_ok B S X" and R: "runner_ok B S N X R" and pre: "call_pre B N input gas evm"
  shows "go_ok B (call_post' B S X gas evm) (static_body R X ref addr input gas evm)"
proof -
  obtain snap evm1 where snap: "snapshot X evm = (snap, evm1)" by (cases "snapshot X evm")
  show ?thesis
    using snapshot_run_ok[OF ctx R snap pre, of "NewContract ref addr (Some 0) gas"]
    by (simp add: static_body_def snap Let_def NewContract_def)
qed

lemma StaticCall_ok:
  assumes ctx: "ctx_ok B S X" and R: "runner_ok B S N X R" and pre: "call_pre B N input gas evm"
  shows "go_ok B (call_post' B S X gas evm) (StaticCall R X ref addr input gas evm)"
proof (cases "readOnly evm")
  case True
  then show ?thesis
    using unchanged(1)[OF ctx pre] static_body_ok[OF ctx R pre] by (simp add: StaticCall_def)
next
  case False
  have "call_pre B N input gas (evm\<lparr>readOnly := True\<rparr>)" using pre by (simp add: call_pre_def)
  from static_body_ok[OF ctx R this, of ref addr]
  have "go_ok B (\<lambda>x. go_ok B (call_post' B S X gas evm) (case x of (ret, left, err, evm) \<Rightarrow> Inr (ret, left, err, evm\<lparr>readOnly := False\<rparr>)))
      (static_body R X ref addr input gas (evm\<lparr>readOnly := True\<rparr>))"
    by (rule go_ok_mono) (use False in \<open>auto simp: returned_def same_mode_def static_def\<close>)
  then show ?thesis
    using unchanged(1)[OF ctx pre] False by (simp add: StaticCall_def)
qed

abbreviation create_post ::
  "bool \<Rightarrow> ('s \<Rightarrow> 's \<Rightarrow> bool) \<Rightarrow> 's vm_env \<Rightarrow> uint64 \<Rightarrow> 's EVM \<Rightarrow> bytes \<times> address \<times> uint64 \<times> vm_error option \<times> 's EVM \<Rightarrow> bool" where
  "create_post B S X gas evm \<equiv> \<lambda>(ret, addr, left, err, evm'). returned B S X gas evm ret left evm'"

lemma settle_create_ok:
  assumes "ran B S X gas evm2 r" "same_mode evm evm2" "\<not> static X evm"
  shows "go_ok B (create_post B S X gas evm) (settle_create X snap addr r)"
proof -
  obtain ret err c evm' where r: "r = (ret, err, c, evm')" by (cases r)
  have f: "small ret" "small (returnData evm')" "same_mode evm evm'" "B \<Longrightarrow> unat (Gas c) \<le> unat gas"
    using assms(1,2) same_mode_trans by (auto simp: r ran_def returned_def)
  have "unat (Gas c - g) \<le> unat (Gas c)" if "\<not> Gas c < g" for g
    using that by (simp add: unat_sub not_less)
  then have "B \<Longrightarrow> \<not> Gas c < g \<Longrightarrow> unat (Gas c - g) \<le> unat gas" for g
    using f(4) order.trans by blast
  with f assms(3) show ?thesis
    by (auto simp: r settle_create_def Let_def Contract_UseGas_def returned_def evm_db_def same_mode_def)
qed

lemma prepare_create_mode:
  assumes "hook_ok X"
  shows "same_mode evm (prepare_create X ref code value tok addr evm)"
    "returnData (prepare_create X ref code value tok addr evm) = returnData evm"
  using assms
  by (auto simp: prepare_create_def Let_def evm_db_def hook_ok_def keeps_mode_def same_mode_def split: option.splits)

lemma vm_create_ok:
  assumes ctx: "ctx_ok B S X" and R: "runner_ok B S N X R" and pre: "call_pre B N code gas evm" "is_word value" "\<not> static X evm"
  shows "go_ok B (create_post B S X gas evm) (vm_create R X ref code gas value tok addr evm)"
proof -
  define evm0 where "evm0 = evm_db (dbSetNonce (vDB X) (ref_Address ref) (dbGetNonce (vDB X) (ref_Address ref) (stateDB evm) + 1)) evm"
  define evm1 where "evm1 = evm0\<lparr>contractCreationCount := contractCreationCount evm0 + 1\<rparr>"
  obtain snap evm2 where snap: "snapshot X evm1 = (snap, evm2)" by (cases "snapshot X evm1")
  define evm3 where "evm3 = prepare_create X ref code value tok addr evm2"
  have m1: "same_mode evm evm1" "returnData evm1 = returnData evm" by (simp_all add: evm1_def evm0_def evm_db_def same_mode_def)
  have m2: "same_mode evm evm2" "returnData evm2 = returnData evm" using snapshot_effect[OF snap] m1 by simp_all
  have m3: "same_mode evm evm3" "returnData evm3 = returnData evm"
    using same_mode_trans[OF m2(1)] m2(2) by (simp_all add: evm3_def prepare_create_mode[OF ctx_okD(2)[OF ctx]])
  define c where "c = SetCallCode (Some addr) (Keccak256 (vLib X) code) code (NewContract ref addr (Some value) gas)"
  have c: "contract_ok c" "Gas c = gas" "call_pre B N [] gas evm3"
    using pre m3(2) by (simp_all add: c_def contract_ok_def SetCallCode_def NewContract_def call_pre_def)
  have "go_ok B (ran B S X gas evm3) (vm_run R X c [] evm3)"
    using vm_run_ok[OF ctx R c(1), of "[]" evm3] c(2,3) by simp
  then have run: "go_ok B (create_post B S X gas evm) (go_bind (vm_run R X c [] evm3) (settle_create X snap addr))"
    unfolding go_ok_bind by (rule go_ok_mono) (rule settle_create_ok[OF _ m3(1) pre(3)])
  have quick: "returned B S X gas evm [] left evm'" if "same_mode evm evm'" "returnData evm' = returnData evm" "unat left \<le> unat gas"
    for left evm'
    using that pre by (simp add: returned_def call_pre_def)
  show ?thesis
    using run quick[of evm gas] quick[OF m1, of 0] quick[OF m3, of gas]
    by (simp add: vm_create_def Let_def snap flip: evm0_def evm1_def evm3_def c_def)
qed


section \<open>The loop\<close>

lemma subcalls_ok:
  assumes ctx: "ctx_ok B S X" and R: "runner_ok B S N X R"
  shows "calls_ok B S N X (subcalls_of R X)"
  unfolding calls_ok_def subcalls_of_def subcalls.simps Create_def Create2_def
  using vm_call_ok[OF ctx R] CallCode_ok[OF ctx R] DelegateCall_ok[OF ctx R] StaticCall_ok[OF ctx R] vm_create_ok[OF ctx R]
  by simp

lemma vm_loop_ok:
  assumes ctx: "ctx_ok B S X"
  shows "runner_ok B S fuel X (vm_loop fuel X)"
proof (induction fuel)
  case 0
  then show ?case by (simp add: runner_ok_def)
next
  case (Suc fuel)
  note ok = ctx_okD(3)[OF ctx]
  show ?case
    unfolding runner_ok_def
  proof (intro allI impI)
    fix m :: "'a machine"
    assume m: "frame_ok m" "B \<longrightarrow> load m < Suc fuel"
    have step: "go_ok B (step_post B S X m) (vm_step X (subcalls_of (vm_loop fuel X) X) m)"
      by (rule vm_step_fine[OF ctx subcalls_ok[OF ctx Suc.IH]]) (use m in auto)
    have "go_ok B (\<lambda>(ret, err, m'). step_post B S X m (Finish ret err m'))
        (case r of Continue m \<Rightarrow> vm_loop fuel X m | Finish ret err m \<Rightarrow> Inr (ret, err, m))"
      if r: "step_post B S X m r" for r
    proof (cases r)
      case (Continue m')
      note c = r[unfolded Continue step_post.simps]
      have "go_ok B (\<lambda>(ret, err, m2). step_post B S X m' (Finish ret err m2)) (vm_loop fuel X m')"
        by (rule Suc.IH[unfolded runner_ok_def, rule_format]) (use c m(2) in auto)
      then have "go_ok B (\<lambda>(ret, err, m2). step_post B S X m (Finish ret err m2)) (vm_loop fuel X m')"
        by (rule go_ok_mono)
          (use c static_same[of "mEvm m" "mEvm m'" X] static_okD(2)[OF ok] same_mode_trans in fastforce)
      then show ?thesis by (simp add: Continue)
    next
      case (Finish ret err m')
      then show ?thesis using r by simp
    qed
    with step show "go_ok B (\<lambda>(ret, err, m'). step_post B S X m (Finish ret err m')) (vm_loop (Suc fuel) X m)"
      by (simp del: step_post.simps) (erule go_ok_mono)
  qed
qed

end
