(* ===== verification/Vm_Properties.thy ===== *)
theory Vm_Properties
  imports Vm_Safety
begin

text \<open>
  The properties of the virtual machine, and an environment that satisfies their hypotheses: a library with the documented
  behaviour and a state of storages with snapshots.
\<close>

section \<open>An environment\<close>

definition read_bits :: "int \<Rightarrow> nat \<Rightarrow> bytes" where
  "read_bits x n = map (\<lambda>i. word_of_int (x div 256 ^ (n - 1 - i))) [0..<n]"

lemma read_bits_Suc: "read_bits x (Suc n) = read_bits (x div 256) n @ [word_of_int x]"
proof -
  have "x div 256 div 256 ^ (n - 1 - i) = x div 256 ^ (n - i)" if "i < n" for i
  proof -
    have "n - i = Suc (n - 1 - i)" using that by simp
    then show ?thesis by (simp add: zdiv_zmult2_eq)
  qed
  then show ?thesis by (simp add: read_bits_def)
qed

lemma big_SetBytes_snoc: "big_SetBytes (bs @ [b]) = 256 * big_SetBytes bs + uint b"
  by (simp add: big_SetBytes_def)

lemma big_SetBytes_read_bits: "0 \<le> x \<Longrightarrow> x < 256 ^ n \<Longrightarrow> big_SetBytes (read_bits x n) = x"
proof (induction n arbitrary: x)
  case 0
  then show ?case by (simp add: read_bits_def big_SetBytes_def)
next
  case (Suc n)
  have "x div 256 < 256 ^ n" using Suc.prems(2) by (simp add: div_less_iff_less_mult mult.commute)
  then have "big_SetBytes (read_bits (x div 256) n) = x div 256" using Suc by simp
  then show ?case by (simp add: read_bits_Suc big_SetBytes_snoc uint_word_of_int take_bit_eq_mod)
qed

definition plain_lib :: vm_lib where
  "plain_lib =
     \<lparr>SafeAdd = (\<lambda>x y. (x + y, 2 ^ 64 \<le> uint x + uint y)), SafeMul = (\<lambda>x y. (x * y, 2 ^ 64 \<le> uint x * uint y)),
      U256 = (\<lambda>x. x mod 2 ^ 256), S256 = (\<lambda>x. if x < 2 ^ 255 then x else x - 2 ^ 256),
      math_Exp = (\<lambda>x y. x ^ nat y mod 2 ^ 256), math_Byte = (\<lambda>x k n. word_of_int (x div 256 ^ (k - 1 - n))),
      ReadBits = read_bits, BigMax = max, BigMin = min, RightPadBytes = (\<lambda>bs n. bs @ replicate (n - length bs) 0),
      BigToAddress = word_of_int, BigToHash = word_of_int, Keccak256 = (\<lambda>bs. of_nat (length bs) + 1)\<rparr>"

lemma plain_lib_ok: "vm_lib_ok plain_lib"
  by (simp add: vm_lib_ok_def plain_lib_def big_SetBytes_read_bits uint_word_of_int take_bit_eq_mod)
    (simp add: read_bits_def)

type_synonym storage = "address \<times> bytes32 \<Rightarrow> bytes32"

text \<open>The current storage in front of the saved ones.  Every account has code that writes 1 to its slot 0.\<close>

definition journal_db :: "storage list StateDB" where
  "journal_db =
     \<lparr>dbCreateAccount = (\<lambda>a s. s), dbGetBalance = (\<lambda>a s. 0), dbGetEnergy = (\<lambda>a s. 0), dbGetNonce = (\<lambda>a s. 0),
      dbSetNonce = (\<lambda>a n s. s), dbGetCodeHash = (\<lambda>a s. 1), dbGetCode = (\<lambda>a s. [0x60, 0x01, 0x60, 0x00, 0x55, 0x00]),
      dbSetCode = (\<lambda>a c s. s), dbGetCodeSize = (\<lambda>a s. 6), dbAddRefund = (\<lambda>g s. s),
      dbGetState = (\<lambda>a k s. hd s (a, k)), dbSetState = (\<lambda>a k v s. (hd s)((a, k) := v) # tl s),
      dbSuicide = (\<lambda>a s. s), dbHasSuicided = (\<lambda>a s. False), dbExist = (\<lambda>a s. True), dbEmpty = (\<lambda>a s. False),
      dbRevertToSnapshot = (\<lambda>i s. drop (length s - i) s), dbSnapshot = (\<lambda>s. (length s, hd s # s)),
      dbAddLog = (\<lambda>l s. s), dbAddPreimage = (\<lambda>h d s. s), dbGetTransientState = (\<lambda>a k s. 0),
      dbSetTransientState = (\<lambda>a k v s. s)\<rparr>"

definition journal_env :: "storage list vm_env" where
  "journal_env =
     \<lparr>vLib = plain_lib, vDB = journal_db,
      vCtx = \<lparr>CanTransfer = (\<lambda>s a v t. True), Transfer = (\<lambda>a b v t s. s), GetHash = (\<lambda>n. 0), NewContractAddress = (\<lambda>a n. ucast n),
        InterceptContractCall = None, OnCreateContract = None, OnSuicideContract = None, ctxOrigin = 1, ctxGasPrice = 500,
        ctxCoinbase = 2, ctxGasLimit = 1000000, ctxBlockNumber = 9, ctxTime = 1700000000, ctxDifficulty = 0\<rparr>,
      vCfg = \<lparr>ChainID = 82, HomesteadBlock = Some 0, EIP150Block = Some 0, EIP158Block = Some 0, ByzantiumBlock = Some 0,
        ConstantinopleBlock = Some 0, IstanbulBlock = Some 0, LondonBlock = Some 0, ParisBlock = Some 0, LastPowNonce = 7,
        BaseFee = 500000000000\<rparr>,
      PrecompiledContractsHomestead = (\<lambda>a. None), PrecompiledContractsByzantium = (\<lambda>a. None),
      PrecompiledContractsIstanbul = (\<lambda>a. None), vNoRecursion = False, vPreimages = False\<rparr>"

text \<open>The same current storage, with snapshots of it in front.\<close>

definition same_storage :: "storage list \<Rightarrow> storage list \<Rightarrow> bool" where
  "same_storage s t \<longleftrightarrow> (\<exists>n. t = replicate n (hd s) @ s)"

lemma journal_env_ok: "env_ok journal_env" "hook_ok journal_env" "hook_keeps_gas journal_env"
  "static_ok journal_env same_storage" "chain_at ByzantiumBlock journal_env"
proof -
  show "env_ok journal_env"
    by (simp add: env_ok_def journal_env_def plain_lib_ok journal_db_def is_word_def small_def precompiles_def chain_at_def isForked_def)
  show "hook_ok journal_env" "hook_keeps_gas journal_env"
    by (simp_all add: hook_ok_def intercept_ok_def keeps_mode_def hook_keeps_gas_def journal_env_def)
  show "chain_at ByzantiumBlock journal_env"
    by (simp add: chain_at_def isForked_def journal_env_def)
  have hd: "hd (replicate n (hd s) @ s) = hd s" for n and s :: "storage list" by (cases n) simp_all
  have "same_storage s u" if "same_storage s t" "same_storage t u" for s t u
    using that unfolding same_storage_def by (metis append_assoc hd replicate_add)
  moreover have "same_storage s s" "same_storage s (hd s # s)" for s
    by (auto simp: same_storage_def intro: exI[of _ 0] exI[of _ 1])
  moreover have "drop (length t - length s) t = s" if "same_storage (hd s # s) t" for s t
    using that by (auto simp: same_storage_def)
  ultimately show "static_ok journal_env same_storage"
    unfolding static_ok_def by (simp add: journal_env_def journal_db_def)
qed

definition start_evm :: "storage list EVM" where
  "start_evm = \<lparr>stateDB = [\<lambda>_. 0], depth = 0, callGasTemp = 0, contractCreationCount = 0, readOnly = False, returnData = []\<rparr>"


section \<open>Properties\<close>

lemma static_ok_True: "static_ok X (\<lambda>s t. True)"
  by (simp add: static_ok_def)


definition start_frame :: "storage list machine" where
  "start_frame = \<lparr>mPc = 0, mEvm = start_evm,
     mContract = (NewContract (AccountRef 1) 7 (Some 0) 100000)\<lparr>Code := [0x60, 0x01, 0x60, 0x00, 0x55, 0x00]\<rparr>,
     mMemory = NewMemory, mStack = [2 ^ 256 - 1]\<rparr>"




text \<open>
  C9. A static call does not write.  Let \<open>S\<close> be any relation between states that is reflexive and transitive and holds across what a static
  call may do: recording a preimage, creating an empty account, a transfer of zero, taking a snapshot and
  going back to it, and a native call in read-only mode.  Then \<open>S\<close> relates the state before a static
  call to the state after it, whatever the code, the depth of its calls and the outcome; storage, code,
  logs, nonces and self-destructions are never touched.  Afterwards the read-only mode is as before.
\<close>

theorem static_call_no_write:
  assumes "env_ok X" "hook_ok X" "static_ok X S" "chain_at ByzantiumBlock X" "small input" "small (returnData evm)"
    and call: "StaticCall (vm_loop fuel X) X ref addr input gas evm = Inr (ret, left, err, evm')"
  shows "S (stateDB evm) (stateDB evm') \<and> readOnly evm' = readOnly evm"
proof -
  have ctx: "ctx_ok False S X" using assms(1-3) by (simp add: ctx_ok_def)
  note R = vm_loop_ok[OF ctx, of fuel]
  have pre: "call_pre False fuel input gas evm" "call_pre False fuel input gas (evm\<lparr>readOnly := True\<rparr>)"
    using assms(5,6) by (simp_all add: call_pre_def)
  have r: "returned False S X gas evm ret left evm'"
    using StaticCall_ok[OF ctx R pre(1), of ref addr] call by simp
  moreover have "S (stateDB evm) (stateDB evm')"
  proof (cases "readOnly evm")
    case True
    then show ?thesis using r assms(4) by (simp add: returned_def static_def)
  next
    case False
    then show ?thesis
      using call static_body_ok[OF ctx R pre(2), of ref addr] assms(4) static_okD(1)[OF assms(3)]
      by (auto simp: StaticCall_def returned_def static_def split: if_splits)
  qed
  ultimately show ?thesis by (simp add: returned_def same_mode_def)
qed

theorem static_call_no_write_witness:
  "\<exists>ret left err evm'. StaticCall (vm_loop 200001 journal_env) journal_env (AccountRef 1) 7 [] 100000 start_evm =
     Inr (ret, left, err, evm') \<and> same_storage [\<lambda>_. 0] (stateDB evm')"
proof -
  let ?call = "StaticCall (vm_loop 200001 journal_env) journal_env (AccountRef 1) 7 [] 100000 start_evm"
  have ctx: "ctx_ok True (\<lambda>s t. True) journal_env"
    using journal_env_ok by (simp add: ctx_ok_def static_ok_True)
  have "call_pre True 200001 [] 100000 start_evm" by (simp add: call_pre_def start_evm_def)
  from StaticCall_ok[OF ctx vm_loop_ok[OF ctx] this, of "AccountRef 1" 7]
  obtain ret left err evm' where c: "?call = Inr (ret, left, err, evm')" by (cases ?call) auto
  have "same_storage (stateDB start_evm) (stateDB evm') \<and> readOnly evm' = readOnly start_evm"
    by (rule static_call_no_write[OF journal_env_ok(1,2,4,5) _ _ c]) (simp_all add: start_evm_def)
  then show ?thesis using c by (auto simp: start_evm_def)
qed

end
