(* ===== verification/Vm_Arithmetic.thy ===== *)
theory Vm_Arithmetic
  imports Vm_Properties "HOL-Library.Signed_Division"
begin

text \<open>
  The arithmetic instructions, written with \<^verbatim>\<open>math/big\<close> and explicit reductions, are the operations on 256-bit words that their
  names promise; \<^verbatim>\<open>SAR\<close> is so except for zero.  Also here: the price of a creation.
\<close>

unbundle bit_operations_syntax

definition pushes :: "'s machine \<Rightarrow> int list \<Rightarrow> bytes32 \<Rightarrow> (bytes \<times> vm_error option \<times> 's machine) go \<Rightarrow> bool" where
  "pushes m st w r \<longleftrightarrow> r = vm_done (m\<lparr>mStack := uint w # st\<rparr>)"

lemmas word_ops = pushes_def pop_def peek_def poke_def push_def Let_def

lemma uint_reduced [simp]: "uint (w :: bytes32) mod 2 ^ 256 = uint w"
  using uint_lt2p[of w] by simp

lemma uint_word_mod: "uint (word_of_int x :: bytes32) = x mod 2 ^ 256"
  by (simp add: uint_word_of_int)

lemma uint_power_mod: "uint ((a :: bytes32) ^ n) = uint a ^ n mod 2 ^ 256"
proof -
  have "a ^ n = word_of_int (uint a ^ n)" by (simp add: of_int_power)
  then show ?thesis by (metis uint_word_mod)
qed

lemma is_word_uint256: "is_word (uint (w :: bytes32))"
  by (simp add: is_word_uint)

lemma lib_Exp_eq: "env_ok X \<Longrightarrow> math_Exp (vLib X) (uint (a :: bytes32)) (uint (b :: bytes32)) = uint (a ^ unat b)"
  by (simp add: env_ok_def vm_lib_ok_def is_word_uint256 uint_power_mod)

lemma lib_word: "env_ok X \<Longrightarrow> U256 (vLib X) x = uint (word_of_int x :: bytes32)"
  by (simp add: lib_U256 uint_word_mod)

lemma uint_div_abs: "big_Div (uint a) (uint b) = uint ((a :: bytes32) div b)"
  by (simp add: big_Div_def uint_div)

lemma ring_ops:
  assumes X: "env_ok X" and m: "mStack m = uint (a :: bytes32) # uint (b :: bytes32) # st"
  shows "pushes m st (a + b) (opAdd X K m)" "pushes m st (a - b) (opSub X K m)" "pushes m st (a * b) (opMul X K m)"
    "pushes m st (if b = 0 then 0 else a div b) (opDiv X K m)" "pushes m st (if b = 0 then 0 else a mod b) (opMod X K m)"
    "pushes m st (a ^ unat b) (opExp X K m)"
  by (simp_all add: opAdd_def opSub_def opMul_def opDiv_def opMod_def opExp_def word_ops m lib_word[OF X] uint_div_abs
      uint_0_iff lib_Exp_eq[OF X] flip: uint_mod)

lemma uint_eq_iff: "uint a = uint b \<longleftrightarrow> a = (b :: bytes32)"
  by (rule iffI) (rule word_uint_eqI, simp_all)

lemma order_ops:
  assumes "mStack m = uint (a :: bytes32) # uint (b :: bytes32) # st"
  shows "pushes m st (if a < b then 1 else 0) (opLt X K m)" "pushes m st (if b < a then 1 else 0) (opGt X K m)"
    "pushes m st (if a = b then 1 else 0) (opEq X K m)"
    "pushes m (uint b # st) (if a = 0 then 1 else 0) (opIszero X K m)"
proof -
  have "0 < uint a \<longleftrightarrow> a \<noteq> 0" using uint_0_iff[of a] uint_ge_0[of a] by linarith
  then show "pushes m (uint b # st) (if a = 0 then 1 else 0) (opIszero X K m)"
    by (simp add: opIszero_def word_ops assms)
qed (simp_all add: opLt_def opGt_def opEq_def word_ops assms word_less_def uint_eq_iff)

lemma bit_ops:
  assumes X: "env_ok X" and m: "mStack m = uint (a :: bytes32) # uint (b :: bytes32) # st"
  shows "pushes m st (a AND b) (opAnd X K m)" "pushes m st (a OR b) (opOr X K m)" "pushes m st (a XOR b) (opXor X K m)"
    "pushes m (uint b # st) (NOT a) (opNot X K m)"
proof -
  have "word_of_int (NOT (uint a)) = NOT a" by (simp add: of_int_not_eq)
  then show "pushes m (uint b # st) (NOT a) (opNot X K m)"
    by (simp add: opNot_def word_ops m lib_word[OF X])
qed (simp_all add: opAnd_def opOr_def opXor_def word_ops m unsigned_and_eq unsigned_or_eq unsigned_xor_eq)

lemma shift_count:
  assumes "\<not> 256 \<le> uint (a :: bytes32)"
  shows "unat (big_Uint64 (uint a)) = unat a"
proof -
  have "unat (big_Uint64 (uint a)) = nat (uint a)" by (rule big_Uint64_unat) (use assms in simp_all)
  then show ?thesis by (simp only: unat_eq_nat_uint)
qed

lemma shift_out:
  assumes "256 \<le> uint (a :: bytes32)"
  shows "push_bit (unat a) (b :: bytes32) = 0 \<and> drop_bit (unat a) b = 0"
proof -
  have "256 \<le> unat a" unfolding unat_eq_nat_uint using assms by linarith
  then have "\<not> bit (push_bit (unat a) b) n \<and> \<not> bit (drop_bit (unat a) b) n" for n
    using bit_imp_le_length[of b "unat a + n"] bit_imp_le_length[of "push_bit (unat a) b" n]
    by (auto simp: bit_push_bit_iff bit_drop_bit_eq)
  then show ?thesis by (auto intro: bit_word_eqI)
qed

lemma shift_word:
  "word_of_int (push_bit k (uint b)) = push_bit k (b :: bytes32)" "word_of_int (drop_bit k (uint b)) = drop_bit k (b :: bytes32)"
proof -
  have "take_bit 256 (uint b) = uint b" by (simp only: take_bit_eq_mod uint_reduced)
  then have "drop_bit k (uint b) = uint (drop_bit k b)" by (simp add: unsigned_drop_bit_eq)
  then show "word_of_int (drop_bit k (uint b)) = drop_bit k b" by simp
qed (simp add: of_int_push_bit)

lemma shift_ops:
  assumes X: "env_ok X" and m: "mStack m = uint (a :: bytes32) # uint (b :: bytes32) # st"
  shows "pushes m st (push_bit (unat a) b) (opSHL X K m)" "pushes m st (drop_bit (unat a) b) (opSHR X K m)"
  using shift_count[of a] shift_out[of a b]
  by (simp_all add: opSHL_def opSHR_def word_ops m lib_word[OF X] shift_word)

lemma modular_ops:
  assumes X: "env_ok X" and m: "mStack m = uint (a :: bytes32) # uint (b :: bytes32) # uint (c :: bytes32) # st"
  shows "pushes m st (if c = 0 then 0 else word_of_int ((uint a + uint b) mod uint c)) (opAddmod X K m)"
    "pushes m st (if c = 0 then 0 else word_of_int ((uint a * uint b) mod uint c)) (opMulmod X K m)"
proof -
  have "0 < uint c \<longleftrightarrow> c \<noteq> 0" using uint_0_iff[of c] uint_ge_0[of c] by linarith
  then show "pushes m st (if c = 0 then 0 else word_of_int ((uint a + uint b) mod uint c)) (opAddmod X K m)"
    "pushes m st (if c = 0 then 0 else word_of_int ((uint a * uint b) mod uint c)) (opMulmod X K m)"
    by (simp_all add: opAddmod_def opMulmod_def word_ops m lib_word[OF X])
qed

text \<open>
  C38. The unsigned instructions compute on 256-bit words.  On items that are words, addition, subtraction, multiplication
  and exponentiation wrap around, division and remainder give zero for a zero divisor, comparisons,
  bitwise operations and logical shifts are those of words, for every shift, and the two
  modular instructions do not lose the carry of the intermediate result.
\<close>

theorem unsigned_arithmetic:
  assumes X: "env_ok X" and m: "mStack m = uint (a :: bytes32) # uint (b :: bytes32) # st"
  shows "pushes m st (a + b) (opAdd X K m) \<and> pushes m st (a - b) (opSub X K m) \<and> pushes m st (a * b) (opMul X K m) \<and>
    pushes m st (if b = 0 then 0 else a div b) (opDiv X K m) \<and> pushes m st (if b = 0 then 0 else a mod b) (opMod X K m) \<and>
    pushes m st (a ^ unat b) (opExp X K m) \<and> pushes m st (if a < b then 1 else 0) (opLt X K m) \<and>
    pushes m st (if b < a then 1 else 0) (opGt X K m) \<and> pushes m st (if a = b then 1 else 0) (opEq X K m) \<and>
    pushes m st (a AND b) (opAnd X K m) \<and> pushes m st (a OR b) (opOr X K m) \<and> pushes m st (a XOR b) (opXor X K m) \<and>
    pushes m st (push_bit (unat a) b) (opSHL X K m) \<and> pushes m st (drop_bit (unat a) b) (opSHR X K m) \<and>
    pushes m (uint b # st) (NOT a) (opNot X K m) \<and> pushes m (uint b # st) (if a = 0 then 1 else 0) (opIszero X K m) \<and>
    (\<forall>c st'. st = uint (c :: bytes32) # st' \<longrightarrow>
       pushes m st' (if c = 0 then 0 else word_of_int ((uint a + uint b) mod uint c)) (opAddmod X K m) \<and>
       pushes m st' (if c = 0 then 0 else word_of_int ((uint a * uint b) mod uint c)) (opMulmod X K m))"
  using ring_ops[OF X m] order_ops[OF m] bit_ops[OF X m] shift_ops[OF X m] modular_ops[OF X] m by simp


definition two_words :: "bytes32 \<Rightarrow> bytes32 \<Rightarrow> storage list machine" where
  "two_words a b = start_frame\<lparr>mStack := [uint a, uint b, uint (7 :: bytes32)]\<rparr>"

definition no_calls :: "storage list subcalls" where
  "no_calls = subcalls_of (vm_loop 0 journal_env) journal_env"

theorem unsigned_arithmetic_witness:
  "pushes (two_words (- 1) 2) [7] 1 (opAdd journal_env no_calls (two_words (- 1) 2)) \<and>
   pushes (two_words (- 1) 2) [7] 0 (opSHL journal_env no_calls (two_words (- 1) 2)) \<and>
   pushes (two_words (- 1) 2) [] 3 (opAddmod journal_env no_calls (two_words (- 1) 2))"
proof -
  let ?m = "two_words (- 1) 2"
  have m: "mStack ?m = uint (- 1 :: bytes32) # uint (2 :: bytes32) # [uint (7 :: bytes32)]"
    by (simp add: two_words_def)
  have u: "uint (- 1 :: bytes32) = 2 ^ 256 - 1" by (simp add: unsigned_minus_1_eq_mask mask_eq_exp_minus_1)
  have t: "pushes ?m [uint (7 :: bytes32)] (- 1 + 2) (opAdd journal_env no_calls ?m)"
    "pushes ?m [uint (7 :: bytes32)] (push_bit (unat (- 1 :: bytes32)) 2) (opSHL journal_env no_calls ?m)"
    "pushes ?m [] (if (7 :: bytes32) = 0 then 0 else word_of_int ((uint (- 1 :: bytes32) + uint (2 :: bytes32)) mod uint (7 :: bytes32)))
       (opAddmod journal_env no_calls ?m)"
    using unsigned_arithmetic[OF journal_env_ok(1) m, of no_calls] by blast+
  have "push_bit (unat (- 1 :: bytes32)) 2 = (0 :: bytes32)" using shift_out[of "- 1" 2] u by simp
  then show ?thesis using t by (simp add: u)
qed

section \<open>Signed arithmetic\<close>

lemma sint_cases: "sint (w :: bytes32) = (if uint w < 2 ^ 255 then uint w else uint w - 2 ^ 256)"
proof -
  have "uint w = sint w mod 2 ^ 256" using uint_word_mod[of "sint w"] by simp
  moreover have "- (2 ^ 255) \<le> sint w" "sint w < 2 ^ 255" using sint_ge[of w] sint_lt[of w] by simp_all
  moreover have "sint w mod 2 ^ 256 = (if 0 \<le> sint w then sint w else sint w + 2 ^ 256)"
  proof (cases "0 \<le> sint w")
    case False
    then have "(sint w + 2 ^ 256) mod 2 ^ 256 = sint w + 2 ^ 256"
      using calculation(2) by (intro mod_pos_pos_trivial) simp_all
    then show ?thesis using False by (simp only: mod_add_self2 if_False)
  qed (use calculation(3) in simp)
  ultimately show ?thesis by (simp split: if_splits)
qed

lemma lib_S256: "env_ok X \<Longrightarrow> S256 (vLib X) (uint (w :: bytes32)) = sint w"
  by (simp add: env_ok_def vm_lib_ok_def is_word_uint256 sint_cases)

lemma sint_eq_0: "sint b = 0 \<longleftrightarrow> (b :: bytes32) = 0"
proof -
  have "sint b = 0 \<longleftrightarrow> uint b = 0" using sint_cases[of b] uint_lt2p[of b] by (simp split: if_splits)
  then show ?thesis by (simp only: uint_0_iff)
qed

lemma big_Div_signs:
  assumes "x \<noteq> 0" "y \<noteq> 0"
  shows "big_Div \<bar>x\<bar> \<bar>y\<bar> = (if sgn x \<noteq> sgn y then - (x sdiv y) else x sdiv y)"
proof -
  have "big_Div \<bar>x\<bar> \<bar>y\<bar> = \<bar>x\<bar> div \<bar>y\<bar>" by (simp add: big_Div_def)
  then show ?thesis using assms by (simp only: signed_divide_int_def) (simp add: sgn_if)
qed

lemma smod_by_sign: "(if x < 0 then - (\<bar>x\<bar> mod \<bar>y\<bar>) else \<bar>x\<bar> mod \<bar>y\<bar>) = x smod (y :: int)"
  by (simp add: signed_modulo_int_def sgn_if)

lemma signed_division:
  assumes X: "env_ok X" and m: "mStack m = uint (a :: bytes32) # uint (b :: bytes32) # st"
  shows "pushes m st (word_of_int (sint a sdiv sint b)) (opSdiv X K m)"
    "pushes m st (if b = 0 then 0 else word_of_int (sint a smod sint b)) (opSmod X K m)"
proof -
  show "pushes m st (word_of_int (sint a sdiv sint b)) (opSdiv X K m)"
  proof (cases "sint b = 0 \<or> sint a = 0")
    case True
    then have "sint a sdiv sint b = 0" by (auto simp: sdiv_int_div_0)
    then show ?thesis using True by (simp add: opSdiv_def word_ops m lib_S256[OF X])
  next
    case False
    then show ?thesis by (simp add: opSdiv_def word_ops m lib_S256[OF X] lib_word[OF X] big_Div_signs)
  qed
  show "pushes m st (if b = 0 then 0 else word_of_int (sint a smod sint b)) (opSmod X K m)"
    by (simp add: opSmod_def word_ops m lib_S256[OF X] lib_word[OF X] sint_eq_0 flip: smod_by_sign)
qed

lemma signed_less_cases:
  fixes x y B :: int
  assumes "0 \<le> x" "x < 2 * B" "0 \<le> y" "y < 2 * B"
  shows "(if x < B then x else x - 2 * B) < (if y < B then y else y - 2 * B) \<longleftrightarrow>
    (if B \<le> x \<and> y < B then True else if x < B \<and> B \<le> y then False else x < y)"
  using assms by simp

lemma sint_less_iff:
  "sint (a :: bytes32) < sint (b :: bytes32) \<longleftrightarrow>
     (if tt255 \<le> uint a \<and> uint b < tt255 then True else if uint a < tt255 \<and> tt255 \<le> uint b then False else uint a < uint b)"
proof -
  have "sint w = (if uint w < tt255 then uint w else uint w - 2 * tt255)" "uint w < 2 * tt255" for w :: bytes32
    using uint_lt2p[of w] by (simp_all add: sint_cases tt255_def)
  then show ?thesis using signed_less_cases[of "uint a" tt255 "uint b"] by simp
qed

lemma signed_order:
  assumes m: "mStack m = uint (a :: bytes32) # uint (b :: bytes32) # st"
  shows "pushes m st (if sint a < sint b then 1 else 0) (opSlt X K m)" "pushes m st (if sint b < sint a then 1 else 0) (opSgt X K m)"
  by (auto simp: opSlt_def opSgt_def word_ops m sint_less_iff)

lemma drop_all:
  fixes v :: int
  assumes "- (2 ^ 256) \<le> v" "v < 2 ^ 256" "256 \<le> n"
  shows "drop_bit n v = (if v < 0 then - 1 else 0)"
proof -
  have "(2 :: int) ^ 256 \<le> 2 ^ n" using assms(3) by (intro power_increasing) simp_all
  then have "- (2 ^ n) \<le> v" "v < 2 ^ n" using assms(1,2) by linarith+
  then show ?thesis
    using int_div_pos_eq[of v "2 ^ n" "- 1" "v + 2 ^ n"] by (auto simp: drop_bit_eq_div intro: div_pos_pos_trivial)
qed

lemma signed_shift:
  assumes X: "env_ok X" and m: "mStack m = uint (a :: bytes32) # uint (b :: bytes32) # st"
  shows "pushes m st (if 256 \<le> uint a \<and> b = 0 then - 1 else signed_drop_bit (unat a) b) (opSAR X K m)"
proof -
  have s: "word_of_int (drop_bit n (sint b)) = signed_drop_bit n b" for n
  proof -
    have "word_of_int (sint (signed_drop_bit n b)) = signed_drop_bit n b" by simp
    then show ?thesis by (simp only: sint_signed_drop_bit_eq)
  qed
  have "word_of_int (if 0 < sint b then 0 else - 1) = (if b = 0 then - 1 else signed_drop_bit (unat a) b)" if "256 \<le> uint a"
  proof -
    have "256 \<le> unat a" unfolding unat_eq_nat_uint using that by linarith
    then have "drop_bit (unat a) (sint b) = (if sint b < 0 then - 1 else 0)"
      using sint_ge[of b] sint_lt[of b] by (intro drop_all) simp_all
    then show ?thesis using s[of "unat a"] sint_eq_0[of b] by (auto simp: not_less)
  qed
  then show ?thesis
    using shift_count[of a] by (simp add: opSAR_def word_ops m lib_word[OF X] lib_S256[OF X] s del: of_int_minus) 
qed

text \<open>
  C39. The signed instructions compute on two's complement words.  Division truncates towards zero and wraps for the least
  number over minus one, the remainder has the sign of the dividend, zero divisors give zero, and the
  comparisons are those of signed numbers.  The arithmetic right shift is that of words for every shift, save one case: zero shifted by 256 or more
  gives the word of all ones, since the code treats a value that is not positive as negative.
\<close>

theorem signed_arithmetic:
  assumes X: "env_ok X" and m: "mStack m = uint (a :: bytes32) # uint (b :: bytes32) # st"
  shows "pushes m st (word_of_int (sint a sdiv sint b)) (opSdiv X K m) \<and>
    pushes m st (if b = 0 then 0 else word_of_int (sint a smod sint b)) (opSmod X K m) \<and>
    pushes m st (if sint a < sint b then 1 else 0) (opSlt X K m) \<and> pushes m st (if sint b < sint a then 1 else 0) (opSgt X K m) \<and>
    pushes m st (if 256 \<le> uint a \<and> b = 0 then - 1 else signed_drop_bit (unat a) b) (opSAR X K m)"
  using signed_division[OF X m] signed_order[OF m] signed_shift[OF X m] by simp

theorem signed_arithmetic_witness:
  "pushes (two_words 256 0) [7] (- 1) (opSAR journal_env no_calls (two_words 256 0)) \<and>
   pushes (two_words 256 0) [7] 0 (opSdiv journal_env no_calls (two_words 256 0))"
proof -
  have m: "mStack (two_words 256 0) = uint (256 :: bytes32) # uint (0 :: bytes32) # [uint (7 :: bytes32)]"
    by (simp add: two_words_def)
  show ?thesis using signed_arithmetic[OF journal_env_ok(1) m, of no_calls] by (simp add: sdiv_int_div_0)
qed

end
