(* ===== verification/Vm_Memory_Price.thy ===== *)
theory Vm_Memory_Price
  imports Vm_Stepping
begin

text \<open>
  The price of memory: \<^verbatim>\<open>memoryGasCost\<close> of vm/gas_table.go charges the difference of two totals, on 64-bit
  words.  Up to 2 to the 32 words the totals are the quadratic prices, so that the charges of a run add up.
\<close>

definition mem_fee :: "nat \<Rightarrow> nat" where
  "mem_fee w = 3 * w + w * w div 512"

text \<open>The memory is a number of words below 2 to the 32, and its total price is on record.\<close>

definition mem_words :: "Memory \<Rightarrow> nat" where
  "mem_words mem = length (store mem) div 32"

definition mem_priced :: "Memory \<Rightarrow> bool" where
  "mem_priced mem \<longleftrightarrow> length (store mem) = 32 * mem_words mem \<and> mem_words mem < 2 ^ 32 \<and>
     unat (lastGasCost mem) = mem_fee (mem_words mem)"

lemma mem_fee_mono: "v \<le> w \<Longrightarrow> mem_fee v \<le> mem_fee w"
  unfolding mem_fee_def by (intro add_mono mult_le_mono div_le_mono) simp_all

lemma unat_toWordSize:
  assumes "unat n \<le> 0x1fffffffe0"
  shows "unat (vm_toWordSize n) = (unat n + 31) div 32" "unat (vm_toWordSize n) < 2 ^ 32"
proof -
  have s: "unat (n + 31) = unat n + 31" using assms by (subst unat_plus_simple[THEN iffD1]) (simp_all add: no_olen_add_nat)
  have "\<not> MaxUint64 - 31 < n" using assms by (simp add: word_less_nat_alt MaxUint64_def)
  then show w: "unat (vm_toWordSize n) = (unat n + 31) div 32" by (simp add: vm_toWordSize_def unat_div s)
  show "unat (vm_toWordSize n) < 2 ^ 32" unfolding w using assms by (simp add: div_less_iff_less_mult)
qed

lemma word_fee:
  assumes "unat (w :: uint64) < 2 ^ 32"
  shows "unat (w * MemoryGas + (w * w) div QuadCoeffDiv) = mem_fee (unat w)" "unat (w * 32) = 32 * unat w"
proof -
  have "unat w * unat w < 2 ^ 32 * 2 ^ 32" using assms by (intro mult_strict_mono) simp_all
  then have q: "unat (w * w) = unat w * unat w" by (simp add: unat_word_ariths)
  then have "unat (w * w div QuadCoeffDiv) = unat w * unat w div 512" by (simp add: unat_div QuadCoeffDiv_def)
  moreover have "unat w * unat w div 512 < 2 ^ 55" using \<open>unat w * unat w < 2 ^ 32 * 2 ^ 32\<close> by (simp add: div_less_iff_less_mult)
  moreover have "unat (w * MemoryGas) = 3 * unat w" using assms by (simp add: unat_word_ariths MemoryGas_def)
  ultimately show "unat (w * MemoryGas + (w * w) div QuadCoeffDiv) = mem_fee (unat w)"
    using assms by (simp add: unat_word_ariths(1) mem_fee_def)
  show "unat (w * 32) = 32 * unat w" using assms by (simp add: unat_word_ariths)
qed

lemma resize_words:
  assumes "length (store mem) = 32 * v" "v < 2 ^ 32" "unat (w :: uint64) < 2 ^ 32"
  shows "(of_nat (length (store mem)) < w * 32) = (v < unat w)"
    "length (store (Memory_Resize (w * 32) mem)) = 32 * max v (unat w)"
    "lastGasCost (Memory_Resize (w * 32) mem) = lastGasCost mem"
proof -
  have l: "unat (of_nat (32 * v) :: uint64) = 32 * v" using assms(2) by (simp add: unat_of_nat take_bit_nat_eq_self del: of_nat_mult)
  show c: "(of_nat (length (store mem)) < w * 32) = (v < unat w)"
    unfolding assms(1) word_less_nat_alt l word_fee(2)[OF assms(3)] by simp
  have "unat (w * 32 - of_nat (32 * v)) = 32 * unat w - 32 * v" if "v < unat w"
    using unat_sub[of "of_nat (32 * v)" "w * 32"] that unfolding word_le_nat_alt l word_fee(2)[OF assms(3)] by simp
  then show "length (store (Memory_Resize (w * 32) mem)) = 32 * max v (unat w)"
    unfolding Memory_Resize_def c using assms(1) by auto
  show "lastGasCost (Memory_Resize (w * 32) mem) = lastGasCost mem" by (simp add: Memory_Resize_def)
qed

lemma charge_difference:
  assumes "mem_priced mem" "unat n \<le> 0x1fffffffe0"
  shows "\<exists>g mem'. memoryGasCost mem n = (Inr g, mem') \<and> store mem' = store mem \<and>
    mem_fee (mem_words mem) + unat g = mem_fee (max (mem_words mem) ((unat n + 31) div 32)) \<and>
    unat (lastGasCost mem') = mem_fee (max (mem_words mem) ((unat n + 31) div 32))"
proof -
  let ?w = "vm_toWordSize n" and ?v = "mem_words mem"
  have p: "length (store mem) = 32 * ?v" "?v < 2 ^ 32" "unat (lastGasCost mem) = mem_fee ?v"
    using assms(1) by (simp_all add: mem_priced_def)
  note w = unat_toWordSize[OF assms(2)]
  note fee = word_fee(1)[OF w(2)] and c = resize_words(1)[OF p(1,2) w(2)]
  consider "n = 0" | "n \<noteq> 0" "?v < unat ?w" | "n \<noteq> 0" "unat ?w \<le> ?v" by linarith
  then show ?thesis
  proof cases
    case 2
    let ?t = "?w * MemoryGas + (?w * ?w) div QuadCoeffDiv"
    have le: "unat (lastGasCost mem) \<le> unat ?t" unfolding fee p(3) using 2(2) by (intro mem_fee_mono) simp
    then have "unat (?t - lastGasCost mem) = mem_fee (unat ?w) - mem_fee ?v"
      using unat_sub[of "lastGasCost mem" ?t] by (simp only: word_le_nat_alt fee p(3))
    moreover have "memoryGasCost mem n = (Inr (?t - lastGasCost mem), mem\<lparr>lastGasCost := ?t\<rparr>)"
      using 2 assms(2) c by (simp add: memoryGasCost_def Let_def word_less_nat_alt[of _ n])
    ultimately show ?thesis using le 2(2) fee p(3) w(1) by (simp add: max_def)
  qed (use assms(2) c p(3) w(1) in \<open>auto simp: memoryGasCost_def Let_def word_less_nat_alt[of _ n] max_def\<close>)
qed

text \<open>
  C40. Memory is charged its quadratic price.  Take a memory of fewer than 2 to the 32 words whose total price is on record, and a request that stays below this size.
  The charge is not refused and is the price of the memory after the request less the price of the
  memory before it, with no wrap-around; the resized memory is again one whose price is on record, so the charges of a run add up to the price of its largest
  memory.  The bound is sharp: the code lets through requests of up to 0xffffffffe0 bytes, and at 2 to the 37 bytes
  the square wraps to zero, so that only the linear part is charged.
\<close>

theorem memory_price:
  assumes "mem_priced mem" "unat n \<le> 0x1fffffffe0"
  shows "(\<exists>g mem'. memoryGasCost mem n = (Inr g, mem') \<and>
      mem_fee (mem_words mem) + unat g = mem_fee (max (mem_words mem) ((unat n + 31) div 32)) \<and>
      mem_words (Memory_Resize (vm_toWordSize n * 32) mem') = max (mem_words mem) ((unat n + 31) div 32) \<and>
      mem_priced (Memory_Resize (vm_toWordSize n * 32) mem')) \<and>
    fst (memoryGasCost NewMemory (2 ^ 37)) = Inr (3 * 2 ^ 32)"
proof -
  obtain g mem' where c: "memoryGasCost mem n = (Inr g, mem')" "store mem' = store mem"
    "mem_fee (mem_words mem) + unat g = mem_fee (max (mem_words mem) ((unat n + 31) div 32))"
    "unat (lastGasCost mem') = mem_fee (max (mem_words mem) ((unat n + 31) div 32))"
    using charge_difference[OF assms] by blast
  note w = unat_toWordSize[OF assms(2)]
  have p: "length (store mem') = 32 * mem_words mem" "mem_words mem < 2 ^ 32" using assms(1) c(2) by (simp_all add: mem_priced_def)
  note r = resize_words(2,3)[OF p w(2)]
  have "mem_words (Memory_Resize (vm_toWordSize n * 32) mem') = max (mem_words mem) ((unat n + 31) div 32)"
    unfolding mem_words_def[of "Memory_Resize _ _"] r(1) w(1) by simp
  moreover from this have "mem_priced (Memory_Resize (vm_toWordSize n * 32) mem')"
    unfolding mem_priced_def using r c(4) p(2) w by simp
  moreover have "fst (memoryGasCost NewMemory (2 ^ 37)) = Inr (3 * 2 ^ 32)"
    by (simp add: memoryGasCost_def NewMemory_def vm_toWordSize_def MaxUint64_def MemoryGas_def QuadCoeffDiv_def)
  ultimately show ?thesis using c(1,3) by blast
qed

theorem memory_price_witness:
  "\<exists>g mem'. memoryGasCost NewMemory 1000000 = (Inr g, mem') \<and> unat g = 2001098 \<and>
     mem_priced (Memory_Resize (vm_toWordSize 1000000 * 32) mem')"
proof -
  have "mem_priced NewMemory" by (simp add: mem_priced_def mem_words_def NewMemory_def mem_fee_def)
  from memory_price[OF this, of 1000000] show ?thesis by (auto simp: mem_words_def NewMemory_def mem_fee_def)
qed

end
